(* ===== verification/Prelude.thy ===== *)
theory Prelude
  imports Complex_Main
begin

text \<open>
  Shared vocabulary of the development: the JavaScript idioms that the sources under
  \<^verbatim>\<open>src/src/\<close> use everywhere, written once as HOL functions, with the lemmas the
  component theories share.
  \<^item> JavaScript numbers are modelled as \<^typ>\<open>rat\<close> (exact arithmetic; the model has no
    NaN or infinities, see the root theory's header); \<open>Math.round\<close> is HOL's
    \<^const>\<open>round\<close>, which is \<open>\<lfloor>x + 1/2\<rfloor>\<close> as in JavaScript.
  \<^item> An optional field (\<open>x?: T\<close>) is a \<^typ>\<open>'a option\<close>; the idioms
    \<open>n || d\<close> on numbers, \<open>s || d\<close> on strings and \<open>xs || []\<close> on arrays are
    \<open>js_or\<close>, \<open>str_or\<close> (\<open>opt_str_or\<close> when optional) and \<open>opt_list\<close>.
  \<^item> \<open>arr.find(p)\<close> followed by a mutation of the found object is \<open>update_first\<close>;
    \<open>s.startsWith(p)\<close> and \<open>s.replace(p, r)\<close> with a string pattern are
    \<open>starts_with\<close> and \<open>replace_first\<close>; \<open>s.trim()\<close> is \<open>js_trim\<close>;
    \<open>n.toString()\<close> of a natural number is \<open>nat_str\<close>; \<open>s.toLowerCase()\<close> is
    \<open>js_lower\<close>.
\<close>

named_theorems js_simps "evaluation rules of the JavaScript idioms"

section \<open>Numbers\<close>

text \<open>\<open>v || d\<close> for an optional number: \<open>undefined\<close> and \<open>0\<close> are falsy.\<close>

definition js_or :: "rat option \<Rightarrow> rat \<Rightarrow> rat" where
  "js_or v d = (case v of None \<Rightarrow> d | Some x \<Rightarrow> if x = 0 then d else x)"

text \<open>\<open>Math.max(lo, Math.min(hi, x))\<close>, the clamp the sources write out each time.\<close>

definition js_clamp :: "rat \<Rightarrow> rat \<Rightarrow> rat \<Rightarrow> rat" where
  "js_clamp lo hi x = max lo (min hi x)"

section \<open>Arrays\<close>

text \<open>\<open>xs || []\<close> for an optional array (an array is always truthy).\<close>

definition opt_list :: "'a list option \<Rightarrow> 'a list" where
  "opt_list v = (case v of None \<Rightarrow> [] | Some xs \<Rightarrow> xs)"

text \<open>
  \<open>const o = arr.find(p); if (o) mutate(o)\<close>: the first element satisfying \<open>p\<close> is
  replaced by its mutation, the others are untouched; with no such element nothing
  changes.
\<close>

fun update_first :: "('a \<Rightarrow> bool) \<Rightarrow> ('a \<Rightarrow> 'a) \<Rightarrow> 'a list \<Rightarrow> 'a list" where
  "update_first p f [] = []"
| "update_first p f (x # xs) = (if p x then f x # xs else x # update_first p f xs)"

section \<open>Strings\<close>

text \<open>\<open>s.startsWith(p)\<close>, written with the prefix first.\<close>

fun starts_with :: "string \<Rightarrow> string \<Rightarrow> bool" where
  "starts_with [] s = True"
| "starts_with (c # p) [] = False"
| "starts_with (c # p) (d # s) = (c = d \<and> starts_with p s)"

text \<open>
  \<open>s.replace(pat, rep)\<close> with a string pattern replaces the first occurrence only; an
  empty pattern matches at the start.
\<close>

fun replace_first :: "string \<Rightarrow> string \<Rightarrow> string \<Rightarrow> string" where
  "replace_first pat rep [] = (if pat = [] then rep else [])"
| "replace_first pat rep (c # s) =
     (if starts_with pat (c # s) then rep @ drop (length pat) (c # s)
      else c # replace_first pat rep s)"

text \<open>\<open>v || d\<close> on a string (the empty string is falsy), and on an optional string.\<close>

definition str_or :: "string \<Rightarrow> string \<Rightarrow> string" where
  "str_or v d = (if v = [] then d else v)"

definition opt_str_or :: "string option \<Rightarrow> string \<Rightarrow> string" where
  "opt_str_or v d = (case v of Some x \<Rightarrow> str_or x d | None \<Rightarrow> d)"

text \<open>\<open>s.includes(q)\<close> and \<open>s.endsWith(q)\<close>.\<close>

fun is_infix :: "string \<Rightarrow> string \<Rightarrow> bool" where
  "is_infix q [] = (q = [])"
| "is_infix q (c # s) = (starts_with q (c # s) \<or> is_infix q s)"

definition ends_with :: "string \<Rightarrow> string \<Rightarrow> bool" where
  "ends_with s suf \<longleftrightarrow> starts_with (rev suf) (rev s)"

text \<open>\<open>s.trim()\<close>, on the ASCII white space characters.\<close>

definition is_js_space :: "char \<Rightarrow> bool" where
  "is_js_space c \<longleftrightarrow> c \<in> {CHR '' '', CHR 0x09, CHR 0x0A, CHR 0x0B, CHR 0x0C, CHR 0x0D}"

definition js_trim :: "string \<Rightarrow> string" where
  "js_trim s = rev (dropWhile is_js_space (rev (dropWhile is_js_space s)))"

text \<open>\<open>n.toString()\<close> of a natural number, in decimal.\<close>

fun nat_str :: "nat \<Rightarrow> string" where
  "nat_str n = (if n < 10 then [''0123456789'' ! n] else nat_str (n div 10) @ [''0123456789'' ! (n mod 10)])"

declare nat_str.simps [simp del]

text \<open>\<open>`${k}`\<close> of an integer: its sign, then the digits of its absolute value.\<close>

definition int_str :: "int \<Rightarrow> string" where
  "int_str k = (if k < 0 then ''-'' @ nat_str (nat (- k)) else nat_str (nat k))"

text \<open>\<open>s.toLowerCase()\<close> on ASCII letters (the only letters the validated inputs may
  hold), and the character classes \<open>[a-zA-Z]\<close> and \<open>[0-9]\<close> of the regexes.\<close>

definition upper_lower :: "(char \<times> char) list" where
  "upper_lower = zip ''ABCDEFGHIJKLMNOPQRSTUVWXYZ'' ''abcdefghijklmnopqrstuvwxyz''"

definition js_lower_char :: "char \<Rightarrow> char" where
  "js_lower_char c = (case map_of upper_lower c of Some l \<Rightarrow> l | None \<Rightarrow> c)"

definition js_lower :: "string \<Rightarrow> string" where
  "js_lower s = map js_lower_char s"

definition is_ascii_letter :: "char \<Rightarrow> bool" where
  "is_ascii_letter c \<longleftrightarrow> c \<in> set ''abcdefghijklmnopqrstuvwxyzABCDEFGHIJKLMNOPQRSTUVWXYZ''"

definition is_ascii_digit :: "char \<Rightarrow> bool" where
  "is_ascii_digit c \<longleftrightarrow> c \<in> set ''0123456789''"

section \<open>Properties\<close>

subsection \<open>Numbers\<close>

lemma js_or_simps [simp, js_simps]:
  "js_or None d = d"
  "js_or (Some x) d = (if x = 0 then d else x)"
  by (simp_all add: js_or_def)

lemma js_or_nonzero: "d \<noteq> 0 \<Longrightarrow> js_or v d \<noteq> 0"
  by (cases v) (simp_all add: js_or_def)

lemma js_clamp_bounds:
  assumes "lo \<le> hi"
  shows "lo \<le> js_clamp lo hi x" and "js_clamp lo hi x \<le> hi"
  using assms by (auto simp: js_clamp_def)

lemma js_clamp_id: "lo \<le> x \<Longrightarrow> x \<le> hi \<Longrightarrow> js_clamp lo hi x = x"
  by (simp add: js_clamp_def)

lemma js_clamp_idem: "lo \<le> hi \<Longrightarrow> js_clamp lo hi (js_clamp lo hi x) = js_clamp lo hi x"
  by (simp add: js_clamp_def)

lemma js_clamp_top: "lo \<le> hi \<Longrightarrow> hi \<le> x \<Longrightarrow> js_clamp lo hi x = hi"
  by (simp add: js_clamp_def)

lemma js_clamp_bot: "lo \<le> hi \<Longrightarrow> x \<le> lo \<Longrightarrow> js_clamp lo hi x = lo"
  by (simp add: js_clamp_def)

text \<open>Evaluation of \<open>\<lfloor>a / b\<rfloor>\<close> on literals, so that \<open>simp\<close> computes \<open>Math.round\<close>.\<close>

lemma floor_numeral_div [simp, js_simps]:
  "\<lfloor>(numeral a :: rat) / numeral b\<rfloor> = numeral a div numeral b"
  using floor_divide_of_int_eq [of "numeral a" "numeral b", where 'a = rat] by simp

lemma round_bounds:
  fixes x :: rat
  assumes "of_int a \<le> x" and "x \<le> of_int b"
  shows "a \<le> round x" and "round x \<le> b"
proof -
  have "a \<le> \<lfloor>x + 1/2\<rfloor>"
    using assms(1) by (simp add: le_floor_iff)
  then show "a \<le> round x" by (simp add: round_def)
  have "\<lfloor>x + 1/2\<rfloor> \<le> \<lfloor>of_int b + (1/2 :: rat)\<rfloor>"
    using assms(2) by (intro floor_mono) simp
  also have "\<dots> = b" by (simp add: floor_unique)
  finally show "round x \<le> b" by (simp add: round_def)
qed

lemma round_of_int [simp]: "round (of_int k :: rat) = k"
  by (simp add: round_def floor_unique)

subsection \<open>Arrays\<close>

lemma opt_list_simps [simp, js_simps]:
  "opt_list None = []"
  "opt_list (Some xs) = xs"
  by (simp_all add: opt_list_def)

lemma find_Some_pred: "find p xs = Some x \<Longrightarrow> p x"
  by (induction xs) (auto split: if_splits)

lemma find_Some_mem: "find p xs = Some x \<Longrightarrow> x \<in> set xs"
  by (induction xs) (auto split: if_splits)

lemma length_update_first [simp]: "length (update_first p f xs) = length xs"
  by (induction xs) auto

lemma update_first_no_match: "find p xs = None \<Longrightarrow> update_first p f xs = xs"
  by (induction xs) (auto split: if_splits)

lemma find_update_first:
  assumes "find p xs = Some x" and "p (f x)"
  shows "find p (update_first p f xs) = Some (f x)"
  using assms by (induction xs) (auto split: if_splits)

lemma find_update_first_other:
  assumes "\<And>y. q (f y) = q y" and "\<And>y. p y \<Longrightarrow> \<not> q y"
  shows "find q (update_first p f xs) = find q xs"
  using assms by (induction xs) auto

lemma map_update_first:
  assumes "\<And>y. g (f y) = g y"
  shows "map g (update_first p f xs) = map g xs"
  using assms by (induction xs) auto

lemma set_update_first: "set (update_first p f xs) \<subseteq> set xs \<union> f ` set xs"
  by (induction xs) auto

lemma update_first_compose:
  assumes "\<And>y. p (f y) = p y"
  shows "update_first p g (update_first p f xs) = update_first p (g \<circ> f) xs"
  using assms by (induction xs) auto

subsection \<open>Strings\<close>

lemma starts_with_iff: "starts_with p s \<longleftrightarrow> take (length p) s = p"
  by (induction p s rule: starts_with.induct) auto

lemma starts_with_append [simp]: "starts_with p (p @ s)"
  by (induction p) auto

lemma replace_first_prefix:
  "starts_with pat s \<Longrightarrow> replace_first pat rep s = rep @ drop (length pat) s"
  by (cases s) (auto simp: starts_with_iff)

lemma replace_first_strip [simp]: "replace_first p [] (p @ s) = s"
  by (simp add: replace_first_prefix)

lemma js_trim_empty_iff: "js_trim s = [] \<longleftrightarrow> (\<forall>c \<in> set s. is_js_space c)"
proof -
  have "rev (dropWhile is_js_space (rev ys)) = [] \<longleftrightarrow> (\<forall>c \<in> set ys. is_js_space c)" for ys
    by (induction ys rule: rev_induct) auto
  moreover have "(\<forall>c \<in> set (dropWhile is_js_space s). is_js_space c) \<longleftrightarrow> (\<forall>c \<in> set s. is_js_space c)"
    by (induction s) auto
  ultimately show ?thesis by (simp add: js_trim_def)
qed

lemma nat_str_nonempty: "nat_str n \<noteq> []"
  by (subst nat_str.simps) simp

lemma js_lower_char_idem [simp]: "js_lower_char (js_lower_char c) = js_lower_char c"
proof (cases "map_of upper_lower c")
  case (Some l)
  then have "(c, l) \<in> set upper_lower" by (rule map_of_SomeD)
  then have "l \<in> set ''abcdefghijklmnopqrstuvwxyz''"
    unfolding upper_lower_def by (auto dest: set_zip_rightD)
  then have "map_of upper_lower l = None"
    by (simp add: upper_lower_def) (elim disjE; simp)
  with Some show ?thesis by (simp add: js_lower_char_def)
qed (simp add: js_lower_char_def)

lemma js_lower_idem [simp]: "js_lower (js_lower s) = js_lower s"
  by (simp add: js_lower_def comp_def)

lemma js_lower_append [simp]: "js_lower (xs @ ys) = js_lower xs @ js_lower ys"
  by (simp add: js_lower_def)

lemma nat_str_digits: "set (nat_str n) \<subseteq> set ''0123456789''"
proof (induction n rule: nat_str.induct)
  case (1 n)
  show ?case
  proof (cases "n < 10")
    case True
    then have "''0123456789'' ! n \<in> set ''0123456789''" by (intro nth_mem) simp
    with True show ?thesis by (subst nat_str.simps) simp
  next
    case False
    have "''0123456789'' ! (n mod 10) \<in> set ''0123456789''" by (intro nth_mem) simp
    with False "1.IH" show ?thesis by (subst nat_str.simps) simp
  qed
qed

lemma length_nat_str:
  assumes "10 ^ k \<le> n" and "n < 10 ^ Suc k"
  shows "length (nat_str n) = Suc k"
  using assms
proof (induction k arbitrary: n)
  case 0
  then show ?case by (subst nat_str.simps) simp
next
  case (Suc k)
  have "10 \<le> n" using Suc.prems(1) order_trans [of 10 "10 ^ Suc k" n] by simp
  moreover have "10 ^ k \<le> n div 10" using Suc.prems(1) by (simp add: less_eq_div_iff_mult_less_eq mult.commute)
  moreover have "n div 10 < 10 ^ Suc k" using Suc.prems(2) by (simp add: div_less_iff_less_mult mult.commute)
  ultimately show ?case using Suc.IH by (subst nat_str.simps) simp
qed

text \<open>\<open>nat_str\<close> unfolded only on numbers whose size is known, so that evaluation
  stops at a symbolic argument.\<close>

lemma nat_str_eval:
  "n < 10 \<Longrightarrow> nat_str n = [''0123456789'' ! n]"
  "10 \<le> n \<Longrightarrow> nat_str n = nat_str (n div 10) @ [''0123456789'' ! (n mod 10)]"
  by (simp_all add: nat_str.simps)

lemma find_append_Some: "find P xs = Some x \<Longrightarrow> find P (xs @ ys) = Some x"
  by (induction xs) auto

lemma find_update_first_cases:
  assumes "\<And>y. q (f y) = q y" and "find q xs = Some x"
  shows "find q (update_first p f xs) = Some x \<or> find q (update_first p f xs) = Some (f x)"
  using assms by (induction xs) (auto split: if_splits)

lemma find_append_last: "find P xs = None \<Longrightarrow> P u \<Longrightarrow> find P (xs @ [u]) = Some u"
  by (induction xs) auto

lemma split_takeWhile:
  assumes "length (takeWhile P s) < length s"
  shows "s = takeWhile P s @ s ! length (takeWhile P s) # drop (Suc (length (takeWhile P s))) s"
    and "\<not> P (s ! length (takeWhile P s))"
proof -
  show "s = takeWhile P s @ s ! length (takeWhile P s) # drop (Suc (length (takeWhile P s))) s"
    using id_take_nth_drop [OF assms] takeWhile_eq_take [of P s] by simp
  show "\<not> P (s ! length (takeWhile P s))" using assms by (rule nth_length_takeWhile)
qed

lemma length_filter_update_first:
  assumes "find p xs = Some x"
  shows "length (filter P (update_first p f xs)) + (if P x then 1 else 0) =
           length (filter P xs) + (if P (f x) then 1 else 0)"
  using assms by (induction xs) (auto split: if_splits)

lemma remove1_neq: "x \<in> set xs \<Longrightarrow> remove1 x xs \<noteq> xs"
  by (induction xs) auto

end
