(* ===== verification/Banner_Types.thy ===== *)
theory Banner_Types
  imports Prelude
begin

text \<open>
  The banner data model of \<^verbatim>\<open>src/src/types.ts\<close> (lines 29--114): positions, text
  styles, core elements, the layout with its default, the profile widgets, the sticker
  table and the font list. Field names carry a prefix where the TypeScript name
  (\<open>id\<close>, \<open>type\<close>, \<open>x\<close>) would clash with a HOL constant or with another record.
\<close>

section \<open>Layout\<close>

text \<open>\<open>BannerPosition\<close>: percentages from the left and from the top of the canvas.\<close>

record banner_position =
  pos_x :: rat
  pos_y :: rat

text \<open>\<open>TextStyle\<close>: every field optional.\<close>

record text_style =
  color :: "string option"
  fontFamily :: "string option"
  fontSize :: "rat option"

datatype banner_element_type = Avatar | Username | Subtitle | Stats | WidgetEl

record banner_element =
  el_id :: string
  el_type :: banner_element_type
  el_position :: banner_position
  el_zIndex :: rat
  el_visible :: bool
  el_textStyle :: "text_style option"

record banner_layout =
  version :: rat
  canvasHeight :: rat
  elements :: "banner_element list"

definition BANNER_FONTS :: "string list" where
  "BANNER_FONTS =
    [''Inter, sans-serif'', ''Georgia, serif'', ''Courier New, monospace'',
     ''Impact, sans-serif'', ''Comic Sans MS, cursive'', ''Trebuchet MS, sans-serif'',
     ''Arial Black, sans-serif'', ''Palatino, serif'']"

definition no_style :: text_style where
  "no_style = \<lparr>color = None, fontFamily = None, fontSize = None\<rparr>"

definition DEFAULT_BANNER_LAYOUT :: banner_layout where
  "DEFAULT_BANNER_LAYOUT = \<lparr>version = 1, canvasHeight = 400, elements =
    [\<lparr>el_id = ''avatar'', el_type = Avatar, el_position = \<lparr>pos_x = 3, pos_y = 35\<rparr>,
      el_zIndex = 10, el_visible = True, el_textStyle = None\<rparr>,
     \<lparr>el_id = ''username'', el_type = Username, el_position = \<lparr>pos_x = 18, pos_y = 52\<rparr>,
      el_zIndex = 10, el_visible = True, el_textStyle = Some (no_style\<lparr>fontSize := Some 32\<rparr>)\<rparr>,
     \<lparr>el_id = ''subtitle'', el_type = Subtitle, el_position = \<lparr>pos_x = 18, pos_y = 62\<rparr>,
      el_zIndex = 10, el_visible = True, el_textStyle = Some (no_style\<lparr>fontSize := Some 16\<rparr>)\<rparr>,
     \<lparr>el_id = ''stats'', el_type = Stats, el_position = \<lparr>pos_x = 3, pos_y = 78\<rparr>,
      el_zIndex = 10, el_visible = True, el_textStyle = None\<rparr>]\<rparr>"

text \<open>
  Well-formedness of a layout, the data-model invariant of the specification: element
  ids are pairwise distinct (so each core id occurs at most once) and the version is
  truthy (\<open>loadLayout\<close> discards a layout whose version is 0).
\<close>

definition layout_wf :: "banner_layout \<Rightarrow> bool" where
  "layout_wf l \<longleftrightarrow> distinct (map el_id (elements l)) \<and> version l \<noteq> 0"

section \<open>Widgets\<close>

datatype widget_side = Left | Right

datatype widget_type = Text | Gif | Sticker

record profile_widget =
  w_id :: string
  w_type :: widget_type
  w_content :: string
  w_position :: widget_side
  w_canvasPosition :: "banner_position option"
  w_zIndex :: "rat option"
  w_scale :: "rat option"
  w_stretchX :: "rat option"
  w_stretchY :: "rat option"

text \<open>The sticker table, glyphs as their UTF-8 bytes.\<close>

definition STICKERS :: "(string \<times> string) list" where
  "STICKERS =
    [(''trophy'', [CHR 0xF0, CHR 0x9F, CHR 0x8F, CHR 0x86]),
     (''fire'', [CHR 0xF0, CHR 0x9F, CHR 0x94, CHR 0xA5]),
     (''sword'', [CHR 0xE2, CHR 0x9A, CHR 0x94, CHR 0xEF, CHR 0xB8, CHR 0x8F]),
     (''star'', [CHR 0xE2, CHR 0xAD, CHR 0x90]),
     (''crown'', [CHR 0xF0, CHR 0x9F, CHR 0x91, CHR 0x91]),
     (''lightning'', [CHR 0xE2, CHR 0x9A, CHR 0xA1]),
     (''skull'', [CHR 0xF0, CHR 0x9F, CHR 0x92, CHR 0x80]),
     (''rocket'', [CHR 0xF0, CHR 0x9F, CHR 0x9A, CHR 0x80]),
     (''gem'', [CHR 0xF0, CHR 0x9F, CHR 0x92, CHR 0x8E]),
     (''shield'', [CHR 0xF0, CHR 0x9F, CHR 0x9B, CHR 0xA1, CHR 0xEF, CHR 0xB8, CHR 0x8F]),
     (''target'', [CHR 0xF0, CHR 0x9F, CHR 0x8E, CHR 0xAF]),
     (''medal'', [CHR 0xF0, CHR 0x9F, CHR 0x8E, CHR 0x96, CHR 0xEF, CHR 0xB8, CHR 0x8F]),
     (''controller'', [CHR 0xF0, CHR 0x9F, CHR 0x8E, CHR 0xAE]),
     (''globe'', [CHR 0xF0, CHR 0x9F, CHR 0x8C, CHR 0x8D]),
     (''chess'', [CHR 0xE2, CHR 0x99, CHR 0x9F, CHR 0xEF, CHR 0xB8, CHR 0x8F]),
     (''heart'', [CHR 0xE2, CHR 0x9D, CHR 0xA4, CHR 0xEF, CHR 0xB8, CHR 0x8F])]"

section \<open>Properties\<close>

subsection \<open>Layout\<close>

lemma layout_wf_default: "layout_wf DEFAULT_BANNER_LAYOUT"
  by (simp add: layout_wf_def DEFAULT_BANNER_LAYOUT_def)

subsection \<open>Widgets\<close>

lemma STICKERS_glyphs_nonempty: "\<forall>(k, g) \<in> set STICKERS. g \<noteq> []"
  by (simp add: STICKERS_def)

lemma STICKERS_keys_distinct: "distinct (map fst STICKERS)"
  by (simp add: STICKERS_def)

end
