(* ===== verification/Geometry.thy ===== *)
theory Geometry
  imports Banner_Types
begin

text \<open>
  The geometry engine of the banner editor (\<^verbatim>\<open>src/src/banner-editor.ts\<close>): the clamp
  of \<open>clampPosition\<close>, the drag arithmetic of \<open>onPointerMove\<close>, and the position
  accessors \<open>getElementPosition\<close> and \<open>setElementPosition\<close>, which look an element id
  up among the core elements first and among the widgets (\<open>widget-<id>\<close>) second.
\<close>

section \<open>Clamping and the drag arithmetic\<close>

definition clampPosition :: "banner_position \<Rightarrow> banner_position" where
  "clampPosition p = \<lparr>pos_x = js_clamp 0 90 (pos_x p), pos_y = js_clamp 0 85 (pos_y p)\<rparr>"

text \<open>A position inside the canvas, the range \<open>clampPosition\<close> maps into.\<close>

definition in_canvas :: "banner_position \<Rightarrow> bool" where
  "in_canvas p \<longleftrightarrow> 0 \<le> pos_x p \<and> pos_x p \<le> 90 \<and> 0 \<le> pos_y p \<and> pos_y p \<le> 85"

text \<open>
  The drag state; \<open>drag_element\<close> stands for the captured DOM element, named by its
  \<open>data-element-id\<close>. A pointer is a pair of client coordinates, the canvas rectangle
  a pair of width and height.
\<close>

record drag_state =
  active :: bool
  drag_elementId :: "string option"
  startPointer :: "rat \<times> rat"
  startPosition :: banner_position
  drag_element :: "string option"

definition idle_drag :: drag_state where
  "idle_drag = \<lparr>active = False, drag_elementId = None, startPointer = (0, 0),
     startPosition = \<lparr>pos_x = 0, pos_y = 0\<rparr>, drag_element = None\<rparr>"

text \<open>
  \<open>onPointerMove\<close>, lines 235--247: the new position is the position captured at
  pointer-down plus the whole pointer delta as a percentage of the canvas, clamped.
\<close>

definition drag_position :: "drag_state \<Rightarrow> rat \<times> rat \<Rightarrow> rat \<times> rat \<Rightarrow> banner_position" where
  "drag_position d ptr rect =
     (let dx = fst ptr - fst (startPointer d);
          dy = snd ptr - snd (startPointer d);
          dxPercent = dx / fst rect * 100;
          dyPercent = dy / snd rect * 100
      in clampPosition \<lparr>pos_x = pos_x (startPosition d) + dxPercent,
                        pos_y = pos_y (startPosition d) + dyPercent\<rparr>)"

section \<open>Element positions\<close>

definition default_position :: banner_position where
  "default_position = \<lparr>pos_x = 50, pos_y = 50\<rparr>"

text \<open>\<open>elementId.replace('widget-', '')\<close>: the widget id named by a DOM element id.\<close>

definition widget_of :: "string \<Rightarrow> string" where
  "widget_of eid = replace_first ''widget-'' [] eid"

definition is_widget_ref :: "string \<Rightarrow> bool" where
  "is_widget_ref eid = starts_with ''widget-'' eid"

definition find_core :: "banner_layout \<Rightarrow> string \<Rightarrow> banner_element option" where
  "find_core l eid = find (\<lambda>e. el_id e = eid) (elements l)"

definition find_widget :: "profile_widget list \<Rightarrow> string \<Rightarrow> profile_widget option" where
  "find_widget ws wid = find (\<lambda>w. w_id w = wid) ws"

text \<open>\<open>getElementPosition\<close>, lines 285--298.\<close>

definition getElementPosition ::
  "banner_layout \<Rightarrow> profile_widget list \<Rightarrow> string \<Rightarrow> banner_position" where
  "getElementPosition l ws eid =
     (case find_core l eid of
        Some e \<Rightarrow> el_position e
      | None \<Rightarrow>
          if is_widget_ref eid then
            (case find_widget ws (widget_of eid) of
               Some w \<Rightarrow> (case w_canvasPosition w of Some p \<Rightarrow> p | None \<Rightarrow> default_position)
             | None \<Rightarrow> default_position)
          else default_position)"

text \<open>\<open>setElementPosition\<close>, lines 300--316, on the pair (layout, widgets).\<close>

definition setElementPosition ::
  "string \<Rightarrow> banner_position \<Rightarrow> banner_layout \<times> profile_widget list
     \<Rightarrow> banner_layout \<times> profile_widget list" where
  "setElementPosition eid p lw =
     (let (l, ws) = lw in
      if find_core l eid \<noteq> None then
        (l\<lparr>elements := update_first (\<lambda>e. el_id e = eid) (el_position_update (\<lambda>_. p)) (elements l)\<rparr>, ws)
      else if is_widget_ref eid then
        (l, update_first (\<lambda>w. w_id w = widget_of eid) (w_canvasPosition_update (\<lambda>_. Some p)) ws)
      else (l, ws))"

section \<open>Properties\<close>

subsection \<open>Clamping and the drag arithmetic\<close>

lemma clampPosition_in_canvas [simp]: "in_canvas (clampPosition p)"
  by (simp add: clampPosition_def in_canvas_def js_clamp_bounds)

lemma clampPosition_id: "in_canvas p \<Longrightarrow> clampPosition p = p"
  by (simp add: clampPosition_def in_canvas_def js_clamp_id)

lemma drag_position_in_canvas [simp]: "in_canvas (drag_position d ptr rect)"
  by (simp add: drag_position_def Let_def)

text \<open>
  No drift: the result depends on the drag state only through the captured start
  pointer and start position, so intermediate moves do not accumulate.
\<close>

lemma drag_position_start_only:
  assumes "startPointer d = startPointer d'" and "startPosition d = startPosition d'"
  shows "drag_position d ptr rect = drag_position d' ptr rect"
  using assms by (simp add: drag_position_def)

lemma drag_position_zero_delta:
  "in_canvas (startPosition d) \<Longrightarrow> drag_position d (startPointer d) rect = startPosition d"
  by (simp add: drag_position_def clampPosition_def in_canvas_def js_clamp_id)

subsection \<open>Element positions\<close>

lemma widget_of_ref [simp]: "widget_of (''widget-'' @ w) = w"
  by (simp add: widget_of_def)

lemma is_widget_ref_ref [simp]: "is_widget_ref (''widget-'' @ w)"
  by (simp add: is_widget_ref_def)

lemma find_core_set_core:
  assumes "find_core l eid = Some e"
  shows "find_core (fst (setElementPosition eid p (l, ws))) eid = Some (e\<lparr>el_position := p\<rparr>)"
proof -
  have "el_id e = eid"
    using assms by (auto simp: find_core_def dest: find_Some_pred)
  then show ?thesis
    using assms find_update_first [of "\<lambda>e. el_id e = eid" "elements l" e "el_position_update (\<lambda>_. p)"]
    by (simp add: setElementPosition_def find_core_def)
qed

lemma get_set_position_core:
  "find_core l eid \<noteq> None \<Longrightarrow>
   getElementPosition (fst (setElementPosition eid p (l, ws))) ws' eid = p"
  by (auto simp: getElementPosition_def dest: find_core_set_core [of _ _ _ p ws])

lemma get_set_position_widget:
  assumes "find_core l eid = None" and "is_widget_ref eid"
    and "find_widget ws (widget_of eid) = Some w"
  shows "getElementPosition (fst (setElementPosition eid p (l, ws)))
           (snd (setElementPosition eid p (l, ws))) eid = p"
proof -
  have "w_id w = widget_of eid"
    using assms(3) by (auto simp: find_widget_def dest: find_Some_pred)
  then have "find_widget (update_first (\<lambda>v. w_id v = widget_of eid) (w_canvasPosition_update (\<lambda>_. Some p)) ws)
               (widget_of eid) = Some (w\<lparr>w_canvasPosition := Some p\<rparr>)"
    using assms(3) by (simp add: find_widget_def find_update_first)
  with assms(1,2) show ?thesis
    by (simp add: getElementPosition_def setElementPosition_def)
qed

lemma set_position_widgets:
  "set (snd (setElementPosition eid p lw)) \<subseteq>
     set (snd lw) \<union> (w_canvasPosition_update (\<lambda>_. Some p)) ` set (snd lw)"
proof (cases lw)
  case (Pair l ws)
  have "set (update_first (\<lambda>v. w_id v = widget_of eid) (w_canvasPosition_update (\<lambda>_. Some p)) ws)
          \<subseteq> set ws \<union> (w_canvasPosition_update (\<lambda>_. Some p)) ` set ws"
    by (rule set_update_first)
  with Pair show ?thesis by (auto simp: setElementPosition_def)
qed

lemma set_position_elements_ids [simp]:
  "map el_id (elements (fst (setElementPosition eid p lw))) = map el_id (elements (fst lw))"
  by (cases lw) (simp add: setElementPosition_def map_update_first)

lemma set_position_version [simp]:
  "version (fst (setElementPosition eid p lw)) = version (fst lw)"
  by (cases lw) (simp add: setElementPosition_def)

lemma set_position_widget_ids [simp]:
  "map w_id (snd (setElementPosition eid p lw)) = map w_id (snd lw)"
  by (cases lw) (simp add: setElementPosition_def map_update_first)

lemma set_position_widget_types [simp]:
  "map w_type (snd (setElementPosition eid p lw)) = map w_type (snd lw)"
  by (cases lw) (simp add: setElementPosition_def map_update_first)

lemma find_widget_set_position:
  assumes "find_widget ws x = Some w"
  shows "find_widget (snd (setElementPosition eid p (l, ws))) x = Some w \<or>
         find_widget (snd (setElementPosition eid p (l, ws))) x = Some (w\<lparr>w_canvasPosition := Some p\<rparr>)"
  using find_update_first_cases [of "\<lambda>v. w_id v = x" "w_canvasPosition_update (\<lambda>_. Some p)" ws w
          "\<lambda>v. w_id v = widget_of eid"] assms
  by (auto simp: setElementPosition_def find_widget_def)

lemma set_position_layout_wf:
  "layout_wf (fst lw) \<Longrightarrow> layout_wf (fst (setElementPosition eid p lw))"
  by (simp add: layout_wf_def)

end
