(* ===== verification/Widgets.thy ===== *)
theory Widgets
  imports Geometry
begin

text \<open>
  The widget pieces of \<^verbatim>\<open>src/src/banner-editor.ts\<close>: the widget objects the three add
  handlers build (lines 387--394, 412--419, 433--440), the resize and stretch
  arithmetic (lines 536--538, 559--565), the sticker lookup and content node of
  \<open>createWidgetContent\<close> (lines 477--501), the transform of \<open>applyWidgetTransform\<close>
  (lines 516--527) and the node \<open>renderWidgetOnCanvas\<close> appends (lines 459--475).
  The handlers that use them, with their guards and their effects on the selection and
  the popovers, are in theory \<open>Editor\<close>.
\<close>

section \<open>New widgets\<close>

text \<open>
  A new widget: the id is \<open>Date.now().toString()\<close> (the clock reading is a parameter),
  the canvas position depends on the type, the z-index is 20, nothing is scaled.
\<close>

definition default_canvas_position :: "widget_type \<Rightarrow> banner_position" where
  "default_canvas_position t = (case t of
      Text \<Rightarrow> \<lparr>pos_x = 40, pos_y = 45\<rparr>
    | Gif \<Rightarrow> \<lparr>pos_x = 50, pos_y = 40\<rparr>
    | Sticker \<Rightarrow> \<lparr>pos_x = 45, pos_y = 45\<rparr>)"

definition new_widget :: "widget_type \<Rightarrow> string \<Rightarrow> nat \<Rightarrow> profile_widget" where
  "new_widget t content now =
     \<lparr>w_id = nat_str now, w_type = t, w_content = content, w_position = Left,
      w_canvasPosition = Some (default_canvas_position t), w_zIndex = Some 20,
      w_scale = None, w_stretchX = None, w_stretchY = None\<rparr>"

text \<open>The guard shared by the three add handlers: at most 6 widgets.\<close>

definition can_add_widget :: "profile_widget list \<Rightarrow> bool" where
  "can_add_widget ws \<longleftrightarrow> \<not> length ws \<ge> 6"

section \<open>Resize and stretch\<close>

text \<open>
  \<open>Math.round(Math.max(0.3, Math.min(3, (f || 1) + delta)) * 10) / 10\<close>: one step of a
  scale or stretch factor.
\<close>

definition stepped_factor :: "rat option \<Rightarrow> rat \<Rightarrow> rat" where
  "stepped_factor cur delta =
     of_int (round (js_clamp (3/10) 3 (js_or cur 1 + delta) * 10)) / 10"

definition resizable :: "profile_widget \<Rightarrow> bool" where
  "resizable w \<longleftrightarrow> w_type w = Sticker \<or> w_type w = Gif"

text \<open>A factor the inspector accepts: a multiple of a tenth in \<open>[0.3, 3]\<close>.\<close>

definition factor_ok :: "rat \<Rightarrow> bool" where
  "factor_ok f \<longleftrightarrow> (\<exists>k::int. 3 \<le> k \<and> k \<le> 30 \<and> f = of_int k / 10)"

section \<open>Rendering a widget\<close>

text \<open>\<open>STICKERS[key] || key\<close>.\<close>

definition sticker_glyph :: "string \<Rightarrow> string" where
  "sticker_glyph k = (case map_of STICKERS k of Some g \<Rightarrow> if g = [] then k else g | None \<Rightarrow> k)"

datatype widget_content = TextNode string | StickerNode string | GifImage string

definition createWidgetContent :: "profile_widget \<Rightarrow> widget_content" where
  "createWidgetContent w = (case w_type w of
      Text \<Rightarrow> TextNode (w_content w)
    | Sticker \<Rightarrow> StickerNode (sticker_glyph (w_content w))
    | Gif \<Rightarrow> GifImage (w_content w))"

text \<open>The CSS transform: \<open>None\<close> is the empty transform, \<open>Some (sx, sy)\<close> is
  \<open>scale(sx, sy)\<close> about the centre.\<close>

definition applyWidgetTransform :: "profile_widget \<Rightarrow> (rat \<times> rat) option" where
  "applyWidgetTransform w =
     (let scale = js_or (w_scale w) 1; sx = js_or (w_stretchX w) 1; sy = js_or (w_stretchY w) 1
      in if scale \<noteq> 1 \<or> sx \<noteq> 1 \<or> sy \<noteq> 1 then Some (scale * sx, scale * sy) else None)"

text \<open>The node \<open>renderWidgetOnCanvas\<close> appends to the canvas.\<close>

record widget_node =
  node_id :: string
  node_content :: widget_content
  node_pos :: banner_position
  node_z :: rat
  node_transform :: "(rat \<times> rat) option"

definition renderWidgetOnCanvas :: "profile_widget \<Rightarrow> widget_node" where
  "renderWidgetOnCanvas w =
     \<lparr>node_id = ''widget-'' @ w_id w, node_content = createWidgetContent w,
      node_pos = (case w_canvasPosition w of Some p \<Rightarrow> p | None \<Rightarrow> default_position),
      node_z = js_or (w_zIndex w) 20, node_transform = applyWidgetTransform w\<rparr>"

section \<open>Properties\<close>

subsection \<open>Resize and stretch\<close>

lemma stepped_factor_ok: "factor_ok (stepped_factor cur delta)"
proof -
  let ?c = "js_clamp (3/10) 3 (js_or cur 1 + delta)"
  have "3/10 \<le> ?c" by (rule js_clamp_bounds(1)) simp
  moreover have "?c \<le> 3" by (rule js_clamp_bounds(2)) simp
  ultimately have a: "of_int 3 \<le> ?c * 10" and b: "?c * 10 \<le> of_int 30"
    by (simp_all add: field_simps)
  have "3 \<le> round (?c * 10)" and "round (?c * 10) \<le> 30"
    by (rule round_bounds(1) [OF a b], rule round_bounds(2) [OF a b])
  then show ?thesis
    unfolding factor_ok_def stepped_factor_def by blast
qed

lemma factor_ok_bounds: "factor_ok f \<Longrightarrow> 3/10 \<le> f \<and> f \<le> 3"
  by (auto simp: factor_ok_def)

lemma stepped_factor_bounds: "3/10 \<le> stepped_factor cur delta \<and> stepped_factor cur delta \<le> 3"
  by (rule factor_ok_bounds [OF stepped_factor_ok])

text \<open>On a factor that is already a tenth in range, one step is exact arithmetic, clamped.\<close>

lemma stepped_factor_tenths:
  assumes "3 \<le> k" and "k \<le> 30"
  shows "stepped_factor (Some (of_int k / 10)) (of_int d / 10) =
           of_int (max 3 (min 30 (k + d))) / 10"
proof -
  have nz: "(of_int k / 10 :: rat) \<noteq> 0" using assms by simp
  have "js_clamp (3/10) 3 (of_int k / 10 + of_int d / 10) * 10 = of_int (max 3 (min 30 (k + d)))"
    by (simp add: js_clamp_def max_def min_def field_simps)
  then show ?thesis
    using nz by (simp add: stepped_factor_def)
qed

subsection \<open>Rendering a widget\<close>

lemma applyWidgetTransform_identity:
  "w_scale w = None \<Longrightarrow> w_stretchX w = None \<Longrightarrow> w_stretchY w = None \<Longrightarrow>
   applyWidgetTransform w = None"
  by (simp add: applyWidgetTransform_def)

lemma sticker_glyph_unknown: "k \<notin> fst ` set STICKERS \<Longrightarrow> sticker_glyph k = k"
proof -
  assume "k \<notin> fst ` set STICKERS"
  then have "map_of STICKERS k = None"
    by (simp add: map_of_eq_None_iff)
  then show ?thesis by (simp add: sticker_glyph_def)
qed

lemma sticker_glyph_known: "(k, g) \<in> set STICKERS \<Longrightarrow> sticker_glyph k = g"
proof -
  assume kg: "(k, g) \<in> set STICKERS"
  then have "map_of STICKERS k = Some g"
    by (simp add: STICKERS_keys_distinct)
  moreover have "g \<noteq> []"
    using kg STICKERS_glyphs_nonempty by auto
  ultimately show ?thesis by (simp add: sticker_glyph_def)
qed

subsection \<open>Claims\<close>

text \<open>
  One resize or stretch step always yields a factor in [0.3, 3], whatever the
  current factor, and the bounds are fixed points: a step up at 3 stays at 3, a step down
  at 0.3 stays at 0.3.
\<close>

theorem stepped_factor_clamped:
  "3/10 \<le> stepped_factor cur delta \<and> stepped_factor cur delta \<le> 3 \<and>
   stepped_factor (Some 3) (1/10) = 3 \<and> stepped_factor (Some (3/10)) (- (1/10)) = 3/10"
proof -
  have "stepped_factor (Some 3) (1/10) = 3" and "stepped_factor (Some (3/10)) (- (1/10)) = 3/10"
    by (simp_all add: stepped_factor_def js_clamp_def)
  with stepped_factor_bounds show ?thesis by blast
qed

text \<open>
  A sticker widget shows the glyph of its key from the sticker table (\<open>trophy\<close>
  shows the trophy emoji) and a key the table does not have as the raw key.
\<close>

theorem sticker_content_lookup:
  "createWidgetContent (new_widget Sticker ''trophy'' n) = StickerNode [CHR 0xF0, CHR 0x9F, CHR 0x8F, CHR 0x86] \<and>
   createWidgetContent (new_widget Sticker ''unknown_key'' n) = StickerNode ''unknown_key''"
  by (simp add: createWidgetContent_def new_widget_def sticker_glyph_def STICKERS_def)

end
