(* ===== verification/Text_Style.thy ===== *)
theory Text_Style
  imports Geometry
begin

text \<open>
  Text styling of the two text elements (\<open>username\<close>, \<open>subtitle\<close>) in
  \<^verbatim>\<open>src/src/banner-editor.ts\<close>: the style merge of \<open>changeTextStyle\<close>
  (lines 597--601), the font-size step of \<open>changeTextFontSize\<close> (lines 616--622), the
  projection of a style onto the text node by \<open>applyTextStyleToElement\<close> (lines
  635--661) and the inspector values of \<open>updateTextStyleDisplay\<close> (lines 663--687).
  The guards on the selection are in the handlers of theory \<open>Editor\<close>.
\<close>

section \<open>Style updates\<close>

text \<open>
  The two partial styles the toolbar passes to \<open>changeTextStyle\<close>: a colour from the
  colour input, a font family from the selector (\<open>value || undefined\<close>).
\<close>

datatype style_update = SetColor string | SetFontFamily "string option"

text \<open>\<open>Object.assign(style, updates)\<close>.\<close>

fun assign_style :: "text_style \<Rightarrow> style_update \<Rightarrow> text_style" where
  "assign_style st (SetColor c) = st\<lparr>color := Some c\<rparr>"
| "assign_style st (SetFontFamily f) = st\<lparr>fontFamily := f\<rparr>"

text \<open>The family update as the selector's \<open>change\<close> listener builds it (line 105).\<close>

definition font_family_update :: "string \<Rightarrow> style_update" where
  "font_family_update v = SetFontFamily (if v = [] then None else Some v)"

definition is_text_element :: "string \<Rightarrow> bool" where
  "is_text_element eid \<longleftrightarrow> eid = ''username'' \<or> eid = ''subtitle''"

definition default_font_size :: "string \<Rightarrow> rat" where
  "default_font_size eid = (if eid = ''username'' then 32 else 16)"

text \<open>\<open>if (!elDef.textStyle) elDef.textStyle = {}\<close>: the style an element is edited from.\<close>

definition style_of :: "banner_element \<Rightarrow> text_style" where
  "style_of e = (case el_textStyle e of None \<Rightarrow> no_style | Some st \<Rightarrow> st)"

text \<open>The new font size: \<open>Math.max(10, Math.min(72, (fontSize || default) + delta))\<close>.\<close>

definition stepped_font_size :: "string \<Rightarrow> rat \<Rightarrow> text_style \<Rightarrow> rat" where
  "stepped_font_size eid delta st = js_clamp 10 72 (js_or (fontSize st) (default_font_size eid) + delta)"

text \<open>The two mutations of the element found by id, on the layout.\<close>

definition restyle_element :: "string \<Rightarrow> style_update \<Rightarrow> banner_layout \<Rightarrow> banner_layout" where
  "restyle_element eid u l =
     l\<lparr>elements := update_first (\<lambda>e. el_id e = eid)
        (\<lambda>e. e\<lparr>el_textStyle := Some (assign_style (style_of e) u)\<rparr>) (elements l)\<rparr>"

definition resize_font_element :: "string \<Rightarrow> rat \<Rightarrow> banner_layout \<Rightarrow> banner_layout" where
  "resize_font_element eid delta l =
     l\<lparr>elements := update_first (\<lambda>e. el_id e = eid)
        (\<lambda>e. e\<lparr>el_textStyle := Some ((style_of e)\<lparr>fontSize := Some (stepped_font_size eid delta (style_of e))\<rparr>)\<rparr>)
        (elements l)\<rparr>"

section \<open>Projection onto the text node\<close>

text \<open>
  The inline CSS \<open>applyTextStyleToElement\<close> leaves on the text node: whether the
  \<open>custom-color\<close> class is set, and the colour, family and size properties, \<open>None\<close>
  where the property is cleared to the empty string.
\<close>

record text_css =
  custom_color :: bool
  css_color :: "string option"
  css_fontFamily :: "string option"
  css_fontSize :: "rat option"

definition truthy_str :: "string option \<Rightarrow> string option" where
  "truthy_str v = (case v of Some s \<Rightarrow> if s = [] then None else Some s | None \<Rightarrow> None)"

definition applyTextStyleToElement :: "text_style \<Rightarrow> text_css" where
  "applyTextStyleToElement st =
     \<lparr>custom_color = (truthy_str (color st) \<noteq> None), css_color = truthy_str (color st),
      css_fontFamily = truthy_str (fontFamily st),
      css_fontSize = (case fontSize st of Some n \<Rightarrow> if n = 0 then None else Some n | None \<Rightarrow> None)\<rparr>"

text \<open>The values \<open>updateTextStyleDisplay\<close> puts into the inspector.\<close>

record text_inspector =
  shown_color :: string
  shown_family :: string
  shown_size :: rat

definition updateTextStyleDisplay :: "string \<Rightarrow> text_style \<Rightarrow> text_inspector" where
  "updateTextStyleDisplay eid st =
     \<lparr>shown_color = (case truthy_str (color st) of Some c \<Rightarrow> c
                     | None \<Rightarrow> if eid = ''username'' then ''#f97316'' else ''#94a3b8''),
      shown_family = (case truthy_str (fontFamily st) of Some f \<Rightarrow> f | None \<Rightarrow> []),
      shown_size = js_or (fontSize st) (default_font_size eid)\<rparr>"

section \<open>Properties\<close>

subsection \<open>Style updates\<close>

text \<open>
  A font-size step always yields a size in [10, 72] px, from any current size
  (the element's default, 32 or 16, when none is set).
\<close>

theorem stepped_font_size_bounds: "10 \<le> stepped_font_size eid delta st \<and> stepped_font_size eid delta st \<le> 72"
  by (simp add: stepped_font_size_def js_clamp_def)

lemma find_core_resize_font:
  assumes "find_core l eid = Some e"
  shows "find_core (resize_font_element eid delta l) eid =
           Some (e\<lparr>el_textStyle := Some ((style_of e)\<lparr>fontSize := Some (stepped_font_size eid delta (style_of e))\<rparr>)\<rparr>)"
proof -
  have "el_id e = eid"
    using assms by (auto simp: find_core_def dest: find_Some_pred)
  with assms show ?thesis
    by (simp add: find_core_def resize_font_element_def find_update_first)
qed

lemma find_core_restyle:
  assumes "find_core l eid = Some e"
  shows "find_core (restyle_element eid u l) eid =
           Some (e\<lparr>el_textStyle := Some (assign_style (style_of e) u)\<rparr>)"
proof -
  have "el_id e = eid"
    using assms by (auto simp: find_core_def dest: find_Some_pred)
  with assms show ?thesis
    by (simp add: find_core_def restyle_element_def find_update_first)
qed

lemma restyle_element_ids [simp]:
  "map el_id (elements (restyle_element eid u l)) = map el_id (elements l)"
  "version (restyle_element eid u l) = version l"
  by (simp_all add: restyle_element_def map_update_first)

lemma resize_font_element_ids [simp]:
  "map el_id (elements (resize_font_element eid d l)) = map el_id (elements l)"
  "version (resize_font_element eid d l) = version l"
  by (simp_all add: resize_font_element_def map_update_first)

lemma restyle_positions [simp]:
  "map el_position (elements (restyle_element eid u l)) = map el_position (elements l)"
  "map el_position (elements (resize_font_element eid d l)) = map el_position (elements l)"
  by (simp_all add: restyle_element_def resize_font_element_def map_update_first)

end
