(* ===== verification/Store.thy ===== *)
theory Store
  imports Banner_Types
begin

text \<open>
  The user records of \<^verbatim>\<open>src/src/types.ts\<close> (\<open>User\<close>, \<open>UserNotification\<close>,
  \<open>Database\<close>, \<open>Session\<close>, \<open>VerificationData\<close>, \<open>PendingLogin\<close>) and the browser
  storage every page reads and writes. \<open>localStorage\<close> and \<open>sessionStorage\<close> hold JSON
  strings under the keys of \<open>StorageKeys\<close>; the model keeps the parsed value under each
  key (\<open>None\<close> when \<open>getItem\<close> returns \<open>null\<close>), that is, it takes
  \<open>JSON.parse(JSON.stringify(v)) = v\<close> for the plain data stored here. A write of a
  key replaces the whole value: last writer wins.
\<close>

section \<open>Users\<close>

datatype notification_type = FriendRequest | SubscriptionNote | FriendAccepted

record user_notification =
  n_id :: string
  n_type :: notification_type
  fromUserId :: string
  fromUserName :: string
  fromUserAvatar :: "string option"
  n_read :: bool
  createdAt :: string

record user =
  u_id :: string
  nickname :: string
  login :: "string option"
  email :: string
  password :: string
  level :: int
  elo :: int
  wins :: int
  losses :: int
  gamesPlayed :: int
  registeredAt :: string
  emailVerified :: bool
  avatar :: "string option"
  bio :: "string option"
  bannerImage :: "string option"
  bannerVideo :: "string option"
  profileWidgets :: "profile_widget list option"
  bannerLayout :: "banner_layout option"
  friends :: "string list option"
  subscriptions :: "string list option"
  groups :: "string list option"
  notifications :: "user_notification list option"
  achievements :: "string list option"

record session =
  s_id :: string
  s_userId :: string
  s_createdAt :: string
  s_expiresAt :: string

record database =
  users :: "user list"
  sessions :: "session list"

record verification_data =
  v_email :: string
  v_code :: string
  expiresAt :: int

record pending_login =
  p_userId :: string
  p_email :: string

text \<open>\<open>UserSettings\<close> of \<^verbatim>\<open>src/src/settings.ts\<close> (lines 171--181), the object
  kept under the key \<open>mesaSettings\<close>. \<open>JSON.parse\<close> returns whatever object is stored and
  the status toggle of every page stores one with \<open>onlineStatus\<close> alone, so each key may
  be missing: \<open>None\<close> is an absent key, read as \<open>undefined\<close>.\<close>

record user_settings =
  language :: "string option"
  theme :: "string option"
  matchNotifications :: "bool option"
  tournamentNotifications :: "bool option"
  friendMessages :: "bool option"
  soundNotifications :: "bool option"
  profileVisibility :: "string option"
  statsVisibility :: "string option"
  onlineStatus :: "bool option"

section \<open>Browser storage\<close>

text \<open>
  One field per key: \<open>mesaDatabase\<close>, \<open>mesaCurrentUser\<close>, \<open>mesaLoggedIn\<close> in
  \<open>localStorage\<close>; \<open>mesaVerification\<close>, \<open>mesaPendingLogin\<close> in \<open>sessionStorage\<close>;
  \<open>mesaSettings\<close> in \<open>localStorage\<close>.
\<close>

record storage =
  db_blob :: "database option"
  current_user_blob :: "user option"
  logged_in :: "string option"
  verification :: "verification_data option"
  pending :: "pending_login option"
  settings_blob :: "user_settings option"

text \<open>\<open>db.users.findIndex(u => u.id === id)\<close> and \<open>db.users[idx] = v\<close> when found.\<close>

definition replace_user :: "user \<Rightarrow> user list \<Rightarrow> user list" where
  "replace_user u us = update_first (\<lambda>v. u_id v = u_id u) (\<lambda>_. u) us"

definition find_user :: "user list \<Rightarrow> string \<Rightarrow> user option" where
  "find_user us uid = find (\<lambda>v. u_id v = uid) us"

text \<open>
  \<open>updateCurrentUser\<close> (\<^verbatim>\<open>src/src/user-profile-view.ts\<close>, lines 1106--1117): the user
  becomes the current-user blob and, when the database blob exists and holds a user with
  the same id, replaces that entry; otherwise the database is not written.
\<close>

definition updateCurrentUser :: "user \<Rightarrow> storage \<Rightarrow> storage" where
  "updateCurrentUser u st =
     (let st1 = st\<lparr>current_user_blob := Some u\<rparr> in
      case db_blob st1 of
        None \<Rightarrow> st1
      | Some db \<Rightarrow>
          if find_user (users db) (u_id u) \<noteq> None
          then st1\<lparr>db_blob := Some (db\<lparr>users := replace_user u (users db)\<rparr>)\<rparr>
          else st1)"

text \<open>The repository the specification asks for (\<open>get(userId)\<close>, \<open>save(user)\<close>): the
  users of the database blob as a map from ids, the first entry of an id winning as in
  \<open>findIndex\<close>. \<open>updateCurrentUser\<close> is its \<open>save\<close>.\<close>

definition repo_get :: "storage \<Rightarrow> string \<Rightarrow> user option" where
  "repo_get st uid = (case db_blob st of None \<Rightarrow> None | Some db \<Rightarrow> find_user (users db) uid)"

section \<open>Properties\<close>

subsection \<open>Browser storage\<close>

lemma find_user_replace_user_same:
  "find_user us (u_id u) \<noteq> None \<Longrightarrow> find_user (replace_user u us) (u_id u) = Some u"
  by (auto simp: find_user_def replace_user_def intro: find_update_first)

lemma find_user_replace_user_other:
  "uid \<noteq> u_id u \<Longrightarrow> find_user (replace_user u us) uid = find_user us uid"
  by (induction us) (auto simp: find_user_def replace_user_def)

lemma map_u_id_replace_user [simp]: "map u_id (replace_user u us) = map u_id us"
proof (induction us)
  case (Cons v vs)
  then show ?case by (simp add: replace_user_def)
qed (simp add: replace_user_def)

lemma updateCurrentUser_current [simp]:
  "current_user_blob (updateCurrentUser u st) = Some u"
  by (simp add: updateCurrentUser_def Let_def split: option.splits)

text \<open>After the write, the current-user blob and the database entry of the user agree.\<close>

lemma updateCurrentUser_db_sync:
  assumes "db_blob st = Some db" and "find_user (users db) (u_id u) \<noteq> None"
  shows "\<exists>db'. db_blob (updateCurrentUser u st) = Some db' \<and>
           find_user (users db') (u_id u) = Some u \<and>
           (\<forall>uid. uid \<noteq> u_id u \<longrightarrow> find_user (users db') uid = find_user (users db) uid)"
  using assms
  by (simp add: updateCurrentUser_def find_user_replace_user_same find_user_replace_user_other)

lemma updateCurrentUser_session [simp]:
  "verification (updateCurrentUser u st) = verification st"
  "pending (updateCurrentUser u st) = pending st"
  "logged_in (updateCurrentUser u st) = logged_in st"
  by (simp_all add: updateCurrentUser_def Let_def split: option.splits)

lemma find_user_None_iff: "find_user us uid = None \<longleftrightarrow> uid \<notin> u_id ` set us"
  by (auto simp: find_user_def find_None_iff)

lemma find_user_Some_id: "find_user us uid = Some u \<Longrightarrow> u_id u = uid"
  by (auto simp: find_user_def dest: find_Some_pred)

lemma find_user_update_other:
  assumes "\<And>y. u_id (f y) = u_id y" and "uid \<noteq> uid'"
  shows "find_user (update_first (\<lambda>v. u_id v = uid') f us) uid = find_user us uid"
  unfolding find_user_def using assms by (intro find_update_first_other) auto

lemma find_user_update_same:
  assumes "find_user us uid = Some u" and "u_id (f u) = uid"
  shows "find_user (update_first (\<lambda>v. u_id v = uid) f us) uid = Some (f u)"
  using assms unfolding find_user_def by (intro find_update_first) simp_all

lemma u_ids_update_first [simp]:
  assumes "\<And>y. u_id (f y) = u_id y"
  shows "u_id ` set (update_first p f us) = u_id ` set us"
proof -
  have "map u_id (update_first p f us) = map u_id us" using assms by (rule map_update_first)
  then show ?thesis by (metis list.set_map)
qed

subsection \<open>The repository\<close>

lemma repo_get_current_user [simp]: "repo_get (st\<lparr>current_user_blob := x\<rparr>) = repo_get st"
  by (simp add: repo_get_def fun_eq_iff)

text \<open>
  C32. \<open>updateCurrentUser\<close> refines the \<open>save\<close> of a map-valued repository: seen through
  \<open>get\<close>, it stores the user under its id when the id is already in the database and
  changes nothing otherwise; the current-user blob becomes the user in both cases.
\<close>

theorem updateCurrentUser_refines:
  "repo_get (updateCurrentUser u st) =
     (if repo_get st (u_id u) = None then repo_get st else (repo_get st)(u_id u \<mapsto> u)) \<and>
   current_user_blob (updateCurrentUser u st) = Some u"
proof (cases "db_blob st")
  case (Some db)
  show ?thesis
  proof (cases "find_user (users db) (u_id u) = None")
    case False
    then have "repo_get (updateCurrentUser u st) = (repo_get st)(u_id u \<mapsto> u)"
      using Some by (auto simp: repo_get_def updateCurrentUser_def fun_eq_iff
          find_user_replace_user_same find_user_replace_user_other)
    moreover have "repo_get st (u_id u) \<noteq> None" using False Some by (simp add: repo_get_def)
    ultimately show ?thesis by auto
  qed (simp_all add: Some repo_get_def updateCurrentUser_def)
qed (simp_all add: repo_get_def updateCurrentUser_def)

end
