(* ===== verification/Editor.thy ===== *)
theory Editor
  imports Widgets Text_Style Store
begin

text \<open>
  The banner editor, class \<open>BannerEditor\<close> of \<^verbatim>\<open>src/src/banner-editor.ts\<close>, as a state
  record and one function per handler. The state holds the fields of the class, the
  widget nodes the editor appends to the canvas (the DOM it creates and removes), the
  popover shown, the toolbar controls the selection enables, the alerts shown and the
  browser storage it writes. A handler that throws (a cancel before any edit session,
  when the snapshot is still \<open>undefined\<close>) yields \<open>None\<close>. \<open>editor_step\<close> is the
  event wiring of \<open>init\<close>, \<open>editor_run\<close> a sequence of events.
\<close>

section \<open>State\<close>

datatype popover = BannerTextInput | BannerStickerPicker | BannerGifInput

datatype editor_alert = WidgetLimit

datatype axis = AxisX | AxisY

text \<open>The three controls \<open>selectElement\<close> and \<open>deselectAll\<close> switch.\<close>

record toolbar =
  delete_enabled :: bool
  resize_shown :: bool
  textstyle_shown :: bool

definition tools_off :: toolbar where
  "tools_off = \<lparr>delete_enabled = False, resize_shown = False, textstyle_shown = False\<rparr>"

record editor =
  ed_user :: user
  isEditMode :: bool
  layout :: banner_layout
  widgets :: "profile_widget list"
  layoutSnapshot :: "banner_layout option"
  widgetsSnapshot :: "profile_widget list"
  dragState :: drag_state
  selectedElementId :: "string option"
  popover :: "popover option"
  tools :: toolbar
  scale_text :: "string option"
  stretch_text :: "(string \<times> string) option"
  nodes :: "widget_node list"
  alerts :: "editor_alert list"
  store :: storage

text \<open>
  The core elements of the page markup (the \<open>data-element-id\<close> of the four
  \<open>.banner-element\<close> nodes of the canvas; the markup is not among the sources).
\<close>

definition CORE_ELEMENT_IDS :: "string list" where
  "CORE_ELEMENT_IDS = [''avatar'', ''username'', ''subtitle'', ''stats'']"

text \<open>\<open>this.canvas.contains(target)\<close> for the \<open>.banner-element\<close> named \<open>eid\<close>.\<close>

definition on_canvas :: "editor \<Rightarrow> string \<Rightarrow> bool" where
  "on_canvas s eid \<longleftrightarrow> eid \<in> set CORE_ELEMENT_IDS \<or> eid \<in> set (map node_id (nodes s))"

section \<open>Layout, rendering and edit mode\<close>

text \<open>\<open>loadLayout\<close>, lines 161--166: the stored layout if its version is truthy.\<close>

definition loadLayout :: "user \<Rightarrow> banner_layout" where
  "loadLayout u = (case bannerLayout u of
      Some l \<Rightarrow> if version l \<noteq> 0 then l else DEFAULT_BANNER_LAYOUT
    | None \<Rightarrow> DEFAULT_BANNER_LAYOUT)"

text \<open>\<open>renderAllWidgets\<close>, lines 503--507: appends one node per widget.\<close>

definition renderAllWidgets :: "profile_widget list \<Rightarrow> widget_node list \<Rightarrow> widget_node list" where
  "renderAllWidgets ws ns = ns @ map renderWidgetOnCanvas ws"

text \<open>\<open>init\<close>, lines 46--58, on a page where the banner and the canvas exist.\<close>

definition init_editor :: "user \<Rightarrow> storage \<Rightarrow> editor" where
  "init_editor u st =
     (let ws = opt_list (profileWidgets u) in
      \<lparr>ed_user = u, isEditMode = False, layout = loadLayout u, widgets = ws,
       layoutSnapshot = None, widgetsSnapshot = [], dragState = idle_drag,
       selectedElementId = None, popover = None, tools = tools_off,
       scale_text = None, stretch_text = None, nodes = renderAllWidgets ws [], alerts = [], store = st\<rparr>)"

definition deselectAll :: "editor \<Rightarrow> editor" where
  "deselectAll s = s\<lparr>selectedElementId := None, tools := tools_off\<rparr>"

definition hideAllPopovers :: "editor \<Rightarrow> editor" where
  "hideAllPopovers s = s\<lparr>popover := None\<rparr>"

definition showPopover :: "popover \<Rightarrow> editor \<Rightarrow> editor" where
  "showPopover p s = (hideAllPopovers s)\<lparr>popover := Some p\<rparr>"

text \<open>\<open>enterEditMode\<close>, lines 133--138: deep copies of layout and widgets as snapshot.\<close>

definition enterEditMode :: "editor \<Rightarrow> editor" where
  "enterEditMode s =
     s\<lparr>isEditMode := True, layoutSnapshot := Some (layout s), widgetsSnapshot := widgets s\<rparr>"

text \<open>\<open>saveLayout\<close>, lines 753--768: layout and widgets onto the user, then the same
  write as \<open>updateCurrentUser\<close> (current-user blob, and the user's database entry).\<close>

definition saveLayout :: "editor \<Rightarrow> editor" where
  "saveLayout s =
     (let u = (ed_user s)\<lparr>bannerLayout := Some (layout s), profileWidgets := Some (widgets s)\<rparr>
      in s\<lparr>ed_user := u, store := updateCurrentUser u (store s)\<rparr>)"

text \<open>\<open>exitEditMode\<close>, lines 140--157.\<close>

definition exitEditMode :: "bool \<Rightarrow> editor \<Rightarrow> editor option" where
  "exitEditMode save s =
     (let s1 = deselectAll (hideAllPopovers (s\<lparr>isEditMode := False, selectedElementId := None\<rparr>))
      in if save then Some (saveLayout s1)
         else case layoutSnapshot s1 of
                None \<Rightarrow> None
              | Some l \<Rightarrow> Some (s1\<lparr>layout := l, widgets := widgetsSnapshot s1,
                                   nodes := renderAllWidgets (widgetsSnapshot s1) []\<rparr>))"

definition toggleEditMode :: "editor \<Rightarrow> editor option" where
  "toggleEditMode s = (if isEditMode s then exitEditMode False s else Some (enterEditMode s))"

text \<open>\<open>resetLayout\<close>, lines 741--749; the argument is the answer to the confirmation.\<close>

definition resetLayout :: "bool \<Rightarrow> editor \<Rightarrow> editor" where
  "resetLayout confirmed s =
     (if \<not> confirmed then s
      else deselectAll (s\<lparr>layout := DEFAULT_BANNER_LAYOUT, widgets := [], nodes := []\<rparr>))"

section \<open>Selection and drag\<close>

text \<open>The controls \<open>selectElement\<close> shows for an element id (lines 329--357).\<close>

definition inspector_for :: "profile_widget list \<Rightarrow> string \<Rightarrow> toolbar" where
  "inspector_for ws eid =
     (if is_widget_ref eid then
        \<lparr>delete_enabled = True,
         resize_shown = (case find_widget ws (widget_of eid) of Some w \<Rightarrow> resizable w | None \<Rightarrow> False),
         textstyle_shown = False\<rparr>
      else \<lparr>delete_enabled = False, resize_shown = False, textstyle_shown = is_text_element eid\<rparr>)"

text \<open>\<open>updateScaleDisplay\<close> and \<open>updateStretchDisplay\<close>, lines 579--589: the
  percentages of the inspector's read-outs. \<open>None\<close> is the text of the page's markup,
  which no handler has replaced yet.\<close>

definition percent_text :: "rat \<Rightarrow> string" where
  "percent_text x = int_str (round (x * 100)) @ ''%''"

definition updateScaleDisplay :: "rat \<Rightarrow> editor \<Rightarrow> editor" where
  "updateScaleDisplay sc s = s\<lparr>scale_text := Some (percent_text sc)\<rparr>"

definition updateStretchDisplay :: "rat \<Rightarrow> rat \<Rightarrow> editor \<Rightarrow> editor" where
  "updateStretchDisplay sx sy s = s\<lparr>stretch_text := Some (percent_text sx, percent_text sy)\<rparr>"

text \<open>The two calls of \<open>selectElement\<close> for a sticker or GIF (lines 343--344).\<close>

definition show_factors :: "profile_widget \<Rightarrow> editor \<Rightarrow> editor" where
  "show_factors w s =
     updateStretchDisplay (js_or (w_stretchX w) 1) (js_or (w_stretchY w) 1)
       (updateScaleDisplay (js_or (w_scale w) 1) s)"

definition selectElement :: "string \<Rightarrow> editor \<Rightarrow> editor" where
  "selectElement eid s =
     (let s1 = deselectAll s;
          s2 = s1\<lparr>selectedElementId := Some eid, tools := inspector_for (widgets s1) eid\<rparr>
      in if \<not> is_widget_ref eid then s2
         else case find_widget (widgets s1) (widget_of eid) of
           Some w \<Rightarrow> if resizable w then show_factors w s2 else s2
         | None \<Rightarrow> s2)"

text \<open>\<open>onPointerDown\<close>, lines 193--224: \<open>target\<close> is the \<open>data-element-id\<close> of the
  closest \<open>.banner-element\<close> under the pointer, \<open>None\<close> for empty canvas.\<close>

definition onPointerDown :: "string option \<Rightarrow> rat \<times> rat \<Rightarrow> editor \<Rightarrow> editor" where
  "onPointerDown target ptr s =
     (if \<not> isEditMode s then s
      else case target of
        None \<Rightarrow> hideAllPopovers (deselectAll s)
      | Some eid \<Rightarrow>
          if \<not> on_canvas s eid then s
          else (let s1 = selectElement eid s;
                    pos = getElementPosition (layout s1) (widgets s1) eid
                in s1\<lparr>dragState := \<lparr>active = True, drag_elementId = Some eid,
                        startPointer = ptr, startPosition = pos, drag_element = Some eid\<rparr>\<rparr>))"

text \<open>\<open>onPointerMove\<close>, lines 226--253: \<open>rect\<close> is the canvas's width and height.\<close>

definition onPointerMove :: "rat \<times> rat \<Rightarrow> rat \<times> rat \<Rightarrow> editor \<Rightarrow> editor" where
  "onPointerMove ptr rect s =
     (let d = dragState s in
      if \<not> active d then s
      else case (drag_element d, drag_elementId d) of
        (Some el, Some eid) \<Rightarrow>
          (let p = drag_position d ptr rect;
               lw = setElementPosition eid p (layout s, widgets s)
           in s\<lparr>nodes := update_first (\<lambda>n. node_id n = el) (node_pos_update (\<lambda>_. p)) (nodes s),
                layout := fst lw, widgets := snd lw\<rparr>)
      | _ \<Rightarrow> s)"

text \<open>\<open>onPointerUp\<close>, lines 255--274.\<close>

definition onPointerUp :: "editor \<Rightarrow> editor" where
  "onPointerUp s = (if \<not> active (dragState s) then s else s\<lparr>dragState := idle_drag\<rparr>)"

section \<open>Widget handlers\<close>

text \<open>\<open>addTextWidget\<close>, lines 377--400 (\<open>input\<close> is the text field's value).\<close>

definition addTextWidget :: "string \<Rightarrow> nat \<Rightarrow> editor \<Rightarrow> editor" where
  "addTextWidget input now s =
     (let text = js_trim input in
      if text = [] then s
      else if \<not> can_add_widget (widgets s) then s\<lparr>alerts := alerts s @ [WidgetLimit]\<rparr>
      else let w = new_widget Text text now in
           hideAllPopovers (s\<lparr>widgets := widgets s @ [w], nodes := nodes s @ [renderWidgetOnCanvas w]\<rparr>))"

text \<open>\<open>addGifWidget\<close>, lines 402--425.\<close>

definition addGifWidget :: "string \<Rightarrow> nat \<Rightarrow> editor \<Rightarrow> editor" where
  "addGifWidget input now s =
     (let url = js_trim input in
      if url = [] then s
      else if \<not> can_add_widget (widgets s) then s\<lparr>alerts := alerts s @ [WidgetLimit]\<rparr>
      else let w = new_widget Gif url now in
           hideAllPopovers (s\<lparr>widgets := widgets s @ [w], nodes := nodes s @ [renderWidgetOnCanvas w]\<rparr>))"

text \<open>\<open>addStickerWidget\<close>, lines 427--445.\<close>

definition addStickerWidget :: "string \<Rightarrow> nat \<Rightarrow> editor \<Rightarrow> editor" where
  "addStickerWidget key now s =
     (if \<not> can_add_widget (widgets s) then s\<lparr>alerts := alerts s @ [WidgetLimit]\<rparr>
      else let w = new_widget Sticker key now in
           hideAllPopovers (s\<lparr>widgets := widgets s @ [w], nodes := nodes s @ [renderWidgetOnCanvas w]\<rparr>))"

text \<open>\<open>canvas.querySelector('[data-element-id=...]').remove()\<close>: the first such node.\<close>

fun remove_node :: "string \<Rightarrow> widget_node list \<Rightarrow> widget_node list" where
  "remove_node eid [] = []"
| "remove_node eid (n # ns) = (if node_id n = eid then ns else n # remove_node eid ns)"

text \<open>\<open>deleteSelectedElement\<close>, lines 447--457: every widget with the id is filtered
  out, the first node with the element id is removed.\<close>

definition deleteSelectedElement :: "editor \<Rightarrow> editor" where
  "deleteSelectedElement s =
     (case selectedElementId s of
        None \<Rightarrow> s
      | Some sel \<Rightarrow>
          if \<not> is_widget_ref sel then s
          else deselectAll (s\<lparr>widgets := filter (\<lambda>w. w_id w \<noteq> widget_of sel) (widgets s),
                              nodes := remove_node sel (nodes s)\<rparr>))"

text \<open>The common part of the resize and stretch handlers: the selected widget, found
  by id, is replaced, its node gets the new transform, and \<open>disp\<close> shows the new
  factors.\<close>

definition retransform_selected ::
  "(profile_widget \<Rightarrow> profile_widget) \<Rightarrow> (profile_widget \<Rightarrow> editor \<Rightarrow> editor) \<Rightarrow>
   editor \<Rightarrow> editor" where
  "retransform_selected f disp s =
     (case selectedElementId s of
        None \<Rightarrow> s
      | Some sel \<Rightarrow>
          if \<not> is_widget_ref sel then s
          else case find_widget (widgets s) (widget_of sel) of
            None \<Rightarrow> s
          | Some w \<Rightarrow>
              if \<not> resizable w then s
              else disp (f w)
                     (s\<lparr>widgets := update_first (\<lambda>v. w_id v = widget_of sel) (\<lambda>_. f w) (widgets s),
                        nodes := update_first (\<lambda>n. node_id n = sel)
                                   (node_transform_update (\<lambda>_. applyWidgetTransform (f w))) (nodes s)\<rparr>))"

text \<open>\<open>changeWidgetScale\<close>, lines 529--550.\<close>

definition changeWidgetScale :: "rat \<Rightarrow> editor \<Rightarrow> editor" where
  "changeWidgetScale delta s =
     retransform_selected (\<lambda>w. w\<lparr>w_scale := Some (stepped_factor (w_scale w) delta)\<rparr>)
       (\<lambda>w. updateScaleDisplay (the (w_scale w))) s"

text \<open>\<open>changeWidgetStretch\<close>, lines 552--577.\<close>

definition changeWidgetStretch :: "axis \<Rightarrow> rat \<Rightarrow> editor \<Rightarrow> editor" where
  "changeWidgetStretch ax delta s =
     retransform_selected (\<lambda>w. case ax of
         AxisX \<Rightarrow> w\<lparr>w_stretchX := Some (stepped_factor (w_stretchX w) delta)\<rparr>
       | AxisY \<Rightarrow> w\<lparr>w_stretchY := Some (stepped_factor (w_stretchY w) delta)\<rparr>)
       (\<lambda>w. updateStretchDisplay (js_or (w_stretchX w) 1) (js_or (w_stretchY w) 1)) s"

section \<open>Text style handlers\<close>

text \<open>\<open>changeTextStyle\<close>, lines 593--610.\<close>

definition changeTextStyle :: "style_update \<Rightarrow> editor \<Rightarrow> editor" where
  "changeTextStyle u s =
     (case selectedElementId s of
        None \<Rightarrow> s
      | Some sel \<Rightarrow>
          if \<not> is_text_element sel then s
          else if find_core (layout s) sel = None then s
          else s\<lparr>layout := restyle_element sel u (layout s)\<rparr>)"

text \<open>\<open>changeTextFontSize\<close>, lines 612--633.\<close>

definition changeTextFontSize :: "rat \<Rightarrow> editor \<Rightarrow> editor" where
  "changeTextFontSize delta s =
     (case selectedElementId s of
        None \<Rightarrow> s
      | Some sel \<Rightarrow>
          if \<not> is_text_element sel then s
          else if find_core (layout s) sel = None then s
          else s\<lparr>layout := resize_font_element sel delta (layout s)\<rparr>)"

section \<open>Events\<close>

text \<open>
  The events \<open>init\<close> listens to (lines 60--113), with the arguments the page supplies:
  the text or URL typed, the clock reading of \<open>Date.now()\<close>, the sticker key of the
  button (the grid of \<open>populateStickerGrid\<close>, lines 706--722, has a button for each
  key of \<open>STICKERS\<close> only), the answer to the reset confirmation, the pointer's client
  coordinates and the canvas size.
\<close>

datatype editor_event =
    EditToggle
  | ToolbarAddText | ToolbarAddSticker | ToolbarAddGif
  | ToolbarDelete | ToolbarSave | ToolbarCancel | ToolbarReset bool
  | TextAdd string nat | GifAdd string nat | StickerPick string nat
  | ScaleUp | ScaleDown | StretchXUp | StretchXDown | StretchYUp | StretchYDown
  | TextColorInput string | FontFamilyChange string | FontUp | FontDown
  | CanvasPointerDown "string option" "rat \<times> rat"
  | PointerMove "rat \<times> rat" "rat \<times> rat"
  | PointerUp

fun editor_step :: "editor \<Rightarrow> editor_event \<Rightarrow> editor option" where
  "editor_step s EditToggle = toggleEditMode s"
| "editor_step s ToolbarAddText = Some (showPopover BannerTextInput s)"
| "editor_step s ToolbarAddSticker = Some (showPopover BannerStickerPicker s)"
| "editor_step s ToolbarAddGif = Some (showPopover BannerGifInput s)"
| "editor_step s ToolbarDelete = Some (deleteSelectedElement s)"
| "editor_step s ToolbarSave = exitEditMode True s"
| "editor_step s ToolbarCancel = exitEditMode False s"
| "editor_step s (ToolbarReset c) = Some (resetLayout c s)"
| "editor_step s (TextAdd v now) = Some (addTextWidget v now s)"
| "editor_step s (GifAdd v now) = Some (addGifWidget v now s)"
| "editor_step s (StickerPick k now) =
     Some (if k \<in> set (map fst STICKERS) then addStickerWidget k now s else s)"
| "editor_step s ScaleUp = Some (changeWidgetScale (1/10) s)"
| "editor_step s ScaleDown = Some (changeWidgetScale (-1/10) s)"
| "editor_step s StretchXUp = Some (changeWidgetStretch AxisX (1/10) s)"
| "editor_step s StretchXDown = Some (changeWidgetStretch AxisX (-1/10) s)"
| "editor_step s StretchYUp = Some (changeWidgetStretch AxisY (1/10) s)"
| "editor_step s StretchYDown = Some (changeWidgetStretch AxisY (-1/10) s)"
| "editor_step s (TextColorInput c) = Some (changeTextStyle (SetColor c) s)"
| "editor_step s (FontFamilyChange v) = Some (changeTextStyle (font_family_update v) s)"
| "editor_step s FontUp = Some (changeTextFontSize 2 s)"
| "editor_step s FontDown = Some (changeTextFontSize (-2) s)"
| "editor_step s (CanvasPointerDown t ptr) = Some (onPointerDown t ptr s)"
| "editor_step s (PointerMove ptr rect) = Some (onPointerMove ptr rect s)"
| "editor_step s PointerUp = Some (onPointerUp s)"

fun editor_run :: "editor \<Rightarrow> editor_event list \<Rightarrow> editor option" where
  "editor_run s [] = Some s"
| "editor_run s (e # es) = (case editor_step s e of None \<Rightarrow> None | Some s' \<Rightarrow> editor_run s' es)"

section \<open>Predicates of the proofs\<close>

text \<open>The events that leave or enter an edit session.\<close>

definition is_exit_event :: "editor_event \<Rightarrow> bool" where
  "is_exit_event e \<longleftrightarrow> e = EditToggle \<or> e = ToolbarSave \<or> e = ToolbarCancel"

text \<open>Scale and stretch factors the inspector can produce (or unset).\<close>

definition factor_opt_ok :: "rat option \<Rightarrow> bool" where
  "factor_opt_ok v = (case v of None \<Rightarrow> True | Some f \<Rightarrow> factor_ok f)"

definition widget_factors_ok :: "profile_widget \<Rightarrow> bool" where
  "widget_factors_ok w \<longleftrightarrow>
     factor_opt_ok (w_scale w) \<and> factor_opt_ok (w_stretchX w) \<and> factor_opt_ok (w_stretchY w)"

definition factors_ok :: "editor \<Rightarrow> bool" where
  "factors_ok s \<longleftrightarrow> (\<forall>w \<in> set (widgets s). widget_factors_ok w) \<and>
                    (\<forall>w \<in> set (widgetsSnapshot s). widget_factors_ok w)"

text \<open>The states the page can reach: from \<open>init\<close>, by any events.\<close>

inductive reachable_editor :: "editor \<Rightarrow> bool" where
  init: "reachable_editor (init_editor u st)"
| step: "reachable_editor s \<Longrightarrow> editor_step s e = Some s' \<Longrightarrow> reachable_editor s'"

text \<open>The add events, and those among them a handler ignores (blank input, a key with no
  sticker button).\<close>

fun add_ignored :: "editor_event \<Rightarrow> bool" where
  "add_ignored (TextAdd v n) = (js_trim v = [])"
| "add_ignored (GifAdd v n) = (js_trim v = [])"
| "add_ignored (StickerPick k n) = (k \<notin> set (map fst STICKERS))"
| "add_ignored e = True"

fun is_add_event :: "editor_event \<Rightarrow> bool" where
  "is_add_event (TextAdd v n) = True"
| "is_add_event (GifAdd v n) = True"
| "is_add_event (StickerPick k n) = True"
| "is_add_event e = False"

text \<open>The layout versions are truthy, in the layout and in its snapshot.\<close>

definition version_ok :: "editor \<Rightarrow> bool" where
  "version_ok s \<longleftrightarrow> version (layout s) \<noteq> 0 \<and> (\<forall>l. layoutSnapshot s = Some l \<longrightarrow> version l \<noteq> 0)"

text \<open>The stored layout of a user keeps its element ids apart (or there is none).\<close>

definition stored_layout_ok :: "user \<Rightarrow> bool" where
  "stored_layout_ok u = (case bannerLayout u of None \<Rightarrow> True | Some l \<Rightarrow> distinct (map el_id (elements l)))"

text \<open>The layouts of the page are well formed: the working layout, its snapshot, and the
  layout stored on the user.\<close>

definition layouts_wf :: "editor \<Rightarrow> bool" where
  "layouts_wf s \<longleftrightarrow> layout_wf (layout s) \<and> (case layoutSnapshot s of None \<Rightarrow> True | Some l \<Rightarrow> layout_wf l)
     \<and> stored_layout_ok (ed_user s)"

text \<open>
  A sample account as \<open>createUser\<close> stores it, and storage holding it, for the worked
  examples and the witnesses.
\<close>

definition demo_user :: user where
  "demo_user = \<lparr>u_id = ''user_1'', nickname = ''Player'', login = None, email = ''player@mesa.gg'',
     password = ''secret123'', level = 1, elo = 1000, wins = 0, losses = 0, gamesPlayed = 0,
     registeredAt = '''', emailVerified = False, avatar = None, bio = None, bannerImage = None,
     bannerVideo = None, profileWidgets = None, bannerLayout = None, friends = None,
     subscriptions = None, groups = None, notifications = None, achievements = None\<rparr>"

definition demo_store :: storage where
  "demo_store = \<lparr>db_blob = Some \<lparr>users = [demo_user], sessions = []\<rparr>,
     current_user_blob = Some demo_user, logged_in = Some ''true'', verification = None, pending = None,
     settings_blob = None\<rparr>"

definition demo_sticker :: profile_widget where
  "demo_sticker = new_widget Sticker ''fire'' 1"

text \<open>The texts the inspector's read-outs show for a widget, and the requirement that
  they show those of the selected widget whenever the resize controls are visible.\<close>

definition factor_texts :: "profile_widget \<Rightarrow> string option \<times> (string \<times> string) option" where
  "factor_texts w =
     (Some (percent_text (js_or (w_scale w) 1)),
      Some (percent_text (js_or (w_stretchX w) 1), percent_text (js_or (w_stretchY w) 1)))"

definition readouts_ok :: "editor \<Rightarrow> bool" where
  "readouts_ok s \<longleftrightarrow>
     (resize_shown (tools s) \<longrightarrow>
      (\<exists>sel w. selectedElementId s = Some sel \<and> find_widget (widgets s) (widget_of sel) = Some w \<and>
               resizable w \<and> (scale_text s, stretch_text s) = factor_texts w))"

text \<open>The demo user with one sticker: edit mode, a click on the sticker, one scale step.\<close>

definition demo_scaled :: editor where
  "demo_scaled = the (editor_run (init_editor (demo_user\<lparr>profileWidgets := Some [demo_sticker]\<rparr>) demo_store)
                      [EditToggle, CanvasPointerDown (Some ''widget-1'') (50, 50), PointerUp, ScaleUp])"

section \<open>Properties\<close>

lemmas handler_defs = deselectAll_def hideAllPopovers_def showPopover_def resetLayout_def
  percent_text_def updateScaleDisplay_def updateStretchDisplay_def show_factors_def
  selectElement_def onPointerDown_def onPointerMove_def onPointerUp_def addTextWidget_def
  addGifWidget_def addStickerWidget_def deleteSelectedElement_def retransform_selected_def
  changeWidgetScale_def changeWidgetStretch_def changeTextStyle_def changeTextFontSize_def

subsection \<open>Edit sessions\<close>

lemma step_keeps_session:
  assumes "\<not> is_exit_event e"
  shows "\<exists>s'. editor_step s e = Some s' \<and> layoutSnapshot s' = layoutSnapshot s \<and>
           widgetsSnapshot s' = widgetsSnapshot s \<and> isEditMode s' = isEditMode s"
  using assms
  by (cases e) (auto simp: is_exit_event_def handler_defs Let_def split: option.splits prod.splits)

lemma run_keeps_session:
  assumes "list_all (\<lambda>e. \<not> is_exit_event e) es" and "editor_run s es = Some s'"
  shows "layoutSnapshot s' = layoutSnapshot s \<and> widgetsSnapshot s' = widgetsSnapshot s \<and>
         isEditMode s' = isEditMode s"
  using assms
proof (induction es arbitrary: s)
  case Nil
  then show ?case by simp
next
  case (Cons e es)
  obtain s1 where s1: "editor_step s e = Some s1" "layoutSnapshot s1 = layoutSnapshot s"
    "widgetsSnapshot s1 = widgetsSnapshot s" "isEditMode s1 = isEditMode s"
    using step_keeps_session Cons.prems(1) by fastforce
  with Cons.prems have "editor_run s1 es = Some s'" by simp
  with Cons.IH Cons.prems(1) s1 show ?case by simp
qed

lemma exitEditMode_cancel:
  assumes "layoutSnapshot s = Some l"
  shows "exitEditMode False s =
    Some (s\<lparr>isEditMode := False, selectedElementId := None, popover := None, tools := tools_off,
            layout := l, widgets := widgetsSnapshot s,
            nodes := map renderWidgetOnCanvas (widgetsSnapshot s)\<rparr>)"
  using assms by (simp add: exitEditMode_def deselectAll_def hideAllPopovers_def renderAllWidgets_def)

text \<open>
  C1. Cancel restores the session's start: after entering edit mode and any events
  that neither leave nor re-enter it, cancel brings back the layout and the widget list
  of the moment edit mode was entered, re-renders the widget nodes from them, leaves
  edit mode, clears the selection and hides the popovers.
\<close>

theorem cancel_restores_snapshot:
  assumes "\<not> isEditMode s0"
    and "list_all (\<lambda>e. \<not> is_exit_event e) es"
    and "editor_run s0 (EditToggle # es) = Some s1"
  shows "\<exists>s2. editor_step s1 ToolbarCancel = Some s2 \<and>
           layout s2 = layout s0 \<and> widgets s2 = widgets s0 \<and>
           nodes s2 = map renderWidgetOnCanvas (widgets s0) \<and>
           \<not> isEditMode s2 \<and> selectedElementId s2 = None \<and> popover s2 = None"
proof -
  have "editor_run (enterEditMode s0) es = Some s1"
    using assms(1,3) by (simp add: toggleEditMode_def)
  then have "layoutSnapshot s1 = Some (layout s0)" and "widgetsSnapshot s1 = widgets s0"
    using run_keeps_session [OF assms(2)] by (simp_all add: enterEditMode_def)
  then show ?thesis by (simp add: exitEditMode_cancel)
qed

subsection \<open>Drag, widgets and selection\<close>

text \<open>
  C2. A pointer move during a drag puts the dragged element (a core element or a widget)
  at the drag target computed from the start pointer and start position captured at
  pointer-down (no drift), which lies inside the canvas (x in [0, 90], y in [0, 85]); the
  drag state is unchanged.
\<close>

theorem drag_move_position:
  assumes "active (dragState s)" and "drag_element (dragState s) = Some eid"
    and "drag_elementId (dragState s) = Some eid"
    and "find_core (layout s) eid \<noteq> None \<or>
         (is_widget_ref eid \<and> find_widget (widgets s) (widget_of eid) \<noteq> None)"
  shows "\<exists>s'. editor_step s (PointerMove ptr rect) = Some s' \<and> dragState s' = dragState s \<and>
           getElementPosition (layout s') (widgets s') eid = drag_position (dragState s) ptr rect \<and>
           in_canvas (getElementPosition (layout s') (widgets s') eid)"
proof -
  let ?p = "drag_position (dragState s) ptr rect"
  have "getElementPosition (fst (setElementPosition eid ?p (layout s, widgets s)))
          (snd (setElementPosition eid ?p (layout s, widgets s))) eid = ?p"
  proof (cases "find_core (layout s) eid = None")
    case True
    with assms(4) obtain w where "is_widget_ref eid" "find_widget (widgets s) (widget_of eid) = Some w"
      by auto
    with True show ?thesis by (rule get_set_position_widget)
  next
    case False
    then show ?thesis
      by (metis get_set_position_core prod.collapse)
  qed
  with assms(1-3) show ?thesis
    by (simp add: onPointerMove_def Let_def)
qed

text \<open>
  C4. With 6 or more widgets, each add handler leaves the state unchanged except for the
  limit alert, which it shows unless the input is blank (or no sticker button has the key).
\<close>

theorem add_widget_at_cap:
  assumes "6 \<le> length (widgets s)" and "is_add_event e"
  shows "editor_step s e =
           Some (if add_ignored e then s else s\<lparr>alerts := alerts s @ [WidgetLimit]\<rparr>)"
  using assms
  by (cases e) (simp_all add: addTextWidget_def addGifWidget_def addStickerWidget_def
                 can_add_widget_def Let_def)


text \<open>Deleting while a core element (an id not of the form \<open>widget-...\<close>) is selected
  changes nothing.\<close>

theorem delete_core_noop:
  assumes "selectedElementId s = Some eid" and "\<not> is_widget_ref eid"
  shows "editor_step s ToolbarDelete = Some s"
  using assms by (simp add: deleteSelectedElement_def)

subsection \<open>Scale and stretch factors\<close>

lemma widget_factors_ok_position [simp]:
  "widget_factors_ok (w\<lparr>w_canvasPosition := p\<rparr>) = widget_factors_ok w"
  by (simp add: widget_factors_ok_def)

lemma factor_opt_ok_stepped [simp]: "factor_opt_ok (Some (stepped_factor v d))"
  by (simp add: factor_opt_ok_def stepped_factor_ok)

lemma new_widget_factors_ok [simp]: "widget_factors_ok (new_widget t c n)"
  by (simp add: widget_factors_ok_def new_widget_def factor_opt_ok_def)

lemma factors_ok_update:
  assumes "\<forall>w \<in> set ws. widget_factors_ok w" and "widget_factors_ok x"
  shows "\<forall>w \<in> set (update_first p (\<lambda>_. x) ws). widget_factors_ok w"
  using assms set_update_first [of p "\<lambda>_. x" ws] by auto

lemma retransform_factors_ok:
  assumes fs: "factors_ok s" and f: "\<And>w. widget_factors_ok w \<Longrightarrow> widget_factors_ok (f w)"
    and disp: "\<And>w t. widgets (disp w t) = widgets t \<and> widgetsSnapshot (disp w t) = widgetsSnapshot t"
  shows "factors_ok (retransform_selected f disp s)"
proof (cases "\<exists>sel w. selectedElementId s = Some sel \<and> is_widget_ref sel \<and>
                 find_widget (widgets s) (widget_of sel) = Some w \<and> resizable w")
  case True
  then obtain sel w where h: "selectedElementId s = Some sel" "is_widget_ref sel"
      "find_widget (widgets s) (widget_of sel) = Some w" "resizable w"
    by blast
  have "widget_factors_ok (f w)"
    using h(3) fs f by (auto simp: factors_ok_def find_widget_def dest: find_Some_mem)
  then have "\<forall>v \<in> set (update_first (\<lambda>v. w_id v = widget_of sel) (\<lambda>_. f w) (widgets s)). widget_factors_ok v"
    using fs by (intro factors_ok_update) (simp_all add: factors_ok_def)
  with h fs disp show ?thesis by (simp add: retransform_selected_def factors_ok_def)
next
  case False
  then have "retransform_selected f disp s = s"
    by (auto simp: retransform_selected_def split: option.splits)
  with fs show ?thesis by simp
qed

lemma stepped_widget_factors_ok:
  assumes "widget_factors_ok w"
  shows "widget_factors_ok (w\<lparr>w_scale := Some (stepped_factor (w_scale w) d)\<rparr>)"
    and "widget_factors_ok (w\<lparr>w_stretchX := Some (stepped_factor (w_stretchX w) d)\<rparr>)"
    and "widget_factors_ok (w\<lparr>w_stretchY := Some (stepped_factor (w_stretchY w) d)\<rparr>)"
  using assms by (simp_all add: widget_factors_ok_def)

lemma onPointerMove_factors_ok:
  assumes "factors_ok s"
  shows "factors_ok (onPointerMove ptr rect s)"
proof -
  have "\<forall>w \<in> set (snd (setElementPosition eid p (layout s, widgets s))). widget_factors_ok w" for eid p
    using assms set_position_widgets [of eid p "(layout s, widgets s)"]
    by (auto simp: factors_ok_def)
  with assms show ?thesis
    by (auto simp: onPointerMove_def factors_ok_def Let_def split: option.splits)
qed

lemma scale_factors_ok: "factors_ok s \<Longrightarrow> factors_ok (changeWidgetScale d s)"
  unfolding changeWidgetScale_def
  by (rule retransform_factors_ok) (simp_all add: stepped_widget_factors_ok updateScaleDisplay_def)

lemma stretch_factors_ok: "factors_ok s \<Longrightarrow> factors_ok (changeWidgetStretch ax d s)"
  unfolding changeWidgetStretch_def
  by (rule retransform_factors_ok) (simp_all add: stepped_widget_factors_ok updateStretchDisplay_def split: axis.splits)

text \<open>
  C3. Every event keeps the scale and stretch factors of all widgets (and of the
  snapshot) unset or a multiple of 0.1 in [0.3, 3].
\<close>

theorem step_factors_ok:
  assumes "factors_ok s" and "editor_step s e = Some s'"
  shows "factors_ok s'"
proof (cases e)
  case ScaleUp with assms show ?thesis by (auto intro: scale_factors_ok)
next
  case ScaleDown with assms show ?thesis by (auto intro: scale_factors_ok)
next
  case StretchXUp with assms show ?thesis by (auto intro: stretch_factors_ok)
next
  case StretchXDown with assms show ?thesis by (auto intro: stretch_factors_ok)
next
  case StretchYUp with assms show ?thesis by (auto intro: stretch_factors_ok)
next
  case StretchYDown with assms show ?thesis by (auto intro: stretch_factors_ok)
next
  case (PointerMove ptr rect) with assms show ?thesis by (auto intro: onPointerMove_factors_ok)
qed (use assms in \<open>auto simp: factors_ok_def handler_defs toggleEditMode_def enterEditMode_def
      exitEditMode_def saveLayout_def Let_def split: if_splits option.splits\<close>)

subsection \<open>Inspector read-outs\<close>

lemma readouts_ok_off: "\<not> resize_shown (tools s) \<Longrightarrow> readouts_ok s"
  by (simp add: readouts_ok_def)

lemma readouts_ok_other_fields [simp]:
  "readouts_ok (s\<lparr>popover := p\<rparr>) = readouts_ok s"
  "readouts_ok (s\<lparr>dragState := d\<rparr>) = readouts_ok s"
  "readouts_ok (s\<lparr>layout := l\<rparr>) = readouts_ok s"
  "readouts_ok (s\<lparr>nodes := ns\<rparr>) = readouts_ok s"
  "readouts_ok (s\<lparr>alerts := as\<rparr>) = readouts_ok s"
  "readouts_ok (s\<lparr>isEditMode := b, layoutSnapshot := lo, widgetsSnapshot := ws\<rparr>) = readouts_ok s"
  by (simp_all add: readouts_ok_def)

lemma deselectAll_readouts_ok [simp]: "readouts_ok (deselectAll s)"
  by (simp add: readouts_ok_def deselectAll_def tools_off_def)

lemma factor_texts_position [simp]:
  "factor_texts (w\<lparr>w_canvasPosition := p\<rparr>) = factor_texts w"
  "resizable (w\<lparr>w_canvasPosition := p\<rparr>) = resizable w"
  by (simp_all add: factor_texts_def resizable_def)

text \<open>A handler that keeps the selection, the controls and the read-outs, and keeps the
  widget found for each id up to its position, keeps the read-outs right.\<close>

lemma readouts_ok_keep:
  assumes ok: "readouts_ok s"
    and eq: "tools t = tools s" "selectedElementId t = selectedElementId s"
      "scale_text t = scale_text s" "stretch_text t = stretch_text s"
    and found: "\<And>x w. find_widget (widgets s) x = Some w \<Longrightarrow>
      \<exists>w'. find_widget (widgets t) x = Some w' \<and> resizable w' = resizable w \<and> factor_texts w' = factor_texts w"
  shows "readouts_ok t"
proof (cases "resize_shown (tools t)")
  case True
  with ok eq obtain sel w where "selectedElementId s = Some sel" "find_widget (widgets s) (widget_of sel) = Some w"
      "resizable w" "(scale_text s, stretch_text s) = factor_texts w"
    by (auto simp: readouts_ok_def)
  with eq found [of "widget_of sel" w] show ?thesis by (auto simp: readouts_ok_def)
qed (rule readouts_ok_off)

lemma selectElement_readouts_ok: "readouts_ok (selectElement eid s)"
  by (auto simp: selectElement_def readouts_ok_def inspector_for_def show_factors_def deselectAll_def
      updateScaleDisplay_def updateStretchDisplay_def factor_texts_def Let_def split: option.splits)

lemma onPointerDown_readouts_ok: "readouts_ok s \<Longrightarrow> readouts_ok (onPointerDown t ptr s)"
  by (simp add: onPointerDown_def hideAllPopovers_def selectElement_readouts_ok Let_def split: option.splits)

lemma onPointerMove_readouts_ok:
  assumes "readouts_ok s"
  shows "readouts_ok (onPointerMove ptr rect s)"
proof -
  have "readouts_ok (s\<lparr>nodes := ns, layout := fst (setElementPosition eid p (layout s, widgets s)),
                        widgets := snd (setElementPosition eid p (layout s, widgets s))\<rparr>)" for ns eid p
    using find_widget_set_position [of "widgets s" _ _ eid p "layout s"]
    by (intro readouts_ok_keep [OF assms]) fastforce+
  with assms show ?thesis by (simp add: onPointerMove_def Let_def split: option.splits prod.splits)
qed

lemma add_widget_readouts_ok:
  "readouts_ok s \<Longrightarrow> readouts_ok (s\<lparr>widgets := widgets s @ [v], nodes := ns\<rparr>)"
  by (rule readouts_ok_keep) (auto simp: find_widget_def find_append_Some)

lemma add_handlers_readouts_ok:
  assumes "readouts_ok s"
  shows "readouts_ok (addTextWidget v n s)" "readouts_ok (addGifWidget v n s)"
    "readouts_ok (addStickerWidget k n s)"
  using add_widget_readouts_ok [OF assms]
  by (simp_all add: addTextWidget_def addGifWidget_def addStickerWidget_def hideAllPopovers_def assms Let_def)

lemma retransform_readouts_ok:
  assumes ok: "readouts_ok s"
    and f: "\<And>w. w_id (f w) = w_id w \<and> w_type (f w) = w_type w"
    and disp: "\<And>w t. tools (disp w t) = tools t \<and> selectedElementId (disp w t) = selectedElementId t \<and>
                      widgets (disp w t) = widgets t"
    and texts: "\<And>w t. (scale_text t, stretch_text t) = factor_texts w \<Longrightarrow>
                       (scale_text (disp (f w) t), stretch_text (disp (f w) t)) = factor_texts (f w)"
  shows "readouts_ok (retransform_selected f disp s)"
proof (cases "\<exists>sel w. selectedElementId s = Some sel \<and> is_widget_ref sel \<and>
                 find_widget (widgets s) (widget_of sel) = Some w \<and> resizable w")
  case True
  then obtain sel w where h: "selectedElementId s = Some sel" "is_widget_ref sel"
      "find_widget (widgets s) (widget_of sel) = Some w" "resizable w"
    by blast
  let ?t = "s\<lparr>widgets := update_first (\<lambda>v. w_id v = widget_of sel) (\<lambda>_. f w) (widgets s),
              nodes := update_first (\<lambda>n. node_id n = sel)
                         (node_transform_update (\<lambda>_. applyWidgetTransform (f w))) (nodes s)\<rparr>"
  have res: "retransform_selected f disp s = disp (f w) ?t"
    using h by (simp add: retransform_selected_def)
  show ?thesis
  proof (cases "resize_shown (tools s)")
    case True
    with ok h have tx: "(scale_text ?t, stretch_text ?t) = factor_texts w"
      by (auto simp: readouts_ok_def)
    have "find (\<lambda>v. w_id v = widget_of sel) (widgets s) = Some w" "w_id (f w) = widget_of sel"
      using h(3) f find_Some_pred [of "\<lambda>v. w_id v = widget_of sel"] by (auto simp: find_widget_def)
    then have "find_widget (widgets ?t) (widget_of sel) = Some (f w)"
      by (simp add: find_widget_def find_update_first)
    moreover have "resizable (f w)" using h(4) f by (simp add: resizable_def)
    ultimately show ?thesis
      using res h(1) disp texts [OF tx] by (simp add: readouts_ok_def)
  next
    case False
    then show ?thesis using res disp by (simp add: readouts_ok_off)
  qed
next
  case False
  then have "retransform_selected f disp s = s"
    by (auto simp: retransform_selected_def split: option.splits)
  with ok show ?thesis by simp
qed

lemma stepped_factor_nonzero [simp]: "stepped_factor cur delta \<noteq> 0"
  using stepped_factor_bounds [of cur delta] by auto

lemma scale_readouts_ok: "readouts_ok s \<Longrightarrow> readouts_ok (changeWidgetScale d s)"
  unfolding changeWidgetScale_def
  by (rule retransform_readouts_ok) (auto simp: updateScaleDisplay_def factor_texts_def)

lemma stretch_readouts_ok: "readouts_ok s \<Longrightarrow> readouts_ok (changeWidgetStretch ax d s)"
  unfolding changeWidgetStretch_def
  by (rule retransform_readouts_ok)
     (auto simp: updateStretchDisplay_def factor_texts_def split: axis.splits)

lemma enter_readouts_ok: "readouts_ok s \<Longrightarrow> readouts_ok (enterEditMode s)"
  by (simp add: enterEditMode_def readouts_ok_def)

lemma exit_readouts_ok: "exitEditMode b s = Some t \<Longrightarrow> readouts_ok t"
  by (auto simp: exitEditMode_def saveLayout_def hideAllPopovers_def deselectAll_def tools_off_def
      readouts_ok_def Let_def split: if_splits option.splits)

lemma step_readouts_ok:
  assumes "readouts_ok s" and "editor_step s e = Some t"
  shows "readouts_ok t"
proof (cases e)
  case EditToggle with assms show ?thesis
    by (auto simp: toggleEditMode_def intro: exit_readouts_ok enter_readouts_ok split: if_splits)
next
  case ToolbarSave with assms show ?thesis by (auto intro: exit_readouts_ok)
next
  case ToolbarCancel with assms show ?thesis by (auto intro: exit_readouts_ok)
next
  case (CanvasPointerDown x ptr) with assms show ?thesis by (auto intro: onPointerDown_readouts_ok)
next
  case (PointerMove ptr rect) with assms show ?thesis by (auto intro: onPointerMove_readouts_ok)
next
  case (TextAdd v n) with assms show ?thesis by (auto intro: add_handlers_readouts_ok)
next
  case (GifAdd v n) with assms show ?thesis by (auto intro: add_handlers_readouts_ok)
next
  case (StickerPick k n) with assms show ?thesis by (auto intro: add_handlers_readouts_ok)
next
  case ScaleUp with assms show ?thesis by (auto intro: scale_readouts_ok)
next
  case ScaleDown with assms show ?thesis by (auto intro: scale_readouts_ok)
next
  case StretchXUp with assms show ?thesis by (auto intro: stretch_readouts_ok)
next
  case StretchXDown with assms show ?thesis by (auto intro: stretch_readouts_ok)
next
  case StretchYUp with assms show ?thesis by (auto intro: stretch_readouts_ok)
next
  case StretchYDown with assms show ?thesis by (auto intro: stretch_readouts_ok)
qed (use assms in \<open>auto simp: showPopover_def hideAllPopovers_def deleteSelectedElement_def
      resetLayout_def changeTextStyle_def changeTextFontSize_def onPointerUp_def
      split: option.splits if_splits\<close>)

lemma reachable_readouts_ok: "reachable_editor s \<Longrightarrow> readouts_ok s"
proof (induction rule: reachable_editor.induct)
  case (init u st) then show ?case by (simp add: init_editor_def tools_off_def readouts_ok_def Let_def)
next
  case (step s e s') then show ?case by (blast intro: step_readouts_ok)
qed

text \<open>
  C8. Whenever the resize controls are visible, the selection is a sticker or GIF widget
  and the inspector's read-outs show its scale and stretch factors as percentages
  (\<open>Math.round(f * 100)\<close> followed by \<open>%\<close>, an unset factor read as 1): selecting it,
  each resize and stretch step, and every other event keep the read-outs in step with
  the selected widget.
\<close>

theorem inspector_shows_factors:
  assumes "reachable_editor s" and "resize_shown (tools s)"
  shows "\<exists>sel w. selectedElementId s = Some sel \<and> find_widget (widgets s) (widget_of sel) = Some w \<and>
           resizable w \<and> scale_text s = Some (percent_text (js_or (w_scale w) 1)) \<and>
           stretch_text s = Some (percent_text (js_or (w_stretchX w) 1), percent_text (js_or (w_stretchY w) 1))"
  using reachable_readouts_ok [OF assms(1)] assms(2) by (auto simp: readouts_ok_def factor_texts_def)

subsection \<open>Persistence, findings and the worked example\<close>

lemmas editor_eval = handler_defs toggleEditMode_def enterEditMode_def exitEditMode_def
  saveLayout_def init_editor_def loadLayout_def renderAllWidgets_def on_canvas_def
  CORE_ELEMENT_IDS_def inspector_for_def getElementPosition_def setElementPosition_def find_core_def
  find_widget_def is_widget_ref_def widget_of_def is_text_element_def resize_font_element_def
  stepped_font_size_def style_of_def default_font_size_def js_clamp_def DEFAULT_BANNER_LAYOUT_def
  can_add_widget_def new_widget_def renderWidgetOnCanvas_def default_canvas_position_def
  createWidgetContent_def sticker_glyph_def STICKERS_def applyWidgetTransform_def idle_drag_def
  drag_position_def clampPosition_def demo_user_def demo_store_def updateCurrentUser_def
  find_user_def replace_user_def tools_off_def resizable_def int_str_def

lemma loadLayout_version: "version (loadLayout u) \<noteq> 0"
  by (simp add: loadLayout_def DEFAULT_BANNER_LAYOUT_def split: option.splits)

lemma step_version_ok:
  assumes "version_ok s" and "editor_step s e = Some s'"
  shows "version_ok s'"
  using assms
  by (cases e) (auto simp: version_ok_def handler_defs toggleEditMode_def enterEditMode_def
      exitEditMode_def saveLayout_def DEFAULT_BANNER_LAYOUT_def Let_def
      split: if_splits option.splits prod.splits)

lemma reachable_version_ok: "reachable_editor s \<Longrightarrow> version_ok s"
proof (induction rule: reachable_editor.induct)
  case (init u st)
  show ?case by (simp add: version_ok_def init_editor_def Let_def loadLayout_version)
next
  case (step s e s')
  from step.IH step.hyps(2) show ?case by (rule step_version_ok)
qed

lemma reachable_run:
  assumes "reachable_editor s" and "editor_run s es = Some s'"
  shows "reachable_editor s'"
  using assms
proof (induction es arbitrary: s)
  case (Cons e es)
  then obtain s1 where "editor_step s e = Some s1" and "editor_run s1 es = Some s'"
    by (auto split: option.splits)
  with Cons show ?case by (blast intro: reachable_editor.step)
qed simp

lemma save_step:
  "exitEditMode True s =
     Some (saveLayout (deselectAll (hideAllPopovers (s\<lparr>isEditMode := False, selectedElementId := None\<rparr>))))"
  by (simp add: exitEditMode_def)

lemma save_result:
  assumes "editor_step s ToolbarSave = Some s'"
  shows "ed_user s' = (ed_user s)\<lparr>bannerLayout := Some (layout s), profileWidgets := Some (widgets s)\<rparr> \<and>
         store s' = updateCurrentUser ((ed_user s)\<lparr>bannerLayout := Some (layout s), profileWidgets := Some (widgets s)\<rparr>) (store s)"
  using assms by (auto simp: save_step saveLayout_def deselectAll_def hideAllPopovers_def Let_def)

lemma save_db_entry:
  assumes "editor_step s ToolbarSave = Some s'" and "db_blob (store s) = Some db"
    and "find_user (users db) (u_id (ed_user s)) \<noteq> None"
  shows "\<exists>db'. db_blob (store s') = Some db' \<and> find_user (users db') (u_id (ed_user s)) = Some (ed_user s') \<and>
           bannerLayout (ed_user s') = Some (layout s) \<and> profileWidgets (ed_user s') = Some (widgets s)"
proof -
  let ?u = "(ed_user s)\<lparr>bannerLayout := Some (layout s), profileWidgets := Some (widgets s)\<rparr>"
  have s': "ed_user s' = ?u" "store s' = updateCurrentUser ?u (store s)"
    using save_result [OF assms(1)] by simp_all
  have "find_user (users db) (u_id ?u) \<noteq> None" using assms(3) by simp
  from updateCurrentUser_db_sync [OF assms(2) this] s' show ?thesis by auto
qed

subsection \<open>Well-formed layouts\<close>

lemma saveLayout_stored_ok:
  "layout_wf (layout s) \<Longrightarrow> stored_layout_ok (ed_user (saveLayout s))"
  by (simp add: saveLayout_def stored_layout_ok_def layout_wf_def Let_def)

lemma step_stored_ok:
  assumes "layout_wf (layout s)" and "stored_layout_ok (ed_user s)" and "editor_step s e = Some s'"
  shows "stored_layout_ok (ed_user s')"
  using assms
  by (cases e) (auto simp: handler_defs toggleEditMode_def enterEditMode_def exitEditMode_def
      saveLayout_stored_ok Let_def split: if_splits option.splits prod.splits)

lemma step_layout_wf:
  assumes "layout_wf (layout s)" and "case layoutSnapshot s of None \<Rightarrow> True | Some l \<Rightarrow> layout_wf l"
    and "editor_step s e = Some s'"
  shows "layout_wf (layout s') \<and> (case layoutSnapshot s' of None \<Rightarrow> True | Some l \<Rightarrow> layout_wf l)"
  using assms
  by (cases e) (auto simp: layout_wf_def handler_defs toggleEditMode_def enterEditMode_def
      exitEditMode_def saveLayout_def layout_wf_default[unfolded layout_wf_def] Let_def
      split: if_splits option.splits prod.splits)

lemma step_layouts_wf:
  assumes "layouts_wf s" and "editor_step s e = Some s'"
  shows "layouts_wf s'"
  using assms step_layout_wf [of s e s'] step_stored_ok [of s e s'] by (simp add: layouts_wf_def)

lemma init_layouts_wf: "stored_layout_ok u \<Longrightarrow> layouts_wf (init_editor u st)"
  using layout_wf_default
  by (auto simp: layouts_wf_def layout_wf_def stored_layout_ok_def init_editor_def loadLayout_def Let_def
      split: option.splits)

lemma run_layouts_wf:
  assumes "layouts_wf s" and "editor_run s es = Some s'"
  shows "layouts_wf s'"
  using assms
proof (induction es arbitrary: s)
  case (Cons e es)
  then obtain s1 where "editor_step s e = Some s1" and "editor_run s1 es = Some s'"
    by (auto split: option.splits)
  with Cons show ?case by (blast intro: step_layouts_wf)
qed simp

text \<open>
  C31. The layouts of the editor stay well formed: when the stored layout of the user has
  distinct element ids, every run of events from \<open>init\<close> ends with a working layout whose
  element ids are distinct and whose version is truthy, and with a stored layout whose
  element ids are distinct.
\<close>

theorem editor_layout_wf:
  assumes "stored_layout_ok u" and "editor_run (init_editor u st) es = Some s'"
  shows "layout_wf (layout s') \<and> stored_layout_ok (ed_user s')"
  using run_layouts_wf [OF init_layouts_wf [OF assms(1)] assms(2)] by (simp add: layouts_wf_def)

text \<open>
  C5. Save then load is the identity on the editor model: in every reachable state, after
  Save the current-user blob holds a user from which \<open>init\<close> rebuilds the same
  layout, the same widget list and the same widget nodes.
\<close>

theorem save_load_roundtrip:
  assumes "reachable_editor s" and "editor_step s ToolbarSave = Some s'"
  shows "\<exists>u. current_user_blob (store s') = Some u \<and>
           layout (init_editor u st) = layout s \<and> widgets (init_editor u st) = widgets s \<and>
           nodes (init_editor u st) = map renderWidgetOnCanvas (widgets s)"
proof -
  have "version (layout s) \<noteq> 0"
    using reachable_version_ok [OF assms(1)] by (simp add: version_ok_def)
  with assms(2) show ?thesis
    by (auto simp: save_step saveLayout_def deselectAll_def hideAllPopovers_def Let_def
        init_editor_def loadLayout_def renderAllWidgets_def)
qed

text \<open>
  C6. Save writes the same user record to the current-user blob and to the user's
  database entry (when the database holds the user), that record is the editor's copy of
  the user with the working layout and widgets, and no other database entry changes.
\<close>

theorem save_syncs_database:
  assumes "editor_step s ToolbarSave = Some s'"
    and "db_blob (store s) = Some db" and "find_user (users db) (u_id (ed_user s)) \<noteq> None"
  shows "ed_user s' = (ed_user s)\<lparr>bannerLayout := Some (layout s), profileWidgets := Some (widgets s)\<rparr> \<and>
         current_user_blob (store s') = Some (ed_user s') \<and>
         (\<exists>db'. db_blob (store s') = Some db' \<and> find_user (users db') (u_id (ed_user s)) = Some (ed_user s') \<and>
            (\<forall>uid. uid \<noteq> u_id (ed_user s) \<longrightarrow> find_user (users db') uid = find_user (users db) uid))"
proof -
  let ?u = "(ed_user s)\<lparr>bannerLayout := Some (layout s), profileWidgets := Some (widgets s)\<rparr>"
  have s': "ed_user s' = ?u" "store s' = updateCurrentUser ?u (store s)"
    using save_result [OF assms(1)] by simp_all
  have "find_user (users db) (u_id ?u) \<noteq> None" using assms(3) by simp
  from updateCurrentUser_db_sync [OF assms(2) this] s' show ?thesis by simp
qed





subsection \<open>Witnesses\<close>

theorem cancel_restores_snapshot_witness:
  "\<exists>s2. editor_step (the (editor_run (init_editor demo_user demo_store)
           [EditToggle, CanvasPointerDown (Some ''username'') (10, 10), PointerUp, FontUp, FontUp]))
         ToolbarCancel = Some s2 \<and>
       layout s2 = layout (init_editor demo_user demo_store) \<and>
       widgets s2 = widgets (init_editor demo_user demo_store) \<and>
       nodes s2 = map renderWidgetOnCanvas (widgets (init_editor demo_user demo_store)) \<and>
       \<not> isEditMode s2 \<and> selectedElementId s2 = None \<and> popover s2 = None"
proof -
  let ?s0 = "init_editor demo_user demo_store"
  let ?es = "[CanvasPointerDown (Some ''username'') (10, 10), PointerUp, FontUp, FontUp]"
  have h1: "\<not> isEditMode ?s0" by (simp add: init_editor_def Let_def)
  have h2: "list_all (\<lambda>e. \<not> is_exit_event e) ?es" by (simp add: is_exit_event_def)
  have h3: "editor_run ?s0 (EditToggle # ?es) = Some (the (editor_run ?s0 (EditToggle # ?es)))"
    by (simp add: editor_eval Let_def)
  show ?thesis by (rule cancel_restores_snapshot [OF h1 h2 h3])
qed

theorem drag_move_position_witness:
  "\<exists>s'. editor_step (onPointerDown (Some ''avatar'') (100, 100) (enterEditMode (init_editor demo_user demo_store)))
           (PointerMove (1000, 100) (500, 400)) = Some s' \<and>
        getElementPosition (layout s') (widgets s') ''avatar'' = \<lparr>pos_x = 90, pos_y = 35\<rparr> \<and>
        in_canvas (getElementPosition (layout s') (widgets s') ''avatar'')"
proof -
  let ?s = "onPointerDown (Some ''avatar'') (100, 100) (enterEditMode (init_editor demo_user demo_store))"
  have h1: "active (dragState ?s)" and h2: "drag_element (dragState ?s) = Some ''avatar''"
    and h3: "drag_elementId (dragState ?s) = Some ''avatar''"
    and h4: "find_core (layout ?s) ''avatar'' \<noteq> None \<or>
             (is_widget_ref ''avatar'' \<and> find_widget (widgets ?s) (widget_of ''avatar'') \<noteq> None)"
    by (simp_all add: editor_eval Let_def)
  have d: "drag_position (dragState ?s) (1000, 100) (500, 400) = \<lparr>pos_x = 90, pos_y = 35\<rparr>"
    by (simp add: editor_eval Let_def)
  obtain s' where s': "editor_step ?s (PointerMove (1000, 100) (500, 400)) = Some s'"
    "getElementPosition (layout s') (widgets s') ''avatar'' = drag_position (dragState ?s) (1000, 100) (500, 400)"
    "in_canvas (getElementPosition (layout s') (widgets s') ''avatar'')"
    using drag_move_position [OF h1 h2 h3 h4, of "(1000, 100)" "(500, 400)"] by blast
  from s'(2) d have "getElementPosition (layout s') (widgets s') ''avatar'' = \<lparr>pos_x = 90, pos_y = 35\<rparr>"
    by (rule trans)
  with s'(1,3) show ?thesis by blast
qed

theorem add_widget_at_cap_witness:
  "editor_step (init_editor (demo_user\<lparr>profileWidgets := Some (replicate 6 demo_sticker)\<rparr>) demo_store)
      (StickerPick ''star'' 7) =
   Some ((init_editor (demo_user\<lparr>profileWidgets := Some (replicate 6 demo_sticker)\<rparr>) demo_store)
           \<lparr>alerts := [WidgetLimit]\<rparr>)"
proof -
  let ?s = "init_editor (demo_user\<lparr>profileWidgets := Some (replicate 6 demo_sticker)\<rparr>) demo_store"
  have h1: "6 \<le> length (widgets ?s)" by (simp add: init_editor_def Let_def)
  have h2: "is_add_event (StickerPick ''star'' 7)" by simp
  have h3: "\<not> add_ignored (StickerPick ''star'' 7)" by (simp add: STICKERS_def)
  have h4: "alerts ?s = []" by (simp add: init_editor_def Let_def)
  show ?thesis using add_widget_at_cap [OF h1 h2] h3 h4 by simp
qed


theorem delete_core_noop_witness:
  "editor_step ((init_editor demo_user demo_store)\<lparr>selectedElementId := Some ''avatar''\<rparr>) ToolbarDelete =
   Some ((init_editor demo_user demo_store)\<lparr>selectedElementId := Some ''avatar''\<rparr>)"
proof -
  have h2: "\<not> is_widget_ref ''avatar''" by (simp add: is_widget_ref_def)
  show ?thesis by (rule delete_core_noop [OF _ h2]) simp
qed

theorem step_factors_ok_witness:
  "factors_ok (init_editor (demo_user\<lparr>profileWidgets := Some [demo_sticker]\<rparr>) demo_store) \<and>
   factors_ok (changeWidgetScale (1/10)
     ((init_editor (demo_user\<lparr>profileWidgets := Some [demo_sticker]\<rparr>) demo_store)
        \<lparr>selectedElementId := Some ''widget-1''\<rparr>))"
proof -
  let ?s = "init_editor (demo_user\<lparr>profileWidgets := Some [demo_sticker]\<rparr>) demo_store"
  have h1: "factors_ok ?s"
    by (simp add: factors_ok_def init_editor_def Let_def demo_sticker_def)
  then have h1': "factors_ok (?s\<lparr>selectedElementId := Some ''widget-1''\<rparr>)"
    by (simp add: factors_ok_def)
  have "editor_step (?s\<lparr>selectedElementId := Some ''widget-1''\<rparr>) ScaleUp =
        Some (changeWidgetScale (1/10) (?s\<lparr>selectedElementId := Some ''widget-1''\<rparr>))" by simp
  from step_factors_ok [OF h1' this] h1 show ?thesis by simp
qed

theorem save_load_roundtrip_witness:
  "\<exists>u. current_user_blob (store (the (editor_step (enterEditMode (init_editor demo_user demo_store)) ToolbarSave))) = Some u \<and>
     layout (init_editor u demo_store) = DEFAULT_BANNER_LAYOUT"
proof -
  let ?s = "enterEditMode (init_editor demo_user demo_store)"
  have h1: "reachable_editor ?s"
  proof (rule reachable_editor.step)
    show "reachable_editor (init_editor demo_user demo_store)" by (rule reachable_editor.init)
    show "editor_step (init_editor demo_user demo_store) EditToggle = Some ?s"
      by (simp add: toggleEditMode_def init_editor_def Let_def)
  qed
  have h2: "editor_step ?s ToolbarSave = Some (the (editor_step ?s ToolbarSave))"
    by (simp add: exitEditMode_def Let_def)
  have l: "layout ?s = DEFAULT_BANNER_LAYOUT"
    by (simp add: enterEditMode_def init_editor_def Let_def loadLayout_def demo_user_def)
  from save_load_roundtrip [OF h1 h2, of demo_store] l show ?thesis by auto
qed

theorem save_syncs_database_witness:
  "\<exists>db'. db_blob (store (the (editor_step (enterEditMode (init_editor demo_user demo_store)) ToolbarSave))) = Some db' \<and>
     find_user (users db') ''user_1'' =
       Some (demo_user\<lparr>bannerLayout := Some DEFAULT_BANNER_LAYOUT, profileWidgets := Some []\<rparr>)"
proof -
  let ?s = "enterEditMode (init_editor demo_user demo_store)"
  have h1: "editor_step ?s ToolbarSave = Some (the (editor_step ?s ToolbarSave))"
    by (simp add: exitEditMode_def Let_def)
  have h2: "db_blob (store ?s) = Some \<lparr>users = [demo_user], sessions = []\<rparr>"
    by (simp add: enterEditMode_def init_editor_def Let_def demo_store_def)
  have h3: "find_user (users \<lparr>users = [demo_user], sessions = []\<rparr>) (u_id (ed_user ?s)) \<noteq> None"
    by (simp add: enterEditMode_def init_editor_def Let_def find_user_def)
  have e: "ed_user ?s = demo_user" "layout ?s = DEFAULT_BANNER_LAYOUT" "widgets ?s = []"
    "u_id demo_user = ''user_1''"
    by (simp_all add: enterEditMode_def init_editor_def Let_def loadLayout_def demo_user_def)
  from save_syncs_database [OF h1 h2 h3] e show ?thesis by auto
qed

theorem editor_layout_wf_witness:
  "stored_layout_ok demo_user \<and>
   editor_run (init_editor demo_user demo_store) [EditToggle, ToolbarReset True, ToolbarSave] \<noteq> None \<and>
   layout_wf (layout (the (editor_run (init_editor demo_user demo_store) [EditToggle, ToolbarReset True, ToolbarSave])))"
proof -
  have ok: "stored_layout_ok demo_user" by (simp add: stored_layout_ok_def demo_user_def)
  obtain s' where r: "editor_run (init_editor demo_user demo_store) [EditToggle, ToolbarReset True, ToolbarSave] = Some s'"
    by (simp add: editor_eval)
  show ?thesis using editor_layout_wf [OF ok r] ok r by simp
qed


theorem inspector_shows_factors_witness:
  "scale_text demo_scaled = Some ''110%'' \<and>
   (\<exists>sel w. selectedElementId demo_scaled = Some sel \<and>
      find_widget (widgets demo_scaled) (widget_of sel) = Some w \<and>
      scale_text demo_scaled = Some (percent_text (js_or (w_scale w) 1)))"
proof -
  have run: "editor_run (init_editor (demo_user\<lparr>profileWidgets := Some [demo_sticker]\<rparr>) demo_store)
               [EditToggle, CanvasPointerDown (Some ''widget-1'') (50, 50), PointerUp, ScaleUp] = Some demo_scaled"
    unfolding demo_scaled_def
    by (simp add: editor_eval demo_sticker_def Let_def stepped_factor_def round_def nat_str_eval)
  have r: "reachable_editor demo_scaled"
    by (rule reachable_run [OF reachable_editor.init run])
  have sh: "resize_shown (tools demo_scaled)"
    unfolding demo_scaled_def
    by (simp add: editor_eval demo_sticker_def Let_def stepped_factor_def round_def nat_str_eval)
  have "scale_text demo_scaled = Some ''110%''"
    unfolding demo_scaled_def
    by (simp add: editor_eval demo_sticker_def Let_def stepped_factor_def round_def nat_str_eval)
  with inspector_shows_factors [OF r sh] show ?thesis by blast
qed

end
