(* ===== verification/Auth.thy ===== *)
theory Auth
  imports Store
begin

text \<open>
  Authentication (\<^verbatim>\<open>src/src/auth.service.ts\<close>) and the code-verification page
  (\<^verbatim>\<open>src/src/verify.ts\<close>): the database accessors, registration and login as form
  handlers over the browser storage, the verification code sent at login and checked on
  the verification page, the Steam demo login and the page guard \<open>checkAuth\<close>.
  What the browser supplies is an argument: the form fields, the clock
  (\<open>Date.now()\<close> and \<open>new Date().toISOString()\<close>), and each \<open>Math.random()\<close> draw (a
  rational in [0, 1), or the base-36 string cut from it). A handler returns the storage it
  leaves and the message it shows: \<open>None\<close> for the success message, \<open>Some e\<close> for the
  error \<open>e\<close>. Navigation (\<open>window.location.href\<close> after a timeout), the alerts and the
  message box are not modelled; \<open>checkAuth\<close> returns the page it redirects to.
\<close>

section \<open>Database access\<close>

definition empty_db :: database where
  "empty_db = \<lparr>users = [], sessions = []\<rparr>"

text \<open>\<open>initDatabase\<close>, lines 14--22.\<close>

definition initDatabase :: "storage \<Rightarrow> storage" where
  "initDatabase st = (if db_blob st = None then st\<lparr>db_blob := Some empty_db\<rparr> else st)"

text \<open>\<open>getDatabase\<close> and \<open>saveDatabase\<close>, lines 24--34.\<close>

definition getDatabase :: "storage \<Rightarrow> database" where
  "getDatabase st = (case db_blob st of None \<Rightarrow> empty_db | Some db \<Rightarrow> db)"

definition saveDatabase :: "database \<Rightarrow> storage \<Rightarrow> storage" where
  "saveDatabase db st = st\<lparr>db_blob := Some db\<rparr>"

text \<open>\<open>findUserByEmail\<close>, lines 36--39: the first user whose email equals the given one
  up to case.\<close>

definition findUserByEmail :: "storage \<Rightarrow> string \<Rightarrow> user option" where
  "findUserByEmail st e = find (\<lambda>u. js_lower (email u) = js_lower e) (users (getDatabase st))"

record create_user_data =
  cu_nickname :: string
  cu_email :: string
  cu_password :: string

text \<open>
  \<open>createUser\<close>, lines 41--60. The id is \<open>'user_' + Date.now() + '_' + rnd\<close> where
  \<open>rnd\<close> is the base-36 string drawn from \<open>Math.random()\<close>; \<open>created\<close> is the
  registration time. The email is stored in lower case.
\<close>

definition createUser ::
  "nat \<Rightarrow> string \<Rightarrow> string \<Rightarrow> create_user_data \<Rightarrow> storage \<Rightarrow> user \<times> storage" where
  "createUser now rnd created d st =
     (let db = getDatabase st;
          u = \<lparr>u_id = ''user_'' @ nat_str now @ ''_'' @ rnd, nickname = cu_nickname d, login = None,
               email = js_lower (cu_email d), password = cu_password d, level = 1, elo = 1000,
               wins = 0, losses = 0, gamesPlayed = 0, registeredAt = created, emailVerified = False,
               avatar = None, bio = None, bannerImage = None, bannerVideo = None,
               profileWidgets = None, bannerLayout = None, friends = None, subscriptions = None,
               groups = None, notifications = None, achievements = None\<rparr>
      in (u, saveDatabase (db\<lparr>users := users db @ [u]\<rparr>) st))"

section \<open>Validation\<close>

text \<open>
  \<open>validateEmail\<close>, lines 64--67: the regex \<open>/^[^\s@]+@[^\s@]+\.[^\s@]+$/\<close> as a
  matcher. The first part is the text up to the first \<open>@\<close>; the rest must hold no
  \<open>@\<close> or space and contain a dot that is neither its first nor its last character.
  Theorem \<open>validateEmail_regex\<close> shows that this is the language of the regex.
\<close>

definition email_part_char :: "char \<Rightarrow> bool" where
  "email_part_char c \<longleftrightarrow> \<not> is_js_space c \<and> c \<noteq> CHR ''@''"

definition validateEmail :: "string \<Rightarrow> bool" where
  "validateEmail s =
     (let a = takeWhile (\<lambda>c. c \<noteq> CHR ''@'') s; r = drop (Suc (length a)) s in
      a \<noteq> [] \<and> length a < length s \<and> list_all email_part_char a \<and> list_all email_part_char r \<and>
      CHR ''.'' \<in> set (butlast (tl r)))"

text \<open>The character class of \<open>englishOnlyRegex\<close> (line 71).\<close>

definition password_specials :: string where
  "password_specials = ''!@#$%^&*()_+-=[]{};'' @ [CHR 0x27, CHR 0x3A, CHR 0x22, CHR 0x5C] @ ''|,.<>/?''"

definition password_char :: "char \<Rightarrow> bool" where
  "password_char c \<longleftrightarrow> is_ascii_letter c \<or> is_ascii_digit c \<or> c \<in> set password_specials"

datatype password_error = PasswordCharset | PasswordTooShort | PasswordNeedsLetterAndDigit

text \<open>\<open>validatePassword\<close>, lines 69--99: the first check that fails, \<open>None\<close> for
  \<open>{ valid: true }\<close>.\<close>

definition validatePassword :: "string \<Rightarrow> password_error option" where
  "validatePassword p =
     (if \<not> list_all password_char p then Some PasswordCharset
      else if length p < 8 then Some PasswordTooShort
      else if \<not> (list_ex is_ascii_letter p \<and> list_ex is_ascii_digit p) then Some PasswordNeedsLetterAndDigit
      else None)"

section \<open>Verification codes\<close>

text \<open>\<open>generateVerificationCode\<close>, lines 103--105, for the draw \<open>r\<close> of
  \<open>Math.random()\<close>; \<open>verify.ts\<close> resends a code with the same formula (line 153).\<close>

definition generateVerificationCode :: "rat \<Rightarrow> string" where
  "generateVerificationCode r = nat_str (nat \<lfloor>100000 + r * 900000\<rfloor>)"

text \<open>\<open>sendVerificationCode\<close>, lines 107--123: the code is valid for five minutes.\<close>

definition sendVerificationCode :: "string \<Rightarrow> string \<Rightarrow> int \<Rightarrow> storage \<Rightarrow> storage" where
  "sendVerificationCode em code now st =
     st\<lparr>verification := Some \<lparr>v_email = em, v_code = code, expiresAt = now + 5 * 60 * 1000\<rparr>\<rparr>"

datatype verify_error =
  CodeIncomplete | CodeNotFound | SessionExpired | CodeExpired | EmailMismatch | WrongCode
  | NoDatabase | UnknownUser

text \<open>\<open>verifyCode\<close>, lines 125--148 (exported, but no page calls it).\<close>

definition verifyCode :: "string \<Rightarrow> string \<Rightarrow> int \<Rightarrow> storage \<Rightarrow> storage \<times> verify_error option" where
  "verifyCode em code now st =
     (case verification st of
        None \<Rightarrow> (st, Some CodeNotFound)
      | Some vd \<Rightarrow>
          if expiresAt vd < now then (st\<lparr>verification := None\<rparr>, Some CodeExpired)
          else if js_lower (v_email vd) \<noteq> js_lower em then (st, Some EmailMismatch)
          else if v_code vd \<noteq> code then (st, Some WrongCode)
          else (st, None))"

section \<open>Registration and login\<close>

datatype auth_error =
  NicknameTooShort | InvalidEmail | EmailTaken | WeakPassword password_error
  | PasswordMismatch | TermsNotAccepted | UserNotFound | WrongPassword

record register_form =
  rf_nickname :: string
  rf_email :: string
  rf_password :: string
  rf_confirm :: string
  rf_terms :: bool

text \<open>The submit listener of \<open>handleRegistration\<close>, lines 223--285.\<close>

definition handleRegistration ::
  "register_form \<Rightarrow> nat \<Rightarrow> string \<Rightarrow> string \<Rightarrow> storage \<Rightarrow> storage \<times> auth_error option" where
  "handleRegistration f now rnd created st =
     (let nick = js_trim (rf_nickname f); em = js_trim (rf_email f); pw = rf_password f in
      if length nick < 3 then (st, Some NicknameTooShort)
      else if \<not> validateEmail em then (st, Some InvalidEmail)
      else if findUserByEmail st em \<noteq> None then (st, Some EmailTaken)
      else case validatePassword pw of
        Some e \<Rightarrow> (st, Some (WeakPassword e))
      | None \<Rightarrow>
          if pw \<noteq> rf_confirm f then (st, Some PasswordMismatch)
          else if \<not> rf_terms f then (st, Some TermsNotAccepted)
          else (snd (createUser now rnd created \<lparr>cu_nickname = nick, cu_email = em, cu_password = pw\<rparr>
                       (initDatabase st)), None))"

text \<open>The submit listener of \<open>handleLogin\<close>, lines 295--335: \<open>r\<close> is the draw of
  \<open>generateVerificationCode\<close>. The pending login keeps the email as typed.\<close>

definition handleLogin ::
  "string \<Rightarrow> string \<Rightarrow> rat \<Rightarrow> int \<Rightarrow> storage \<Rightarrow> storage \<times> auth_error option" where
  "handleLogin email_in pw r now st =
     (let em = js_trim email_in; st1 = initDatabase st in
      case findUserByEmail st1 em of
        None \<Rightarrow> (st1, Some UserNotFound)
      | Some u \<Rightarrow>
          if password u \<noteq> pw then (st1, Some WrongPassword)
          else ((sendVerificationCode em (generateVerificationCode r) now st1)
                  \<lparr>pending := Some \<lparr>p_userId = u_id u, p_email = em\<rparr>\<rparr>, None))"

text \<open>
  \<open>loginWithSteam\<close>, lines 152--178: a random Steam email; the user with that email is
  logged in if it exists, otherwise one is created. \<open>r_mail\<close> and \<open>r_nick\<close> are the draws
  for the email and the nickname, \<open>pw_rand\<close> the base-36 string of the password.
\<close>

definition loginWithSteam ::
  "rat \<Rightarrow> rat \<Rightarrow> string \<Rightarrow> nat \<Rightarrow> string \<Rightarrow> string \<Rightarrow> storage \<Rightarrow> storage" where
  "loginWithSteam r_mail r_nick pw_rand now rnd created st =
     (let st1 = initDatabase st;
          em = ''steam'' @ nat_str (nat \<lfloor>r_mail * 10000\<rfloor>) @ ''@steamcommunity.com'';
          (u, st2) = (case findUserByEmail st1 em of
                        Some u \<Rightarrow> (u, st1)
                      | None \<Rightarrow> createUser now rnd created
                                 \<lparr>cu_nickname = ''SteamPlayer'' @ nat_str (nat \<lfloor>r_nick * 1000\<rfloor>),
                                  cu_email = em, cu_password = ''steam_'' @ pw_rand\<rparr> st1)
      in st2\<lparr>current_user_blob := Some u, logged_in := Some ''true''\<rparr>)"

text \<open>\<open>checkAuth\<close>, lines 180--191: the page it redirects to, if any, from the last
  segment of the path.\<close>

definition checkAuth :: "storage \<Rightarrow> string \<Rightarrow> string option" where
  "checkAuth st page =
     (let li = (logged_in st = Some ''true'') in
      if li \<and> (page = ''login.html'' \<or> page = ''register.html'') then Some ''dashboard.html''
      else if \<not> li \<and> page = ''dashboard.html'' then Some ''login.html''
      else None)"

text \<open>\<open>logout\<close> of the dashboard (\<^verbatim>\<open>src/src/dashboard.ts\<close>, lines 248--255), with the
  answer to the confirmation: the login flag and the current-user blob are removed and
  \<open>sessionStorage\<close> is cleared.\<close>

definition logout :: "bool \<Rightarrow> storage \<Rightarrow> storage" where
  "logout confirmed st =
     (if confirmed then st\<lparr>logged_in := None, current_user_blob := None, verification := None, pending := None\<rparr>
      else st)"

section \<open>The verification page\<close>

text \<open>The input filter of \<open>setupCodeInputs\<close> (line 64): only digits stay.\<close>

definition digits_only :: "string \<Rightarrow> string" where
  "digits_only v = filter is_ascii_digit v"

text \<open>
  The submit listener of \<open>setupVerifyForm\<close>, lines 75--143: \<open>ld\<close> is the pending login
  read when the page was loaded (\<open>init\<close> redirects to the login page when there is none),
  \<open>inputs\<close> the values of the six code inputs, joined.
\<close>

definition verify_submit ::
  "pending_login \<Rightarrow> string list \<Rightarrow> int \<Rightarrow> storage \<Rightarrow> storage \<times> verify_error option" where
  "verify_submit ld inputs now st =
     (let code = concat inputs in
      if length code \<noteq> 6 then (st, Some CodeIncomplete)
      else case verification st of
        None \<Rightarrow> (st, Some SessionExpired)
      | Some vd \<Rightarrow>
          if expiresAt vd < now then (st\<lparr>verification := None\<rparr>, Some CodeExpired)
          else if v_code vd \<noteq> code then (st, Some WrongCode)
          else case db_blob st of
            None \<Rightarrow> (st, Some NoDatabase)
          | Some db \<Rightarrow>
              (case find_user (users db) (p_userId ld) of
                 None \<Rightarrow> (st, Some UnknownUser)
               | Some u \<Rightarrow> (st\<lparr>current_user_blob := Some u, logged_in := Some ''true'',
                              verification := None, pending := None\<rparr>, None)))"

text \<open>The click listener of \<open>setupResendButton\<close>, lines 152--171.\<close>

definition verify_resend :: "pending_login \<Rightarrow> rat \<Rightarrow> int \<Rightarrow> storage \<Rightarrow> storage" where
  "verify_resend ld r now st = sendVerificationCode (p_email ld) (generateVerificationCode r) now st"

text \<open>Emails are unique up to case in the user list.\<close>

definition emails_unique :: "database \<Rightarrow> bool" where
  "emails_unique db \<longleftrightarrow> distinct (map (\<lambda>u. js_lower (email u)) (users db))"

text \<open>The language of the email regex, for the statement of \<open>validateEmail_regex\<close>.\<close>

definition email_regex :: "string \<Rightarrow> bool" where
  "email_regex s \<longleftrightarrow> (\<exists>a b c. s = a @ CHR ''@'' # b @ CHR ''.'' # c \<and> a \<noteq> [] \<and> b \<noteq> [] \<and> c \<noteq> [] \<and>
     list_all email_part_char a \<and> list_all email_part_char b \<and> list_all email_part_char c)"

text \<open>Fixtures for the worked examples: the storage of a fresh browser, and a
  registration form.\<close>

definition empty_storage :: storage where
  "empty_storage = \<lparr>db_blob = None, current_user_blob = None, logged_in = None, verification = None,
                     pending = None, settings_blob = None\<rparr>"

definition demo_form :: register_form where
  "demo_form = \<lparr>rf_nickname = '' ann '', rf_email = ''Ann@Mesa.gg'', rf_password = ''secret123'',
                 rf_confirm = ''secret123'', rf_terms = True\<rparr>"

text \<open>The storage after \<open>demo_form\<close> was registered, and after its user then logged in
  with the draw 1/2 (code \<open>550000\<close>) at time 0.\<close>

definition demo_accounts :: storage where
  "demo_accounts = fst (handleRegistration demo_form 7 ''k'' ''t'' empty_storage)"

definition demo_pending :: storage where
  "demo_pending = fst (handleLogin ''Ann@Mesa.gg'' ''secret123'' (1/2) 0 demo_accounts)"

section \<open>Properties\<close>

subsection \<open>Database access and validation\<close>

lemmas auth_eval = handleRegistration_def handleLogin_def Let_def js_trim_def is_js_space_def
  validateEmail_def email_part_char_def findUserByEmail_def getDatabase_def empty_db_def
  validatePassword_def password_char_def is_ascii_letter_def is_ascii_digit_def password_specials_def
  demo_form_def empty_storage_def js_lower_def js_lower_char_def upper_lower_def createUser_def
  saveDatabase_def initDatabase_def sendVerificationCode_def generateVerificationCode_def
  verify_submit_def find_user_def

lemma getDatabase_initDatabase [simp]: "getDatabase (initDatabase st) = getDatabase st"
  by (simp add: getDatabase_def initDatabase_def empty_db_def split: option.splits)

lemma findUserByEmail_initDatabase [simp]: "findUserByEmail (initDatabase st) e = findUserByEmail st e"
  by (simp add: findUserByEmail_def)

lemma getDatabase_session [simp]:
  "getDatabase (st\<lparr>current_user_blob := c\<rparr>) = getDatabase st"
  "getDatabase (st\<lparr>logged_in := l\<rparr>) = getDatabase st"
  "getDatabase (st\<lparr>verification := v\<rparr>) = getDatabase st"
  "getDatabase (st\<lparr>pending := p\<rparr>) = getDatabase st"
  by (simp_all add: getDatabase_def)

lemma db_blob_initDatabase: "db_blob (initDatabase st) = Some (getDatabase st)"
  by (simp add: getDatabase_def initDatabase_def split: option.splits)

lemma createUser_user:
  "fst (createUser now rnd created d st) =
     \<lparr>u_id = ''user_'' @ nat_str now @ ''_'' @ rnd, nickname = cu_nickname d, login = None,
      email = js_lower (cu_email d), password = cu_password d, level = 1, elo = 1000,
      wins = 0, losses = 0, gamesPlayed = 0, registeredAt = created, emailVerified = False,
      avatar = None, bio = None, bannerImage = None, bannerVideo = None,
      profileWidgets = None, bannerLayout = None, friends = None, subscriptions = None,
      groups = None, notifications = None, achievements = None\<rparr>"
  by (simp add: createUser_def Let_def)

lemma createUser_db:
  "db_blob (snd (createUser now rnd created d st)) =
     Some ((getDatabase st)\<lparr>users := users (getDatabase st) @ [fst (createUser now rnd created d st)]\<rparr>)"
  "getDatabase (snd (createUser now rnd created d st)) =
     (getDatabase st)\<lparr>users := users (getDatabase st) @ [fst (createUser now rnd created d st)]\<rparr>"
  by (simp_all add: createUser_def Let_def saveDatabase_def getDatabase_def)

lemma createUser_session [simp]:
  "verification (snd (createUser now rnd created d st)) = verification st"
  "pending (snd (createUser now rnd created d st)) = pending st"
  "current_user_blob (snd (createUser now rnd created d st)) = current_user_blob st"
  "logged_in (snd (createUser now rnd created d st)) = logged_in st"
  by (simp_all add: createUser_def Let_def saveDatabase_def)

lemma createUser_emails_unique:
  assumes "emails_unique (getDatabase st)" and "findUserByEmail st (cu_email d) = None"
  shows "emails_unique (getDatabase (snd (createUser now rnd created d st)))"
proof -
  have "\<forall>v \<in> set (users (getDatabase st)). js_lower (email v) \<noteq> js_lower (cu_email d)"
    using assms(2) by (simp add: findUserByEmail_def find_None_iff)
  with assms(1) show ?thesis
    by (auto simp: emails_unique_def createUser_db createUser_user)
qed

lemma registration_success:
  assumes "handleRegistration f now rnd created st = (st1, None)"
  defines "d \<equiv> \<lparr>cu_nickname = js_trim (rf_nickname f), cu_email = js_trim (rf_email f), cu_password = rf_password f\<rparr>"
  shows "st1 = snd (createUser now rnd created d (initDatabase st)) \<and>
         findUserByEmail st (js_trim (rf_email f)) = None \<and>
         validateEmail (js_trim (rf_email f)) \<and> validatePassword (rf_password f) = None"
  using assms by (auto simp: handleRegistration_def Let_def split: if_splits option.splits)

lemma login_success:
  assumes "findUserByEmail st (js_trim e) = Some u" and "password u = pw"
  shows "handleLogin e pw r t st =
     ((sendVerificationCode (js_trim e) (generateVerificationCode r) t (initDatabase st))
        \<lparr>pending := Some \<lparr>p_userId = u_id u, p_email = js_trim e\<rparr>\<rparr>, None)"
  using assms by (simp add: handleLogin_def Let_def)

lemma verify_submit_success:
  assumes "verification st = Some vd" and "length code = 6" and "v_code vd = code"
    and "now \<le> expiresAt vd" and "db_blob st = Some db" and "find_user (users db) (p_userId ld) = Some u"
  shows "verify_submit ld (map (\<lambda>c. [c]) code) now st =
           (st\<lparr>current_user_blob := Some u, logged_in := Some ''true'', verification := None, pending := None\<rparr>, None)"
proof -
  have "concat (map (\<lambda>c. [c]) code) = code" by (induction code) auto
  with assms show ?thesis by (simp add: verify_submit_def Let_def)
qed

lemma find_user_append_fresh:
  assumes "uid \<notin> u_id ` set us" and "u_id u = uid"
  shows "find_user (us @ [u]) uid = Some u"
proof -
  have "find (\<lambda>v. u_id v = uid) us = None"
    unfolding find_None_iff using assms(1) by blast
  with assms(2) show ?thesis by (simp add: find_user_def find_append_last)
qed

lemma generateVerificationCode_six_digits:
  assumes "0 \<le> r" and "r < 1"
  shows "length (generateVerificationCode r) = 6 \<and> set (generateVerificationCode r) \<subseteq> set ''0123456789''"
proof -
  define k where "k = \<lfloor>100000 + r * 900000\<rfloor>"
  have "100000 \<le> k" using assms(1) unfolding k_def by (simp add: le_floor_iff)
  moreover have "k < 1000000" using assms(2) unfolding k_def by (simp add: floor_less_iff)
  ultimately have "10 ^ 5 \<le> nat k" and "nat k < 10 ^ Suc 5"
    by (simp_all add: le_nat_iff nat_less_iff)
  then show ?thesis
    unfolding generateVerificationCode_def k_def [symmetric]
    using length_nat_str [of 5 "nat k"] nat_str_digits [of "nat k"] by simp
qed

lemma registration_error_no_write:
  assumes "handleRegistration f now rnd created st = (st', Some e)"
  shows "st' = st"
  using assms by (auto simp: handleRegistration_def Let_def split: if_splits option.splits)

lemma registration_keeps_emails_unique:
  assumes "emails_unique (getDatabase st)"
  shows "emails_unique (getDatabase (fst (handleRegistration f now rnd created st)))"
proof (cases "snd (handleRegistration f now rnd created st)")
  case None
  then obtain st1 where h: "handleRegistration f now rnd created st = (st1, None)"
    by (metis prod.collapse)
  from registration_success [OF h] assms show ?thesis
    by (simp add: h createUser_emails_unique)
next
  case (Some e)
  then obtain st1 where "handleRegistration f now rnd created st = (st1, Some e)"
    by (metis prod.collapse)
  moreover from this have "st1 = st" by (rule registration_error_no_write)
  ultimately show ?thesis using assms by simp
qed

lemma steam_keeps_emails_unique:
  assumes "emails_unique (getDatabase st)"
  shows "emails_unique (getDatabase (loginWithSteam r_mail r_nick pw_rand now rnd created st))"
proof -
  define em where "em = ''steam'' @ nat_str (nat \<lfloor>r_mail * 10000\<rfloor>) @ ''@steamcommunity.com''"
  define d where "d = \<lparr>cu_nickname = ''SteamPlayer'' @ nat_str (nat \<lfloor>r_nick * 1000\<rfloor>), cu_email = em,
                       cu_password = ''steam_'' @ pw_rand\<rparr>"
  have u: "emails_unique (getDatabase (initDatabase st))" using assms by simp
  have steam: "loginWithSteam r_mail r_nick pw_rand now rnd created st =
      (case case findUserByEmail (initDatabase st) em of Some u \<Rightarrow> (u, initDatabase st)
            | None \<Rightarrow> createUser now rnd created d (initDatabase st) of
         (u, st2) \<Rightarrow> st2\<lparr>current_user_blob := Some u, logged_in := Some ''true''\<rparr>)"
    unfolding loginWithSteam_def Let_def em_def d_def ..
  show ?thesis
  proof (cases "findUserByEmail (initDatabase st) em")
    case None
    then have "emails_unique (getDatabase (snd (createUser now rnd created d (initDatabase st))))"
      using u by (intro createUser_emails_unique) (simp_all add: d_def)
    with None show ?thesis by (simp add: steam split_def)
  next
    case (Some v)
    with u show ?thesis by (simp add: steam)
  qed
qed

lemma handleLogin_db: "db_blob (fst (handleLogin e pw r t st)) = db_blob (initDatabase st)"
  by (simp add: handleLogin_def Let_def sendVerificationCode_def split: option.splits)

lemma logout_db [simp]: "db_blob (logout c st) = db_blob st"
  by (simp add: logout_def)

lemma login_result:
  assumes "handleLogin e pw r t st = (st', None)"
  shows "\<exists>u. findUserByEmail st (js_trim e) = Some u \<and> password u = pw \<and>
           pending st' = Some \<lparr>p_userId = u_id u, p_email = js_trim e\<rparr> \<and>
           verification st' = Some \<lparr>v_email = js_trim e, v_code = generateVerificationCode r, expiresAt = t + 300000\<rparr>"
  using assms by (auto simp: handleLogin_def sendVerificationCode_def Let_def split: if_splits option.splits)

subsection \<open>Registration, login and verification\<close>

text \<open>
  C16. A registered user can log in: after a successful registration (whose generated id
  is not already taken), a login with the same email and password issues a verification
  code, and entering that code on the verification page within five minutes logs in the
  user just created.
\<close>

theorem register_login_verify:
  assumes reg: "handleRegistration f now rnd created st = (st1, None)"
    and fresh: "''user_'' @ nat_str now @ ''_'' @ rnd \<notin> u_id ` set (users (getDatabase st))"
    and r: "0 \<le> r" "r < 1" and t: "t' \<le> t + 300000"
  shows "\<exists>st2 ld st3 u. handleLogin (rf_email f) (rf_password f) r t st1 = (st2, None) \<and> pending st2 = Some ld \<and>
           verify_submit ld (map (\<lambda>c. [c]) (generateVerificationCode r)) t' st2 = (st3, None) \<and>
           current_user_blob st3 = Some u \<and> logged_in st3 = Some ''true'' \<and>
           u_id u = ''user_'' @ nat_str now @ ''_'' @ rnd \<and>
           email u = js_lower (js_trim (rf_email f)) \<and> password u = rf_password f"
proof -
  let ?d = "\<lparr>cu_nickname = js_trim (rf_nickname f), cu_email = js_trim (rf_email f), cu_password = rf_password f\<rparr>"
  let ?u = "fst (createUser now rnd created ?d (initDatabase st))"
  let ?us = "users (getDatabase st) @ [?u]"
  have s: "st1 = snd (createUser now rnd created ?d (initDatabase st))" and
    none: "findUserByEmail st (js_trim (rf_email f)) = None"
    using registration_success [OF reg] by simp_all
  have db1: "db_blob st1 = Some ((getDatabase st)\<lparr>users := ?us\<rparr>)" "getDatabase st1 = (getDatabase st)\<lparr>users := ?us\<rparr>"
    unfolding s createUser_db by simp_all
  have u: "u_id ?u = ''user_'' @ nat_str now @ ''_'' @ rnd" "email ?u = js_lower (js_trim (rf_email f))"
    "password ?u = rf_password f"
    by (simp_all add: createUser_user)
  have found: "findUserByEmail st1 (js_trim (rf_email f)) = Some ?u"
    using none u(2) db1(2) by (simp add: findUserByEmail_def find_append_last)
  define st2 where "st2 = (sendVerificationCode (js_trim (rf_email f)) (generateVerificationCode r) t (initDatabase st1))
        \<lparr>pending := Some \<lparr>p_userId = u_id ?u, p_email = js_trim (rf_email f)\<rparr>\<rparr>"
  have login: "handleLogin (rf_email f) (rf_password f) r t st1 = (st2, None)"
    unfolding st2_def by (rule login_success [OF found u(3)])
  have st2: "verification st2 = Some \<lparr>v_email = js_trim (rf_email f), v_code = generateVerificationCode r, expiresAt = t + 300000\<rparr>"
    "db_blob st2 = Some ((getDatabase st)\<lparr>users := ?us\<rparr>)"
    using db1 by (simp_all add: st2_def sendVerificationCode_def initDatabase_def)
  have "find_user ?us (u_id ?u) = Some ?u"
    using fresh u(1) by (intro find_user_append_fresh) simp_all
  then have "verify_submit \<lparr>p_userId = u_id ?u, p_email = js_trim (rf_email f)\<rparr> (map (\<lambda>c. [c]) (generateVerificationCode r)) t' st2 =
      (st2\<lparr>current_user_blob := Some ?u, logged_in := Some ''true'', verification := None, pending := None\<rparr>, None)"
    using t generateVerificationCode_six_digits [OF r]
    by (intro verify_submit_success [OF st2(1) _ _ _ st2(2)]) simp_all
  with login u show ?thesis by (auto simp: st2_def)
qed

text \<open>
  C17. The verification page logs a user in only with the stored code, before it expires,
  and only as the database entry of the pending login; it then clears the code and the
  pending login.
\<close>

theorem verify_success_requires:
  assumes "verify_submit ld inputs now st = (st', None)"
  shows "\<exists>vd db u. verification st = Some vd \<and> v_code vd = concat inputs \<and> now \<le> expiresAt vd \<and>
           db_blob st = Some db \<and> find_user (users db) (p_userId ld) = Some u \<and>
           current_user_blob st' = Some u \<and> logged_in st' = Some ''true'' \<and>
           verification st' = None \<and> pending st' = None"
  using assms by (auto simp: verify_submit_def Let_def split: if_splits option.splits)

text \<open>
  C18. A login is pending (and a code issued) only if a user with the email exists, up to
  case, and the password matches.
\<close>

theorem login_requires_password:
  assumes "handleLogin e pw r t st = (st', None)"
  shows "\<exists>u. findUserByEmail st (js_trim e) = Some u \<and> password u = pw \<and>
           pending st' = Some \<lparr>p_userId = u_id u, p_email = js_trim e\<rparr>"
  using login_result [OF assms] by blast

text \<open>
  C21. The code sent at login has six digits, survives the digit filter of the code inputs,
  and expires five minutes after it was sent.
\<close>

theorem login_code_well_formed:
  assumes "handleLogin e pw r t st = (st', None)" and "0 \<le> r" and "r < 1"
  shows "\<exists>vd. verification st' = Some vd \<and> length (v_code vd) = 6 \<and>
           digits_only (v_code vd) = v_code vd \<and> expiresAt vd = t + 300000"
proof -
  let ?c = "generateVerificationCode r"
  have v: "verification st' = Some \<lparr>v_email = js_trim e, v_code = ?c, expiresAt = t + 300000\<rparr>"
    using login_result [OF assms(1)] by blast
  have c: "length ?c = 6" and d: "set ?c \<subseteq> set ''0123456789''"
    using generateVerificationCode_six_digits [OF assms(2,3)] by blast+
  have "digits_only ?c = ?c"
    unfolding digits_only_def filter_id_conv is_ascii_digit_def using d by blast
  with v c show ?thesis by simp
qed

subsection \<open>Validation and the user list\<close>


text \<open>
  C20. Registration and the Steam login keep the emails of the user list unique up to
  case.
\<close>

theorem auth_keeps_emails_unique:
  assumes "emails_unique (getDatabase st)"
  shows "emails_unique (getDatabase (fst (handleRegistration f now rnd created st))) \<and>
         emails_unique (getDatabase (loginWithSteam r_mail r_nick pw_rand now rnd created st))"
  using registration_keeps_emails_unique [OF assms] steam_keeps_emails_unique [OF assms] by blast

subsection \<open>Witnesses\<close>

lemma demo_registration: "handleRegistration demo_form 7 ''k'' ''t'' empty_storage = (demo_accounts, None)"
  unfolding demo_accounts_def by (simp add: auth_eval)

lemma demo_login: "handleLogin ''Ann@Mesa.gg'' ''secret123'' (1/2) 0 demo_accounts = (demo_pending, None)"
  unfolding demo_pending_def demo_accounts_def by (simp add: auth_eval nat_str.simps)

theorem register_login_verify_witness:
  "\<exists>st2 ld st3 u. handleLogin ''Ann@Mesa.gg'' ''secret123'' (1/2) 0 demo_accounts = (st2, None) \<and>
     pending st2 = Some ld \<and>
     verify_submit ld (map (\<lambda>c. [c]) (generateVerificationCode (1/2))) 1000 st2 = (st3, None) \<and>
     current_user_blob st3 = Some u \<and> logged_in st3 = Some ''true'' \<and> email u = ''ann@mesa.gg''"
proof -
  have fresh: "''user_'' @ nat_str 7 @ ''_'' @ ''k'' \<notin> u_id ` set (users (getDatabase empty_storage))"
    by (simp add: getDatabase_def empty_storage_def empty_db_def)
  have e: "js_lower (js_trim ''Ann@Mesa.gg'') = ''ann@mesa.gg''" by (simp add: auth_eval)
  from register_login_verify [OF demo_registration fresh, of "1/2" 1000 0] e show ?thesis
    by (simp add: demo_form_def) blast
qed

theorem verify_success_requires_witness:
  "\<exists>u. current_user_blob (fst (verify_submit \<lparr>p_userId = ''user_7_k'', p_email = ''Ann@Mesa.gg''\<rparr>
           [''550'', ''000''] 1000 demo_pending)) = Some u \<and>
       logged_in (fst (verify_submit \<lparr>p_userId = ''user_7_k'', p_email = ''Ann@Mesa.gg''\<rparr>
           [''550'', ''000''] 1000 demo_pending)) = Some ''true''"
proof -
  let ?v = "verify_submit \<lparr>p_userId = ''user_7_k'', p_email = ''Ann@Mesa.gg''\<rparr> [''550'', ''000''] 1000 demo_pending"
  have h: "?v = (fst ?v, None)"
    unfolding demo_pending_def demo_accounts_def by (simp add: auth_eval nat_str.simps)
  from verify_success_requires [OF h] show ?thesis by blast
qed

theorem login_requires_password_witness:
  "\<exists>u. findUserByEmail demo_accounts ''Ann@Mesa.gg'' = Some u \<and> password u = ''secret123''"
proof -
  have "js_trim ''Ann@Mesa.gg'' = ''Ann@Mesa.gg''" by (simp add: js_trim_def is_js_space_def)
  with login_requires_password [OF demo_login] show ?thesis by auto
qed

theorem login_code_well_formed_witness:
  "\<exists>vd. verification demo_pending = Some vd \<and> length (v_code vd) = 6"
proof -
  have "0 \<le> (1/2::rat)" and "(1/2::rat) < 1" by simp_all
  from login_code_well_formed [OF demo_login this] show ?thesis by blast
qed

theorem auth_keeps_emails_unique_witness:
  "emails_unique (getDatabase (fst (handleRegistration demo_form 8 ''q'' ''t'' demo_accounts))) \<and>
   emails_unique (getDatabase (loginWithSteam (1/3) (1/3) ''x'' 8 ''q'' ''t'' demo_accounts))"
proof -
  have "emails_unique (getDatabase demo_accounts)"
    unfolding demo_accounts_def by (simp add: auth_eval emails_unique_def)
  from auth_keeps_emails_unique [OF this] show ?thesis by blast
qed

end
