(* ===== verification/Social.thy ===== *)
theory Social
  imports Store
begin

text \<open>
  The social actions over the shared user list: the friends page (\<^verbatim>\<open>src/src/friends.ts\<close>:
  search, the friend, subscriber and subscription lists, \<open>removeFriend\<close>,
  \<open>unsubscribe\<close>), the friend and subscribe buttons of the profile view
  (\<^verbatim>\<open>src/src/user-profile-view.ts\<close>, \<open>setupActionsBar\<close>) and the notification
  handlers of the dashboard (\<^verbatim>\<open>src/src/dashboard.ts\<close>, \<open>setupNotifications\<close>).
  Each page keeps its own copy of the current user, read from the current-user blob when
  it loaded; a handler takes that page copy and the storage and returns both updated.
  The clock (\<open>Date.now()\<close>, \<open>new Date().toISOString()\<close>) and the confirmation answers
  are arguments. What the handlers render (cards, badges, button labels) is not modelled,
  except the lists and counts they compute.
\<close>

section \<open>Reading the user list\<close>

text \<open>\<open>(u.subscriptions || []).includes(id)\<close> over the whole user list: the subscribers
  of \<open>uid\<close> (\<open>loadSubscribers\<close>, lines 247--249; the dashboard's count, line 326).\<close>

definition subscribers_of :: "database \<Rightarrow> string \<Rightarrow> user list" where
  "subscribers_of db uid = filter (\<lambda>u. uid \<in> set (opt_list (subscriptions u))) (users db)"

text \<open>\<open>ids.map(id => db.users.find(u => u.id === id)).filter(u => u !== undefined)\<close>
  (\<open>loadFriends\<close>, lines 215--217; \<open>loadSubscriptions\<close>, lines 286--288).\<close>

definition resolve_ids :: "database \<Rightarrow> string list \<Rightarrow> user list" where
  "resolve_ids db ids = List.map_filter (find_user (users db)) ids"

text \<open>The filter of the search box (\<open>setupSearch\<close>, lines 131--134), for a lower-cased
  query.\<close>

definition search_match :: "string \<Rightarrow> string \<Rightarrow> user \<Rightarrow> bool" where
  "search_match cur_id q u \<longleftrightarrow>
     u_id u \<noteq> cur_id \<and>
     ((nickname u \<noteq> [] \<and> is_infix q (js_lower (nickname u))) \<or>
      (case login u of Some l \<Rightarrow> l \<noteq> [] \<and> is_infix q (js_lower l) | None \<Rightarrow> False))"

text \<open>
  The input listener of \<open>setupSearch\<close> (lines 119--156): \<open>None\<close> when the result box is
  closed (a query under two characters), the shown users otherwise; without a database
  blob the listener returns and the box keeps what it showed (\<open>prev\<close>).
\<close>

definition search_users ::
  "user \<Rightarrow> string \<Rightarrow> storage \<Rightarrow> user list option \<Rightarrow> user list option" where
  "search_users cur input st prev =
     (let q = js_lower (js_trim input) in
      if length q < 2 then None
      else case db_blob st of
        None \<Rightarrow> prev
      | Some db \<Rightarrow> Some (take 8 (filter (search_match (u_id cur) q) (users db))))"

section \<open>The friends page\<close>

text \<open>The splice of the target's friend list, when the target has one
  (\<open>if (targetUser.friends)\<close>; \<open>indexOf\<close> then \<open>splice\<close> is \<^const>\<open>remove1\<close>).\<close>

definition drop_friend :: "string \<Rightarrow> user \<Rightarrow> user" where
  "drop_friend uid u = (case friends u of None \<Rightarrow> u | Some fs \<Rightarrow> u\<lparr>friends := Some (remove1 uid fs)\<rparr>)"

text \<open>
  \<open>removeFriend\<close> (lines 325--359), with the answer to the confirmation. The page copy
  \<open>cur\<close> loses the friend and is written to the current-user blob and over its database
  entry; then the target's entry loses \<open>cur\<close>. The database entry that replaced the
  current user is the page's own object, so when the target is the current user itself
  the second splice also reaches the page copy.
\<close>

definition removeFriend :: "bool \<Rightarrow> user \<Rightarrow> string \<Rightarrow> storage \<Rightarrow> user \<times> storage" where
  "removeFriend confirmed cur tid st =
     (let fs = opt_list (friends cur) in
      if \<not> confirmed \<or> tid \<notin> set fs then (cur, st)
      else let cur' = cur\<lparr>friends := Some (remove1 tid fs)\<rparr>;
               st1 = st\<lparr>current_user_blob := Some cur'\<rparr> in
        case db_blob st1 of
          None \<Rightarrow> (cur', st1)
        | Some db \<Rightarrow>
            (if tid = u_id cur \<and> find_user (users db) (u_id cur) \<noteq> None
             then drop_friend (u_id cur) cur' else cur',
             st1\<lparr>db_blob := Some (db\<lparr>users := update_first (\<lambda>u. u_id u = tid) (drop_friend (u_id cur))
                                          (replace_user cur' (users db))\<rparr>)\<rparr>))"

text \<open>\<open>unsubscribe\<close> (lines 361--385): the write is that of \<open>updateCurrentUser\<close> (the
  database blob is written back unchanged when the user is not in it).\<close>

definition unsubscribe :: "user \<Rightarrow> string \<Rightarrow> storage \<Rightarrow> user \<times> storage" where
  "unsubscribe cur tid st =
     (let subs = opt_list (subscriptions cur) in
      if tid \<notin> set subs then (cur, st)
      else let cur' = cur\<lparr>subscriptions := Some (remove1 tid subs)\<rparr> in (cur', updateCurrentUser cur' st))"

section \<open>The profile view\<close>

text \<open>The notification a handler sends (\<open>id: Date.now().toString() + suffix\<close>).\<close>

definition make_note :: "string \<Rightarrow> notification_type \<Rightarrow> user \<Rightarrow> nat \<Rightarrow> string \<Rightarrow> user_notification" where
  "make_note suffix ty from now created =
     \<lparr>n_id = nat_str now @ suffix, n_type = ty, fromUserId = u_id from, fromUserName = nickname from,
      fromUserAvatar = avatar from, n_read = False, createdAt = created\<rparr>"

text \<open>\<open>if (!u.notifications) u.notifications = []; u.notifications.unshift(n)\<close>.\<close>

definition push_note :: "user_notification \<Rightarrow> user \<Rightarrow> user" where
  "push_note n u = u\<lparr>notifications := Some (n # opt_list (notifications u))\<rparr>"

definition has_request_from :: "string \<Rightarrow> user \<Rightarrow> bool" where
  "has_request_from uid u \<longleftrightarrow>
     list_ex (\<lambda>n. n_type n = FriendRequest \<and> fromUserId n = uid) (opt_list (notifications u))"

text \<open>
  The click listener of the friend button (lines 1003--1057) on the profile of \<open>pid\<close>.
  It reads the database blob first. A friend is removed from the page copy, which
  \<open>updateCurrentUser\<close> writes; the target loses the current user in the database read
  before that write, which is then written back whole. Otherwise a friend request is
  added to the target's notifications unless one from the current user is pending.
\<close>

definition friendButtonClick :: "user \<Rightarrow> string \<Rightarrow> nat \<Rightarrow> string \<Rightarrow> storage \<Rightarrow> user \<times> storage" where
  "friendButtonClick cur pid now created st =
     (case db_blob st of
        None \<Rightarrow> (cur, st)
      | Some db \<Rightarrow>
          (case find_user (users db) pid of
             None \<Rightarrow> (cur, st)
           | Some tgt \<Rightarrow>
               let fs = opt_list (friends cur) in
               if pid \<in> set fs then
                 let cur' = cur\<lparr>friends := Some (remove1 pid fs)\<rparr>;
                     st1 = updateCurrentUser cur' st
                 in (cur', st1\<lparr>db_blob := Some (db\<lparr>users := replace_user (drop_friend (u_id cur') tgt) (users db)\<rparr>)\<rparr>)
               else if has_request_from (u_id cur) tgt then (cur, st)
               else (cur, st\<lparr>db_blob := Some (db\<lparr>users :=
                       replace_user (push_note (make_note ''_fr'' FriendRequest cur now created) tgt) (users db)\<rparr>)\<rparr>)))"

text \<open>The click listener of the subscribe button (lines 1063--1101).\<close>

definition subscribeButtonClick :: "user \<Rightarrow> string \<Rightarrow> nat \<Rightarrow> string \<Rightarrow> storage \<Rightarrow> user \<times> storage" where
  "subscribeButtonClick cur pid now created st =
     (let subs = opt_list (subscriptions cur) in
      if pid \<notin> set subs then
        let st1 = (case db_blob st of
                     None \<Rightarrow> st
                   | Some db \<Rightarrow>
                       (case find_user (users db) pid of
                          None \<Rightarrow> st
                        | Some tgt \<Rightarrow> st\<lparr>db_blob := Some (db\<lparr>users :=
                            replace_user (push_note (make_note ''_sub'' SubscriptionNote cur now created) tgt) (users db)\<rparr>)\<rparr>));
            cur' = cur\<lparr>subscriptions := Some (subs @ [pid])\<rparr>
        in (cur', updateCurrentUser cur' st1)
      else let cur' = cur\<lparr>subscriptions := Some (remove1 pid subs)\<rparr> in (cur', updateCurrentUser cur' st))"

section \<open>Dashboard notifications\<close>

text \<open>The unread badge of \<open>refreshNotifications\<close> (lines 346--349).\<close>

definition unread_count :: "user \<Rightarrow> nat" where
  "unread_count u = length (filter (\<lambda>n. \<not> n_read n) (opt_list (notifications u)))"

text \<open>\<open>if (!xs.includes(x)) xs.push(x)\<close> on an optional list.\<close>

definition add_once :: "string \<Rightarrow> string list option \<Rightarrow> string list option" where
  "add_once x xs = Some (let ys = opt_list xs in if x \<in> set ys then ys else ys @ [x])"

text \<open>
  \<open>handleNotificationAction\<close> (lines 408--455): the user is read from the current-user
  blob. Accepting a request from \<open>f\<close> adds \<open>f\<close> to the user's friends and, in the
  database, the user to the requester's friends with a \<open>friend_accepted\<close> notification;
  the notification is removed either way; the user is written to the blob and over its
  database entry.
\<close>

definition handleNotificationAction ::
  "string \<Rightarrow> string \<Rightarrow> string option \<Rightarrow> nat \<Rightarrow> string \<Rightarrow> storage \<Rightarrow> storage" where
  "handleNotificationAction nid action from now created st =
     (case (current_user_blob st, db_blob st) of
        (Some u, Some db) \<Rightarrow>
          let accept = (action = ''accept'' \<and> from \<noteq> None \<and> from \<noteq> Some []);
              f = the from;
              u1 = (if accept then u\<lparr>friends := add_once f (friends u)\<rparr> else u);
              us1 = (if accept then update_first (\<lambda>v. u_id v = f)
                        (\<lambda>r. push_note (make_note ''_acc'' FriendAccepted u now created)
                               (r\<lparr>friends := add_once (u_id u) (friends r)\<rparr>)) (users db)
                     else users db);
              u2 = u1\<lparr>notifications := Some (filter (\<lambda>n. n_id n \<noteq> nid) (opt_list (notifications u1)))\<rparr>
          in st\<lparr>current_user_blob := Some u2, db_blob := Some (db\<lparr>users := replace_user u2 us1\<rparr>)\<rparr>
      | _ \<Rightarrow> st)"

text \<open>\<open>markAllRead\<close> (lines 457--482).\<close>

definition markAllRead :: "storage \<Rightarrow> storage" where
  "markAllRead st =
     (case current_user_blob st of
        None \<Rightarrow> st
      | Some u \<Rightarrow>
          let ns = opt_list (notifications u) in
          if ns = [] \<or> \<not> list_ex (\<lambda>n. \<not> n_read n) ns then st
          else updateCurrentUser (u\<lparr>notifications := Some (map (\<lambda>n. n\<lparr>n_read := True\<rparr>) ns)\<rparr>) st)"

text \<open>The win rate of the dashboard's stats (\<open>generateMockStats\<close>, lines 300--301).\<close>

definition win_rate :: "user \<Rightarrow> int" where
  "win_rate u = (if wins u + losses u > 0 then round (of_int (wins u) / of_int (wins u + losses u) * 100 :: rat) else 0)"

section \<open>Fixtures\<close>

text \<open>A user list for the worked examples: \<open>ann\<close> and \<open>bob\<close> are friends, \<open>cara\<close>
  has a friend request from \<open>ann\<close>, and \<open>cara\<close> is logged in.\<close>

definition demo_person :: "string \<Rightarrow> string \<Rightarrow> user" where
  "demo_person i nick =
     \<lparr>u_id = i, nickname = nick, login = None, email = nick @ ''@mesa.gg'', password = ''secret123'',
      level = 1, elo = 1000, wins = 3, losses = 1, gamesPlayed = 4, registeredAt = ''t'',
      emailVerified = True, avatar = None, bio = None, bannerImage = None, bannerVideo = None,
      profileWidgets = None, bannerLayout = None, friends = None, subscriptions = None, groups = None,
      notifications = None, achievements = None\<rparr>"

definition ann :: user where
  "ann = (demo_person ''a'' ''ann'')\<lparr>friends := Some [''b'']\<rparr>"

definition bob :: user where
  "bob = (demo_person ''b'' ''bob'')\<lparr>friends := Some [''a'']\<rparr>"

definition cara :: user where
  "cara = (demo_person ''c'' ''cara'')\<lparr>notifications := Some [make_note ''_fr'' FriendRequest ann 1 ''t'']\<rparr>"

definition social_store :: storage where
  "social_store = \<lparr>db_blob = Some \<lparr>users = [ann, bob, cara], sessions = []\<rparr>, current_user_blob = Some cara,
                    logged_in = Some ''true'', verification = None, pending = None,
                    settings_blob = None\<rparr>"

section \<open>Properties\<close>

lemma drop_friend_id [simp]: "u_id (drop_friend uid u) = u_id u"
  by (simp add: drop_friend_def split: option.splits)

lemma push_note_simps [simp]:
  "u_id (push_note n u) = u_id u" "friends (push_note n u) = friends u"
  "subscriptions (push_note n u) = subscriptions u"
  by (simp_all add: push_note_def)

lemma drop_friend_gone:
  assumes "distinct (opt_list (friends u))"
  shows "uid \<notin> set (opt_list (friends (drop_friend uid u)))"
  using assms by (simp add: drop_friend_def opt_list_def split: option.splits)

subsection \<open>Friends\<close>

text \<open>
  C22. Accepting a friend request on the dashboard makes the two users friends on both
  sides: the requester is in the current user's friends (in the current-user blob and in
  its database entry, which agree), the current user is in the requester's friends, and
  the notification is gone.
\<close>

theorem accept_makes_friends:
  assumes "current_user_blob st = Some u" and "db_blob st = Some db"
    and "find_user (users db) (u_id u) \<noteq> None" and "find_user (users db) f = Some r"
    and "f \<noteq> u_id u" and "f \<noteq> []"
  shows "\<exists>u' db' r'. current_user_blob (handleNotificationAction nid ''accept'' (Some f) now created st) = Some u' \<and>
           db_blob (handleNotificationAction nid ''accept'' (Some f) now created st) = Some db' \<and>
           f \<in> set (opt_list (friends u')) \<and> nid \<notin> n_id ` set (opt_list (notifications u')) \<and>
           find_user (users db') (u_id u) = Some u' \<and>
           find_user (users db') f = Some r' \<and> u_id u \<in> set (opt_list (friends r'))"
proof -
  define g where "g = (\<lambda>r. push_note (make_note ''_acc'' FriendAccepted u now created)
                              (r\<lparr>friends := add_once (u_id u) (friends r)\<rparr>))"
  define u2 where "u2 = u\<lparr>friends := add_once f (friends u),
        notifications := Some (filter (\<lambda>n. n_id n \<noteq> nid) (opt_list (notifications u)))\<rparr>"
  let ?us1 = "update_first (\<lambda>v. u_id v = f) g (users db)"
  have gid: "\<And>y. u_id (g y) = u_id y" by (simp add: g_def)
  have st': "handleNotificationAction nid ''accept'' (Some f) now created st =
      st\<lparr>current_user_blob := Some u2, db_blob := Some (db\<lparr>users := replace_user u2 ?us1\<rparr>)\<rparr>"
    using assms(1,2,6) by (simp add: handleNotificationAction_def Let_def g_def u2_def)
  have "find_user ?us1 (u_id u2) \<noteq> None"
    using assms(3) gid by (simp add: u2_def find_user_None_iff)
  then have me: "find_user (replace_user u2 ?us1) (u_id u) = Some u2"
    using find_user_replace_user_same [of ?us1 u2] by (simp add: u2_def)
  have "find_user ?us1 f = Some (g r)"
    using assms(4) find_user_Some_id [OF assms(4)] by (intro find_user_update_same) (simp_all add: g_def)
  then have req: "find_user (replace_user u2 ?us1) f = Some (g r)"
    using assms(5) find_user_replace_user_other [of f u2 ?us1] by (simp add: u2_def)
  have "f \<in> set (opt_list (friends u2))" "u_id u \<in> set (opt_list (friends (g r)))"
    by (simp_all add: u2_def g_def add_once_def opt_list_def Let_def split: option.splits)
  moreover have "nid \<notin> n_id ` set (opt_list (notifications u2))"
    by (auto simp: u2_def opt_list_def)
  ultimately show ?thesis using me req by (simp add: st')
qed

text \<open>
  C23. Removing a friend on the friends page (confirmed) removes the friendship on both
  sides: the page copy, the current-user blob and the database entry agree and no longer
  list the friend, and the friend's entry no longer lists the current user.
\<close>

theorem friends_remove_symmetric:
  assumes "removeFriend True cur tid st = (cur', st')"
    and "tid \<in> set (opt_list (friends cur))" and "distinct (opt_list (friends cur))" and "tid \<noteq> u_id cur"
    and "db_blob st = Some db" and "find_user (users db) (u_id cur) \<noteq> None"
    and "find_user (users db) tid = Some t" and "distinct (opt_list (friends t))"
  shows "tid \<notin> set (opt_list (friends cur')) \<and> current_user_blob st' = Some cur' \<and>
         (\<exists>db' t'. db_blob st' = Some db' \<and> find_user (users db') (u_id cur) = Some cur' \<and>
            find_user (users db') tid = Some t' \<and> u_id cur \<notin> set (opt_list (friends t')))"
proof -
  let ?c = "cur\<lparr>friends := Some (remove1 tid (opt_list (friends cur)))\<rparr>"
  let ?us1 = "replace_user ?c (users db)"
  let ?us2 = "update_first (\<lambda>u. u_id u = tid) (drop_friend (u_id cur)) ?us1"
  have r: "cur' = ?c" "st' = st\<lparr>current_user_blob := Some ?c, db_blob := Some (db\<lparr>users := ?us2\<rparr>)\<rparr>"
    using assms(1,2,4,5) by (auto simp: removeFriend_def Let_def)
  have me1: "find_user ?us1 (u_id cur) = Some ?c"
    using assms(6) find_user_replace_user_same [of "users db" ?c] by simp
  have t1: "find_user ?us1 tid = Some t"
    using assms(4,7) find_user_replace_user_other [of tid ?c "users db"] by simp
  have "find_user ?us2 (u_id cur) = Some ?c"
    using me1 assms(4) by (simp add: find_user_update_other)
  moreover have "find_user ?us2 tid = Some (drop_friend (u_id cur) t)"
    using t1 find_user_Some_id [OF t1] by (intro find_user_update_same) simp_all
  moreover have "tid \<notin> set (opt_list (friends ?c))"
    using assms(3) by (simp add: opt_list_def)
  ultimately show ?thesis
    using r drop_friend_gone [OF assms(8)] by auto
qed

text \<open>
  C24. Removing a friend with the profile view's friend button leaves the current user's
  database entry as it was, still listing the friend: the database read before
  \<open>updateCurrentUser\<close> is written back over it. The current-user blob and the database
  then disagree.
\<close>

theorem profile_unfriend_stale:
  assumes "friendButtonClick cur pid now created st = (cur', st')"
    and "db_blob st = Some db" and "find_user (users db) (u_id cur) = Some cur"
    and "find_user (users db) pid = Some t" and "pid \<in> set (opt_list (friends cur))" and "pid \<noteq> u_id cur"
  shows "current_user_blob st' = Some cur' \<and> cur' \<noteq> cur \<and>
         (\<exists>db'. db_blob st' = Some db' \<and> find_user (users db') (u_id cur) = Some cur)"
proof -
  let ?c = "cur\<lparr>friends := Some (remove1 pid (opt_list (friends cur)))\<rparr>"
  let ?us = "replace_user (drop_friend (u_id cur) t) (users db)"
  have r: "cur' = ?c" "st' = (updateCurrentUser ?c st)\<lparr>db_blob := Some (db\<lparr>users := ?us\<rparr>)\<rparr>"
    using assms(1,2,4,5) by (auto simp: friendButtonClick_def Let_def)
  have "u_id (drop_friend (u_id cur) t) = pid" using find_user_Some_id [OF assms(4)] by simp
  then have "find_user ?us (u_id cur) = Some cur"
    using assms(3,6) find_user_replace_user_other [of "u_id cur" "drop_friend (u_id cur) t" "users db"] by simp
  moreover have "?c \<noteq> cur"
  proof
    assume c: "?c = cur"
    have "friends ?c \<noteq> friends cur"
      using assms(5) remove1_neq by (cases "friends cur") (simp_all add: opt_list_def)
    moreover have "friends ?c = friends cur" by (simp only: c)
    ultimately show False by contradiction
  qed
  ultimately show ?thesis using r by simp
qed

subsection \<open>Subscriptions\<close>

text \<open>
  C25. Subscribing from a profile (with a page copy equal to the database entry) adds
  exactly one subscriber to the count the friends page and the dashboard compute.
\<close>

theorem subscribe_adds_subscriber:
  assumes "pid \<notin> set (opt_list (subscriptions cur))" and "pid \<noteq> u_id cur"
    and "db_blob st = Some db" and "find_user (users db) (u_id cur) = Some cur"
  shows "\<exists>db'. db_blob (snd (subscribeButtonClick cur pid now created st)) = Some db' \<and>
           length (subscribers_of db' pid) = Suc (length (subscribers_of db pid))"
proof -
  define P :: "user \<Rightarrow> bool" where "P = (\<lambda>u. pid \<in> set (opt_list (subscriptions u)))"
  define n where "n = make_note ''_sub'' SubscriptionNote cur now created"
  define st1 where "st1 = (case find_user (users db) pid of
                             None \<Rightarrow> st
                           | Some tgt \<Rightarrow> st\<lparr>db_blob := Some (db\<lparr>users := replace_user (push_note n tgt) (users db)\<rparr>)\<rparr>)"
  define cur' where "cur' = cur\<lparr>subscriptions := Some (opt_list (subscriptions cur) @ [pid])\<rparr>"
  have click: "snd (subscribeButtonClick cur pid now created st) = updateCurrentUser cur' st1"
    unfolding st1_def cur'_def n_def using assms(1,3) by (simp add: subscribeButtonClick_def Let_def)
  obtain db1 where db1: "db_blob st1 = Some db1" "length (filter P (users db1)) = length (filter P (users db))"
    "find_user (users db1) (u_id cur) = Some cur"
  proof (cases "find_user (users db) pid")
    case None
    then show ?thesis using that assms(3,4) by (simp add: st1_def)
  next
    case (Some tgt)
    have "u_id (push_note n tgt) = pid" using find_user_Some_id [OF Some] by simp
    then have "find_user (replace_user (push_note n tgt) (users db)) (u_id cur) = Some cur"
      using assms(2,4) find_user_replace_user_other [of "u_id cur" "push_note n tgt" "users db"] by simp
    moreover have "length (filter P (replace_user (push_note n tgt) (users db))) + (if P tgt then 1 else 0) =
        length (filter P (users db)) + (if P (push_note n tgt) then 1 else 0)"
      unfolding replace_user_def using Some \<open>u_id (push_note n tgt) = pid\<close>
      by (intro length_filter_update_first) (simp add: find_user_def)
    then have "length (filter P (replace_user (push_note n tgt) (users db))) = length (filter P (users db))"
      by (simp add: P_def)
    ultimately show ?thesis using that Some by (simp add: st1_def)
  qed
  have "length (filter P (replace_user cur' (users db1))) + (if P cur then 1 else 0) =
        length (filter P (users db1)) + (if P cur' then 1 else 0)"
    unfolding replace_user_def using db1(3)
    by (intro length_filter_update_first) (simp add: find_user_def cur'_def)
  moreover have "\<not> P cur" "P cur'" using assms(1) by (simp_all add: P_def cur'_def opt_list_def)
  moreover have "db_blob (updateCurrentUser cur' st1) = Some (db1\<lparr>users := replace_user cur' (users db1)\<rparr>)"
    using db1(1,3) by (simp add: updateCurrentUser_def cur'_def)
  ultimately show ?thesis
    using db1(2) click by (simp add: subscribers_of_def P_def)
qed

text \<open>
  C26. Clicking the subscribe button twice restores the subscription list.
\<close>

theorem subscribe_toggle_roundtrip:
  assumes "pid \<notin> set (opt_list (subscriptions cur))"
  shows "opt_list (subscriptions (fst (subscribeButtonClick (fst (subscribeButtonClick cur pid now created st))
            pid now' created' st'))) = opt_list (subscriptions cur)"
  using assms
  by (cases "subscriptions cur") (simp_all add: subscribeButtonClick_def Let_def opt_list_def remove1_append)

subsection \<open>Notifications, search and statistics\<close>

text \<open>
  Opening the notifications marks them all read: the unread badge is 0 afterwards and
  no notification is lost.
\<close>

theorem markAllRead_clears:
  assumes "current_user_blob st = Some u"
  shows "\<exists>u'. current_user_blob (markAllRead st) = Some u' \<and> unread_count u' = 0 \<and>
           map n_id (opt_list (notifications u')) = map n_id (opt_list (notifications u))"
proof (cases "opt_list (notifications u) = [] \<or> \<not> list_ex (\<lambda>n. \<not> n_read n) (opt_list (notifications u))")
  case True
  then have "unread_count u = 0"
    by (auto simp: unread_count_def list_ex_iff filter_empty_conv)
  with True assms show ?thesis by (auto simp: markAllRead_def)
next
  case False
  with assms show ?thesis
    by (auto simp: markAllRead_def unread_count_def opt_list_def comp_def)
qed


text \<open>
  The win rate shown on the dashboard is a percentage in [0, 100].
\<close>

theorem win_rate_bounds:
  assumes "0 \<le> wins u" and "0 \<le> losses u"
  shows "0 \<le> win_rate u \<and> win_rate u \<le> 100"
proof (cases "wins u + losses u > 0")
  case True
  let ?x = "of_int (wins u) / of_int (wins u + losses u) * 100 :: rat"
  have "of_int 0 \<le> ?x" using assms True by simp
  moreover have "?x \<le> of_int 100"
    using assms True by (simp add: divide_le_eq)
  ultimately show ?thesis using True round_bounds [of 0 ?x 100] by (simp add: win_rate_def)
qed (simp add: win_rate_def)

subsection \<open>Witnesses\<close>

lemmas social_eval = social_store_def ann_def bob_def cara_def demo_person_def make_note_def
  find_user_def opt_list_def

theorem accept_makes_friends_witness:
  "\<exists>u'. current_user_blob (handleNotificationAction ''1_fr'' ''accept'' (Some ''a'') 2 ''t'' social_store) = Some u' \<and>
        ''a'' \<in> set (opt_list (friends u'))"
proof -
  have h: "current_user_blob social_store = Some cara" "db_blob social_store = Some \<lparr>users = [ann, bob, cara], sessions = []\<rparr>"
    "find_user (users \<lparr>users = [ann, bob, cara], sessions = []\<rparr>) (u_id cara) \<noteq> None"
    "find_user (users \<lparr>users = [ann, bob, cara], sessions = []\<rparr>) ''a'' = Some ann"
    "''a'' \<noteq> u_id cara" "''a'' \<noteq> []"
    by (simp_all add: social_eval)
  from accept_makes_friends [OF h] show ?thesis by blast
qed

theorem friends_remove_symmetric_witness:
  "''b'' \<notin> set (opt_list (friends (fst (removeFriend True ann ''b'' social_store))))"
proof -
  have h: "removeFriend True ann ''b'' social_store = (fst (removeFriend True ann ''b'' social_store), snd (removeFriend True ann ''b'' social_store))"
    "''b'' \<in> set (opt_list (friends ann))" "distinct (opt_list (friends ann))" "''b'' \<noteq> u_id ann"
    "db_blob social_store = Some \<lparr>users = [ann, bob, cara], sessions = []\<rparr>"
    "find_user (users \<lparr>users = [ann, bob, cara], sessions = []\<rparr>) (u_id ann) \<noteq> None"
    "find_user (users \<lparr>users = [ann, bob, cara], sessions = []\<rparr>) ''b'' = Some bob"
    "distinct (opt_list (friends bob))"
    by (simp_all add: social_eval)
  from friends_remove_symmetric [OF h] show ?thesis by blast
qed

theorem profile_unfriend_stale_witness:
  "\<exists>db'. db_blob (snd (friendButtonClick ann ''b'' 5 ''t'' social_store)) = Some db' \<and>
     find_user (users db') ''a'' = Some ann \<and>
     current_user_blob (snd (friendButtonClick ann ''b'' 5 ''t'' social_store)) \<noteq> Some ann"
proof -
  have h: "friendButtonClick ann ''b'' 5 ''t'' social_store = (fst (friendButtonClick ann ''b'' 5 ''t'' social_store), snd (friendButtonClick ann ''b'' 5 ''t'' social_store))"
    "db_blob social_store = Some \<lparr>users = [ann, bob, cara], sessions = []\<rparr>"
    "find_user (users \<lparr>users = [ann, bob, cara], sessions = []\<rparr>) (u_id ann) = Some ann"
    "find_user (users \<lparr>users = [ann, bob, cara], sessions = []\<rparr>) ''b'' = Some bob"
    "''b'' \<in> set (opt_list (friends ann))" "''b'' \<noteq> u_id ann"
    by (simp_all add: social_eval)
  have "u_id ann = ''a''" by (simp add: social_eval)
  with profile_unfriend_stale [OF h] show ?thesis by auto
qed

theorem subscribe_adds_subscriber_witness:
  "\<exists>db'. db_blob (snd (subscribeButtonClick ann ''c'' 5 ''t'' social_store)) = Some db' \<and>
     length (subscribers_of db' ''c'') = 1"
proof -
  have h: "''c'' \<notin> set (opt_list (subscriptions ann))" "''c'' \<noteq> u_id ann"
    "db_blob social_store = Some \<lparr>users = [ann, bob, cara], sessions = []\<rparr>"
    "find_user (users \<lparr>users = [ann, bob, cara], sessions = []\<rparr>) (u_id ann) = Some ann"
    by (simp_all add: social_eval)
  have "length (subscribers_of \<lparr>users = [ann, bob, cara], sessions = []\<rparr> ''c'') = 0"
    by (simp add: subscribers_of_def social_eval)
  with subscribe_adds_subscriber [OF h] show ?thesis by simp
qed

theorem subscribe_toggle_roundtrip_witness:
  "opt_list (subscriptions (fst (subscribeButtonClick (fst (subscribeButtonClick ann ''c'' 5 ''t'' social_store))
      ''c'' 6 ''t'' social_store))) = []"
proof -
  have "''c'' \<notin> set (opt_list (subscriptions ann))" by (simp add: social_eval)
  from subscribe_toggle_roundtrip [OF this] show ?thesis by (simp add: social_eval)
qed

theorem markAllRead_clears_witness:
  "\<exists>u'. current_user_blob (markAllRead social_store) = Some u' \<and> unread_count u' = 0"
proof -
  have "current_user_blob social_store = Some cara" by (simp add: social_store_def)
  from markAllRead_clears [OF this] show ?thesis by blast
qed


end
