(* ===== verification/Profile.thy ===== *)
theory Profile
  imports Editor Auth Social
begin

text \<open>
  The profile page (\<^verbatim>\<open>src/src/profile.ts\<close>): \<open>saveProfile\<close> and the handlers that call
  it (avatar and banner uploads, the banner URL, removing the banner, the profile form),
  and the banner renderer of the profile view (\<^verbatim>\<open>src/src/user-profile-view.ts\<close>,
  \<open>renderBanner\<close>, \<open>createBannerElement\<close> and \<open>createWidgetElement\<close>) with the choice
  of the profile it shows.
  A handler takes the page copy of the user and the storage and returns both, with the
  message it shows (\<open>None\<close> for success or no change). A chosen file is its size, its
  MIME type and the data URL that \<open>fileToBase64\<close> produces.
\<close>

section \<open>The profile page\<close>

text \<open>The partial users the handlers pass to \<open>saveProfile\<close>; a field set to
  \<open>undefined\<close> is dropped when the user is stored.\<close>

datatype profile_update =
  SetAvatar string | SetBannerVideo string | SetBannerImage string | ClearBanner
  | SetProfileInfo string "string option" string

fun apply_profile_update :: "profile_update \<Rightarrow> user \<Rightarrow> user" where
  "apply_profile_update (SetAvatar a) u = u\<lparr>avatar := Some a\<rparr>"
| "apply_profile_update (SetBannerVideo v) u = u\<lparr>bannerVideo := Some v, bannerImage := None\<rparr>"
| "apply_profile_update (SetBannerImage i) u = u\<lparr>bannerImage := Some i, bannerVideo := None\<rparr>"
| "apply_profile_update ClearBanner u = u\<lparr>bannerImage := None, bannerVideo := None\<rparr>"
| "apply_profile_update (SetProfileInfo n l b) u = u\<lparr>nickname := n, login := l, bio := Some b\<rparr>"

text \<open>\<open>saveProfile\<close> (lines 128--146): \<open>{ ...user, ...updates }\<close> written to the
  current-user blob and over the database entry with the same id.\<close>

definition saveProfile :: "user \<Rightarrow> profile_update \<Rightarrow> storage \<Rightarrow> user \<times> storage" where
  "saveProfile u upd st = (let u' = apply_profile_update upd u in (u', updateCurrentUser u' st))"

text \<open>\<open>isVideoUrl\<close> (lines 110--114), the classifier of the page's preview.\<close>

definition isVideoUrl :: "string \<Rightarrow> bool" where
  "isVideoUrl url =
     (let l = js_lower url in
      ends_with l ''.mp4'' \<or> ends_with l ''.webm'' \<or> ends_with l ''.mov'' \<or>
      is_infix ''video/mp4'' l \<or> is_infix ''video/webm'' l)"

record upload =
  f_size :: nat
  f_type :: string
  f_data :: string

datatype profile_error =
  AvatarTooLarge | BannerTooLarge | NicknameTooShortP | LoginTooShort | LoginChars | LoginTaken

text \<open>The background of a banner: a playing video, a background picture, or none.\<close>

datatype banner_background = VideoBg string | GifBg string | ImageBg string | NoBg

text \<open>The change listener of the avatar input (lines 305--318).\<close>

definition avatarChange ::
  "user \<Rightarrow> upload option \<Rightarrow> storage \<Rightarrow> user \<times> storage \<times> profile_error option" where
  "avatarChange u file st =
     (case file of
        None \<Rightarrow> (u, st, None)
      | Some f \<Rightarrow>
          if f_size f > 2 * 1024 * 1024 then (u, st, Some AvatarTooLarge)
          else let (u', st') = saveProfile u (SetAvatar (f_data f)) st in (u', st', None))"

text \<open>The change listener of the banner input (lines 327--358): a video file becomes the
  banner video, any other file the banner image.\<close>

definition bannerChange ::
  "user \<Rightarrow> upload option \<Rightarrow> storage \<Rightarrow> user \<times> storage \<times> profile_error option" where
  "bannerChange u file st =
     (case file of
        None \<Rightarrow> (u, st, None)
      | Some f \<Rightarrow>
          if f_size f > 10 * 1024 * 1024 then (u, st, Some BannerTooLarge)
          else let upd = (if starts_with ''video/'' (f_type f) then SetBannerVideo (f_data f)
                          else SetBannerImage (f_data f));
                   (u', st') = saveProfile u upd st
               in (u', st', None))"

text \<open>\<open>applyUrl\<close> (lines 366--388): whatever the URL is, it is stored as the banner
  video; \<open>isVideoUrl\<close> only chooses the preview.\<close>

definition applyUrl :: "user \<Rightarrow> string \<Rightarrow> storage \<Rightarrow> user \<times> storage" where
  "applyUrl u input st = (let url = js_trim input in if url = [] then (u, st) else saveProfile u (SetBannerVideo url) st)"

text \<open>The click listener of the remove-banner button (lines 399--405).\<close>

definition removeBanner :: "user \<Rightarrow> storage \<Rightarrow> user \<times> storage" where
  "removeBanner u st = saveProfile u ClearBanner st"

text \<open>\<open>/^[a-z0-9_]+$/\<close> on a non-empty login.\<close>

definition login_char :: "char \<Rightarrow> bool" where
  "login_char c \<longleftrightarrow> c \<in> set ''abcdefghijklmnopqrstuvwxyz0123456789_''"

text \<open>The submit listener of the profile form (lines 411--452).\<close>

definition profileSubmit ::
  "user \<Rightarrow> string \<Rightarrow> string \<Rightarrow> string \<Rightarrow> storage \<Rightarrow> user \<times> storage \<times> profile_error option" where
  "profileSubmit u nick_in login_in bio_in st =
     (let nick = js_trim nick_in; lg = js_lower (js_trim login_in); b = js_trim bio_in in
      if length nick < 3 then (u, st, Some NicknameTooShortP)
      else if lg \<noteq> [] \<and> length lg < 3 then (u, st, Some LoginTooShort)
      else if lg \<noteq> [] \<and> \<not> list_all login_char lg then (u, st, Some LoginChars)
      else if lg \<noteq> [] \<and> (case db_blob st of
                            None \<Rightarrow> False
                          | Some db \<Rightarrow> list_ex (\<lambda>v. login v = Some lg \<and> u_id v \<noteq> u_id u) (users db))
        then (u, st, Some LoginTaken)
      else let (u', st') = saveProfile u (SetProfileInfo nick (if lg = [] then None else Some lg) b) st
           in (u', st', None))"

text \<open>The banner preview of \<open>loadProfile\<close> (lines 82--105): a banner video that
  \<open>isVideoUrl\<close> rejects is shown as a background picture.\<close>

definition profile_preview :: "user \<Rightarrow> banner_background" where
  "profile_preview u =
     (case bannerVideo u of
        Some v \<Rightarrow> if v \<noteq> [] then (if isVideoUrl v then VideoBg v else GifBg v)
                  else (case bannerImage u of Some i \<Rightarrow> if i \<noteq> [] then ImageBg i else NoBg | None \<Rightarrow> NoBg)
      | None \<Rightarrow> (case bannerImage u of Some i \<Rightarrow> if i \<noteq> [] then ImageBg i else NoBg | None \<Rightarrow> NoBg))"

text \<open>No two users with different ids share a login.\<close>

definition logins_owned :: "database \<Rightarrow> bool" where
  "logins_owned db \<longleftrightarrow>
     (\<forall>v \<in> set (users db). \<forall>w \<in> set (users db). login v \<noteq> None \<longrightarrow> login v = login w \<longrightarrow> u_id v = u_id w)"

section \<open>The profile view\<close>

text \<open>The profile shown (\<open>init\<close>, lines 1146--1162): the current user, or the database
  entry of the \<open>id\<close> parameter when it names another user that exists.\<close>

definition profile_user :: "user \<Rightarrow> string option \<Rightarrow> storage \<Rightarrow> user" where
  "profile_user cur view_id st =
     (case view_id of
        Some vid \<Rightarrow>
          if vid \<noteq> [] \<and> vid \<noteq> u_id cur then
            (case db_blob st of
               None \<Rightarrow> cur
             | Some db \<Rightarrow> (case find_user (users db) vid of Some v \<Rightarrow> v | None \<Rightarrow> cur))
          else cur
      | None \<Rightarrow> cur)"

text \<open>The background of \<open>renderBanner\<close> (lines 54--81; the dashboard has the same code,
  lines 68--97): its video test, its image branch and the choice.\<close>

definition view_is_video :: "string \<Rightarrow> bool" where
  "view_is_video url =
     (let l = js_lower url in
      ends_with l ''.mp4'' \<or> ends_with l ''.webm'' \<or> ends_with l ''.mov'' \<or> starts_with ''data:video/'' url)"

text \<open>The image branch, \<open>else if (user.bannerImage)\<close>.\<close>

definition image_bg :: "user \<Rightarrow> banner_background" where
  "image_bg u = (case bannerImage u of Some i \<Rightarrow> if i \<noteq> [] then ImageBg i else NoBg | None \<Rightarrow> NoBg)"

definition banner_background :: "user \<Rightarrow> banner_background" where
  "banner_background u =
     (case bannerVideo u of
        Some v \<Rightarrow> if v \<noteq> [] then (if view_is_video v then VideoBg v else GifBg v) else image_bg u
      | None \<Rightarrow> image_bg u)"

text \<open>\<open>createWidgetElement\<close> (lines 219--257), with the position and z-index
  \<open>renderBanner\<close> gives the wrapper (lines 103--107).\<close>

definition createWidgetElement :: "profile_widget \<Rightarrow> widget_node" where
  "createWidgetElement w =
     (let scale = js_or (w_scale w) 1; sx = js_or (w_stretchX w) 1; sy = js_or (w_stretchY w) 1 in
      \<lparr>node_id = ''widget-'' @ w_id w,
       node_content = (case w_type w of
                         Text \<Rightarrow> TextNode (w_content w)
                       | Sticker \<Rightarrow> StickerNode (sticker_glyph (w_content w))
                       | Gif \<Rightarrow> GifImage (w_content w)),
       node_pos = (case w_canvasPosition w of Some p \<Rightarrow> p | None \<Rightarrow> \<lparr>pos_x = 50, pos_y = 50\<rparr>),
       node_z = js_or (w_zIndex w) 20,
       node_transform = (if scale \<noteq> 1 \<or> sx \<noteq> 1 \<or> sy \<noteq> 1 then Some (scale * sx, scale * sy) else None)\<rparr>)"

text \<open>\<open>applyTextStyle\<close> (lines 206--217) on a new text node: the properties of the
  style that are truthy are set, the others stay empty.\<close>

definition applyTextStyle :: "text_style \<Rightarrow> text_css" where
  "applyTextStyle st =
     \<lparr>custom_color = (truthy_str (color st) \<noteq> None), css_color = truthy_str (color st),
      css_fontFamily = truthy_str (fontFamily st),
      css_fontSize = (case fontSize st of Some n \<Rightarrow> if n = 0 then None else Some n | None \<Rightarrow> None)\<rparr>"

text \<open>A text node with no inline style.\<close>

definition plain_css :: text_css where
  "plain_css = \<lparr>custom_color = False, css_color = None, css_fontFamily = None, css_fontSize = None\<rparr>"

text \<open>The six numbers of the stats element (\<open>user.elo.toLocaleString()\<close> shows the
  number with separators).\<close>

record stats_mini =
  sm_elo :: int
  sm_wins :: int
  sm_winRate :: int
  sm_friends :: nat
  sm_subscribers :: nat
  sm_groups :: nat

text \<open>The content \<open>createBannerElement\<close> builds inside the wrapper of a core element: the
  avatar picture with the level badge, the name, the subtitle, the stats; an element of
  another type gets an empty wrapper.\<close>

datatype element_content =
  AvatarBox string int | NameText string text_css | SubtitleText string text_css
  | StatsBox stats_mini | EmptyBox

text \<open>The subscriber count of the profile view (lines 283--291, and lines 160--165 in
  \<open>createBannerElement\<close>): the users of the database blob that subscribe to the id.\<close>

definition subscriber_count :: "storage \<Rightarrow> string \<Rightarrow> nat" where
  "subscriber_count st uid = (case db_blob st of None \<Rightarrow> 0 | Some db \<Rightarrow> length (subscribers_of db uid))"

text \<open>\<open>createBannerElement\<close> (lines 112--204).\<close>

definition createBannerElement :: "storage \<Rightarrow> user \<Rightarrow> banner_element \<Rightarrow> element_content" where
  "createBannerElement st u e =
     (let css = (case el_textStyle e of Some s \<Rightarrow> applyTextStyle s | None \<Rightarrow> plain_css) in
      case el_type e of
        Avatar \<Rightarrow> AvatarBox (opt_str_or (avatar u) ''https://via.placeholder.com/120'') (level u)
      | Username \<Rightarrow> NameText (str_or (nickname u) ''Player'') css
      | Subtitle \<Rightarrow> SubtitleText (opt_str_or (bio u) ''Warcraft III Player'') css
      | Stats \<Rightarrow> StatsBox
          \<lparr>sm_elo = elo u, sm_wins = wins u, sm_winRate = win_rate u,
           sm_friends = length (opt_list (friends u)),
           sm_subscribers = subscriber_count st (u_id u),
           sm_groups = length (opt_list (groups u))\<rparr>
      | WidgetEl \<Rightarrow> EmptyBox)"

text \<open>What \<open>renderBanner\<close> (lines 49--110) shows: the background, the visible core
  elements with their positions, z-indices and contents, and the widget nodes.\<close>

record banner_view =
  view_bg :: banner_background
  view_elements :: "(string \<times> banner_position \<times> rat \<times> element_content) list"
  view_widgets :: "widget_node list"

definition renderBanner :: "storage \<Rightarrow> user \<Rightarrow> banner_view" where
  "renderBanner st u =
     (let l = (case bannerLayout u of
                 Some l \<Rightarrow> if version l \<noteq> 0 then l else DEFAULT_BANNER_LAYOUT
               | None \<Rightarrow> DEFAULT_BANNER_LAYOUT) in
      \<lparr>view_bg = banner_background u,
       view_elements = map (\<lambda>e. (el_id e, el_position e, el_zIndex e, createBannerElement st u e))
                         (filter el_visible (elements l)),
       view_widgets = map createWidgetElement (opt_list (profileWidgets u))\<rparr>)"

text \<open>The account panel of \<open>loadStats\<close> (lines 268--311): level, friends, subscribers,
  groups, the registration date when it is set (shown in the Russian date format) and the
  number of achievements.\<close>

record account_stats =
  as_level :: int
  as_friends :: nat
  as_subscribers :: nat
  as_groups :: nat
  as_registeredAt :: "string option"
  as_achievements :: nat

definition loadStats :: "storage \<Rightarrow> user \<Rightarrow> account_stats" where
  "loadStats st u =
     \<lparr>as_level = level u, as_friends = length (opt_list (friends u)),
      as_subscribers = subscriber_count st (u_id u), as_groups = length (opt_list (groups u)),
      as_registeredAt = (if registeredAt u = [] then None else Some (registeredAt u)),
      as_achievements = length (opt_list (achievements u))\<rparr>"

text \<open>A second account that views the profile of \<open>demo_user\<close>, and a QuickTime upload as
  \<open>fileToBase64\<close> reads it.\<close>

definition demo_viewer :: user where
  "demo_viewer = demo_user\<lparr>u_id := ''user_2'', email := ''viewer@mesa.gg''\<rparr>"

definition mov_upload :: upload where
  "mov_upload = \<lparr>f_size = 4096, f_type = ''video/quicktime'', f_data = ''data:video/quicktime;base64,AAAA''\<rparr>"

definition big_avatar :: upload where
  "big_avatar = \<lparr>f_size = 3 * 1024 * 1024, f_type = ''image/png'', f_data = ''data:image/png;base64,AA''\<rparr>"

section \<open>Properties\<close>

lemma createWidgetElement_canvas: "createWidgetElement w = renderWidgetOnCanvas w"
  by (simp add: createWidgetElement_def renderWidgetOnCanvas_def createWidgetContent_def
      applyWidgetTransform_def default_position_def Let_def split: option.splits)

lemma profile_user_other:
  assumes "vid \<noteq> []" and "vid \<noteq> u_id cur" and "db_blob st = Some db" and "find_user (users db) vid = Some v"
  shows "profile_user cur (Some vid) st = v"
  using assms by (simp add: profile_user_def)

lemma banner_background_layout [simp]:
  "banner_background (u\<lparr>bannerLayout := l, profileWidgets := ws\<rparr>) = banner_background u"
  by (simp add: banner_background_def image_bg_def split: option.splits)

lemma createBannerElement_layout [simp]:
  "createBannerElement st (u\<lparr>bannerLayout := l, profileWidgets := ws\<rparr>) = createBannerElement st u"
  by (rule ext, rename_tac e, case_tac "el_type e")
    (simp_all add: createBannerElement_def win_rate_def Let_def split: option.split)

text \<open>The profile view styles a text element as the editor's canvas does.\<close>

lemma applyTextStyle_editor: "applyTextStyle st = applyTextStyleToElement st"
  by (simp add: applyTextStyle_def applyTextStyleToElement_def)

text \<open>The stats element of the banner and the account panel show the same counts.\<close>

lemma banner_stats_panel:
  "el_type e = Stats \<Longrightarrow>
   createBannerElement st u e =
     StatsBox \<lparr>sm_elo = elo u, sm_wins = wins u, sm_winRate = win_rate u,
               sm_friends = as_friends (loadStats st u), sm_subscribers = as_subscribers (loadStats st u),
               sm_groups = as_groups (loadStats st u)\<rparr>"
  by (simp add: createBannerElement_def loadStats_def Let_def)

subsection \<open>The saved banner on the profile view\<close>

text \<open>
  C33. What the editor saves is what other users see: after Save in a reachable editor
  state of a user stored in the database, the profile view opened by another user on that
  user's id shows the user's banner background, the visible core elements of the saved
  layout at their positions and z-indices with the user's contents, and exactly the nodes
  the editor canvas renders for the saved widgets.
\<close>

theorem profile_view_shows_saved_banner:
  assumes "reachable_editor s" and "editor_step s ToolbarSave = Some s'"
    and "db_blob (store s) = Some db" and "find_user (users db) (u_id (ed_user s)) \<noteq> None"
    and "u_id (ed_user s) \<noteq> []" and "u_id viewer \<noteq> u_id (ed_user s)"
  shows "renderBanner (store s') (profile_user viewer (Some (u_id (ed_user s))) (store s')) =
           \<lparr>view_bg = banner_background (ed_user s),
            view_elements = map (\<lambda>e. (el_id e, el_position e, el_zIndex e, createBannerElement (store s') (ed_user s) e))
                              (filter el_visible (elements (layout s))),
            view_widgets = map renderWidgetOnCanvas (widgets s)\<rparr>"
proof -
  obtain db' where db': "db_blob (store s') = Some db'"
    and found: "find_user (users db') (u_id (ed_user s)) = Some (ed_user s')"
    and lay: "bannerLayout (ed_user s') = Some (layout s)" and ws: "profileWidgets (ed_user s') = Some (widgets s)"
    using save_db_entry [OF assms(2-4)] by blast
  have shown: "profile_user viewer (Some (u_id (ed_user s))) (store s') = ed_user s'"
    using assms(5,6) db' found by (intro profile_user_other) auto
  have "version (layout s) \<noteq> 0" using reachable_version_ok [OF assms(1)] by (simp add: version_ok_def)
  moreover have "banner_background (ed_user s') = banner_background (ed_user s)"
    and "createBannerElement (store s') (ed_user s') = createBannerElement (store s') (ed_user s)"
    using save_result [OF assms(2)] by simp_all
  ultimately show ?thesis
    by (simp add: shown renderBanner_def lay ws createWidgetElement_canvas [abs_def])
qed

theorem profile_view_shows_saved_banner_witness:
  "renderBanner (store (the (editor_step (enterEditMode (init_editor demo_user demo_store)) ToolbarSave)))
     (profile_user demo_viewer (Some ''user_1'')
      (store (the (editor_step (enterEditMode (init_editor demo_user demo_store)) ToolbarSave)))) =
   \<lparr>view_bg = NoBg,
    view_elements = map (\<lambda>e. (el_id e, el_position e, el_zIndex e,
        createBannerElement (store (the (editor_step (enterEditMode (init_editor demo_user demo_store)) ToolbarSave)))
          demo_user e)) (filter el_visible (elements DEFAULT_BANNER_LAYOUT)),
    view_widgets = []\<rparr>"
proof -
  let ?s = "enterEditMode (init_editor demo_user demo_store)"
  have h0: "reachable_editor ?s"
    using reachable_editor.step [OF reachable_editor.init, of demo_user demo_store EditToggle ?s]
    by (simp add: toggleEditMode_def init_editor_def Let_def)
  have h1: "editor_step ?s ToolbarSave = Some (the (editor_step ?s ToolbarSave))"
    by (simp add: exitEditMode_def Let_def)
  have h2: "db_blob (store ?s) = Some \<lparr>users = [demo_user], sessions = []\<rparr>"
    by (simp add: enterEditMode_def init_editor_def Let_def demo_store_def)
  have h3: "find_user (users \<lparr>users = [demo_user], sessions = []\<rparr>) (u_id (ed_user ?s)) \<noteq> None"
    by (simp add: enterEditMode_def init_editor_def Let_def find_user_def)
  have e: "ed_user ?s = demo_user" "layout ?s = DEFAULT_BANNER_LAYOUT" "widgets ?s = []"
    "u_id demo_user = ''user_1''" "u_id demo_viewer = ''user_2''" "banner_background demo_user = NoBg"
    by (simp_all add: enterEditMode_def init_editor_def Let_def loadLayout_def demo_user_def demo_viewer_def
        banner_background_def image_bg_def)
  have h5: "u_id (ed_user ?s) \<noteq> []" and h6: "u_id demo_viewer \<noteq> u_id (ed_user ?s)"
    using e by simp_all
  from profile_view_shows_saved_banner [OF h0 h1 h2 h3 h5 h6] e show ?thesis by simp
qed

subsection \<open>Two video tests\<close>

text \<open>
  C34. The profile page and the profile view classify the same banner differently: a
  QuickTime upload (\<open>.mov\<close>, MIME type \<open>video/quicktime\<close>) is stored by the banner input
  as the banner video, and whatever the user and the storage, the page's own preview
  shows it as a background picture while the profile view plays it as a video.
\<close>

theorem mov_banner_classified_twice:
  "bannerChange u (Some mov_upload) st = (u', st', err) \<Longrightarrow>
   err = None \<and> bannerVideo u' = Some (f_data mov_upload) \<and>
   profile_preview u' = GifBg (f_data mov_upload) \<and> banner_background u' = VideoBg (f_data mov_upload)"
proof -
  assume a: "bannerChange u (Some mov_upload) st = (u', st', err)"
  have "\<not> isVideoUrl (f_data mov_upload)"
    by (simp add: isVideoUrl_def mov_upload_def js_lower_def js_lower_char_def upper_lower_def ends_with_def)
  moreover have "view_is_video (f_data mov_upload)"
    by (simp add: view_is_video_def mov_upload_def)
  moreover have "u' = u\<lparr>bannerVideo := Some (f_data mov_upload), bannerImage := None\<rparr>" and "err = None"
    using a by (simp_all add: bannerChange_def saveProfile_def mov_upload_def Let_def)
  ultimately show ?thesis
    by (simp add: profile_preview_def banner_background_def mov_upload_def)
qed

theorem mov_banner_classified_twice_witness:
  "bannerVideo (fst (bannerChange demo_user (Some mov_upload) demo_store)) = Some ''data:video/quicktime;base64,AAAA'' \<and>
   profile_preview (fst (bannerChange demo_user (Some mov_upload) demo_store)) = GifBg ''data:video/quicktime;base64,AAAA'' \<and>
   banner_background (fst (bannerChange demo_user (Some mov_upload) demo_store)) = VideoBg ''data:video/quicktime;base64,AAAA''"
proof -
  have "bannerChange demo_user (Some mov_upload) demo_store =
          (fst (bannerChange demo_user (Some mov_upload) demo_store),
           fst (snd (bannerChange demo_user (Some mov_upload) demo_store)),
           snd (snd (bannerChange demo_user (Some mov_upload) demo_store)))"
    by simp
  from mov_banner_classified_twice [OF this] show ?thesis by (simp add: mov_upload_def)
qed


subsection \<open>Logins\<close>

lemma set_replace_user: "set (replace_user u us) \<subseteq> insert u (set us)"
  by (induction us) (auto simp: replace_user_def)

lemma replace_user_logins_owned:
  assumes "logins_owned db"
    and "\<And>w. w \<in> set (users db) \<Longrightarrow> login u \<noteq> None \<Longrightarrow> login w = login u \<Longrightarrow> u_id w = u_id u"
  shows "logins_owned (db\<lparr>users := replace_user u (users db)\<rparr>)"
  unfolding logins_owned_def
proof (intro ballI impI)
  fix v w assume v: "v \<in> set (users (db\<lparr>users := replace_user u (users db)\<rparr>))"
    and w: "w \<in> set (users (db\<lparr>users := replace_user u (users db)\<rparr>))"
    and l: "login v \<noteq> None" "login v = login w"
  from v w set_replace_user have "v \<in> insert u (set (users db))" "w \<in> insert u (set (users db))" by auto
  with l assms show "u_id v = u_id w" unfolding logins_owned_def by (metis insertE)
qed

lemma profileSubmit_success:
  assumes "profileSubmit u n l b st = (u', st', None)"
  shows "u' = apply_profile_update (SetProfileInfo (js_trim n)
                (if js_lower (js_trim l) = [] then None else Some (js_lower (js_trim l))) (js_trim b)) u \<and>
         st' = updateCurrentUser u' st \<and>
         (js_lower (js_trim l) \<noteq> [] \<longrightarrow> (case db_blob st of None \<Rightarrow> True
            | Some db \<Rightarrow> \<not> list_ex (\<lambda>v. login v = Some (js_lower (js_trim l)) \<and> u_id v \<noteq> u_id u) (users db)))"
proof -
  define lg where "lg = js_lower (js_trim l)"
  have "u' = apply_profile_update (SetProfileInfo (js_trim n) (if lg = [] then None else Some lg) (js_trim b)) u \<and>
        st' = updateCurrentUser u' st \<and>
        (lg \<noteq> [] \<longrightarrow> (case db_blob st of None \<Rightarrow> True
            | Some db \<Rightarrow> \<not> list_ex (\<lambda>v. login v = Some lg \<and> u_id v \<noteq> u_id u) (users db)))"
    using assms [symmetric] unfolding profileSubmit_def Let_def saveProfile_def lg_def [symmetric]
    by (simp split: if_splits option.split_asm)
  then show ?thesis unfolding lg_def .
qed

text \<open>
  C35. Saving the profile form keeps logins owned: when no two users of the database with
  different ids share a login, the same holds after a successful submit, whatever login
  the form carries.
\<close>

theorem profileSubmit_logins_owned:
  assumes "db_blob st = Some db" and "logins_owned db" and "profileSubmit u n l b st = (u', st', None)"
  shows "\<exists>db'. db_blob st' = Some db' \<and> logins_owned db'"
proof -
  define lg where "lg = js_lower (js_trim l)"
  have u': "login u' = (if lg = [] then None else Some lg)" "u_id u' = u_id u"
    and st': "st' = updateCurrentUser u' st"
    and free: "lg \<noteq> [] \<Longrightarrow> \<not> list_ex (\<lambda>v. login v = Some lg \<and> u_id v \<noteq> u_id u) (users db)"
    using profileSubmit_success [OF assms(3)] assms(1) unfolding lg_def [symmetric] by simp_all
  have "\<And>w. w \<in> set (users db) \<Longrightarrow> login u' \<noteq> None \<Longrightarrow> login w = login u' \<Longrightarrow> u_id w = u_id u'"
    using free by (auto simp: u' list_ex_iff split: if_splits)
  with assms(2) have "logins_owned (db\<lparr>users := replace_user u' (users db)\<rparr>)"
    by (rule replace_user_logins_owned)
  then show ?thesis using assms(1,2) by (simp add: st' updateCurrentUser_def Let_def)
qed

theorem profileSubmit_logins_owned_witness:
  "\<exists>db'. db_blob (fst (snd (profileSubmit demo_user '' Ace '' ''ACE_1'' ''hi'' demo_store))) = Some db' \<and> logins_owned db'"
proof -
  have h1: "db_blob demo_store = Some \<lparr>users = [demo_user], sessions = []\<rparr>" by (simp add: demo_store_def)
  have h2: "logins_owned \<lparr>users = [demo_user], sessions = []\<rparr>" by (simp add: logins_owned_def)
  have h3: "snd (snd (profileSubmit demo_user '' Ace '' ''ACE_1'' ''hi'' demo_store)) = None"
    by (simp add: profileSubmit_def saveProfile_def Let_def js_trim_def is_js_space_def js_lower_def
        js_lower_char_def upper_lower_def login_char_def demo_store_def demo_user_def)
  have h4: "profileSubmit demo_user '' Ace '' ''ACE_1'' ''hi'' demo_store =
      (fst (profileSubmit demo_user '' Ace '' ''ACE_1'' ''hi'' demo_store),
       fst (snd (profileSubmit demo_user '' Ace '' ''ACE_1'' ''hi'' demo_store)), None)"
    using h3 by (metis prod.collapse)
  from profileSubmit_logins_owned [OF h1 h2 h4] show ?thesis .
qed

text \<open>
  C36. A rejected profile action writes nothing: when the avatar input, the banner input or
  the profile form reports an error (file too large, nickname or login too short, a
  forbidden login character, a login taken by another user), the page copy of the user
  and the storage are returned unchanged.
\<close>

theorem profile_errors_write_nothing:
  assumes "avatarChange u f st = (u', st', Some e) \<or> bannerChange u f st = (u', st', Some e) \<or>
           profileSubmit u n l b st = (u', st', Some e)"
  shows "u' = u \<and> st' = st"
  using assms
  by (auto simp: avatarChange_def bannerChange_def profileSubmit_def saveProfile_def Let_def
      split: option.split_asm if_split_asm prod.split_asm)

theorem profile_errors_write_nothing_witness:
  "fst (avatarChange demo_user (Some big_avatar) demo_store) = demo_user \<and>
   fst (snd (avatarChange demo_user (Some big_avatar) demo_store)) = demo_store"
proof -
  have "avatarChange demo_user (Some big_avatar) demo_store =
          (fst (avatarChange demo_user (Some big_avatar) demo_store),
           fst (snd (avatarChange demo_user (Some big_avatar) demo_store)), Some AvatarTooLarge)"
    by (simp add: avatarChange_def big_avatar_def)
  from profile_errors_write_nothing [OF disjI1 [OF this]] show ?thesis .
qed

end
