(* ===== verification/Settings.thy ===== *)
theory Settings
  imports Auth
begin

text \<open>
  The settings page (\<^verbatim>\<open>src/src/settings.ts\<close>): the settings object kept under
  \<open>mesaSettings\<close>, the online-status toggle of the profile dropdown that every page sets up
  (the same code is in \<^verbatim>\<open>dashboard.ts\<close>, \<^verbatim>\<open>profile.ts\<close> and
  \<^verbatim>\<open>user-profile-view.ts\<close>), loading the settings into the form, saving the form, the
  theme, and deleting the account. A page is the values of its form controls and its
  \<open>data-theme\<close> attribute; a handler takes the page and the storage and returns both.
\<close>

section \<open>The settings object\<close>

text \<open>The empty object \<open>{}\<close>, which \<open>JSON.parse(... || '{}')\<close> yields when nothing is stored.\<close>

definition empty_settings :: user_settings where
  "empty_settings = \<lparr>language = None, theme = None, matchNotifications = None,
     tournamentNotifications = None, friendMessages = None, soundNotifications = None,
     profileVisibility = None, statsVisibility = None, onlineStatus = None\<rparr>"

text \<open>The defaults of \<open>loadSettings\<close> (lines 190--200).\<close>

definition default_settings :: user_settings where
  "default_settings = \<lparr>language = Some ''ru'', theme = Some ''default'', matchNotifications = Some True,
     tournamentNotifications = Some True, friendMessages = Some True, soundNotifications = Some False,
     profileVisibility = Some ''all'', statsVisibility = Some ''all'', onlineStatus = Some True\<rparr>"

text \<open>\<open>loadSettings\<close> (lines 185--201): the stored object as it is, or the defaults when
  nothing is stored.\<close>

definition loadSettings :: "storage \<Rightarrow> user_settings" where
  "loadSettings st = (case settings_blob st of Some s \<Rightarrow> s | None \<Rightarrow> default_settings)"

text \<open>\<open>saveSettings\<close> (lines 203--205).\<close>

definition saveSettings :: "user_settings \<Rightarrow> storage \<Rightarrow> storage" where
  "saveSettings s st = st\<lparr>settings_blob := Some s\<rparr>"

text \<open>\<open>JSON.parse(localStorage.getItem('mesaSettings') || '{}')\<close>.\<close>

definition stored_settings :: "storage \<Rightarrow> user_settings" where
  "stored_settings st = (case settings_blob st of Some s \<Rightarrow> s | None \<Rightarrow> empty_settings)"

section \<open>The online status\<close>

text \<open>\<open>updateStatus\<close> of \<open>setupProfileDropdown\<close> (lines 121--130), its storage write: the
  stored object, or \<open>{}\<close>, with \<open>onlineStatus\<close> set.\<close>

definition updateStatus :: "bool \<Rightarrow> storage \<Rightarrow> storage" where
  "updateStatus online st = st\<lparr>settings_blob := Some ((stored_settings st)\<lparr>onlineStatus := Some online\<rparr>)\<rparr>"

text \<open>The status part of \<open>setupProfileDropdown\<close> (lines 112--132): the status shown (and
  the checkbox) is online unless \<open>false\<close> is stored, and it is written back at once.\<close>

definition dropdown_status :: "storage \<Rightarrow> bool \<times> storage" where
  "dropdown_status st =
     (let online = (onlineStatus (stored_settings st) \<noteq> Some False) in (online, updateStatus online st))"

section \<open>The settings form\<close>

text \<open>The controls of the form: four selects and four checkboxes. A select shows the value
  of its chosen option; stored values are options of their select, and a select given
  \<open>undefined\<close> has no chosen option and reads as the empty string.\<close>

record settings_form =
  sf_language :: string
  sf_theme :: string
  sf_matchNotif :: bool
  sf_tournamentNotif :: bool
  sf_friendMessages :: bool
  sf_soundNotif :: bool
  sf_profileVisibility :: string
  sf_statsVisibility :: string

definition select_value :: "string option \<Rightarrow> string" where
  "select_value v = (case v of Some x \<Rightarrow> x | None \<Rightarrow> [])"

text \<open>\<open>checkbox.checked = undefined\<close> unchecks the box.\<close>

definition checkbox_value :: "bool option \<Rightarrow> bool" where
  "checkbox_value v = (case v of Some b \<Rightarrow> b | None \<Rightarrow> False)"

text \<open>\<open>applySettingsToForm\<close> (lines 209--227).\<close>

definition applySettingsToForm :: "user_settings \<Rightarrow> settings_form \<Rightarrow> settings_form" where
  "applySettingsToForm s f =
     f\<lparr>sf_language := select_value (language s), sf_theme := select_value (theme s),
       sf_matchNotif := checkbox_value (matchNotifications s),
       sf_tournamentNotif := checkbox_value (tournamentNotifications s),
       sf_friendMessages := checkbox_value (friendMessages s),
       sf_soundNotif := checkbox_value (soundNotifications s),
       sf_profileVisibility := select_value (profileVisibility s),
       sf_statsVisibility := select_value (statsVisibility s)\<rparr>"

text \<open>\<open>readSettingsFromForm\<close> (lines 229--241): \<open>checked ?? d\<close> is \<open>checked\<close>, a boolean;
  the online status is the stored one, \<open>true\<close> when absent.\<close>

definition readSettingsFromForm :: "settings_form \<Rightarrow> storage \<Rightarrow> user_settings" where
  "readSettingsFromForm f st =
     \<lparr>language = Some (str_or (sf_language f) ''ru''), theme = Some (str_or (sf_theme f) ''default''),
      matchNotifications = Some (sf_matchNotif f), tournamentNotifications = Some (sf_tournamentNotif f),
      friendMessages = Some (sf_friendMessages f), soundNotifications = Some (sf_soundNotif f),
      profileVisibility = Some (str_or (sf_profileVisibility f) ''all''),
      statsVisibility = Some (str_or (sf_statsVisibility f) ''all''),
      onlineStatus = Some (case onlineStatus (stored_settings st) of Some b \<Rightarrow> b | None \<Rightarrow> True)\<rparr>"

section \<open>The theme\<close>

text \<open>\<open>applyTheme\<close> of the settings page (lines 245--251): the \<open>data-theme\<close> attribute,
  \<open>None\<close> when deleted; \<open>dataset.theme = undefined\<close> stores the string \<open>undefined\<close>.\<close>

definition settings_applyTheme :: "string option \<Rightarrow> string option" where
  "settings_applyTheme t =
     (if t = Some ''default'' then None else Some (case t of Some x \<Rightarrow> x | None \<Rightarrow> ''undefined''))"

text \<open>\<open>applyTheme\<close> of the other pages (\<^verbatim>\<open>dashboard.ts\<close>, lines 587--595; the same in
  \<^verbatim>\<open>profile.ts\<close>, \<^verbatim>\<open>friends.ts\<close> and \<^verbatim>\<open>user-profile-view.ts\<close>) on a page with no
  \<open>data-theme\<close>: a truthy stored theme other than \<open>default\<close> is set.\<close>

definition page_theme :: "storage \<Rightarrow> string option" where
  "page_theme st =
     (case settings_blob st of
        None \<Rightarrow> None
      | Some s \<Rightarrow> (case theme s of Some t \<Rightarrow> if t \<noteq> [] \<and> t \<noteq> ''default'' then Some t else None | None \<Rightarrow> None))"

section \<open>The page\<close>

record settings_page =
  sp_form :: settings_form
  sp_theme :: "string option"

text \<open>\<open>checkAuth\<close> of the settings page (lines 6--20): the current user, or \<open>None\<close> for the
  redirect to the login page.\<close>

definition settings_checkAuth :: "storage \<Rightarrow> user option" where
  "settings_checkAuth st = (if logged_in st \<noteq> Some ''true'' then None else current_user_blob st)"

text \<open>\<open>init\<close> (lines 255--281) on the page as loaded, whose form holds the markup's values
  and which has no \<open>data-theme\<close>: the dropdown writes the online status first, then the
  settings are loaded into the form and the theme applied.\<close>

definition settings_init :: "settings_form \<Rightarrow> storage \<Rightarrow> (settings_page \<times> storage) option" where
  "settings_init f0 st =
     (case settings_checkAuth st of
        None \<Rightarrow> None
      | Some u \<Rightarrow>
          let st1 = snd (dropdown_status st); s = loadSettings st1
          in Some (\<lparr>sp_form = applySettingsToForm s f0, sp_theme = settings_applyTheme (theme s)\<rparr>, st1))"

text \<open>The change listener of the theme select (lines 275--280).\<close>

definition themeChange :: "settings_page \<Rightarrow> settings_page" where
  "themeChange p = p\<lparr>sp_theme := settings_applyTheme (Some (sf_theme (sp_form p)))\<rparr>"

text \<open>The click listener of the save button (lines 283--288).\<close>

definition saveClick :: "settings_page \<Rightarrow> storage \<Rightarrow> settings_page \<times> storage" where
  "saveClick p st =
     (let s = readSettingsFromForm (sp_form p) st
      in (p\<lparr>sp_theme := settings_applyTheme (theme s)\<rparr>, saveSettings s st))"

text \<open>The click listener of the delete-account button (lines 301--311), with the answers
  to its two confirmations.\<close>

definition deleteAccount :: "bool \<Rightarrow> bool \<Rightarrow> storage \<Rightarrow> storage" where
  "deleteAccount c1 c2 st =
     (if c1 \<and> c2
      then st\<lparr>logged_in := None, current_user_blob := None, settings_blob := None,
              verification := None, pending := None\<rparr>
      else st)"

text \<open>A logged-in session with nothing under \<open>mesaSettings\<close>, and a filled-in form.\<close>

definition settings_session :: storage where
  "settings_session = empty_storage\<lparr>logged_in := Some ''true'',
     current_user_blob := Some (fst (createUser 7 ''k'' ''t''
       \<lparr>cu_nickname = ''ann'', cu_email = ''ann@mesa.gg'', cu_password = ''secret123''\<rparr> empty_storage))\<rparr>"

definition dark_form :: settings_form where
  "dark_form = \<lparr>sf_language = ''en'', sf_theme = ''dark'', sf_matchNotif = True, sf_tournamentNotif = False,
     sf_friendMessages = True, sf_soundNotif = True, sf_profileVisibility = ''friends'',
     sf_statsVisibility = ''all''\<rparr>"

section \<open>Properties\<close>

lemma stored_settings_save [simp]: "stored_settings (saveSettings s st) = s"
  by (simp add: stored_settings_def saveSettings_def)

lemma settings_checkAuth_save [simp]: "settings_checkAuth (saveSettings s st) = settings_checkAuth st"
  by (simp add: settings_checkAuth_def saveSettings_def)

lemma dropdown_status_stored:
  assumes "settings_blob st = Some s" and "onlineStatus s = Some b"
  shows "dropdown_status st = (b, st)"
proof -
  have "s\<lparr>onlineStatus := Some b\<rparr> = s" using assms(2) by (cases s) simp
  moreover have "st\<lparr>settings_blob := Some s\<rparr> = st" using assms(1) by (cases st) simp
  ultimately show ?thesis using assms by (cases b) (simp_all add: dropdown_status_def updateStatus_def stored_settings_def)
qed

lemma apply_read_settings:
  assumes "sf_language f \<noteq> []" and "sf_theme f \<noteq> []" and "sf_profileVisibility f \<noteq> []"
    and "sf_statsVisibility f \<noteq> []"
  shows "applySettingsToForm (readSettingsFromForm f st) f0 = f"
  using assms
  by (cases f) (simp add: applySettingsToForm_def readSettingsFromForm_def select_value_def
      checkbox_value_def str_or_def)

subsection \<open>Saving and reopening the page\<close>

text \<open>
  C37. Saved settings come back: after Save on the settings page of a logged-in user,
  with a choice in each select, opening the settings page again shows exactly the saved
  form and theme, and the status toggle that runs on opening writes nothing new.
\<close>

theorem settings_save_roundtrip:
  assumes "settings_checkAuth st \<noteq> None" and "saveClick p st = (p', st')"
    and "sf_language (sp_form p) \<noteq> []" and "sf_theme (sp_form p) \<noteq> []"
    and "sf_profileVisibility (sp_form p) \<noteq> []" and "sf_statsVisibility (sp_form p) \<noteq> []"
  shows "settings_init f0 st' = Some (p', st')"
proof -
  let ?s = "readSettingsFromForm (sp_form p) st"
  have p': "p' = p\<lparr>sp_theme := settings_applyTheme (theme ?s)\<rparr>" and st': "st' = saveSettings ?s st"
    using assms(2) by (auto simp: saveClick_def Let_def)
  obtain b where b: "onlineStatus ?s = Some b" by (simp add: readSettingsFromForm_def)
  have blob: "settings_blob st' = Some ?s" by (simp add: st' saveSettings_def)
  have "dropdown_status st' = (b, st')" using dropdown_status_stored [OF blob b] .
  moreover have "loadSettings st' = ?s" by (simp add: blob loadSettings_def)
  moreover have "applySettingsToForm ?s f0 = sp_form p" using assms(3-6) by (rule apply_read_settings)
  moreover obtain u where "settings_checkAuth st' = Some u" using assms(1) by (auto simp: st')
  ultimately show ?thesis by (simp add: settings_init_def p')
qed

theorem settings_save_roundtrip_witness:
  "settings_init dark_form (snd (saveClick \<lparr>sp_form = dark_form, sp_theme = None\<rparr> settings_session)) =
     Some (fst (saveClick \<lparr>sp_form = dark_form, sp_theme = None\<rparr> settings_session),
           snd (saveClick \<lparr>sp_form = dark_form, sp_theme = None\<rparr> settings_session))"
proof -
  have h1: "settings_checkAuth settings_session \<noteq> None"
    by (simp add: settings_checkAuth_def settings_session_def)
  have h2: "saveClick \<lparr>sp_form = dark_form, sp_theme = None\<rparr> settings_session =
      (fst (saveClick \<lparr>sp_form = dark_form, sp_theme = None\<rparr> settings_session),
       snd (saveClick \<lparr>sp_form = dark_form, sp_theme = None\<rparr> settings_session))" by simp
  have h3: "sf_language (sp_form \<lparr>sp_form = dark_form, sp_theme = None\<rparr>) \<noteq> []"
    "sf_theme (sp_form \<lparr>sp_form = dark_form, sp_theme = None\<rparr>) \<noteq> []"
    "sf_profileVisibility (sp_form \<lparr>sp_form = dark_form, sp_theme = None\<rparr>) \<noteq> []"
    "sf_statsVisibility (sp_form \<lparr>sp_form = dark_form, sp_theme = None\<rparr>) \<noteq> []"
    by (simp_all add: dark_form_def)
  from settings_save_roundtrip [OF h1 h2 h3] show ?thesis .
qed

subsection \<open>The first visit\<close>

text \<open>
  C38. On the first visit to the settings page, with nothing stored under
  \<open>mesaSettings\<close>, the defaults of \<open>loadSettings\<close> are never used: the status toggle of the
  dropdown first stores \<open>{onlineStatus: true}\<close>, \<open>loadSettings\<close> then returns that object, so
  the page gets the theme attribute \<open>undefined\<close> (the defaults give no attribute), the
  selects show no choice and the notification boxes are unchecked (the defaults check
  them).
\<close>

theorem settings_first_visit_ignores_defaults:
  assumes "settings_checkAuth st \<noteq> None" and "settings_blob st = None"
  shows "\<exists>p st'. settings_init f0 st = Some (p, st') \<and>
           settings_blob st' = Some (empty_settings\<lparr>onlineStatus := Some True\<rparr>) \<and>
           sp_theme p = Some ''undefined'' \<and> sf_language (sp_form p) = [] \<and> sf_theme (sp_form p) = [] \<and>
           \<not> sf_matchNotif (sp_form p) \<and> \<not> sf_friendMessages (sp_form p) \<and>
           settings_applyTheme (theme default_settings) = None \<and>
           checkbox_value (matchNotifications default_settings)"
  using assms
  by (auto simp: settings_init_def dropdown_status_def updateStatus_def stored_settings_def loadSettings_def
      applySettingsToForm_def settings_applyTheme_def select_value_def checkbox_value_def
      empty_settings_def default_settings_def Let_def)

theorem settings_first_visit_ignores_defaults_witness:
  "\<exists>p st'. settings_init dark_form settings_session = Some (p, st') \<and> sp_theme p = Some ''undefined''"
proof -
  have h1: "settings_checkAuth settings_session \<noteq> None"
    by (simp add: settings_checkAuth_def settings_session_def)
  have h2: "settings_blob settings_session = None" by (simp add: settings_session_def empty_storage_def)
  from settings_first_visit_ignores_defaults [OF h1 h2, of dark_form] show ?thesis by blast
qed

subsection \<open>Deleting the account\<close>

text \<open>
  C39. Deleting the account does not delete it: after both confirmations the user is logged
  out and the settings are gone, but the database still holds the user, and logging in
  again with the same email and password succeeds.
\<close>

theorem deleted_account_can_login:
  assumes "findUserByEmail st (js_trim e) = Some u" and "password u = pw"
  shows "settings_checkAuth (deleteAccount True True st) = None \<and>
         settings_blob (deleteAccount True True st) = None \<and>
         findUserByEmail (deleteAccount True True st) (js_trim e) = Some u \<and>
         snd (handleLogin e pw r t (deleteAccount True True st)) = None"
proof -
  have db: "findUserByEmail (deleteAccount True True st) = findUserByEmail st"
    by (simp add: deleteAccount_def findUserByEmail_def getDatabase_def fun_eq_iff)
  have "snd (handleLogin e pw r t (deleteAccount True True st)) = None"
    using assms by (simp add: handleLogin_def Let_def db)
  then show ?thesis using assms(1) db by (simp add: deleteAccount_def settings_checkAuth_def)
qed

theorem deleted_account_can_login_witness:
  "snd (handleLogin ''Ann@Mesa.gg'' ''secret123'' (1/2) 0 (deleteAccount True True demo_accounts)) = None"
proof -
  obtain u where h: "findUserByEmail demo_accounts (js_trim ''Ann@Mesa.gg'') = Some u" "password u = ''secret123''"
    using login_result [OF demo_login] by blast
  from deleted_account_can_login [OF h, of "1/2" 0] show ?thesis by blast
qed

subsection \<open>The theme on every page\<close>

text \<open>
  C40. The saved theme is the theme of every page: after Save, the theme the settings page
  shows and the theme the other pages apply from storage are the same, the chosen one,
  and none for \<open>default\<close> (an empty choice reads as \<open>default\<close>).
\<close>

theorem saved_theme_on_all_pages:
  "page_theme (snd (saveClick p st)) = sp_theme (fst (saveClick p st)) \<and>
   page_theme (snd (saveClick p st)) =
     (if sf_theme (sp_form p) = [] \<or> sf_theme (sp_form p) = ''default'' then None else Some (sf_theme (sp_form p)))"
  by (simp add: saveClick_def page_theme_def saveSettings_def readSettingsFromForm_def settings_applyTheme_def
      str_or_def Let_def)

end
