(* ===== verification/Landing.thy ===== *)
theory Landing
  imports Prelude
begin

text \<open>
  The tournament filter of the landing page (\<^verbatim>\<open>src/src/main.ts\<close>,
  \<open>setupTournamentFilters\<close>) and the timers it starts. A click on a filter button shows
  or fades every tournament card at once and schedules, with \<open>setTimeout\<close>, the second
  half of each change: the fade-in of a shown card after 10 ms, the removal
  (\<open>display: none\<close>) of a faded card after 300 ms. The page's state is the cards, the
  button last clicked, the pending timers and the clock; the browser's event loop runs the
  due timers in order of due time, and in order of creation among equal due times, when
  time passes. \<open>run_due\<close> is that loop, a \<open>function\<close> whose termination is proved.
\<close>

section \<open>Cards and filters\<close>

text \<open>A filter button, by its trimmed text: the button \<open>All\<close> (labelled with the
  Russian word for all) or a button naming a game.\<close>

datatype filter_label = AllGames | GameFilter string

text \<open>The match test of a card's game tag (lines 76--81).\<close>

definition filter_matches :: "string \<Rightarrow> string \<Rightarrow> bool" where
  "filter_matches f tag \<longleftrightarrow>
     tag = f \<or> is_infix f tag \<or>
     (f = ''Warcraft III'' \<and> is_infix ''Warcraft'' tag) \<or>
     (f = ''Star Wars: EaW'' \<and> is_infix ''Star Wars'' tag) \<or>
     (f = ''Company of Heroes'' \<and> is_infix ''Company'' tag)"

definition label_shows :: "filter_label \<Rightarrow> string \<Rightarrow> bool" where
  "label_shows l tag = (case l of AllGames \<Rightarrow> True | GameFilter f \<Rightarrow> filter_matches f tag)"

text \<open>A card: its game tag (\<open>.tournament-game\<close>, \<open>''\<close> when absent), whether it is
  displayed, and whether it is opaque and in place (opacity 1 and no offset) or faded.\<close>

record card =
  c_game :: string
  c_display :: bool
  c_opaque :: bool

datatype timer_action = Reveal | Conceal

record timer =
  t_due :: nat
  t_card :: nat
  t_action :: timer_action

record landing =
  cards :: "card list"
  active_filter :: "filter_label option"
  timers :: "timer list"
  clock :: nat

section \<open>The click\<close>

text \<open>One card on a click (lines 66--97): a shown card is displayed at once and revealed
  after 10 ms; a hidden one fades at once and is removed after 300 ms.\<close>

definition filter_card :: "filter_label \<Rightarrow> nat \<Rightarrow> nat \<Rightarrow> card \<Rightarrow> card \<times> timer" where
  "filter_card l now i c =
     (if label_shows l (c_game c)
      then (c\<lparr>c_display := True\<rparr>, \<lparr>t_due = now + 10, t_card = i, t_action = Reveal\<rparr>)
      else (c\<lparr>c_opaque := False\<rparr>, \<lparr>t_due = now + 300, t_card = i, t_action = Conceal\<rparr>))"

text \<open>The click listener of a filter button (lines 56--99): the button becomes the active
  one and \<open>forEach\<close> handles the cards in document order.\<close>

definition filterClick :: "filter_label \<Rightarrow> landing \<Rightarrow> landing" where
  "filterClick l s =
     (let rs = map (\<lambda>i. filter_card l (clock s) i (cards s ! i)) [0..<length (cards s)]
      in s\<lparr>active_filter := Some l, cards := map fst rs, timers := timers s @ map snd rs\<rparr>)"

section \<open>The event loop\<close>

text \<open>The callback of a timer (lines 68--71, 84--87 and 93--95) on its card.\<close>

definition timer_effect :: "timer_action \<Rightarrow> card \<Rightarrow> card" where
  "timer_effect a c = (case a of Reveal \<Rightarrow> c\<lparr>c_opaque := True\<rparr> | Conceal \<Rightarrow> c\<lparr>c_display := False\<rparr>)"

definition apply_timer :: "timer \<Rightarrow> card list \<Rightarrow> card list" where
  "apply_timer t cs =
     (if t_card t < length cs then cs[t_card t := timer_effect (t_action t) (cs ! t_card t)] else cs)"

text \<open>The next timer to run at time \<open>now\<close>: the first created among the due ones with
  the least due time.\<close>

definition next_due :: "nat \<Rightarrow> timer list \<Rightarrow> timer option" where
  "next_due now ts =
     find (\<lambda>t. t_due t \<le> now \<and> (\<forall>u \<in> set ts. t_due u \<le> now \<longrightarrow> t_due t \<le> t_due u)) ts"

function run_due :: "nat \<Rightarrow> card list \<Rightarrow> timer list \<Rightarrow> card list \<times> timer list" where
  "run_due now cs ts =
     (case next_due now ts of
        None \<Rightarrow> (cs, ts)
      | Some t \<Rightarrow> run_due now (apply_timer t cs) (remove1 t ts))"
  by pat_completeness auto
termination
proof (relation "measure (\<lambda>(now, cs, ts). length ts)")
  fix now cs ts t
  assume "next_due now ts = Some t"
  then have "t \<in> set ts" unfolding next_due_def by (rule find_Some_mem)
  then have "0 < length ts" by (rule length_pos_if_in_set)
  with \<open>t \<in> set ts\<close> show "((now, apply_timer t cs, remove1 t ts), now, cs, ts) \<in> measure (\<lambda>(now, cs, ts). length ts)"
    by (simp add: length_remove1)
qed simp

declare run_due.simps [simp del]

text \<open>Time passing: the clock moves on by \<open>d\<close> ms and the timers due by then run.\<close>

definition wait :: "nat \<Rightarrow> landing \<Rightarrow> landing" where
  "wait d s = (let now = clock s + d; r = run_due now (cards s) (timers s)
               in s\<lparr>cards := fst r, timers := snd r, clock := now\<rparr>)"

datatype landing_event = FilterClick filter_label | Wait nat

fun landing_step :: "landing \<Rightarrow> landing_event \<Rightarrow> landing" where
  "landing_step s (FilterClick l) = filterClick l s"
| "landing_step s (Wait d) = wait d s"

definition landing_run :: "landing \<Rightarrow> landing_event list \<Rightarrow> landing" where
  "landing_run s es = fold (\<lambda>e s. landing_step s e) es s"

text \<open>Two cards, a Warcraft III tournament and a Company of Heroes one, displayed and
  opaque, before any click.\<close>

definition demo_landing :: landing where
  "demo_landing = \<lparr>cards = [\<lparr>c_game = ''Warcraft III'', c_display = True, c_opaque = True\<rparr>,
                            \<lparr>c_game = ''Company of Heroes'', c_display = True, c_opaque = True\<rparr>],
                   active_filter = None, timers = [], clock = 0\<rparr>"

section \<open>The active navigation link\<close>

text \<open>The scroll listener of \<open>setupActiveNav\<close> (lines 30--45): the current section is
  the last section in document order whose top is at most 200 px below the scroll
  offset; a navigation link is active when its \<open>href\<close> is \<open>#\<close> and that id. A section is
  its id and its \<open>offsetTop\<close>.\<close>

definition activeSection :: "rat \<Rightarrow> (string \<times> rat) list \<Rightarrow> string" where
  "activeSection y secs = fold (\<lambda>(sid, top) cur. if top - 200 \<le> y then sid else cur) secs []"

definition nav_active :: "rat \<Rightarrow> (string \<times> rat) list \<Rightarrow> string option list \<Rightarrow> bool list" where
  "nav_active y secs hrefs = map (\<lambda>h. h = Some (''#'' @ activeSection y secs)) hrefs"

section \<open>Properties\<close>

lemma fold_last_match:
  "fold (\<lambda>(sid, top) cur. if top - 200 \<le> y then sid else cur) secs cur0 =
     (case filter (\<lambda>(_, top). top - 200 \<le> y) secs of [] \<Rightarrow> cur0 | xs \<Rightarrow> fst (last xs))"
  by (induction secs arbitrary: cur0) (auto split: list.split)

text \<open>The active section is the last one scrolled past, or none.\<close>

lemma activeSection_last:
  "activeSection y secs = (case filter (\<lambda>(_, top). top - 200 \<le> y) secs of [] \<Rightarrow> [] | xs \<Rightarrow> fst (last xs))"
  by (simp add: activeSection_def fold_last_match)

lemma next_due_mem: "next_due now ts = Some t \<Longrightarrow> t \<in> set ts"
  unfolding next_due_def by (rule find_Some_mem)

lemma next_due_Some_due: "next_due now ts = Some t \<Longrightarrow> t_due t \<le> now"
  unfolding next_due_def by (auto dest: find_Some_pred)

text \<open>The loop stops exactly when no pending timer is due.\<close>

lemma next_due_None: "next_due now ts = None \<longleftrightarrow> (\<forall>t \<in> set ts. now < t_due t)"
proof
  assume none: "next_due now ts = None"
  show "\<forall>t \<in> set ts. now < t_due t"
  proof (rule ccontr)
    assume "\<not> (\<forall>t \<in> set ts. now < t_due t)"
    then have ne: "{t_due t |t. t \<in> set ts \<and> t_due t \<le> now} \<noteq> {}" by force
    let ?m = "Min {t_due t |t. t \<in> set ts \<and> t_due t \<le> now}"
    have fin: "finite {t_due t |t. t \<in> set ts \<and> t_due t \<le> now}" by simp
    from Min_in [OF fin ne] obtain u where u: "u \<in> set ts" "t_due u \<le> now" "t_due u = ?m" by auto
    have "\<forall>v \<in> set ts. t_due v \<le> now \<longrightarrow> t_due u \<le> t_due v"
    proof (intro ballI impI)
      fix v assume "v \<in> set ts" and "t_due v \<le> now"
      then have "t_due v \<in> {t_due t |t. t \<in> set ts \<and> t_due t \<le> now}" by blast
      from Min_le [OF fin this] u(3) show "t_due u \<le> t_due v" by simp
    qed
    moreover have "\<forall>x \<in> set ts. \<not> (t_due x \<le> now \<and> (\<forall>v \<in> set ts. t_due v \<le> now \<longrightarrow> t_due x \<le> t_due v))"
      using none unfolding next_due_def find_None_iff by blast
    ultimately show False using u(1,2) by blast
  qed
qed (auto simp: next_due_def find_None_iff)

lemma filter_remove1_out: "\<not> P x \<Longrightarrow> filter P (remove1 x xs) = filter P xs"
  by (induction xs) auto

lemma find_remove1_out: "\<not> P x \<Longrightarrow> find P (remove1 x xs) = find P xs"
  by (induction xs) auto

lemma length_apply_timer [simp]: "length (apply_timer t cs) = length cs"
  by (simp add: apply_timer_def)

lemma distinct_map_remove1: "distinct (map f xs) \<Longrightarrow> distinct (map f (remove1 x xs))"
  by (induction xs) (auto dest: set_remove1_subset [THEN subsetD])

lemma find_unique_card:
  assumes "distinct (map t_card ts)" and "t \<in> set ts"
  shows "find (\<lambda>u. t_card u = t_card t) ts = Some t"
  using assms by (induction ts) (auto simp: rev_image_eqI)

lemma find_card_remove1:
  assumes "distinct (map t_card ts)" and "t \<in> set ts"
  shows "find (\<lambda>u. t_card u = t_card t) (remove1 t ts) = None"
  using assms by (induction ts) (auto simp: find_None_iff rev_image_eqI)

lemma nth_apply_timer:
  "i < length cs \<Longrightarrow> apply_timer t cs ! i = (if t_card t = i then timer_effect (t_action t) (cs ! i) else cs ! i)"
  by (simp add: apply_timer_def)

text \<open>When the timers name distinct cards and are all due, the loop gives each card the
  effect of its own timer.\<close>

lemma run_due_nth:
  assumes "distinct (map t_card ts)" and "\<forall>t \<in> set ts. t_due t \<le> now" and "i < length cs"
  shows "fst (run_due now cs ts) ! i =
           (case find (\<lambda>t. t_card t = i) ts of None \<Rightarrow> cs ! i | Some t \<Rightarrow> timer_effect (t_action t) (cs ! i))"
  using assms
proof (induction now cs ts rule: run_due.induct)
  case (1 now cs ts)
  show ?case
  proof (cases "next_due now ts")
    case None
    then have r: "run_due now cs ts = (cs, ts)" by (simp add: run_due.simps [of now cs ts])
    from None "1.prems"(2) have "ts = []" by (cases ts) (auto simp: next_due_None)
    with r show ?thesis by simp
  next
    case (Some t)
    have t: "t \<in> set ts" using Some by (rule next_due_mem)
    have step: "run_due now cs ts = run_due now (apply_timer t cs) (remove1 t ts)"
      using Some by (simp add: run_due.simps [of now cs ts])
    have IH: "fst (run_due now (apply_timer t cs) (remove1 t ts)) ! i =
        (case find (\<lambda>u. t_card u = i) (remove1 t ts) of None \<Rightarrow> apply_timer t cs ! i
         | Some u \<Rightarrow> timer_effect (t_action u) (apply_timer t cs ! i))"
    proof (rule "1.IH" [OF Some])
      show "distinct (map t_card (remove1 t ts))" using "1.prems"(1) by (rule distinct_map_remove1)
      show "\<forall>u \<in> set (remove1 t ts). t_due u \<le> now"
        using "1.prems"(2) by (auto dest: set_remove1_subset [THEN subsetD])
      show "i < length (apply_timer t cs)" using "1.prems"(3) by simp
    qed
    show ?thesis
    proof (cases "t_card t = i")
      case True
      with find_card_remove1 [OF "1.prems"(1) t] find_unique_card [OF "1.prems"(1) t] IH Some "1.prems"(3)
      show ?thesis by (simp add: step nth_apply_timer)
    next
      case False
      then have "find (\<lambda>u. t_card u = i) (remove1 t ts) = find (\<lambda>u. t_card u = i) ts"
        by (intro find_remove1_out) simp
      with False IH Some "1.prems"(3) show ?thesis
        by (simp add: step nth_apply_timer split: option.split)
    qed
  qed
qed

lemma run_due_step:
  "next_due now ts = Some t \<Longrightarrow> run_due now cs ts = run_due now (apply_timer t cs) (remove1 t ts)"
  by (simp add: run_due.simps [of now cs ts])

lemma run_due_result:
  "snd (run_due now cs ts) = filter (\<lambda>t. now < t_due t) ts \<and> length (fst (run_due now cs ts)) = length cs"
proof (induction now cs ts rule: run_due.induct)
  case (1 now cs ts)
  show ?case
  proof (cases "next_due now ts")
    case None
    then have r: "run_due now cs ts = (cs, ts)" by (simp add: run_due.simps [of now cs ts])
    from None have "\<forall>t \<in> set ts. now < t_due t" by (simp add: next_due_None)
    with r show ?thesis by (simp add: filter_id_conv)
  next
    case (Some t)
    have "\<not> now < t_due t" using next_due_Some_due [OF Some] by simp
    then have "filter (\<lambda>u. now < t_due u) (remove1 t ts) = filter (\<lambda>u. now < t_due u) ts"
      by (rule filter_remove1_out)
    with "1.IH" [OF Some] show ?thesis by (simp add: run_due_step [OF Some])
  qed
qed

subsection \<open>The event loop ends\<close>


subsection \<open>A filter click settles\<close>

lemma filter_card_timer [simp]:
  "t_card (snd (filter_card l now i c)) = i"
  "t_due (snd (filter_card l now i c)) \<le> now + 300"
  by (simp_all add: filter_card_def)

lemma filterClick_timers:
  "map t_card (map snd (map (\<lambda>i. filter_card l now i (cs ! i)) [0..<length cs])) = [0..<length cs]"
  by (simp add: comp_def)

lemma filterClick_due:
  "t \<in> set (map snd (map (\<lambda>i. filter_card l now i (cs ! i)) [0..<length cs])) \<Longrightarrow> t_due t \<le> now + 300"
  by auto

text \<open>
  C11. A filter click settles on the chosen filter: from a page with no pending timer, a
  click on a filter button followed by 300 ms or more leaves every card whose game the
  button selects (every card for the button All) displayed and opaque, every other card
  removed and faded, no timer pending, and the button active.
\<close>

theorem filter_click_settles:
  assumes "timers s = []" and "300 \<le> d"
  shows "cards (landing_run s [FilterClick l, Wait d]) =
           map (\<lambda>c. c\<lparr>c_display := label_shows l (c_game c), c_opaque := label_shows l (c_game c)\<rparr>) (cards s) \<and>
         timers (landing_run s [FilterClick l, Wait d]) = [] \<and>
         active_filter (landing_run s [FilterClick l, Wait d]) = Some l"
proof -
  let ?n = "length (cards s)" and ?now = "clock s + d"
  let ?rs = "map (\<lambda>i. filter_card l (clock s) i (cards s ! i)) [0..<?n]"
  have run: "landing_run s [FilterClick l, Wait d] =
      s\<lparr>active_filter := Some l, cards := fst (run_due ?now (map fst ?rs) (map snd ?rs)),
        timers := snd (run_due ?now (map fst ?rs) (map snd ?rs)), clock := ?now\<rparr>"
    using assms(1) by (simp add: landing_run_def filterClick_def wait_def Let_def)
  have dist: "distinct (map t_card (map snd ?rs))" by (simp only: filterClick_timers) simp
  have due: "\<forall>t \<in> set (map snd ?rs). t_due t \<le> ?now"
    using filterClick_due [of _ l "clock s" "cards s"] assms(2) by fastforce
  have nth_i: "fst (run_due ?now (map fst ?rs) (map snd ?rs)) ! i =
          (cards s ! i)\<lparr>c_display := label_shows l (c_game (cards s ! i)),
                       c_opaque := label_shows l (c_game (cards s ! i))\<rparr>" if i: "i < ?n" for i
  proof -
    have mem: "snd (?rs ! i) \<in> set (map snd ?rs)" using i by simp
    have c: "t_card (snd (?rs ! i)) = i" using i by simp
    from find_unique_card [OF dist mem] c
    have "find (\<lambda>t. t_card t = i) (map snd ?rs) = Some (snd (?rs ! i))" by simp
    with run_due_nth [OF dist due, of i "map fst ?rs"] i show ?thesis
      by (simp add: filter_card_def timer_effect_def split: if_split)
  qed
  have len: "length (fst (run_due ?now (map fst ?rs) (map snd ?rs))) = ?n"
    using run_due_result by simp
  have nil: "snd (run_due ?now (map fst ?rs) (map snd ?rs)) = []"
    using run_due_result due by (simp add: filter_empty_conv not_less)
  have "fst (run_due ?now (map fst ?rs) (map snd ?rs)) =
      map (\<lambda>c. c\<lparr>c_display := label_shows l (c_game c), c_opaque := label_shows l (c_game c)\<rparr>) (cards s)"
    by (rule nth_equalityI) (simp_all only: len nth_i length_map nth_map)
  with nil show ?thesis by (simp only: run landing.simps) simp
qed

theorem filter_click_settles_witness:
  "cards (landing_run demo_landing [FilterClick (GameFilter ''Warcraft III''), Wait 300]) =
     [\<lparr>c_game = ''Warcraft III'', c_display = True, c_opaque = True\<rparr>,
      \<lparr>c_game = ''Company of Heroes'', c_display = False, c_opaque = False\<rparr>]"
proof -
  have h1: "timers demo_landing = []" and h2: "300 \<le> (300::nat)" by (simp_all add: demo_landing_def)
  from filter_click_settles [OF h1 h2, of "GameFilter ''Warcraft III''"] show ?thesis
    by (simp add: demo_landing_def label_shows_def filter_matches_def)
qed

subsection \<open>A stale timer\<close>


end
