(* ===== verification/Dashboard.thy ===== *)
theory Dashboard
  imports Profile Settings
begin

text \<open>
  The dashboard page (\<^verbatim>\<open>src/src/dashboard.ts\<close>) as the composition of the components
  it starts: \<open>initDashboard\<close> checks the login flag, applies the stored theme, reads the
  current-user blob into the header and the banner background, fills in the stats, runs
  the online-status toggle of the dropdown (a storage write), shows the unread badge, and
  opens the banner editor on the current user. The handlers the page registers that keep
  state of their own (the game cards, the play options, the banner avatar) are modelled
  here; those that write storage are in \<open>Social\<close>, \<open>Auth\<close> and \<open>Editor\<close>.
\<close>

section \<open>Loading the page\<close>

text \<open>\<open>checkDashboardAuth\<close> (lines 7--15): \<open>False\<close> is the redirect to the login page.\<close>

definition checkDashboardAuth :: "storage \<Rightarrow> bool" where
  "checkDashboardAuth st \<longleftrightarrow> logged_in st = Some ''true''"

text \<open>The banner and header texts \<open>loadUserData\<close> sets: the name (\<open>'Player'\<close> when
  empty), the level, the avatar and the subtitle when truthy (\<open>None\<close> keeps the markup's),
  and the banner background.\<close>

record dashboard_header =
  dh_name :: string
  dh_level :: int
  dh_avatar :: "string option"
  dh_subtitle :: "string option"
  dh_bg :: banner_background

text \<open>\<open>loadUserData\<close> (lines 19--104): \<open>None\<close> is the redirect when there is no
  current-user blob; the background code (lines 68--97) is that of \<open>renderBanner\<close>.\<close>

definition loadUserData :: "storage \<Rightarrow> (user \<times> dashboard_header) option" where
  "loadUserData st =
     (case current_user_blob st of
        None \<Rightarrow> None
      | Some u \<Rightarrow> Some (u, \<lparr>dh_name = str_or (nickname u) ''Player'', dh_level = level u,
                           dh_avatar = truthy_str (avatar u), dh_subtitle = truthy_str (bio u),
                           dh_bg = banner_background u\<rparr>))"

text \<open>The numbers \<open>generateMockStats\<close> (lines 298--330) writes: ELO, wins and win rate
  on the banner, friends, subscribers (read from the database blob) and groups.\<close>

record dashboard_stats =
  ds_elo :: int
  ds_wins :: int
  ds_winRate :: int
  ds_friends :: nat
  ds_subscribers :: nat
  ds_groups :: nat

definition generateMockStats :: "storage \<Rightarrow> user \<Rightarrow> dashboard_stats" where
  "generateMockStats st u =
     \<lparr>ds_elo = elo u, ds_wins = wins u, ds_winRate = win_rate u,
      ds_friends = length (opt_list (friends u)), ds_subscribers = subscriber_count st (u_id u),
      ds_groups = length (opt_list (groups u))\<rparr>"

text \<open>The page after \<open>initDashboard\<close>: its theme attribute, header, stats, online
  status, unread badge, and the banner editor.\<close>

record dashboard_page =
  dp_theme :: "string option"
  dp_header :: dashboard_header
  dp_stats :: dashboard_stats
  dp_online :: bool
  dp_unread :: nat
  dp_editor :: editor

text \<open>\<open>initDashboard\<close> (lines 599--632), with the storage after it; \<open>None\<close> is a redirect
  to the login page. The editor gets the storage as the status toggle left it.\<close>

definition initDashboard :: "storage \<Rightarrow> (dashboard_page \<times> storage) option" where
  "initDashboard st =
     (if \<not> checkDashboardAuth st then None
      else case loadUserData st of
        None \<Rightarrow> None
      | Some (u, h) \<Rightarrow>
          let (online, st1) = dropdown_status st
          in Some (\<lparr>dp_theme = page_theme st, dp_header = h, dp_stats = generateMockStats st u,
                    dp_online = online, dp_unread = unread_count u, dp_editor = init_editor u st1\<rparr>, st1))"

section \<open>Handlers with state of their own\<close>

text \<open>The click listener of the banner avatar (lines 636--647): the profile view, unless
  the banner is in edit mode (the \<open>edit-mode\<close> class is set exactly while editing).\<close>

definition bannerAvatarClick :: "editor \<Rightarrow> string option" where
  "bannerAvatarClick ed = (if isEditMode ed then None else Some ''user-profile-view.html'')"

text \<open>The click listener of the game cards (lines 259--272): the clicked card becomes the
  only active one.\<close>

definition gameCardClick :: "nat \<Rightarrow> bool list \<Rightarrow> bool list" where
  "gameCardClick i cs = map (\<lambda>j. j = i) [0..<length cs]"

text \<open>The play options (lines 277--294) by the text of their heading: the search and the
  lobby only alert; the tournaments option opens the landing page's tournaments.\<close>

datatype play_option = FindGame | TournamentsOption | CreateLobby | OtherOption

definition playOptionClick :: "play_option \<Rightarrow> string option" where
  "playOptionClick p = (case p of TournamentsOption \<Rightarrow> Some ''index.html#tournaments'' | _ \<Rightarrow> None)"

section \<open>Properties\<close>

text \<open>Editor events keep the login flag of the storage and the id of the edited user.\<close>

lemma step_keeps_login:
  "editor_step s e = Some s' \<Longrightarrow>
     logged_in (store s') = logged_in (store s) \<and> u_id (ed_user s') = u_id (ed_user s)"
  by (cases e) (auto simp: handler_defs toggleEditMode_def enterEditMode_def exitEditMode_def
      saveLayout_def Let_def split: if_splits option.splits prod.splits)

lemma run_keeps_login:
  "editor_run s es = Some s' \<Longrightarrow>
     logged_in (store s') = logged_in (store s) \<and> u_id (ed_user s') = u_id (ed_user s)"
proof (induction es arbitrary: s)
  case (Cons e es)
  then obtain s1 where "editor_step s e = Some s1" and "editor_run s1 es = Some s'"
    by (auto split: option.splits)
  with Cons.IH step_keeps_login show ?case by metis
qed simp

lemma initDashboard_Some:
  assumes "initDashboard st = Some (p, st1)"
  shows "checkDashboardAuth st \<and> current_user_blob st = Some (ed_user (dp_editor p)) \<and>
         dp_editor p = init_editor (ed_user (dp_editor p)) st1 \<and> st1 = snd (dropdown_status st)"
  using assms
  by (auto simp: initDashboard_def loadUserData_def init_editor_def Let_def split: if_splits option.splits prod.splits)

lemma initDashboard_logged_in:
  assumes "logged_in st = Some ''true''" and "current_user_blob st = Some u"
  shows "\<exists>p. initDashboard st = Some (p, snd (dropdown_status st)) \<and>
           dp_editor p = init_editor u (snd (dropdown_status st)) \<and> dp_header p = snd (the (loadUserData st))"
  using assms
  by (simp add: initDashboard_def checkDashboardAuth_def loadUserData_def Let_def split: prod.split)

text \<open>The dashboard's stats are those of the profile view's account panel and banner.\<close>

lemma dashboard_stats_profile:
  "ds_friends (generateMockStats st u) = as_friends (loadStats st u) \<and>
   ds_subscribers (generateMockStats st u) = as_subscribers (loadStats st u) \<and>
   ds_groups (generateMockStats st u) = as_groups (loadStats st u) \<and>
   ds_winRate (generateMockStats st u) = win_rate u"
  by (simp add: generateMockStats_def loadStats_def)

text \<open>A click on a game card leaves exactly that card active.\<close>

lemma gameCardClick_exclusive:
  "length (gameCardClick i cs) = length cs \<and> (\<forall>j < length cs. gameCardClick i cs ! j \<longleftrightarrow> j = i)"
  by (simp add: gameCardClick_def)

text \<open>
  C12. The dashboard reopens on the saved banner: when the dashboard opened for a
  logged-in user, any events in its banner editor followed by Save leave a storage from
  which the dashboard opens again, for the same user, with an editor holding the saved
  layout and widgets and showing the same banner background.
\<close>

theorem dashboard_reopens_saved_banner:
  assumes "initDashboard st = Some (p, st1)" and "editor_run (dp_editor p) es = Some s"
    and "editor_step s ToolbarSave = Some s'"
  shows "\<exists>p2 st2. initDashboard (store s') = Some (p2, st2) \<and>
           u_id (ed_user (dp_editor p2)) = u_id (ed_user (dp_editor p)) \<and>
           layout (dp_editor p2) = layout s \<and> widgets (dp_editor p2) = widgets s \<and>
           dh_bg (dp_header p2) = banner_background (ed_user s)"
proof -
  let ?u = "(ed_user s)\<lparr>bannerLayout := Some (layout s), profileWidgets := Some (widgets s)\<rparr>"
  have p: "checkDashboardAuth st" "dp_editor p = init_editor (ed_user (dp_editor p)) st1"
    "st1 = snd (dropdown_status st)"
    using initDashboard_Some [OF assms(1)] by blast+
  have r0: "reachable_editor (dp_editor p)" using p(2) reachable_editor.init by metis
  have rs: "reachable_editor s" by (rule reachable_run [OF r0 assms(2)])
  have sv: "ed_user s' = ?u" "store s' = updateCurrentUser ?u (store s)"
    using save_result [OF assms(3)] by simp_all
  have uid: "u_id (ed_user s) = u_id (ed_user (dp_editor p))"
    using run_keeps_login [OF assms(2)] by simp
  have "store (dp_editor p) = st1" by (subst p(2)) (simp add: init_editor_def Let_def)
  then have "logged_in (store s) = logged_in st1" using run_keeps_login [OF assms(2)] by simp
  also have "\<dots> = Some ''true''" using p(1,3)
    by (simp add: checkDashboardAuth_def dropdown_status_def updateStatus_def Let_def)
  finally have li: "logged_in (store s') = Some ''true''" using sv(2) by simp
  have cu: "current_user_blob (store s') = Some ?u" using sv(2) by simp
  obtain p2 where p2: "initDashboard (store s') = Some (p2, snd (dropdown_status (store s')))"
    and ed2: "dp_editor p2 = init_editor ?u (snd (dropdown_status (store s')))"
    and h2: "dp_header p2 = snd (the (loadUserData (store s')))"
    using initDashboard_logged_in [OF li cu] by blast
  have "version (layout s) \<noteq> 0" using reachable_version_ok [OF rs] by (simp add: version_ok_def)
  then have "layout (dp_editor p2) = layout s" "widgets (dp_editor p2) = widgets s"
    by (simp_all add: ed2 init_editor_def loadLayout_def Let_def)
  moreover have "dh_bg (dp_header p2) = banner_background (ed_user s)"
    by (simp add: h2 cu loadUserData_def)
  moreover have "u_id (ed_user (dp_editor p2)) = u_id (ed_user (dp_editor p))"
    by (simp add: ed2 init_editor_def Let_def uid)
  ultimately show ?thesis using p2 by blast
qed

theorem dashboard_reopens_saved_banner_witness:
  "\<exists>p2 st2. initDashboard (store (the (editor_step
       (enterEditMode (dp_editor (fst (the (initDashboard demo_store))))) ToolbarSave))) = Some (p2, st2) \<and>
     layout (dp_editor p2) = DEFAULT_BANNER_LAYOUT \<and> widgets (dp_editor p2) = []"
proof -
  let ?st1 = "snd (dropdown_status demo_store)"
  obtain p where h1: "initDashboard demo_store = Some (p, ?st1)" and e: "dp_editor p = init_editor demo_user ?st1"
    using initDashboard_logged_in [of demo_store demo_user] by (auto simp: demo_store_def)
  have h2: "editor_run (dp_editor p) [EditToggle] = Some (enterEditMode (dp_editor p))"
    by (simp add: e toggleEditMode_def init_editor_def Let_def)
  have h3: "editor_step (enterEditMode (dp_editor p)) ToolbarSave =
      Some (the (editor_step (enterEditMode (dp_editor p)) ToolbarSave))"
    by (simp add: exitEditMode_def Let_def)
  have l: "layout (enterEditMode (dp_editor p)) = DEFAULT_BANNER_LAYOUT"
    "widgets (enterEditMode (dp_editor p)) = []"
    by (simp_all add: e enterEditMode_def init_editor_def loadLayout_def demo_user_def Let_def)
  from dashboard_reopens_saved_banner [OF h1 h2 h3] l h1 show ?thesis by auto
qed

end
