(* ===== verification/Mock_Data.thy ===== *)
theory Mock_Data
  imports Store
begin

text \<open>
  The generated data of the profile view (\<^verbatim>\<open>src/src/user-profile-view.ts\<close>): the
  favourite-games list of \<open>loadGamesPlayedList\<close>, the game selector with the per-game
  stats of \<open>loadGameStats\<close>, and the match history of \<open>generateMockMatchHistory\<close>
  and \<open>renderMatchHistory\<close>. Each \<open>Math.random()\<close> draw is an argument: \<open>draw k\<close> is
  the \<open>k\<close>-th draw of the call, a number in \<open>[0, 1)\<close>. Russian display texts (dates,
  durations, rank names) are modelled by their index in the source's tables; the game
  icons (inline SVG) are not modelled.
\<close>

section \<open>Games and ranks\<close>

text \<open>\<open>GAMES_DATA\<close> (lines 262--266): id and name of each game.\<close>

definition GAMES_DATA :: "(string \<times> string) list" where
  "GAMES_DATA = [(''warcraft3'', ''Warcraft III''), (''starwars'', ''Star Wars: EaW''),
                 (''coh'', ''Company of Heroes'')]"

datatype rank_tier = Bronze | Silver | Gold | Platinum

text \<open>\<open>getRankInfo\<close> (lines 381--386): the rank of an ELO rating.\<close>

definition getRankInfo :: "int \<Rightarrow> rank_tier" where
  "getRankInfo e = (if e \<ge> 2000 then Platinum else if e \<ge> 1500 then Gold
                    else if e \<ge> 1000 then Silver else Bronze)"

text \<open>\<open>Math.floor(Math.random() * 200 - 100)\<close>: a random offset of the ELO rating.\<close>

definition elo_offset :: "rat \<Rightarrow> int" where
  "elo_offset r = \<lfloor>r * 200 - 100\<rfloor>"

text \<open>\<open>x.toFixed(d)\<close> read back as a number, for the non-negative values it is used on.\<close>

definition to_fixed :: "nat \<Rightarrow> rat \<Rightarrow> rat" where
  "to_fixed d x = of_int (round (x * 10 ^ d)) / 10 ^ d"

section \<open>The favourite-games list\<close>

text \<open>One card of the list (lines 389--413): the ELO rating with its rank, the months
  since the game was started (the month shown is that many months back), and the hours
  per day, week and month.\<close>

record favorite_game =
  fg_id :: string
  fg_name :: string
  fg_elo :: int
  fg_rank :: rank_tier
  fg_monthsAgo :: int
  fg_hoursPerDay :: rat
  fg_hoursPerWeek :: rat
  fg_hoursPerMonth :: rat

definition favorite_card :: "user \<Rightarrow> string \<times> string \<Rightarrow> rat \<Rightarrow> rat \<Rightarrow> rat \<Rightarrow> favorite_game" where
  "favorite_card u g r_elo r_months r_hours =
     (let e = elo u + elo_offset r_elo; hpd = to_fixed 1 (r_hours * 5 + 1/2) in
      \<lparr>fg_id = fst g, fg_name = snd g, fg_elo = e, fg_rank = getRankInfo e,
       fg_monthsAgo = \<lfloor>r_months * 36\<rfloor> + 1, fg_hoursPerDay = hpd,
       fg_hoursPerWeek = to_fixed 0 (hpd * 7), fg_hoursPerMonth = to_fixed 0 (hpd * 30)\<rparr>)"

text \<open>\<open>loadGamesPlayedList\<close> (lines 319--457): three draws per game, in the order of
  \<open>GAMES_DATA\<close>.\<close>

definition loadGamesPlayedList :: "user \<Rightarrow> (nat \<Rightarrow> rat) \<Rightarrow> favorite_game list" where
  "loadGamesPlayedList u draw =
     map (\<lambda>i. favorite_card u (GAMES_DATA ! i) (draw (3 * i)) (draw (3 * i + 1)) (draw (3 * i + 2)))
       [0..<length GAMES_DATA]"

section \<open>The game selector\<close>

text \<open>The numbers of \<open>loadGameStats\<close> (lines 517--560).\<close>

record game_stats =
  gs_name :: string
  gs_elo :: int
  gs_wins :: int
  gs_losses :: int
  gs_winRate :: int

definition loadGameStats :: "string \<Rightarrow> user \<Rightarrow> rat \<Rightarrow> rat \<Rightarrow> game_stats option" where
  "loadGameStats gid u r_games r_elo =
     (case find (\<lambda>g. fst g = gid) GAMES_DATA of
        None \<Rightarrow> None
      | Some g \<Rightarrow>
          let games = gamesPlayed u div int (length GAMES_DATA) + \<lfloor>r_games * 10\<rfloor>;
              w = \<lfloor>of_int games * (52 / 100 :: rat)\<rfloor>
          in Some \<lparr>gs_name = snd g, gs_elo = elo u + elo_offset r_elo, gs_wins = w, gs_losses = games - w,
                   gs_winRate = (if games > 0 then round (of_int w / of_int games * 100 :: rat) else 0)\<rparr>)"

text \<open>The stats area: the account panel, or the panel of a game with its stats (\<open>None\<close>
  when the id names no game and the panel keeps its content).\<close>

datatype stats_panel = AccountPanel | GamePanel "game_stats option"

record stats_view =
  sv_active :: string
  sv_panel :: stats_panel

text \<open>\<open>selectGame\<close> (lines 486--515).\<close>

definition selectGame :: "string \<Rightarrow> user \<Rightarrow> rat \<Rightarrow> rat \<Rightarrow> stats_view" where
  "selectGame gid u r_games r_elo =
     \<lparr>sv_active = gid,
      sv_panel = (if gid = ''account'' then AccountPanel else GamePanel (loadGameStats gid u r_games r_elo))\<rparr>"

section \<open>The match history\<close>

text \<open>\<open>MockMatch\<close> (lines 6--15); the date and the duration are indices into the tables
  of Russian texts of \<open>generateMockMatchHistory\<close>.\<close>

record mock_match =
  m_id :: string
  m_opponent :: string
  m_win :: bool
  m_game :: string
  m_eloChange :: int
  m_date :: nat
  m_score :: string
  m_duration :: nat

definition match_opponents :: "string list" where
  "match_opponents = [''Grubby'', ''Happy'', ''Lyn'', ''TH000'', ''Moon'', ''Infi'', ''Foggy'', ''Hitman'',
                      ''Lawliet'', ''Sok'', ''ReMinD'', ''Chaemiko'']"

definition match_games :: "string list" where
  "match_games = [''Warcraft III'', ''Star Wars: EaW'', ''Company of Heroes'']"

definition match_scores :: "string list" where
  "match_scores = [''2-0'', ''2-1'', ''1-2'', ''0-2'', ''3-1'', ''1-3'', ''2-0'', ''2-1'']"

text \<open>One iteration of the loop of \<open>generateMockMatchHistory\<close> (lines 585--601).\<close>

definition mock_match_at :: "nat \<Rightarrow> rat \<Rightarrow> mock_match" where
  "mock_match_at i r =
     (let win = (i mod 3 \<noteq> 2) in
      \<lparr>m_id = nat_str (i + 1), m_opponent = match_opponents ! (i mod length match_opponents),
       m_win = win, m_game = match_games ! (i mod length match_games),
       m_eloChange = (if win then \<lfloor>r * 20\<rfloor> + 15 else - (\<lfloor>r * 16\<rfloor> + 12)), m_date = i,
       m_score = (if win then match_scores ! (i mod 4) else match_scores ! (i mod 4 + 4)),
       m_duration = i mod 10\<rparr>)"

definition generateMockMatchHistory :: "(nat \<Rightarrow> rat) \<Rightarrow> mock_match list" where
  "generateMockMatchHistory draw = map (\<lambda>i. mock_match_at i (draw i)) [0..<12]"

text \<open>The ELO cell of a row of \<open>renderMatchHistory\<close> (lines 606--636): a plus sign
  before a positive change, the number's own sign otherwise.\<close>

definition elo_cell :: "int \<Rightarrow> string" where
  "elo_cell k = (if k > 0 then ''+'' else []) @ int_str k"

definition renderMatchHistory :: "mock_match list \<Rightarrow> nat \<times> (bool \<times> string) list" where
  "renderMatchHistory ms = (length ms, map (\<lambda>m. (m_win m, elo_cell (m_eloChange m))) ms)"

section \<open>Properties\<close>

text \<open>A draw scaled by \<open>k\<close> and floored lies in \<open>[0, k)\<close>.\<close>

lemma floor_draw:
  fixes r :: rat
  assumes "0 \<le> r" and "r < 1" and "0 < k"
  shows "0 \<le> \<lfloor>r * of_int k\<rfloor> \<and> \<lfloor>r * of_int k\<rfloor> < k"
proof
  show "0 \<le> \<lfloor>r * of_int k\<rfloor>" using assms by simp
  have "r * of_int k < 1 * of_int k" using assms by (intro mult_strict_right_mono) simp_all
  then show "\<lfloor>r * of_int k\<rfloor> < k" by (simp add: floor_less_iff)
qed

text \<open>The ELO change of a generated match: a win gains 15 to 34 points, a loss costs
  12 to 27.\<close>

lemma mock_match_elo:
  assumes "0 \<le> r" and "r < 1"
  shows "(m_win (mock_match_at i r) \<longrightarrow> 15 \<le> m_eloChange (mock_match_at i r) \<and> m_eloChange (mock_match_at i r) \<le> 34) \<and>
         (\<not> m_win (mock_match_at i r) \<longrightarrow> -27 \<le> m_eloChange (mock_match_at i r) \<and> m_eloChange (mock_match_at i r) \<le> -12)"
  using floor_draw [OF assms, of 20] floor_draw [OF assms, of 16]
  by (simp add: mock_match_at_def Let_def)

text \<open>The history has twelve matches, eight of them wins.\<close>

lemma mock_history_shape:
  "length (generateMockMatchHistory draw) = 12 \<and> length (filter m_win (generateMockMatchHistory draw)) = 8"
  by (simp add: generateMockMatchHistory_def mock_match_at_def Let_def upt_rec)

lemma elo_offset_bounds:
  assumes "0 \<le> r" and "r < 1"
  shows "-100 \<le> elo_offset r \<and> elo_offset r \<le> 99"
proof -
  have "0 \<le> \<lfloor>r * 200\<rfloor> \<and> \<lfloor>r * 200\<rfloor> < 200" using floor_draw [OF assms, of 200] by simp
  moreover have "\<lfloor>r * 200 - 100\<rfloor> = \<lfloor>r * 200\<rfloor> - 100"
    using floor_diff_of_int [of "r * 200" 100] by simp
  ultimately show ?thesis by (simp add: elo_offset_def)
qed

text \<open>Each rendered row of the history shows a win with a plus sign and a loss with a
  minus sign, whatever the draws.\<close>

lemma mock_history_signs:
  assumes "\<forall>k. 0 \<le> draw k \<and> draw k < 1"
  shows "\<forall>(w, cell) \<in> set (snd (renderMatchHistory (generateMockMatchHistory draw))).
           hd cell = (if w then CHR ''+'' else CHR ''-'')"
proof -
  have "hd (elo_cell (m_eloChange (mock_match_at i (draw i)))) =
          (if m_win (mock_match_at i (draw i)) then CHR ''+'' else CHR ''-'')" for i
  proof -
    have "0 \<le> draw i" "draw i < 1" using assms by auto
    from mock_match_elo [OF this, of i] show ?thesis by (auto simp: elo_cell_def int_str_def)
  qed
  then show ?thesis by (auto simp: renderMatchHistory_def generateMockMatchHistory_def)
qed

text \<open>The stats of a game panel: non-negative wins and losses, a win rate in [0, 100],
  and an ELO rating within 100 points of the user's.\<close>

lemma loadGameStats_bounds:
  assumes "loadGameStats gid u r_g r_e = Some gs" and "0 \<le> gamesPlayed u"
    and "0 \<le> r_g" and "r_g < 1" and "0 \<le> r_e" and "r_e < 1"
  shows "0 \<le> gs_wins gs \<and> 0 \<le> gs_losses gs \<and> 0 \<le> gs_winRate gs \<and> gs_winRate gs \<le> 100 \<and>
         elo u - 100 \<le> gs_elo gs \<and> gs_elo gs \<le> elo u + 99"
proof -
  define g where "g = gamesPlayed u div int (length GAMES_DATA) + \<lfloor>r_g * 10\<rfloor>"
  define w where "w = \<lfloor>of_int g * (52 / 100 :: rat)\<rfloor>"
  have "0 \<le> gamesPlayed u div int (length GAMES_DATA)" using assms(2) by (simp add: GAMES_DATA_def)
  moreover have "0 \<le> \<lfloor>r_g * 10\<rfloor>" using assms(3) by simp
  ultimately have g0: "0 \<le> g" unfolding g_def by simp
  have w0: "0 \<le> w" unfolding w_def using g0 by simp
  have "of_int w \<le> of_int g * (52 / 100 :: rat)" unfolding w_def by (rule of_int_floor_le)
  also have "\<dots> \<le> of_int g" using g0 by simp
  finally have wg: "w \<le> g" by linarith
  have rate: "0 \<le> (if g > 0 then round (of_int w / of_int g * 100 :: rat) else 0) \<and>
              (if g > 0 then round (of_int w / of_int g * 100 :: rat) else 0) \<le> 100"
  proof (cases "g > 0")
    case True
    let ?x = "of_int w / of_int g * 100 :: rat"
    have "of_int 0 \<le> ?x" using w0 True by simp
    moreover have "?x \<le> of_int 100" using wg True by (simp add: divide_le_eq)
    ultimately show ?thesis using True round_bounds [of 0 ?x 100] by simp
  qed simp
  obtain gg where "find (\<lambda>x. fst x = gid) GAMES_DATA = Some gg"
    and gs: "gs = \<lparr>gs_name = snd gg, gs_elo = elo u + elo_offset r_e, gs_wins = w, gs_losses = g - w,
                   gs_winRate = (if g > 0 then round (of_int w / of_int g * 100 :: rat) else 0)\<rparr>"
    using assms(1) by (auto simp: loadGameStats_def g_def w_def Let_def split: option.splits)
  with w0 wg rate elo_offset_bounds [OF assms(5,6)] show ?thesis by simp
qed

text \<open>The favourite-game card and the game panel draw the ELO rating of the same game
  separately: with draws 0 for the card and 1/2 for the panel, the profile view shows two
  ratings 100 points apart for Warcraft III.\<close>

lemma game_elo_shown_twice:
  "fg_elo (hd (loadGamesPlayedList u (\<lambda>_. 0))) = elo u - 100 \<and>
   map_option gs_elo (loadGameStats ''warcraft3'' u 0 (1/2)) = Some (elo u)"
  by (simp add: loadGamesPlayedList_def favorite_card_def loadGameStats_def GAMES_DATA_def elo_offset_def
      Let_def)

end
