(* ===== verification/Profile_View.thy ===== *)
theory Profile_View
  imports Profile Social Settings Mock_Data
begin

text \<open>
  The load of the profile view (\<^verbatim>\<open>src/src/user-profile-view.ts\<close>, \<open>init\<close>, lines
  1134--1174) as one function over the storage: the login check, the header, the status
  dropdown, the unread badge, the choice of the profile shown, its banner, statistics and
  biography, the action bar and the generated match history. The click handlers of the
  action bar are \<open>friendButtonClick\<close> and \<open>subscribeButtonClick\<close> of \<open>Social\<close>; the
  lemmas relate what they store to what the page shows when it is opened again.
\<close>

section \<open>Login check, header and biography\<close>

text \<open>\<open>checkAuth\<close>, lines 19--35: \<open>None\<close> redirects to the login page.\<close>

definition view_checkAuth :: "storage \<Rightarrow> user option" where
  "view_checkAuth st = (if logged_in st \<noteq> Some ''true'' then None else current_user_blob st)"

text \<open>\<open>loadHeader\<close>, lines 37--45: the name, the level as text, and the avatar when it is
  truthy (\<open>None\<close> keeps the markup's picture).\<close>

record page_header =
  hd_name :: string
  hd_level :: string
  hd_avatar :: "string option"

definition loadHeader :: "user \<Rightarrow> page_header" where
  "loadHeader u = \<lparr>hd_name = nickname u, hd_level = int_str (level u), hd_avatar = truthy_str (avatar u)\<rparr>"

text \<open>\<open>loadBio\<close>, lines 562--572: the biography, or the placeholder text when it is falsy.\<close>

datatype bio_text = BioText string | NoBioPlaceholder

record bio_view =
  bv_bio :: bio_text
  bv_level :: string

definition loadBio :: "user \<Rightarrow> bio_view" where
  "loadBio u =
     \<lparr>bv_bio = (case truthy_str (bio u) of Some b \<Rightarrow> BioText b | None \<Rightarrow> NoBioPlaceholder),
      bv_level = int_str (level u)\<rparr>"

section \<open>Badge, action bar and sidebar\<close>

text \<open>The badge of \<open>refreshNotifications\<close> (lines 801--813): \<open>None\<close> when there is no
  current-user blob (the listener returns), otherwise the unread count shown, or hidden
  at 0.\<close>

datatype badge = BadgeShown string | BadgeHidden

definition view_badge :: "storage \<Rightarrow> badge option" where
  "view_badge st =
     (case current_user_blob st of
        None \<Rightarrow> None
      | Some u \<Rightarrow> let n = unread_count u in Some (if n > 0 then BadgeShown (nat_str n) else BadgeHidden))"

text \<open>The buttons \<open>setupActionsBar\<close> renders (lines 952--996): edit and share on the
  user's own profile; otherwise the friend button's state (friends, a pending request from
  the current user among the profile's notifications, or neither) and whether the
  subscribe button shows \<open>subscribed\<close>.\<close>

datatype friend_label = AddFriendLabel | FriendsLabel | RequestSentLabel

datatype actions_bar = OwnActions | VisitorActions friend_label bool

definition setupActionsBar :: "user \<Rightarrow> user \<Rightarrow> actions_bar" where
  "setupActionsBar cur pu =
     (if u_id cur = u_id pu then OwnActions
      else VisitorActions
             (if u_id pu \<in> set (opt_list (friends cur)) then FriendsLabel
              else if has_request_from (u_id cur) pu then RequestSentLabel
              else AddFriendLabel)
             (u_id pu \<in> set (opt_list (subscriptions cur))))"

text \<open>The logout link of \<open>setupSidebar\<close> (lines 761--774), with the answer to the
  confirmation.\<close>

definition sidebarLogout :: "bool \<Rightarrow> storage \<Rightarrow> storage" where
  "sidebarLogout confirmed st =
     (if confirmed
      then st\<lparr>logged_in := None, current_user_blob := None, verification := None, pending := None\<rparr>
      else st)"

section \<open>The page\<close>

text \<open>
  \<open>init\<close>, lines 1134--1174, with the \<open>id\<close> parameter of the URL and the draws of
  \<open>Math.random()\<close> for the match history. The theme is read first; the dropdown then
  writes the online status, and everything after it reads the storage so written. The
  search box and the notification list only install listeners at load.
\<close>

record profile_view_page =
  pv_theme :: "string option"
  pv_header :: page_header
  pv_online :: bool
  pv_badge :: "badge option"
  pv_user :: user
  pv_banner :: banner_view
  pv_stats :: account_stats
  pv_bio :: bio_view
  pv_actions :: actions_bar
  pv_matches :: "mock_match list"

definition initProfileView ::
  "string option \<Rightarrow> (nat \<Rightarrow> rat) \<Rightarrow> storage \<Rightarrow> (profile_view_page \<times> storage) option" where
  "initProfileView view_id draw st =
     (case view_checkAuth st of
        None \<Rightarrow> None
      | Some cu \<Rightarrow>
          let (online, st1) = dropdown_status st;
              pu = profile_user cu view_id st1
          in Some (\<lparr>pv_theme = page_theme st, pv_header = loadHeader cu, pv_online = online,
                    pv_badge = view_badge st1, pv_user = pu, pv_banner = renderBanner st1 pu,
                    pv_stats = loadStats st1 pu, pv_bio = loadBio pu,
                    pv_actions = setupActionsBar cu pu,
                    pv_matches = generateMockMatchHistory draw\<rparr>, st1))"


section \<open>Properties\<close>

lemma dropdown_status_keeps [simp]:
  "db_blob (snd (dropdown_status st)) = db_blob st"
  "current_user_blob (snd (dropdown_status st)) = current_user_blob st"
  "logged_in (snd (dropdown_status st)) = logged_in st"
  by (simp_all add: dropdown_status_def updateStatus_def Let_def)

lemma initProfileView_Some:
  assumes "view_checkAuth st = Some cu"
  shows "\<exists>p. initProfileView v draw st = Some (p, snd (dropdown_status st)) \<and>
           pv_user p = profile_user cu v (snd (dropdown_status st)) \<and>
           pv_actions p = setupActionsBar cu (profile_user cu v (snd (dropdown_status st)))"
  using assms by (simp add: initProfileView_def split_def Let_def)

lemma profile_user_found:
  assumes "vid \<noteq> []" and "vid \<noteq> u_id cur" and "db_blob st = Some db" and "find_user (users db) vid = Some v"
  shows "profile_user cur (Some vid) st = v"
  using assms by (simp add: profile_user_def)

lemma updateCurrentUser_other:
  assumes "db_blob st = Some db" and "uid \<noteq> u_id u"
  shows "\<exists>db'. db_blob (updateCurrentUser u st) = Some db' \<and> find_user (users db') uid = find_user (users db) uid"
  using assms by (simp add: updateCurrentUser_def Let_def find_user_replace_user_other)

lemma has_request_push_note [simp]:
  "has_request_from uid (push_note n u) \<longleftrightarrow>
     (n_type n = FriendRequest \<and> fromUserId n = uid) \<or> has_request_from uid u"
  by (simp add: has_request_from_def push_note_def)

text \<open>A friend click on a profile that is not a friend leaves a request from the current
  user in the target's database entry (sent now, or pending already) and writes nothing
  else the view reads.\<close>

lemma friend_click_request_stored:
  assumes "db_blob st = Some db" and "find_user (users db) pid = Some tgt"
    and "pid \<notin> set (opt_list (friends cur))"
    and "friendButtonClick cur pid now created st = (cur', st')"
  shows "cur' = cur \<and> current_user_blob st' = current_user_blob st \<and> logged_in st' = logged_in st \<and>
         (\<exists>db' tgt'. db_blob st' = Some db' \<and> find_user (users db') pid = Some tgt' \<and>
                     has_request_from (u_id cur) tgt')"
proof (cases "has_request_from (u_id cur) tgt")
  case True
  with assms show ?thesis by (simp add: friendButtonClick_def)
next
  case False
  let ?t = "push_note (make_note ''_fr'' FriendRequest cur now created) tgt"
  have "u_id tgt = pid" using assms(2) by (rule find_user_Some_id)
  then have "find_user (replace_user ?t (users db)) pid = Some ?t"
    using assms(2) find_user_replace_user_same [of "users db" ?t] by simp
  with False assms show ?thesis by (auto simp: friendButtonClick_def make_note_def)
qed

text \<open>A subscribe click on a profile not yet subscribed to stores the page copy with the
  profile appended to its subscriptions, and keeps a pending request to the target.\<close>

lemma subscribe_click_stored:
  assumes "db_blob st = Some db" and "find_user (users db) pid = Some tgt"
    and "pid \<notin> set (opt_list (subscriptions cur))" and "pid \<noteq> u_id cur"
    and "subscribeButtonClick cur pid now created st = (cur', st')"
  shows "current_user_blob st' = Some cur' \<and> u_id cur' = u_id cur \<and> friends cur' = friends cur \<and>
         pid \<in> set (opt_list (subscriptions cur')) \<and> logged_in st' = logged_in st \<and>
         (\<exists>db' tgt'. db_blob st' = Some db' \<and> find_user (users db') pid = Some tgt' \<and>
                     (has_request_from (u_id cur) tgt \<longrightarrow> has_request_from (u_id cur) tgt'))"
proof -
  let ?t = "push_note (make_note ''_sub'' SubscriptionNote cur now created) tgt"
  let ?st1 = "st\<lparr>db_blob := Some (db\<lparr>users := replace_user ?t (users db)\<rparr>)\<rparr>"
  let ?c = "cur\<lparr>subscriptions := Some (opt_list (subscriptions cur) @ [pid])\<rparr>"
  have "(cur', st') = (?c, updateCurrentUser ?c ?st1)"
    using assms by (auto simp: subscribeButtonClick_def Let_def)
  then have res: "cur' = ?c" "st' = updateCurrentUser ?c ?st1" by simp_all
  have "u_id tgt = pid" using assms(2) by (rule find_user_Some_id)
  then have t: "find_user (replace_user ?t (users db)) pid = Some ?t"
    using assms(2) find_user_replace_user_same [of "users db" ?t] by simp
  obtain db' where "db_blob st' = Some db'" "find_user (users db') pid = Some ?t"
    using updateCurrentUser_other [of ?st1 _ pid ?c] assms(4) res(2) t by auto
  with res show ?thesis by auto
qed


text \<open>
  C27. A visitor who, on another user's profile view, clicks the friend button (not yet
  friends) and then the subscribe button (not yet subscribed) finds, on opening that
  profile view again, the friend button showing the pending request and the subscribe
  button showing the subscription: both clicks reach the storage the page reads at load.
\<close>

theorem visitor_actions_after_reopen:
  assumes "view_checkAuth st = Some cur" and "db_blob st = Some db" and "find_user (users db) pid = Some tgt"
    and "pid \<noteq> []" and "pid \<noteq> u_id cur"
    and "pid \<notin> set (opt_list (friends cur))" and "pid \<notin> set (opt_list (subscriptions cur))"
    and "friendButtonClick cur pid n1 c1 st = (cur1, st1)"
    and "subscribeButtonClick cur1 pid n2 c2 st1 = (cur2, st2)"
  shows "\<exists>p st3. initProfileView (Some pid) draw st2 = Some (p, st3) \<and> u_id (pv_user p) = pid \<and>
           pv_actions p = VisitorActions RequestSentLabel True"
proof -
  from friend_click_request_stored [OF assms(2,3,6,8)]
  obtain db1 tgt1 where f: "cur1 = cur" "current_user_blob st1 = current_user_blob st"
      "logged_in st1 = logged_in st" "db_blob st1 = Some db1" "find_user (users db1) pid = Some tgt1"
      "has_request_from (u_id cur) tgt1"
    by blast
  have sub: "subscribeButtonClick cur pid n2 c2 st1 = (cur2, st2)" using assms(9) f(1) by simp
  from subscribe_click_stored [OF f(4,5) assms(7,5) sub] f(3,6)
  obtain db2 tgt2 where s: "current_user_blob st2 = Some cur2" "u_id cur2 = u_id cur"
      "friends cur2 = friends cur" "pid \<in> set (opt_list (subscriptions cur2))" "logged_in st2 = logged_in st"
      "db_blob st2 = Some db2" "find_user (users db2) pid = Some tgt2" "has_request_from (u_id cur) tgt2"
    by auto
  have auth: "view_checkAuth st2 = Some cur2"
    using assms(1) s(1,5) by (simp add: view_checkAuth_def split: if_splits)
  have pu: "profile_user cur2 (Some pid) (snd (dropdown_status st2)) = tgt2"
    using assms(4,5) s(2,6,7) by (intro profile_user_found) simp_all
  have tid: "u_id tgt2 = pid" using s(7) by (rule find_user_Some_id)
  then have "setupActionsBar cur2 tgt2 = VisitorActions RequestSentLabel True"
    using assms(5,6) s by (simp add: setupActionsBar_def)
  with initProfileView_Some [OF auth, of "Some pid" draw] pu tid show ?thesis by auto
qed

theorem visitor_actions_after_reopen_witness:
  "\<exists>p st3. initProfileView (Some ''b'') (\<lambda>_. 0)
       (snd (subscribeButtonClick (fst (friendButtonClick cara ''b'' 5 ''t'' social_store)) ''b'' 6 ''t''
              (snd (friendButtonClick cara ''b'' 5 ''t'' social_store)))) = Some (p, st3) \<and>
     u_id (pv_user p) = ''b'' \<and> pv_actions p = VisitorActions RequestSentLabel True"
proof -
  have auth: "view_checkAuth social_store = Some cara"
    by (simp add: view_checkAuth_def social_store_def)
  have db: "db_blob social_store = Some \<lparr>users = [ann, bob, cara], sessions = []\<rparr>"
    by (simp add: social_store_def)
  have found: "find_user (users \<lparr>users = [ann, bob, cara], sessions = []\<rparr>) ''b'' = Some bob"
    by (simp add: social_eval)
  have nf: "''b'' \<notin> set (opt_list (friends cara))" and ns: "''b'' \<notin> set (opt_list (subscriptions cara))"
    and ne: "''b'' \<noteq> u_id cara"
    by (simp_all add: social_eval)
  show ?thesis
    by (rule visitor_actions_after_reopen [OF auth db found _ ne nf ns prod.collapse [symmetric] prod.collapse [symmetric]]) simp
qed

end
