(* ===== verification/Friends_Page.thy ===== *)
theory Friends_Page
  imports Social Settings Profile_View
begin

text \<open>
  The friends page (\<^verbatim>\<open>src/src/friends.ts\<close>) as a page record and a step function: its
  login check, header, the four lists with their counts, the tabs, and the events after
  load (a tab click, the remove and unsubscribe buttons of the cards, the dropdown's
  logout). The storage writes of the two buttons are \<open>removeFriend\<close> and
  \<open>unsubscribe\<close> of \<open>Social\<close>; this theory adds the reloads of the lists that follow them.
\<close>

section \<open>Login check and header\<close>

text \<open>\<open>checkAuth\<close>, lines 51--65: any stored login flag passes (\<open>!isLoggedIn\<close>), not only
  \<open>'true'\<close> as on the other pages.\<close>

definition friends_checkAuth :: "storage \<Rightarrow> user option" where
  "friends_checkAuth st = (case logged_in st of None \<Rightarrow> None | Some f \<Rightarrow> if f = [] then None else current_user_blob st)"

text \<open>\<open>loadHeader\<close>, lines 69--81: the header, and the name and avatar of the dropdown.\<close>

record friends_header =
  fh_header :: page_header
  fh_dropdownName :: string
  fh_dropdownAvatar :: "string option"

definition friends_loadHeader :: "user \<Rightarrow> friends_header" where
  "friends_loadHeader u =
     \<lparr>fh_header = \<lparr>hd_name = nickname u, hd_level = int_str (level u), hd_avatar = truthy_str (avatar u)\<rparr>,
      fh_dropdownName = nickname u, fh_dropdownAvatar = truthy_str (avatar u)\<rparr>"

text \<open>The logout item of \<open>setupProfileDropdown\<close> (lines 101--109), with the answer to the
  confirmation: the login flag and the current user are removed, \<open>sessionStorage\<close> is
  not cleared.\<close>

definition friends_dropdownLogout :: "bool \<Rightarrow> storage \<Rightarrow> storage" where
  "friends_dropdownLogout confirmed st =
     (if confirmed then st\<lparr>logged_in := None, current_user_blob := None\<rparr> else st)"

section \<open>Cards and lists\<close>

text \<open>\<open>getLevelBadgeClass\<close>, lines 6--10.\<close>

definition getLevelBadgeClass :: "int \<Rightarrow> string" where
  "getLevelBadgeClass l = (if l \<le> 3 then ''level-1-3'' else if l \<le> 6 then ''level-4-6'' else ''level-7-10'')"

text \<open>What \<open>renderFriendCard\<close> (lines 12--27) shows of a user: the link target, the avatar
  or the placeholder, the name, the login when truthy, the level and its badge class.\<close>

record friend_card =
  fc_id :: string
  fc_avatar :: string
  fc_name :: string
  fc_login :: "string option"
  fc_level :: int
  fc_levelClass :: string

definition renderFriendCard :: "user \<Rightarrow> friend_card" where
  "renderFriendCard u =
     \<lparr>fc_id = u_id u, fc_avatar = opt_str_or (avatar u) ''https://via.placeholder.com/40'',
      fc_name = nickname u, fc_login = truthy_str (login u), fc_level = level u,
      fc_levelClass = getLevelBadgeClass (level u)\<rparr>"

text \<open>A list and its count. \<open>Unchanged\<close> is the content the list had before (the markup's
  at load) when a loader returns early; a count of \<open>None\<close> is the markup's.\<close>

datatype list_content = EmptyState | Cards "friend_card list" | Unchanged

record list_view =
  lv_count :: "nat option"
  lv_content :: list_content

definition blank_list :: list_view where
  "blank_list = \<lparr>lv_count = None, lv_content = Unchanged\<rparr>"

text \<open>\<open>loadFriends\<close>, lines 194--235: the count first, then the empty state, or the cards
  of the friend ids found in the user list.\<close>

definition loadFriends :: "user \<Rightarrow> storage \<Rightarrow> list_view \<Rightarrow> list_view" where
  "loadFriends cu st v =
     (let fs = opt_list (friends cu) in
      if fs = [] then \<lparr>lv_count = Some 0, lv_content = EmptyState\<rparr>
      else case db_blob st of
        None \<Rightarrow> v\<lparr>lv_count := Some (length fs)\<rparr>
      | Some db \<Rightarrow> \<lparr>lv_count = Some (length fs), lv_content = Cards (map renderFriendCard (resolve_ids db fs))\<rparr>)"

text \<open>\<open>loadSubscribers\<close>, lines 237--263: nothing without a database blob.\<close>

definition loadSubscribers :: "user \<Rightarrow> storage \<Rightarrow> list_view \<Rightarrow> list_view" where
  "loadSubscribers cu st v =
     (case db_blob st of
        None \<Rightarrow> v
      | Some db \<Rightarrow>
          let ss = subscribers_of db (u_id cu) in
          \<lparr>lv_count = Some (length ss), lv_content = if ss = [] then EmptyState else Cards (map renderFriendCard ss)\<rparr>)"

text \<open>\<open>loadSubscriptions\<close>, lines 265--306.\<close>

definition loadSubscriptions :: "user \<Rightarrow> storage \<Rightarrow> list_view \<Rightarrow> list_view" where
  "loadSubscriptions cu st v =
     (let ss = opt_list (subscriptions cu) in
      if ss = [] then \<lparr>lv_count = Some 0, lv_content = EmptyState\<rparr>
      else case db_blob st of
        None \<Rightarrow> v\<lparr>lv_count := Some (length ss)\<rparr>
      | Some db \<Rightarrow> \<lparr>lv_count = Some (length ss), lv_content = Cards (map renderFriendCard (resolve_ids db ss))\<rparr>)"

text \<open>\<open>loadGroups\<close>, lines 308--321: the count, and always the empty state.\<close>

definition loadGroups :: "user \<Rightarrow> list_view" where
  "loadGroups cu = \<lparr>lv_count = Some (length (opt_list (groups cu))), lv_content = EmptyState\<rparr>"

section \<open>The page\<close>

text \<open>The page: its theme, header, active tab (\<open>None\<close> is the markup's), the page copy
  \<open>currentUser\<close> the handlers share, and the four lists.\<close>

record friends_page =
  fp_theme :: "string option"
  fp_header :: friends_header
  fp_tab :: "string option"
  fp_user :: user
  fp_friends :: list_view
  fp_subscribers :: list_view
  fp_subscriptions :: list_view
  fp_groups :: list_view

text \<open>\<open>init\<close>, lines 401--418 (the theme of \<open>applyTheme\<close>, lines 389--397, is the
  dashboard's code).\<close>

definition friends_init :: "storage \<Rightarrow> friends_page option" where
  "friends_init st =
     (case friends_checkAuth st of
        None \<Rightarrow> None
      | Some cu \<Rightarrow>
          Some \<lparr>fp_theme = page_theme st, fp_header = friends_loadHeader cu, fp_tab = None, fp_user = cu,
                fp_friends = loadFriends cu st blank_list, fp_subscribers = loadSubscribers cu st blank_list,
                fp_subscriptions = loadSubscriptions cu st blank_list, fp_groups = loadGroups cu\<rparr>)"

text \<open>The events after load: a click on a tab with its \<open>data-tab\<close> (\<open>setupTabs\<close>, lines
  167--190: the clicked tab becomes active and only the content of that name is shown), a
  card's remove button with the confirmation's answer (lines 228--234), a card's unsubscribe
  button (lines 299--305), the dropdown's logout.\<close>

datatype friends_event = TabClick string | RemoveClick bool string | UnsubscribeClick string
  | DropdownLogout bool

fun friends_step :: "friends_page \<Rightarrow> storage \<Rightarrow> friends_event \<Rightarrow> friends_page \<times> storage" where
  "friends_step p st (TabClick t) = (if t = [] then (p, st) else (p\<lparr>fp_tab := Some t\<rparr>, st))"
| "friends_step p st (RemoveClick c tid) =
     (if tid = [] \<or> \<not> c \<or> tid \<notin> set (opt_list (friends (fp_user p))) then (p, st)
      else let (cu, st') = removeFriend c (fp_user p) tid st
           in (p\<lparr>fp_user := cu, fp_friends := loadFriends cu st' (fp_friends p)\<rparr>, st'))"
| "friends_step p st (UnsubscribeClick tid) =
     (if tid = [] \<or> tid \<notin> set (opt_list (subscriptions (fp_user p))) then (p, st)
      else let (cu, st') = unsubscribe (fp_user p) tid st
           in (p\<lparr>fp_user := cu, fp_subscriptions := loadSubscriptions cu st' (fp_subscriptions p),
                 fp_subscribers := loadSubscribers cu st' (fp_subscribers p)\<rparr>, st'))"
| "friends_step p st (DropdownLogout c) = (p, friends_dropdownLogout c st)"

text \<open>The pages reachable from a load by any events.\<close>

inductive friends_reach :: "friends_page \<Rightarrow> storage \<Rightarrow> bool" where
  init: "friends_init st = Some p \<Longrightarrow> friends_reach p st"
| step: "friends_reach p st \<Longrightarrow> friends_step p st e = (p', st') \<Longrightarrow> friends_reach p' st'"

text \<open>The counts the page shows agree with the page copy of the user.\<close>

definition counts_ok :: "friends_page \<Rightarrow> bool" where
  "counts_ok p \<longleftrightarrow>
     lv_count (fp_friends p) = Some (length (opt_list (friends (fp_user p)))) \<and>
     lv_count (fp_subscriptions p) = Some (length (opt_list (subscriptions (fp_user p)))) \<and>
     lv_count (fp_groups p) = Some (length (opt_list (groups (fp_user p))))"


section \<open>Properties\<close>

lemma loadFriends_count [simp]: "lv_count (loadFriends cu st v) = Some (length (opt_list (friends cu)))"
  by (simp add: loadFriends_def Let_def split: option.splits)

lemma loadSubscriptions_count [simp]:
  "lv_count (loadSubscriptions cu st v) = Some (length (opt_list (subscriptions cu)))"
  by (simp add: loadSubscriptions_def Let_def split: option.splits)

lemma removeFriend_keeps_lists:
  assumes "removeFriend c cur tid st = (cu, st')"
  shows "subscriptions cu = subscriptions cur \<and> groups cu = groups cur"
  using assms by (auto simp: removeFriend_def drop_friend_def Let_def split: if_splits option.splits)

lemma unsubscribe_keeps_lists:
  assumes "unsubscribe cur tid st = (cu, st')"
  shows "friends cu = friends cur \<and> groups cu = groups cur"
  using assms by (auto simp: unsubscribe_def Let_def split: if_splits)

lemma counts_ok_init: "friends_init st = Some p \<Longrightarrow> counts_ok p"
  by (auto simp: friends_init_def counts_ok_def loadGroups_def split: option.splits)

lemma counts_ok_step:
  assumes "counts_ok p" and "friends_step p st e = (p', st')"
  shows "counts_ok p'"
proof (cases e)
  case (RemoveClick c tid)
  show ?thesis
  proof (cases "tid = [] \<or> \<not> c \<or> tid \<notin> set (opt_list (friends (fp_user p)))")
    case False
    obtain cu st1 where r: "removeFriend c (fp_user p) tid st = (cu, st1)" by fastforce
    then have "p' = p\<lparr>fp_user := cu, fp_friends := loadFriends cu st1 (fp_friends p)\<rparr>"
      using assms(2) RemoveClick False by auto
    with assms(1) removeFriend_keeps_lists [OF r] show ?thesis by (simp add: counts_ok_def)
  qed (use assms RemoveClick in auto)
next
  case (UnsubscribeClick tid)
  show ?thesis
  proof (cases "tid = [] \<or> tid \<notin> set (opt_list (subscriptions (fp_user p)))")
    case False
    obtain cu st1 where r: "unsubscribe (fp_user p) tid st = (cu, st1)" by fastforce
    then have "p' = p\<lparr>fp_user := cu, fp_subscriptions := loadSubscriptions cu st1 (fp_subscriptions p),
                 fp_subscribers := loadSubscribers cu st1 (fp_subscribers p)\<rparr>"
      using assms(2) UnsubscribeClick False by auto
    with assms(1) unsubscribe_keeps_lists [OF r] show ?thesis by (simp add: counts_ok_def)
  qed (use assms UnsubscribeClick in auto)
qed (use assms in \<open>auto simp: counts_ok_def split: if_splits\<close>)

text \<open>On every page reachable from a load, the friend, subscription and group counts are
  those of the page copy of the current user.\<close>

theorem friends_counts_ok: "friends_reach p st \<Longrightarrow> counts_ok p"
  by (induction rule: friends_reach.induct) (auto intro: counts_ok_init counts_ok_step)

lemma resolve_ids_ids: "u \<in> set (resolve_ids db ids) \<Longrightarrow> u_id u \<in> set ids"
  by (induction ids) (auto simp: resolve_ids_def List.map_filter_simps split: option.splits
      dest: find_user_Some_id)

text \<open>After a confirmed remove on the card of a friend (the friend list free of
  duplicates), the reloaded friend list has no card of that user.\<close>

theorem remove_drops_card:
  assumes "tid \<noteq> []" and "tid \<in> set (opt_list (friends (fp_user p)))"
    and "distinct (opt_list (friends (fp_user p)))" and "tid \<noteq> u_id (fp_user p)"
    and "friends_step p st (RemoveClick True tid) = (p', st')"
  shows "lv_content (fp_friends p') = EmptyState \<or>
         (\<exists>cs. lv_content (fp_friends p') = Cards cs \<and> tid \<notin> fc_id ` set cs) \<or>
         (db_blob st' = None \<and> lv_content (fp_friends p') = lv_content (fp_friends p))"
proof -
  let ?fs = "opt_list (friends (fp_user p))"
  let ?cu = "(fp_user p)\<lparr>friends := Some (remove1 tid ?fs)\<rparr>"
  obtain cu st1 where r: "removeFriend True (fp_user p) tid st = (cu, st1)" by fastforce
  have cu: "cu = ?cu"
    using r assms(2,4) by (auto simp: removeFriend_def Let_def split: option.splits)
  have "p' = p\<lparr>fp_user := ?cu, fp_friends := loadFriends ?cu st1 (fp_friends p)\<rparr> \<and> st' = st1"
    using r cu assms(1,2,5) by auto
  then have p': "p' = p\<lparr>fp_user := ?cu, fp_friends := loadFriends ?cu st1 (fp_friends p)\<rparr>" "st' = st1"
    by simp_all
  have "tid \<notin> set (remove1 tid ?fs)" using assms(3) by simp
  then have "tid \<notin> fc_id ` set (map renderFriendCard (resolve_ids db (remove1 tid ?fs)))" for db
    by (auto simp: renderFriendCard_def dest: resolve_ids_ids)
  then show ?thesis
    using p' by (auto simp: loadFriends_def Let_def split: option.splits)
qed

text \<open>The dropdown's logout on the friends page ends the login but, unlike the dashboard's
  \<open>logout\<close> and the other pages' logout handlers, keeps \<open>sessionStorage\<close>: a pending login
  and its verification code survive it.\<close>

theorem friends_logout_keeps_session:
  "logged_in (friends_dropdownLogout True st) = None \<and>
   current_user_blob (friends_dropdownLogout True st) = None \<and>
   pending (friends_dropdownLogout True st) = pending st \<and>
   verification (friends_dropdownLogout True st) = verification st \<and>
   pending (logout True st) = None \<and> verification (logout True st) = None"
  by (simp add: friends_dropdownLogout_def logout_def)

end
