(* ===== verification/Profile_Page.thy ===== *)
theory Profile_Page
  imports Profile Profile_View
begin

text \<open>
  The load of the profile page (\<^verbatim>\<open>src/src/profile.ts\<close>, \<open>init\<close>, lines 283--292):
  the login check, \<open>loadProfile\<close> (header, the form's fields, the avatar and banner
  previews), and the dropdown with its status write. The page's listeners are the
  handlers of \<open>Profile\<close> (\<open>avatarChange\<close>, \<open>bannerChange\<close>, \<open>applyUrl\<close>,
  \<open>removeBanner\<close>, \<open>profileSubmit\<close>); the lemmas relate the form as loaded to its submit.
\<close>

section \<open>Login check and the form\<close>

text \<open>\<open>checkAuth\<close>, lines 6--20.\<close>

definition profile_checkAuth :: "storage \<Rightarrow> user option" where
  "profile_checkAuth st = (if logged_in st \<noteq> Some ''true'' then None else current_user_blob st)"

text \<open>\<open>updateBioCounter\<close>, lines 118--124: the length of the biography field as text.\<close>

definition updateBioCounter :: "string \<Rightarrow> string" where
  "updateBioCounter b = nat_str (length b)"

text \<open>What \<open>loadProfile\<close> (lines 49--106) puts into the form and the previews: the three
  fields (\<open>login || ''\<close>, \<open>bio || ''\<close>) and the counter, the avatar when truthy, the
  banner preview, and the URL field when there is a banner video.\<close>

record profile_form =
  pf_nickname :: string
  pf_login :: string
  pf_bio :: string
  pf_bioCounter :: string
  pf_avatarPreview :: "string option"
  pf_banner :: banner_background
  pf_bannerUrl :: "string option"

definition loadProfile :: "user \<Rightarrow> page_header \<times> profile_form" where
  "loadProfile u =
     (\<lparr>hd_name = nickname u, hd_level = int_str (level u), hd_avatar = truthy_str (avatar u)\<rparr>,
      \<lparr>pf_nickname = nickname u, pf_login = opt_str_or (login u) [], pf_bio = opt_str_or (bio u) [],
       pf_bioCounter = updateBioCounter (opt_str_or (bio u) []), pf_avatarPreview = truthy_str (avatar u),
       pf_banner = profile_preview u, pf_bannerUrl = truthy_str (bannerVideo u)\<rparr>)"

section \<open>The page\<close>

record profile_page =
  pp_theme :: "string option"
  pp_header :: page_header
  pp_form :: profile_form
  pp_dropdownName :: string
  pp_dropdownAvatar :: "string option"
  pp_online :: bool
  pp_user :: user

text \<open>\<open>init\<close>, lines 283--292, with \<open>setupProfileDropdown\<close> (lines 200--232: the name and
  avatar of the dropdown, then the status write of the other pages' dropdowns). The
  search box only installs a listener. The page copy \<open>user\<close> is the one the listeners
  update.\<close>

definition profile_init :: "storage \<Rightarrow> (profile_page \<times> storage) option" where
  "profile_init st =
     (case profile_checkAuth st of
        None \<Rightarrow> None
      | Some u \<Rightarrow>
          let (hd, f) = loadProfile u; (online, st1) = dropdown_status st
          in Some (\<lparr>pp_theme = page_theme st, pp_header = hd, pp_form = f, pp_dropdownName = nickname u,
                    pp_dropdownAvatar = truthy_str (avatar u), pp_online = online, pp_user = u\<rparr>, st1))"


section \<open>Properties\<close>

lemma profile_init_Some:
  assumes "profile_init st = Some (p, st1)"
  shows "profile_checkAuth st = Some (pp_user p) \<and> pp_form p = snd (loadProfile (pp_user p)) \<and>
         st1 = snd (dropdown_status st)"
  using assms by (auto simp: profile_init_def split_def Let_def split: option.splits)

lemma login_not_taken:
  assumes "logins_owned db" and "find_user (users db) (u_id u) = Some u" and "login u = Some lg"
  shows "\<not> list_ex (\<lambda>v. login v = Some lg \<and> u_id v \<noteq> u_id u) (users db)"
proof -
  have u: "u \<in> set (users db)" using assms(2) unfolding find_user_def by (rule find_Some_mem)
  have "u_id v = u_id u" if "v \<in> set (users db)" and "login v = Some lg" for v
  proof -
    have "login v \<noteq> None \<longrightarrow> login v = login u \<longrightarrow> u_id v = u_id u"
      using assms(1) that(1) u unfolding logins_owned_def by blast
    then show ?thesis using that(2) assms(3) by simp
  qed
  then show ?thesis by (auto simp: list_ex_iff)
qed

text \<open>Submitting the profile form as \<open>loadProfile\<close> filled it, when the stored fields are
  already in the form's normal shape (trimmed nickname of three characters or more, a
  valid lower-case login or none, a trimmed biography) and the database entry of the user
  is the current user, succeeds and stores the same nickname, login and biography (an
  unset biography becomes the empty one).\<close>

theorem resubmit_keeps_profile:
  assumes "profile_init st = Some (p, st1)"
    and "db_blob st = Some db" and "logins_owned db"
    and "find_user (users db) (u_id (pp_user p)) = Some (pp_user p)"
    and "js_trim (nickname (pp_user p)) = nickname (pp_user p)" and "3 \<le> length (nickname (pp_user p))"
    and "case login (pp_user p) of None \<Rightarrow> True
           | Some l \<Rightarrow> js_lower (js_trim l) = l \<and> 3 \<le> length l \<and> list_all login_char l"
    and "js_trim (pf_bio (pp_form p)) = pf_bio (pp_form p)"
  shows "\<exists>u' st'. profileSubmit (pp_user p) (pf_nickname (pp_form p)) (pf_login (pp_form p))
                    (pf_bio (pp_form p)) st1 = (u', st', None) \<and>
           current_user_blob st' = Some u' \<and> nickname u' = nickname (pp_user p) \<and>
           login u' = login (pp_user p) \<and> opt_str_or (bio u') [] = opt_str_or (bio (pp_user p)) []"
proof -
  let ?u = "pp_user p"
  have f: "pp_form p = snd (loadProfile ?u)" and st1: "st1 = snd (dropdown_status st)"
    using profile_init_Some [OF assms(1)] by simp_all
  have db1: "db_blob st1 = Some db" using st1 assms(2) by simp
  have b: "js_trim (opt_str_or (bio ?u) []) = opt_str_or (bio ?u) []"
    using assms(8) f by (simp add: loadProfile_def)
  have trim_nil: "js_trim [] = []" by (simp add: js_trim_def)
  have bio_eq: "opt_str_or (Some (opt_str_or (bio ?u) [])) [] = opt_str_or (bio ?u) []"
    by (simp add: opt_str_or_def str_or_def split: option.splits)
  show ?thesis
  proof (cases "login ?u")
    case None
    have lg: "pf_login (pp_form p) = []" using f None by (simp add: loadProfile_def opt_str_or_def)
    have low: "js_lower [] = []" by (simp add: js_lower_def)
    have bi: "pf_bio (pp_form p) = opt_str_or (bio ?u) []" and ni: "pf_nickname (pp_form p) = nickname ?u"
      using f by (simp_all add: loadProfile_def)
    show ?thesis
      using lg low bi ni trim_nil assms(5,6) b bio_eq None
      by (simp add: profileSubmit_def saveProfile_def Let_def)
  next
    case (Some l)
    then have l: "js_lower (js_trim l) = l" "3 \<le> length l" "list_all login_char l" using assms(7) by simp_all
    have nt: "\<not> list_ex (\<lambda>v. login v = Some l \<and> u_id v \<noteq> u_id ?u) (users db)"
      by (rule login_not_taken [OF assms(3,4) Some])
    have ne: "l \<noteq> []" using l(2) by auto
    have lg: "pf_login (pp_form p) = l" using f Some ne by (simp add: loadProfile_def opt_str_or_def str_or_def)
    have bi: "pf_bio (pp_form p) = opt_str_or (bio ?u) []" and ni: "pf_nickname (pp_form p) = nickname ?u"
      using f by (simp_all add: loadProfile_def)
    show ?thesis
      using lg bi ni ne assms(5,6) b l nt db1 Some bio_eq
      by (simp add: profileSubmit_def saveProfile_def Let_def)
  qed
qed

end
