(* ===== verification/Landing_Visuals.thy ===== *)
theory Landing_Visuals
  imports Landing
begin

text \<open>
  The rest of the landing page's \<open>init\<close> (\<^verbatim>\<open>src/src/main.ts\<close>, lines 176--185) over
  the model of \<open>Landing\<close>: the scroll-in animation, whose \<open>IntersectionObserver\<close>
  makes a tournament card opaque and in place when it enters the viewport, and the live
  indicator, a \<open>setInterval\<close> of 1000 ms that toggles the opacity of the live badges. The
  page is loaded at clock 0. The interval's callbacks and the filter's timers touch
  different elements, so the order in which a wait runs them does not matter; a wait runs
  the filter's due timers and then the interval's ticks that fall within it. Smooth
  scrolling and the tournament buttons (an alert, a console message) change no state of
  the page.
\<close>

section \<open>Scroll-in animation\<close>

text \<open>\<open>setupScrollAnimations\<close>, lines 119--128: every tournament card starts faded and
  shifted (opacity 0, 30 px down) and is observed.\<close>

definition scroll_anim_init :: "card list \<Rightarrow> card list" where
  "scroll_anim_init cs = map (\<lambda>c. c\<lparr>c_opaque := False\<rparr>) cs"

text \<open>The observer's callback, lines 109--117, on the cards (by index) whose entries
  report \<open>isIntersecting\<close>: each becomes opaque and in place.\<close>

definition intersect :: "nat list \<Rightarrow> card list \<Rightarrow> card list" where
  "intersect ixs cs =
     fold (\<lambda>i cs. if i < length cs then cs[i := (cs ! i)\<lparr>c_opaque := True\<rparr>] else cs) ixs cs"

section \<open>Live indicator\<close>

text \<open>The interval's callback, line 169, on one badge's \<open>style.opacity\<close>.\<close>

definition blink :: "string \<Rightarrow> string" where
  "blink v = (if v = ''0.7'' then ''1'' else ''0.7'')"

text \<open>The ticks of \<open>setInterval(..., 1000)\<close> (lines 165--171) started at clock 0 that
  fall in the interval \<open>(t0, t1]\<close>.\<close>

definition live_ticks :: "nat \<Rightarrow> nat \<Rightarrow> nat" where
  "live_ticks t0 t1 = t1 div 1000 - t0 div 1000"

section \<open>The page\<close>

record landing_page =
  lp_state :: landing
  lp_live :: string

text \<open>\<open>init\<close>, lines 176--185, on cards as the markup has them (no filter active, no
  badge opacity set).\<close>

definition landing_init :: "card list \<Rightarrow> landing_page" where
  "landing_init cs =
     \<lparr>lp_state = \<lparr>cards = scroll_anim_init cs, active_filter = None, timers = [], clock = 0\<rparr>, lp_live = []\<rparr>"

datatype page_event = PageEvent landing_event | Intersect "nat list"

fun page_step :: "landing_page \<Rightarrow> page_event \<Rightarrow> landing_page" where
  "page_step p (PageEvent (FilterClick l)) = p\<lparr>lp_state := filterClick l (lp_state p)\<rparr>"
| "page_step p (PageEvent (Wait d)) =
     \<lparr>lp_state = wait d (lp_state p),
      lp_live = (blink ^^ live_ticks (clock (lp_state p)) (clock (lp_state p) + d)) (lp_live p)\<rparr>"
| "page_step p (Intersect ixs) = p\<lparr>lp_state := (lp_state p)\<lparr>cards := intersect ixs (cards (lp_state p))\<rparr>\<rparr>"

definition page_run :: "landing_page \<Rightarrow> page_event list \<Rightarrow> landing_page" where
  "page_run p es = fold (\<lambda>e p. page_step p e) es p"

text \<open>The badge's opacity at clock \<open>t\<close> after a load at clock 0.\<close>

definition live_at :: "nat \<Rightarrow> string" where
  "live_at t = (blink ^^ (t div 1000)) []"


section \<open>Properties\<close>

lemma blink_funpow_nil:
  "(blink ^^ n) [] = (if n = 0 then [] else if odd n then ''0.7'' else ''1'')"
  by (induction n) (auto simp: blink_def)

lemma live_at_closed:
  "live_at t = (if t < 1000 then [] else if odd (t div 1000) then ''0.7'' else ''1'')"
  by (simp add: live_at_def blink_funpow_nil div_eq_0_iff)

lemma clock_page_step:
  "clock (lp_state (page_step p e)) =
     (case e of PageEvent (Wait d) \<Rightarrow> clock (lp_state p) + d | _ \<Rightarrow> clock (lp_state p))"
  by (cases "(p, e)" rule: page_step.cases) (simp_all add: filterClick_def wait_def Let_def)

lemma live_step:
  assumes "lp_live p = live_at (clock (lp_state p))"
  shows "lp_live (page_step p e) = live_at (clock (lp_state (page_step p e)))"
proof (cases "(p, e)" rule: page_step.cases)
  case (2 q d)
  let ?c = "clock (lp_state p)"
  have "?c div 1000 \<le> (?c + d) div 1000" by (rule div_le_mono) simp
  then have "live_ticks ?c (?c + d) + ?c div 1000 = (?c + d) div 1000" by (simp add: live_ticks_def)
  then have "(blink ^^ live_ticks ?c (?c + d)) ((blink ^^ (?c div 1000)) []) = (blink ^^ ((?c + d) div 1000)) []"
    by (metis comp_apply funpow_add)
  with assms 2 show ?thesis by (simp add: live_at_def wait_def Let_def)
qed (use assms in \<open>simp_all add: filterClick_def\<close>)

lemma live_run:
  "lp_live p = live_at (clock (lp_state p)) \<Longrightarrow>
   lp_live (page_run p es) = live_at (clock (lp_state (page_run p es)))"
  by (induction es arbitrary: p) (simp_all add: page_run_def live_step)

text \<open>The live badges after any events since the load: unset before the first tick, then
  \<open>0.7\<close> after an odd number of whole seconds and \<open>1\<close> after an even number.\<close>

theorem live_badge_at:
  "lp_live (page_run (landing_init cs) es) =
     (let t = clock (lp_state (page_run (landing_init cs) es))
      in if t < 1000 then [] else if odd (t div 1000) then ''0.7'' else ''1'')"
proof -
  have "lp_live (landing_init cs) = live_at (clock (lp_state (landing_init cs)))"
    by (simp add: landing_init_def live_at_def)
  from live_run [OF this, of es] show ?thesis by (simp add: live_at_closed Let_def)
qed

lemma intersect_length [simp]: "length (intersect ixs cs) = length cs"
  by (induction ixs arbitrary: cs) (simp_all add: intersect_def)

text \<open>The observer only makes cards opaque: which cards are displayed, and their games,
  are what the filter left.\<close>

theorem intersect_keeps_display:
  "map c_display (intersect ixs cs) = map c_display cs \<and> map c_game (intersect ixs cs) = map c_game cs"
proof (induction ixs arbitrary: cs)
  case (Cons i ixs)
  have "map c_display (cs[i := (cs ! i)\<lparr>c_opaque := True\<rparr>]) = map c_display cs \<and>
        map c_game (cs[i := (cs ! i)\<lparr>c_opaque := True\<rparr>]) = map c_game cs" if "i < length cs"
    using that by (simp add: list_eq_iff_nth_eq nth_list_update)
  with Cons show ?case by (simp add: intersect_def)
qed (simp add: intersect_def)

end
