(* ===== verification/Dashboard_UI.thy ===== *)
theory Dashboard_UI
  imports Dashboard
begin

text \<open>
  The header menus and the sidebar of the dashboard (\<^verbatim>\<open>src/src/dashboard.ts\<close>) as a
  state machine over clicks, and the relative times of its notification list. A click is
  given by what it lands on; the listeners it reaches run in the DOM's bubbling order (the
  element's own listener, then the ones on \<open>document\<close>), and a listener that calls
  \<open>stopPropagation\<close> keeps it from the \<open>document\<close>. The structure assumed is the one the
  selectors of the code imply: the profile dropdown and its items lie inside the profile
  toggle, the status row inside the dropdown, the notification button and list inside
  \<open>#navNotifications\<close>, the logout link of the dropdown is one of its items.
\<close>

section \<open>Menus and sidebar\<close>

text \<open>The open states the listeners switch: the sidebar item marked active, the profile
  dropdown, the notification dropdown, the sidebar of the mobile layout, and whether
  \<open>createMobileMenuToggle\<close> (lines 564--583) created the menu button (a window at most
  968 px wide).\<close>

record dash_ui =
  du_activeItem :: "nat option"
  du_profileOpen :: bool
  du_notifOpen :: bool
  du_sidebarOpen :: bool
  du_menuButton :: bool

definition dash_ui_init :: "nat \<Rightarrow> dash_ui" where
  "dash_ui_init width =
     \<lparr>du_activeItem = None, du_profileOpen = False, du_notifOpen = False, du_sidebarOpen = False,
      du_menuButton = (width \<le> 968)\<rparr>"

text \<open>What a click lands on: a sidebar item (its index, whether it is the logout item,
  and the answer to the logout confirmation), the profile toggle, an item of the profile
  dropdown, its logout link (with the answer), its status row, the notification button,
  another part of \<open>#navNotifications\<close>, the mobile menu button, anything else; and the
  change event of the status checkbox.\<close>

datatype dash_event =
    SidebarItem nat bool bool | ProfileToggle | DropdownItem | DropdownLogout bool | StatusRow
  | NotifButton | InsideNotifications | MobileMenu | Elsewhere | StatusChange bool

text \<open>The two \<open>document\<close> click listeners: the profile dropdown closes on every click
  that reaches the document (lines 185--187), the notification dropdown unless the click
  was inside \<open>#navNotifications\<close> (lines 493--497).\<close>

definition document_click :: "bool \<Rightarrow> dash_ui \<Rightarrow> dash_ui" where
  "document_click in_notif ui = ui\<lparr>du_profileOpen := False, du_notifOpen := (du_notifOpen ui \<and> in_notif)\<rparr>"

text \<open>The listeners: \<open>setupSidebar\<close> (lines 105--125; the logout item runs \<open>logout\<close>),
  the profile toggle (lines 177--182: a click on a dropdown item is left to bubble), the
  dropdown's logout link (lines 190--193), the status row (lines 171--175), the checkbox
  (lines 163--167), the notification button (lines 485--491: opening it marks all read),
  the mobile menu button (lines 577--580).\<close>

fun dash_step :: "dash_ui \<times> storage \<Rightarrow> dash_event \<Rightarrow> dash_ui \<times> storage" where
  "dash_step (ui, st) (SidebarItem i is_logout c) =
     (if is_logout then (document_click False ui, logout c st)
      else (document_click False (ui\<lparr>du_activeItem := Some i\<rparr>), st))"
| "dash_step (ui, st) ProfileToggle = (ui\<lparr>du_profileOpen := \<not> du_profileOpen ui\<rparr>, st)"
| "dash_step (ui, st) DropdownItem = (document_click False ui, st)"
| "dash_step (ui, st) (DropdownLogout c) = (document_click False ui, logout c st)"
| "dash_step (ui, st) StatusRow = (ui, st)"
| "dash_step (ui, st) NotifButton =
     (let opened = \<not> du_notifOpen ui in (ui\<lparr>du_notifOpen := opened\<rparr>, if opened then markAllRead st else st))"
| "dash_step (ui, st) InsideNotifications = (document_click True ui, st)"
| "dash_step (ui, st) MobileMenu =
     (document_click False (if du_menuButton ui then ui\<lparr>du_sidebarOpen := \<not> du_sidebarOpen ui\<rparr> else ui), st)"
| "dash_step (ui, st) Elsewhere = (document_click False ui, st)"
| "dash_step (ui, st) (StatusChange b) = (ui, updateStatus b st)"

definition dash_run :: "dash_ui \<times> storage \<Rightarrow> dash_event list \<Rightarrow> dash_ui \<times> storage" where
  "dash_run s es = fold (\<lambda>e s. dash_step s e) es s"

section \<open>Relative times\<close>

text \<open>\<open>formatTimeAgo\<close>, lines 502--511, with \<open>Date.now()\<close> and the parsed \<open>createdAt\<close> in
  milliseconds; the four Russian phrasings are the constructors.\<close>

datatype time_ago = JustNow | MinutesAgo int | HoursAgo int | DaysAgo int

definition formatTimeAgo :: "int \<Rightarrow> int \<Rightarrow> time_ago" where
  "formatTimeAgo now created =
     (let diff = now - created; mins = diff div 60000 in
      if mins < 1 then JustNow
      else if mins < 60 then MinutesAgo mins
      else let hours = mins div 60 in
           if hours < 24 then HoursAgo hours
           else DaysAgo (hours div 24))"


section \<open>Properties\<close>

lemma int_div_bounds:
  fixes x k :: int
  assumes "0 < k"
  shows "x div k * k \<le> x \<and> x < (x div k + 1) * k"
proof -
  have e: "x div k * k + x mod k = x" by simp
  have r: "0 \<le> x mod k" "x mod k < k" using assms by simp_all
  have "x div k * k \<le> x" "x < x div k * k + k" using e r by linarith+
  then show ?thesis by (simp add: distrib_right)
qed

lemma div_div_int: "0 < b \<Longrightarrow> 0 < c \<Longrightarrow> (x::int) div b div c = x div (b * c)"
  by (simp add: zdiv_zmult2_eq)

text \<open>Each phrasing of \<open>formatTimeAgo\<close> names the whole number of minutes, hours or days
  elapsed, in its range; a creation time in the future reads as just now.\<close>

theorem formatTimeAgo_bounds:
  shows "formatTimeAgo now c = JustNow \<longleftrightarrow> now - c < 60000"
    and "formatTimeAgo now c = MinutesAgo m \<Longrightarrow>
           1 \<le> m \<and> m < 60 \<and> m * 60000 \<le> now - c \<and> now - c < (m + 1) * 60000"
    and "formatTimeAgo now c = HoursAgo h \<Longrightarrow>
           1 \<le> h \<and> h < 24 \<and> h * 3600000 \<le> now - c \<and> now - c < (h + 1) * 3600000"
    and "formatTimeAgo now c = DaysAgo d \<Longrightarrow>
           1 \<le> d \<and> d * 86400000 \<le> now - c \<and> now - c < (d + 1) * 86400000"
proof -
  let ?x = "now - c"
  have m: "?x div 60000 * 60000 \<le> ?x \<and> ?x < (?x div 60000 + 1) * 60000" by (rule int_div_bounds) simp
  have h: "?x div 60000 div 60 = ?x div 3600000" by (simp add: div_div_int)
  have hb: "?x div 3600000 * 3600000 \<le> ?x \<and> ?x < (?x div 3600000 + 1) * 3600000" by (rule int_div_bounds) simp
  have d: "?x div 60000 div 60 div 24 = ?x div 86400000" by (simp add: div_div_int)
  have db: "?x div 86400000 * 86400000 \<le> ?x \<and> ?x < (?x div 86400000 + 1) * 86400000" by (rule int_div_bounds) simp
  show "formatTimeAgo now c = JustNow \<longleftrightarrow> ?x < 60000"
    using m by (auto simp: formatTimeAgo_def Let_def)
  show "formatTimeAgo now c = MinutesAgo m \<Longrightarrow>
          1 \<le> m \<and> m < 60 \<and> m * 60000 \<le> ?x \<and> ?x < (m + 1) * 60000"
    using m by (auto simp: formatTimeAgo_def Let_def split: if_splits)
  show "formatTimeAgo now c = HoursAgo h \<Longrightarrow>
          1 \<le> h \<and> h < 24 \<and> h * 3600000 \<le> ?x \<and> ?x < (h + 1) * 3600000"
    using h hb by (auto simp: formatTimeAgo_def Let_def split: if_splits)
  show "formatTimeAgo now c = DaysAgo d \<Longrightarrow> 1 \<le> d \<and> d * 86400000 \<le> ?x \<and> ?x < (d + 1) * 86400000"
    using d db h by (auto simp: formatTimeAgo_def Let_def split: if_splits)
qed

text \<open>Opening the notification dropdown marks every notification read: the badge count of
  the stored user is 0 afterwards.\<close>

theorem notif_open_clears_badge:
  assumes "\<not> du_notifOpen ui" and "current_user_blob st = Some u"
  shows "\<exists>u'. dash_step (ui, st) NotifButton = (ui\<lparr>du_notifOpen := True\<rparr>, markAllRead st) \<and>
           current_user_blob (markAllRead st) = Some u' \<and> unread_count u' = 0"
  using assms markAllRead_clears [OF assms(2)] by auto

text \<open>Both dropdowns can be open at once: the profile toggle stops the click before the
  \<open>document\<close> listener that would close the notifications.\<close>

theorem both_menus_open:
  "du_notifOpen (fst (dash_run (dash_ui_init w, st) [NotifButton, ProfileToggle])) \<and>
   du_profileOpen (fst (dash_run (dash_ui_init w, st) [NotifButton, ProfileToggle]))"
  by (simp add: dash_run_def dash_ui_init_def)

lemma dash_step_menu_button:
  "du_menuButton (fst (dash_step s e)) = du_menuButton (fst s) \<and>
   (\<not> du_menuButton (fst s) \<longrightarrow> du_sidebarOpen (fst (dash_step s e)) = du_sidebarOpen (fst s))"
  by (cases "(s, e)" rule: dash_step.cases) (simp_all add: document_click_def Let_def)

text \<open>In a window wider than 968 px no menu button exists, and the sidebar stays closed
  whatever is clicked.\<close>

theorem wide_sidebar_closed:
  assumes "968 < w"
  shows "\<not> du_sidebarOpen (fst (dash_run (dash_ui_init w, st) es))"
proof -
  have "\<not> du_menuButton (fst s) \<and> \<not> du_sidebarOpen (fst s) \<Longrightarrow>
        \<not> du_menuButton (fst (fold (\<lambda>e s. dash_step s e) es s)) \<and>
        \<not> du_sidebarOpen (fst (fold (\<lambda>e s. dash_step s e) es s))" for s
    by (induction es arbitrary: s) (simp_all add: dash_step_menu_button)
  then show ?thesis using assms by (simp add: dash_run_def dash_ui_init_def)
qed

end
