(* ===== verification/Messages.thy ===== *)
theory Messages
  imports Prelude
begin

text \<open>
  The message box of the forms: \<open>showMessage\<close> writes the text and the class
  \<open>show\<close> and starts a \<open>setTimeout\<close> of 5000 ms that removes \<open>show\<close> again. Earlier
  timers are not cancelled. The box is a record with the text (of any type: the pages use
  their own datatypes of messages), the type of \<^verbatim>\<open>types.ts\<close>, whether it exists and is
  shown, and the due times of the pending timers; time passing runs the due ones.
\<close>

text \<open>\<open>MessageType\<close>, \<^verbatim>\<open>types.ts\<close> line 220.\<close>

datatype message_type = MsgSuccess | MsgError | MsgInfo

record 'm message_box =
  mb_exists :: bool
  mb_text :: "'m option"
  mb_type :: "message_type option"
  mb_shown :: bool
  mb_timers :: "int list"

definition no_message :: "bool \<Rightarrow> 'm message_box" where
  "no_message ex = \<lparr>mb_exists = ex, mb_text = None, mb_type = None, mb_shown = False, mb_timers = []\<rparr>"

text \<open>\<open>showMessage\<close> of \<^verbatim>\<open>auth.service.ts\<close> (lines 195--214): the box is created when the
  page has none.\<close>

definition showMessage :: "int \<Rightarrow> 'm \<Rightarrow> message_type \<Rightarrow> 'm message_box \<Rightarrow> 'm message_box" where
  "showMessage now m ty b =
     b\<lparr>mb_exists := True, mb_text := Some m, mb_type := Some ty, mb_shown := True,
       mb_timers := mb_timers b @ [now + 5000]\<rparr>"

text \<open>\<open>showMessage\<close> of the verification page (\<^verbatim>\<open>verify.ts\<close>, lines 6--16; the
  profile and settings pages have the same code): nothing without the box.\<close>

definition page_showMessage :: "int \<Rightarrow> 'm \<Rightarrow> message_type \<Rightarrow> 'm message_box \<Rightarrow> 'm message_box" where
  "page_showMessage now m ty b =
     (if \<not> mb_exists b then b
      else b\<lparr>mb_text := Some m, mb_type := Some ty, mb_shown := True, mb_timers := mb_timers b @ [now + 5000]\<rparr>)"

text \<open>The clock reaching \<open>now\<close>: each due timer removes \<open>show\<close>.\<close>

definition message_wait :: "int \<Rightarrow> 'm message_box \<Rightarrow> 'm message_box" where
  "message_wait now b =
     b\<lparr>mb_shown := (mb_shown b \<and> \<not> list_ex (\<lambda>t. t \<le> now) (mb_timers b)),
       mb_timers := filter (\<lambda>t. now < t) (mb_timers b)\<rparr>"

section \<open>Properties\<close>

text \<open>A message shown when no timer is pending stays shown until 5000 ms later.\<close>

lemma message_shown_until:
  assumes "mb_timers b = []" and "now < t + 5000"
  shows "mb_shown (message_wait now (showMessage t m ty b)) \<and>
         mb_text (message_wait now (showMessage t m ty b)) = Some m"
  using assms by (simp add: message_wait_def showMessage_def)

text \<open>The timer of an earlier message hides a later one early: a second message shown
  4000 ms after the first is hidden at 5000 ms, 1000 ms after it appeared.\<close>

theorem message_hidden_early:
  "let b = showMessage 4000 m2 ty2 (showMessage 0 m1 ty1 (no_message ex)) in
     mb_text (message_wait 5000 b) = Some m2 \<and> \<not> mb_shown (message_wait 5000 b) \<and>
     mb_shown (message_wait 4999 b)"
  by (simp add: showMessage_def message_wait_def no_message_def)

end
