(* ===== verification/Verify_Page.thy ===== *)
theory Verify_Page
  imports Auth Messages
begin

text \<open>
  The verification page (\<^verbatim>\<open>src/src/verify.ts\<close>) around the storage handlers of
  \<open>Auth\<close>: its \<open>init\<close>, the six code inputs with their two \<open>input\<close> listeners and the
  \<open>keydown\<close> listener, the submit and resend listeners with the message box and the
  clearing of the inputs, and time passing for the message's timers. The inputs' listeners
  run in the order they were added (lines 46--65): the focus move, then the digit filter.
\<close>

section \<open>The page\<close>

text \<open>The messages the page shows (lines 82--138, 165).\<close>

datatype verify_msg = VerifyFailed verify_error | LoginDone | CodeResent

text \<open>The pending login read at load, the values of the six inputs, the input that has the
  focus (\<open>None\<close>: the markup's), and the message box.\<close>

record verify_ui =
  vu_login :: pending_login
  vu_values :: "string list"
  vu_focus :: "nat option"
  vu_msg :: "verify_msg message_box"

text \<open>\<open>init\<close>, lines 20--37: without a pending login the page leaves for the login page.\<close>

definition verify_init :: "storage \<Rightarrow> verify_ui option" where
  "verify_init st =
     (case pending st of
        None \<Rightarrow> None
      | Some ld \<Rightarrow> Some \<lparr>vu_login = ld, vu_values = replicate 6 [], vu_focus = None, vu_msg = no_message True\<rparr>)"

text \<open>The events: the value of input \<open>i\<close> after a keystroke, a Backspace key pressed in
  input \<open>i\<close>, a submit, a click on resend (with its \<open>Math.random()\<close> draw), and the clock
  reaching a time.\<close>

datatype verify_event = CodeInput nat string | Backspace nat | VerifySubmit int | Resend rat int
  | VerifyWait int

text \<open>The listeners of \<open>setupCodeInputs\<close>, lines 41--67: a value of length 1 moves the
  focus to the next input, then the value keeps its digits only; Backspace in an empty
  input moves the focus back.\<close>

definition codeInput :: "nat \<Rightarrow> string \<Rightarrow> verify_ui \<Rightarrow> verify_ui" where
  "codeInput i v ui =
     (if i < length (vu_values ui) then
        ui\<lparr>vu_focus := (if length v = 1 \<and> i < length (vu_values ui) - 1 then Some (i + 1) else vu_focus ui),
           vu_values := (vu_values ui)[i := digits_only v]\<rparr>
      else ui)"

definition backspaceKey :: "nat \<Rightarrow> verify_ui \<Rightarrow> verify_ui" where
  "backspaceKey i ui =
     (if i < length (vu_values ui) \<and> vu_values ui ! i = [] \<and> 0 < i then ui\<lparr>vu_focus := Some (i - 1)\<rparr> else ui)"

text \<open>\<open>codeInputs.forEach(input => input.value = ''); codeInputs[0].focus()\<close>.\<close>

definition clear_inputs :: "verify_ui \<Rightarrow> verify_ui" where
  "clear_inputs ui = ui\<lparr>vu_values := replicate (length (vu_values ui)) [], vu_focus := Some 0\<rparr>"

text \<open>The submit listener (lines 75--143) and the resend listener (lines 152--171) on the
  page: the storage writes are \<open>verify_submit\<close> and \<open>verify_resend\<close>; a wrong code and a
  resend clear the inputs.\<close>

fun verify_step :: "verify_ui \<times> storage \<Rightarrow> verify_event \<Rightarrow> verify_ui \<times> storage" where
  "verify_step (ui, st) (CodeInput i v) = (codeInput i v ui, st)"
| "verify_step (ui, st) (Backspace i) = (backspaceKey i ui, st)"
| "verify_step (ui, st) (VerifySubmit now) =
     (let (st', r) = verify_submit (vu_login ui) (vu_values ui) now st;
          ui1 = ui\<lparr>vu_msg := page_showMessage now (case r of None \<Rightarrow> LoginDone | Some e \<Rightarrow> VerifyFailed e)
                                (case r of None \<Rightarrow> MsgSuccess | Some e \<Rightarrow> MsgError) (vu_msg ui)\<rparr>
      in (if r = Some WrongCode then clear_inputs ui1 else ui1, st'))"
| "verify_step (ui, st) (Resend r now) =
     (clear_inputs (ui\<lparr>vu_msg := page_showMessage now CodeResent MsgSuccess (vu_msg ui)\<rparr>),
      verify_resend (vu_login ui) r now st)"
| "verify_step (ui, st) (VerifyWait now) = (ui\<lparr>vu_msg := message_wait now (vu_msg ui)\<rparr>, st)"

definition verify_run :: "verify_ui \<times> storage \<Rightarrow> verify_event list \<Rightarrow> verify_ui \<times> storage" where
  "verify_run s es = fold (\<lambda>e s. verify_step s e) es s"

text \<open>What the listeners keep: six inputs, the focus on one of them, digits only in each.\<close>

definition verify_inv :: "verify_ui \<Rightarrow> bool" where
  "verify_inv ui \<longleftrightarrow> length (vu_values ui) = 6 \<and>
     (case vu_focus ui of None \<Rightarrow> True | Some i \<Rightarrow> i < 6) \<and>
     list_all (list_all is_ascii_digit) (vu_values ui)"


section \<open>Properties\<close>

lemma digits_only_digits [simp]: "list_all is_ascii_digit (digits_only v)"
  by (simp add: digits_only_def list_all_iff)

lemma verify_inv_msg [simp]: "verify_inv (ui\<lparr>vu_msg := b\<rparr>) = verify_inv ui"
  by (simp add: verify_inv_def)

lemma verify_inv_clear [simp]: "verify_inv ui \<Longrightarrow> verify_inv (clear_inputs ui)"
  by (simp add: verify_inv_def clear_inputs_def list_all_iff)

lemma list_all_update: "list_all P xs \<Longrightarrow> P x \<Longrightarrow> list_all P (xs[i := x])"
  by (auto simp: list_all_iff dest: subsetD [OF set_update_subset_insert])

lemma verify_init_inv: "verify_init st = Some ui \<Longrightarrow> verify_inv ui"
  by (auto simp: verify_init_def verify_inv_def list_all_iff split: option.splits)

lemma codeInput_inv: "verify_inv ui \<Longrightarrow> verify_inv (codeInput i v ui)"
  by (auto simp: verify_inv_def codeInput_def list_all_update split: option.splits)

lemma backspaceKey_inv: "verify_inv ui \<Longrightarrow> verify_inv (backspaceKey i ui)"
  by (auto simp: verify_inv_def backspaceKey_def)

lemma verify_step_inv: "verify_inv (fst s) \<Longrightarrow> verify_inv (fst (verify_step s e))"
  by (cases "(s, e)" rule: verify_step.cases)
     (simp_all add: codeInput_inv backspaceKey_inv split_def Let_def)

text \<open>Whatever is typed, pressed, submitted or resent on the verification page, it keeps
  six inputs holding digits only, with the focus, if moved, on one of them.\<close>

theorem verify_page_inv:
  assumes "verify_init st = Some ui"
  shows "verify_inv (fst (verify_run (ui, st) es))"
proof -
  have "verify_inv (fst s) \<Longrightarrow> verify_inv (fst (fold (\<lambda>e s. verify_step s e) es s))" for s
    by (induction es arbitrary: s) (simp_all add: verify_step_inv)
  then show ?thesis using verify_init_inv [OF assms] by (simp add: verify_run_def)
qed

text \<open>The focus listener runs before the digit filter: a non-digit typed into an input
  before the last leaves it empty and still moves the focus to the next one.\<close>

theorem nondigit_advances_focus:
  assumes "length (vu_values ui) = 6" and "i < 5" and "\<not> is_ascii_digit c"
  shows "vu_values (fst (verify_step (ui, st) (CodeInput i [c]))) ! i = [] \<and>
         vu_focus (fst (verify_step (ui, st) (CodeInput i [c]))) = Some (i + 1)"
  using assms by (simp add: codeInput_def digits_only_def)

theorem nondigit_advances_focus_witness:
  "vu_values (fst (verify_step (\<lparr>vu_login = \<lparr>p_userId = ''u'', p_email = ''a@b.c''\<rparr>, vu_values = replicate 6 [],
      vu_focus = None, vu_msg = no_message True\<rparr>, empty_storage) (CodeInput 0 ''a''))) ! 0 = [] \<and>
   vu_focus (fst (verify_step (\<lparr>vu_login = \<lparr>p_userId = ''u'', p_email = ''a@b.c''\<rparr>, vu_values = replicate 6 [],
      vu_focus = None, vu_msg = no_message True\<rparr>, empty_storage) (CodeInput 0 ''a''))) = Some 1"
  using nondigit_advances_focus [of "\<lparr>vu_login = \<lparr>p_userId = ''u'', p_email = ''a@b.c''\<rparr>, vu_values = replicate 6 [],
      vu_focus = None, vu_msg = no_message True\<rparr>" 0 "CHR ''a''" empty_storage]
  by (simp add: is_ascii_digit_def)

lemma length_6_cases:
  assumes "length xs = 6"
  obtains a b c d e f where "xs = [a, b, c, d, e, f]"
  using assms by (auto simp: length_Suc_conv numeral_eq_Suc)

text \<open>Typing the six digits of the stored code into the six inputs in order, then
  submitting before the expiry, signs in the pending user and shows the success message.\<close>

theorem typed_code_signs_in:
  assumes "verify_init st = Some ui" and "verification st = Some vd" and "length (v_code vd) = 6"
    and "list_all is_ascii_digit (v_code vd)" and "now \<le> expiresAt vd"
    and "db_blob st = Some db" and "find_user (users db) (p_userId (vu_login ui)) = Some u"
  shows "let (ui', st') = verify_run (ui, st) (map2 (\<lambda>i c. CodeInput i [c]) [0..<6] (v_code vd) @ [VerifySubmit now])
         in st' = st\<lparr>current_user_blob := Some u, logged_in := Some ''true'', verification := None, pending := None\<rparr> \<and>
            mb_text (vu_msg ui') = Some LoginDone \<and> mb_type (vu_msg ui') = Some MsgSuccess \<and> mb_shown (vu_msg ui')"
proof -
  obtain a b c d e f where code: "v_code vd = [a, b, c, d, e, f]" using assms(3) by (rule length_6_cases)
  obtain ld where ld: "pending st = Some ld"
    and ui: "ui = \<lparr>vu_login = ld, vu_values = replicate 6 [], vu_focus = None, vu_msg = no_message True\<rparr>"
    using assms(1) by (auto simp: verify_init_def split: option.splits)
  have "[0..<6] = [0, 1, 2, 3, 4, 5::nat]" by (simp add: upt_rec)
  moreover have "(replicate 6 [])[0 := [a], 1 := [b], 2 := [c], 3 := [d], 4 := [e], 5 := [f]] =
                 [[a], [b], [c], [d], [e], [f]]"
    by (simp add: numeral_eq_Suc)
  ultimately show ?thesis using assms(2,4-7) code ui
    by (simp add: verify_run_def codeInput_def digits_only_def verify_submit_def Let_def
                  page_showMessage_def no_message_def)
qed

end
