(* ===== verification/Auth_Pages.thy ===== *)
theory Auth_Pages
  imports Auth Messages
begin

text \<open>
  The login and registration pages (\<^verbatim>\<open>src/src/login.ts\<close>, \<^verbatim>\<open>src/src/register.ts\<close>)
  around the handlers of \<open>Auth\<close>: the import of \<^verbatim>\<open>auth.service.ts\<close> runs
  \<open>checkAuth\<close>, then the page installs its form's submit listener and the Steam button's
  click listener. Each listener shows a message (\<open>showMessage\<close> of \<^verbatim>\<open>auth.service.ts\<close>,
  the box of \<open>Messages\<close>) and, on success, starts a \<open>setTimeout\<close> that leaves the page;
  the redirects are explicit due times, and the page is left at the first one due.
\<close>

section \<open>The pages\<close>

text \<open>The messages of the two forms and of the Steam login (\<^verbatim>\<open>auth.service.ts\<close>, lines
  173, 234--279, 308--330).\<close>

datatype auth_msg = AuthFailed auth_error | Registered | CodeSent | SteamDone

text \<open>The page: the message box, the redirects started (due time and target, in the order
  they were started), and the page it has left for, if any.\<close>

record auth_page =
  ap_msg :: "auth_msg message_box"
  ap_redirects :: "(int \<times> string) list"
  ap_left :: "string option"

text \<open>Loading \<^verbatim>\<open>login.html\<close> or \<^verbatim>\<open>register.html\<close>: \<open>checkAuth()\<close> at the end of
  \<^verbatim>\<open>auth.service.ts\<close> (line 341) sends a logged-in user to the dashboard; \<open>ex\<close> is
  whether the markup has the \<open>formMessage\<close> box.\<close>

definition auth_page_init :: "string \<Rightarrow> bool \<Rightarrow> storage \<Rightarrow> auth_page" where
  "auth_page_init page ex st = \<lparr>ap_msg = no_message ex, ap_redirects = [], ap_left = checkAuth st page\<rparr>"

text \<open>The events: the submit of the login form (the typed email and password, the draw of
  the code, the clock), the submit of the registration form (the form, the clock, the draw
  of the id and the creation date), a click on the Steam button (its draws, the clock), and
  the clock reaching a time.\<close>

datatype auth_event =
    LoginSubmit string string rat int
  | RegisterSubmit register_form nat string string
  | SteamClick rat rat string nat string string
  | AuthWait int

text \<open>A listener's message and, on success, its redirect after \<open>delay\<close> ms.\<close>

definition auth_outcome ::
  "int \<Rightarrow> auth_msg \<Rightarrow> int \<Rightarrow> string \<Rightarrow> auth_error option \<Rightarrow> auth_page \<Rightarrow> auth_page" where
  "auth_outcome now ok delay target r p =
     (case r of
        Some e \<Rightarrow> p\<lparr>ap_msg := showMessage now (AuthFailed e) MsgError (ap_msg p)\<rparr>
      | None \<Rightarrow> p\<lparr>ap_msg := showMessage now ok MsgSuccess (ap_msg p),
                  ap_redirects := ap_redirects p @ [(now + delay, target)]\<rparr>)"

text \<open>The first redirect due at \<open>now\<close>: the earliest due time, the first started among
  equal ones.\<close>

definition first_due :: "int \<Rightarrow> (int \<times> string) list \<Rightarrow> string option" where
  "first_due now rs =
     (case filter (\<lambda>r. fst r \<le> now) rs of
        [] \<Rightarrow> None
      | d # ds \<Rightarrow> Some (snd (fold (\<lambda>r m. if fst r < fst m then r else m) ds d)))"

text \<open>The listeners: \<open>handleLogin\<close> (lines 285--335, 2000 ms to \<^verbatim>\<open>verify.html\<close>),
  \<open>handleRegistration\<close> (lines 218--283, 1500 ms to \<^verbatim>\<open>login.html\<close>), the Steam button
  of both pages (\<^verbatim>\<open>login.ts\<close> lines 7--13, \<open>loginWithSteam\<close> lines 152--178, 1500 ms to
  the dashboard); a page that has been left handles nothing. \<open>handleLogin\<close> is installed on
  the login page only and \<open>handleRegistration\<close> on the registration page, so the form
  submitted determines the page.\<close>

fun auth_page_step :: "auth_page \<times> storage \<Rightarrow> auth_event \<Rightarrow> auth_page \<times> storage" where
  "auth_page_step (p, st) e =
     (if ap_left p \<noteq> None then (p, st) else
      case e of
        LoginSubmit em pw r now \<Rightarrow>
          (let (st', res) = handleLogin em pw r now st
           in (auth_outcome now CodeSent 2000 ''verify.html'' res p, st'))
      | RegisterSubmit f now rnd created \<Rightarrow>
          (let (st', res) = handleRegistration f now rnd created st
           in (auth_outcome (int now) Registered 1500 ''login.html'' res p, st'))
      | SteamClick r_mail r_nick pw_rand now rnd created \<Rightarrow>
          (auth_outcome (int now) SteamDone 1500 ''dashboard.html'' None p,
           loginWithSteam r_mail r_nick pw_rand now rnd created st)
      | AuthWait now \<Rightarrow>
          (p\<lparr>ap_msg := message_wait now (ap_msg p), ap_left := first_due now (ap_redirects p)\<rparr>, st))"

definition auth_page_run :: "auth_page \<times> storage \<Rightarrow> auth_event list \<Rightarrow> auth_page \<times> storage" where
  "auth_page_run s es = fold (\<lambda>e s. auth_page_step s e) es s"


section \<open>Properties\<close>

lemma auth_page_step_left [simp]: "ap_left p \<noteq> None \<Longrightarrow> auth_page_step (p, st) e = (p, st)"
  by simp

lemma registered_found:
  assumes "handleRegistration f now rnd created st = (st1, None)"
  shows "findUserByEmail st1 (js_trim (rf_email f)) \<noteq> None"
proof -
  let ?d = "\<lparr>cu_nickname = js_trim (rf_nickname f), cu_email = js_trim (rf_email f), cu_password = rf_password f\<rparr>"
  have "st1 = snd (createUser now rnd created ?d (initDatabase st))"
    using registration_success [OF assms] by simp
  then have "users (getDatabase st1) = users (getDatabase st) @ [fst (createUser now rnd created ?d (initDatabase st))]"
    by (simp add: createUser_db)
  moreover have "js_lower (email (fst (createUser now rnd created ?d (initDatabase st)))) = js_lower (js_trim (rf_email f))"
    by (simp add: createUser_user)
  ultimately show ?thesis unfolding findUserByEmail_def find_None_iff by auto
qed

text \<open>The registration form's checks before the database is read pass again on the same
  form, so a second submit of a form that registered finds its email taken.\<close>

lemma registration_again:
  assumes "handleRegistration f now rnd created st = (st1, None)"
  shows "handleRegistration f now' rnd' created' st1 = (st1, Some EmailTaken)"
proof -
  have "\<not> length (js_trim (rf_nickname f)) < 3" and "validateEmail (js_trim (rf_email f))"
    using assms by (auto simp: handleRegistration_def Let_def split: if_splits option.splits)
  with registered_found [OF assms] show ?thesis by (simp add: handleRegistration_def Let_def)
qed

text \<open>Every branch of the login form's listener: an error shows its message and writes
  what \<open>handleLogin\<close> wrote (the database initialised); a success also shows that the code
  was sent and starts the redirect to the verification page 2000 ms later.\<close>

theorem login_page_submit:
  assumes "ap_left p = None" and "handleLogin em pw r now st = (st', res)"
  shows "auth_page_step (p, st) (LoginSubmit em pw r now) =
           (case res of
              Some e \<Rightarrow> (p\<lparr>ap_msg := showMessage now (AuthFailed e) MsgError (ap_msg p)\<rparr>, st')
            | None \<Rightarrow> (p\<lparr>ap_msg := showMessage now CodeSent MsgSuccess (ap_msg p),
                         ap_redirects := ap_redirects p @ [(now + 2000, ''verify.html'')]\<rparr>, st'))"
  using assms by (simp add: auth_outcome_def split: option.split)

text \<open>A double submit of the registration form: the second submit, before the redirect,
  replaces the success message by the error that the email is taken; the storage is that of
  the first, and the page still leaves for the login page.\<close>

theorem register_double_submit:
  assumes "ap_left p = None" and "handleRegistration f t rnd c st = (st1, None)"
  shows "auth_page_run (p, st) [RegisterSubmit f t rnd c, RegisterSubmit f t' rnd' c'] =
           (p\<lparr>ap_msg := showMessage (int t') (AuthFailed EmailTaken) MsgError
                           (showMessage (int t) Registered MsgSuccess (ap_msg p)),
              ap_redirects := ap_redirects p @ [(int t + 1500, ''login.html'')]\<rparr>, st1)"
  using assms registration_again [OF assms(2)] by (simp add: auth_page_run_def auth_outcome_def)

text \<open>After a successful login on a fresh login page the message that the code was sent
  is shown until the page leaves for the verification page, 2000 ms later.\<close>

theorem login_leaves_for_verify:
  assumes "logged_in st \<noteq> Some ''true''" and "handleLogin em pw r now st = (st', None)"
    and "now \<le> t" and "t < now + 2000" and "now + 2000 \<le> t'" and "t' < now + 5000"
  shows "let (p1, _) = auth_page_run (auth_page_init ''login.html'' ex st, st) [LoginSubmit em pw r now, AuthWait t];
             (p2, _) = auth_page_run (p1, st') [AuthWait t']
         in ap_left p1 = None \<and> mb_shown (ap_msg p1) \<and> mb_text (ap_msg p1) = Some CodeSent \<and>
            ap_left p2 = Some ''verify.html'' \<and> mb_shown (ap_msg p2)"
  using assms
  by (simp add: auth_page_run_def auth_page_init_def checkAuth_def auth_outcome_def first_due_def
                showMessage_def message_wait_def no_message_def)

theorem register_double_submit_witness:
  "auth_page_run (auth_page_init ''register.html'' True empty_storage, empty_storage)
     [RegisterSubmit demo_form 7 ''k'' ''t'', RegisterSubmit demo_form 8 ''k2'' ''t''] =
   (\<lparr>ap_msg = showMessage 8 (AuthFailed EmailTaken) MsgError (showMessage 7 Registered MsgSuccess (no_message True)),
     ap_redirects = [(1507, ''login.html'')], ap_left = None\<rparr>, demo_accounts)"
  using register_double_submit [OF _ demo_registration, of "auth_page_init ''register.html'' True empty_storage" 8 "''k2''" "''t''"]
  by (simp add: auth_page_init_def checkAuth_def empty_storage_def)

theorem login_leaves_for_verify_witness:
  "let (p1, _) = auth_page_run (auth_page_init ''login.html'' True demo_accounts, demo_accounts)
                   [LoginSubmit ''Ann@Mesa.gg'' ''secret123'' (1/2) 0, AuthWait 1000];
       (p2, _) = auth_page_run (p1, demo_pending) [AuthWait 3000]
   in ap_left p1 = None \<and> mb_shown (ap_msg p1) \<and> mb_text (ap_msg p1) = Some CodeSent \<and>
      ap_left p2 = Some ''verify.html'' \<and> mb_shown (ap_msg p2)"
proof -
  have "logged_in demo_accounts = logged_in (initDatabase empty_storage)"
    using registration_success [OF demo_registration, THEN conjunct1] by (metis createUser_session(4))
  then have "logged_in demo_accounts = None"
    by (simp add: initDatabase_def empty_storage_def split: option.splits)
  then show ?thesis
    using login_leaves_for_verify [OF _ demo_login, of 1000 3000 True] by simp
qed

end
