(* ===== verification/Settings_UI.thy ===== *)
theory Settings_UI
  imports Profile_View Messages
begin

text \<open>
  The rest of the settings page (\<^verbatim>\<open>src/src/settings.ts\<close>) around the form and theme of
  \<open>Settings\<close>: the header, the profile dropdown (its user, its status dot and checkbox, its
  toggle and the \<open>document\<close> listener that closes it, its logout), the search box, the
  message box of the save button, the two logout links and the account deletion. A click is
  given by what it lands on; the listeners it reaches run in bubbling order, and
  \<open>stopPropagation\<close> keeps it from the \<open>document\<close> listeners. Once a handler has set
  \<open>window.location.href\<close> the page is left and handles nothing more.
\<close>

section \<open>Header, search and dropdown\<close>

text \<open>\<open>loadHeader\<close>, lines 38--46.\<close>

definition settings_loadHeader :: "user \<Rightarrow> page_header" where
  "settings_loadHeader u = \<lparr>hd_name = nickname u, hd_level = int_str (level u), hd_avatar = truthy_str (avatar u)\<rparr>"

text \<open>The input listener of \<open>setupSearch\<close>, lines 55--91: \<open>None\<close> when the result box
  is closed, the users shown otherwise; without a database blob the listener returns and the
  box stays as it was (\<open>prev\<close>).\<close>

definition settings_search :: "user \<Rightarrow> string \<Rightarrow> storage \<Rightarrow> user list option \<Rightarrow> user list option" where
  "settings_search cur input st prev =
     (let q = js_lower (js_trim input) in
      if length q < 2 then None
      else case db_blob st of
        None \<Rightarrow> prev
      | Some db \<Rightarrow>
          Some (take 8 (filter (\<lambda>u. u_id u \<noteq> u_id cur \<and>
                   ((nickname u \<noteq> [] \<and> is_infix q (js_lower (nickname u))) \<or>
                    (case login u of Some l \<Rightarrow> l \<noteq> [] \<and> is_infix q (js_lower l) | None \<Rightarrow> False))) (users db))))"

text \<open>The message of the save button (line 287).\<close>

datatype settings_msg = SettingsSaved

text \<open>The page: the form and theme of \<open>Settings\<close>, the header, the e-mail shown, the
  dropdown's user, status and open state, the search results, the message box, the page
  copy of the user the search excludes, and the page left for.\<close>

record settings_ui =
  su_page :: settings_page
  su_header :: page_header
  su_email :: "string option"
  su_dropdownName :: string
  su_dropdownAvatar :: "string option"
  su_online :: bool
  su_dropdownOpen :: bool
  su_search :: "user list option"
  su_msg :: "settings_msg message_box"
  su_user :: user
  su_left :: "string option"

text \<open>\<open>init\<close>, lines 255--281: \<open>loadHeader\<close>, \<open>setupProfileDropdown\<close> (lines 101--164:
  the user of the dropdown, then the status written back), \<open>setupSearch\<close>, the e-mail when
  truthy, and the form and theme of \<open>settings_init\<close>; \<open>ex\<close> is whether the markup has the
  message box.\<close>

definition settings_ui_init :: "settings_form \<Rightarrow> bool \<Rightarrow> storage \<Rightarrow> (settings_ui \<times> storage) option" where
  "settings_ui_init f0 ex st =
     (case settings_checkAuth st of
        None \<Rightarrow> None
      | Some u \<Rightarrow>
          (case settings_init f0 st of
             None \<Rightarrow> None
           | Some (sp, st1) \<Rightarrow>
               Some (\<lparr>su_page = sp, su_header = settings_loadHeader u, su_email = truthy_str (Some (email u)),
                      su_dropdownName = nickname u, su_dropdownAvatar = truthy_str (avatar u),
                      su_online = fst (dropdown_status st), su_dropdownOpen = False, su_search = None,
                      su_msg = no_message ex, su_user = u, su_left = None\<rparr>, st1)))"

text \<open>What a click lands on: the profile toggle, an item of the dropdown, the status row,
  the search box, anything else.\<close>

datatype settings_click = ToggleClick | DropdownItemClick | StatusRowClick | SearchBoxClick | OtherClick

text \<open>The events: typing in the search box, a click, the status checkbox, a change of the
  form's controls, a choice in the theme select, the save button, the delete button with
  its two answers, the dropdown's and the sidebar's logout with the answer, and the clock
  reaching a time. The change-email and change-password buttons only show an alert.\<close>

datatype settings_event =
    SearchInput string | SettingsClick settings_click | StatusCheckbox bool
  | FormSet settings_form | ThemeSelect string | SaveBtn int | DeleteBtn bool bool
  | DropdownLogoutClick bool | SidebarLogoutClick bool | SettingsWait int

text \<open>The two \<open>document\<close> click listeners: the dropdown closes (lines 150--152), the
  search results close unless the click is inside \<open>.nav-search\<close> (lines 93--97).\<close>

definition settings_document_click :: "bool \<Rightarrow> settings_ui \<Rightarrow> settings_ui" where
  "settings_document_click in_search ui =
     ui\<lparr>su_dropdownOpen := False, su_search := (if in_search then su_search ui else None)\<rparr>"

definition settings_click_step :: "settings_click \<Rightarrow> settings_ui \<Rightarrow> settings_ui" where
  "settings_click_step c ui =
     (case c of
        ToggleClick \<Rightarrow> ui\<lparr>su_dropdownOpen := \<not> su_dropdownOpen ui\<rparr>
      | DropdownItemClick \<Rightarrow> settings_document_click False ui
      | StatusRowClick \<Rightarrow> ui
      | SearchBoxClick \<Rightarrow> settings_document_click True ui
      | OtherClick \<Rightarrow> settings_document_click False ui)"

text \<open>A logout or deletion that was confirmed leaves for \<^verbatim>\<open>index.html\<close>.\<close>

definition leave_if :: "bool \<Rightarrow> settings_ui \<Rightarrow> settings_ui" where
  "leave_if c ui = (if c then ui\<lparr>su_left := Some ''index.html''\<rparr> else ui)"

text \<open>The listeners: the search input, the clicks, the checkbox (lines 134--138), the theme
  select (lines 275--280), the save button (lines 283--288), the delete button (lines
  301--311), the dropdown's logout link (lines 154--163, an item of the dropdown, so the
  click then reaches the \<open>document\<close>), the sidebar's logout (lines 313--324).\<close>

fun settings_step :: "settings_ui \<times> storage \<Rightarrow> settings_event \<Rightarrow> settings_ui \<times> storage" where
  "settings_step (ui, st) e =
     (if su_left ui \<noteq> None then (ui, st) else
      case e of
        SearchInput q \<Rightarrow> (ui\<lparr>su_search := settings_search (su_user ui) q st (su_search ui)\<rparr>, st)
      | SettingsClick c \<Rightarrow> (settings_click_step c ui, st)
      | StatusCheckbox b \<Rightarrow> (ui\<lparr>su_online := b\<rparr>, updateStatus b st)
      | FormSet f \<Rightarrow> (ui\<lparr>su_page := (su_page ui)\<lparr>sp_form := f\<rparr>\<rparr>, st)
      | ThemeSelect t \<Rightarrow>
          (ui\<lparr>su_page := themeChange ((su_page ui)\<lparr>sp_form := (sp_form (su_page ui))\<lparr>sf_theme := t\<rparr>\<rparr>)\<rparr>, st)
      | SaveBtn now \<Rightarrow>
          (let (sp, st') = saveClick (su_page ui) st
           in (ui\<lparr>su_page := sp, su_msg := page_showMessage now SettingsSaved MsgSuccess (su_msg ui)\<rparr>, st'))
      | DeleteBtn c1 c2 \<Rightarrow> (leave_if (c1 \<and> c2) ui, deleteAccount c1 c2 st)
      | DropdownLogoutClick c \<Rightarrow> (leave_if c (settings_document_click False ui), logout c st)
      | SidebarLogoutClick c \<Rightarrow> (leave_if c ui, logout c st)
      | SettingsWait now \<Rightarrow> (ui\<lparr>su_msg := message_wait now (su_msg ui)\<rparr>, st))"

definition settings_run :: "settings_ui \<times> storage \<Rightarrow> settings_event list \<Rightarrow> settings_ui \<times> storage" where
  "settings_run s es = fold (\<lambda>e s. settings_step s e) es s"

text \<open>What the page keeps: the search box shows at most eight users and never the page's
  user, and while the page is open its status dot shows the stored status.\<close>

definition search_shown_ok :: "user \<Rightarrow> user list option \<Rightarrow> bool" where
  "search_shown_ok cur r =
     (case r of None \<Rightarrow> True | Some rs \<Rightarrow> length rs \<le> 8 \<and> list_all (\<lambda>v. u_id v \<noteq> u_id cur) rs)"

definition settings_ui_ok :: "settings_ui \<Rightarrow> storage \<Rightarrow> bool" where
  "settings_ui_ok ui st \<longleftrightarrow>
     search_shown_ok (su_user ui) (su_search ui) \<and>
     (su_left ui = None \<longrightarrow> su_online ui = (onlineStatus (stored_settings st) \<noteq> Some False))"


section \<open>Properties\<close>

text \<open>The search box of the settings page is a copy of the friends page's: the two
  listeners agree on every input.\<close>

theorem settings_search_copy: "settings_search = search_users"
  unfolding settings_search_def search_users_def search_match_def [abs_def] by (intro ext) simp

lemma search_shown_ok_None [simp]: "search_shown_ok cur None"
  by (simp add: search_shown_ok_def)

lemma take_filter_all: "(\<And>x. P x \<Longrightarrow> Q x) \<Longrightarrow> list_all Q (take n (filter P xs))"
  by (auto simp: list_all_iff dest: in_set_takeD)

lemma settings_search_ok:
  "search_shown_ok cur prev \<Longrightarrow> search_shown_ok cur (settings_search cur q st prev)"
  by (auto simp: settings_search_def search_shown_ok_def Let_def split: option.splits intro!: take_filter_all)

lemma stored_settings_update [simp]:
  "onlineStatus (stored_settings (updateStatus b st)) = Some b"
  by (simp add: updateStatus_def stored_settings_def)

lemma saveClick_status:
  "onlineStatus (stored_settings (snd (saveClick p st))) \<noteq> Some False \<longleftrightarrow>
   onlineStatus (stored_settings st) \<noteq> Some False"
  by (simp add: saveClick_def Let_def saveSettings_def stored_settings_def readSettingsFromForm_def
           split: option.split)

lemma settings_step_ok:
  assumes "settings_ui_ok ui st"
  shows "settings_ui_ok (fst (settings_step (ui, st) e)) (snd (settings_step (ui, st) e))"
proof (cases "su_left ui = None")
  case True
  have sr: "settings_ui_ok (ui\<lparr>su_search := settings_search (su_user ui) q st (su_search ui)\<rparr>) st" for q
    using assms settings_search_ok [of "su_user ui" "su_search ui" q st] by (simp add: settings_ui_ok_def)
  show ?thesis
  proof (cases e)
    case (SearchInput q)
    then show ?thesis using True sr by simp
  next
    case (SaveBtn now)
    then show ?thesis using True assms
      by (simp add: settings_ui_ok_def split_def Let_def saveClick_status)
  qed (use True assms in \<open>auto simp: settings_ui_ok_def settings_click_step_def settings_document_click_def
         leave_if_def logout_def deleteAccount_def split: settings_click.splits\<close>)
qed (use assms in \<open>simp add: settings_ui_ok_def\<close>)

lemma settings_ui_init_ok:
  assumes "settings_ui_init f0 ex st = Some (ui, st1)"
  shows "settings_ui_ok ui st1"
  using assms
  by (auto simp: settings_ui_init_def settings_init_def settings_ui_ok_def dropdown_status_def Let_def
           split: option.splits)

text \<open>From the page as loaded, whatever is typed, clicked, chosen or saved: the search box
  shows at most eight users and never the page's user, and until the page is left its status
  dot shows the status stored under \<open>mesaSettings\<close>.\<close>

theorem settings_page_ok:
  assumes "settings_ui_init f0 ex st = Some (ui, st1)"
  shows "settings_ui_ok (fst (settings_run (ui, st1) es)) (snd (settings_run (ui, st1) es))"
proof -
  have "settings_ui_ok (fst s) (snd s) \<Longrightarrow>
        settings_ui_ok (fst (fold (\<lambda>e s. settings_step s e) es s)) (snd (fold (\<lambda>e s. settings_step s e) es s))" for s
  proof (induction es arbitrary: s)
    case (Cons e es)
    obtain ui st where "s = (ui, st)" by fastforce
    with Cons settings_step_ok [of ui st e] show ?case by simp
  qed simp
  then show ?thesis using settings_ui_init_ok [OF assms] by (simp add: settings_run_def)
qed

theorem settings_page_ok_witness:
  "settings_ui_ok (fst (settings_run (the (settings_ui_init dark_form True settings_session))
                          [SearchInput ''an'', SettingsClick ToggleClick, StatusCheckbox False, SaveBtn 0]))
                  (snd (settings_run (the (settings_ui_init dark_form True settings_session))
                          [SearchInput ''an'', SettingsClick ToggleClick, StatusCheckbox False, SaveBtn 0]))"
proof -
  have "settings_ui_init dark_form True settings_session =
        Some (fst (the (settings_ui_init dark_form True settings_session)), snd (the (settings_ui_init dark_form True settings_session)))"
    by (simp add: settings_ui_init_def settings_init_def settings_checkAuth_def settings_session_def
                  empty_storage_def Let_def)
  from settings_page_ok [OF this] show ?thesis by simp
qed

end
