(* ===== verification/Profile_UI.thy ===== *)
theory Profile_UI
  imports Profile_Page Settings_UI
begin

text \<open>
  The listeners of the profile page (\<^verbatim>\<open>src/src/profile.ts\<close>, \<open>init\<close>, lines 294--470)
  around the storage handlers of \<open>Profile\<close> and the page as \<open>Profile_Page\<close> loads it: the
  biography counter, the avatar and banner inputs with their live previews, the banner URL,
  removing the banner, the form's submit with the header update, each with its message; and
  the search box, the profile dropdown and the logout link, whose code is the settings
  page's (lines 149--232, 455--467, the same as \<^verbatim>\<open>settings.ts\<close> lines 49--164 and
  313--324). The file reads of the two inputs are not interleaved with other events.
\<close>

section \<open>The page\<close>

text \<open>The messages of the listeners (lines 310--447).\<close>

datatype profile_msg =
    ProfileFailed profile_error | AvatarUpdated | BannerVideoSet | BannerUpdated | BannerReset | ProfileSaved

record profile_ui =
  pu_page :: profile_page
  pu_dropdownOpen :: bool
  pu_search :: "user list option"
  pu_msg :: "profile_msg message_box"
  pu_left :: "string option"

definition profile_ui_init :: "bool \<Rightarrow> storage \<Rightarrow> (profile_ui \<times> storage) option" where
  "profile_ui_init ex st =
     (case profile_init st of
        None \<Rightarrow> None
      | Some (p, st1) \<Rightarrow>
          Some (\<lparr>pu_page = p, pu_dropdownOpen = False, pu_search = None, pu_msg = no_message ex, pu_left = None\<rparr>, st1))"

text \<open>The events: typing in the three fields, a file chosen in the avatar or banner input,
  applying the banner URL field's value (its button or Enter), the remove button, the
  form's submit, the clock at each message; typing in the search box, a click, the status
  checkbox, and the two logouts with the answer to their confirmation.\<close>

datatype profile_event =
    BioInput string | NicknameInput string | LoginInput string
  | AvatarPick "upload option" int | BannerPick "upload option" int | UrlApply string int
  | RemoveBannerBtn int | ProfileFormSubmit int
  | ProfileSearch string | ProfileClick settings_click | ProfileStatus bool
  | ProfileDropdownLogout bool | ProfileSidebarLogout bool | ProfileWait int

definition pu_form_update :: "(profile_form \<Rightarrow> profile_form) \<Rightarrow> profile_ui \<Rightarrow> profile_ui" where
  "pu_form_update f ui = ui\<lparr>pu_page := (pu_page ui)\<lparr>pp_form := f (pp_form (pu_page ui))\<rparr>\<rparr>"

definition pu_show :: "int \<Rightarrow> profile_msg \<Rightarrow> message_type \<Rightarrow> profile_ui \<Rightarrow> profile_ui" where
  "pu_show now m ty ui = ui\<lparr>pu_msg := page_showMessage now m ty (pu_msg ui)\<rparr>"

definition pu_set_user :: "user \<Rightarrow> profile_ui \<Rightarrow> profile_ui" where
  "pu_set_user u ui = ui\<lparr>pu_page := (pu_page ui)\<lparr>pp_user := u\<rparr>\<rparr>"

text \<open>The avatar input, lines 305--318: nothing without a file, the size error, or the
  preview, the write and the message.\<close>

definition pu_avatar :: "upload option \<Rightarrow> int \<Rightarrow> profile_ui \<times> storage \<Rightarrow> profile_ui \<times> storage" where
  "pu_avatar file now s =
     (let (ui, st) = s; (u', st', r) = avatarChange (pp_user (pu_page ui)) file st in
      case file of
        None \<Rightarrow> s
      | Some f \<Rightarrow>
          (case r of
             Some e \<Rightarrow> (pu_show now (ProfileFailed e) MsgError ui, st)
           | None \<Rightarrow> (pu_show now AvatarUpdated MsgSuccess
                        (pu_set_user u' (pu_form_update (\<lambda>fm. fm\<lparr>pf_avatarPreview := Some (f_data f)\<rparr>) ui)), st')))"

text \<open>The banner input, lines 327--358: a video file is played, any other file is the
  background picture.\<close>

definition pu_banner :: "upload option \<Rightarrow> int \<Rightarrow> profile_ui \<times> storage \<Rightarrow> profile_ui \<times> storage" where
  "pu_banner file now s =
     (let (ui, st) = s; (u', st', r) = bannerChange (pp_user (pu_page ui)) file st in
      case file of
        None \<Rightarrow> s
      | Some f \<Rightarrow>
          (case r of
             Some e \<Rightarrow> (pu_show now (ProfileFailed e) MsgError ui, st)
           | None \<Rightarrow>
               (let video = starts_with ''video/'' (f_type f) in
                (pu_show now (if video then BannerVideoSet else BannerUpdated) MsgSuccess
                   (pu_set_user u' (pu_form_update (\<lambda>fm. fm\<lparr>pf_banner := (if video then VideoBg (f_data f) else ImageBg (f_data f))\<rparr>) ui)),
                 st'))))"

text \<open>\<open>applyUrl\<close>, lines 366--388: the preview chosen by \<open>isVideoUrl\<close>, the write, the
  message; an empty field does nothing.\<close>

definition pu_url :: "string \<Rightarrow> int \<Rightarrow> profile_ui \<times> storage \<Rightarrow> profile_ui \<times> storage" where
  "pu_url v now s =
     (let (ui, st) = s; url = js_trim v; ui0 = pu_form_update (\<lambda>fm. fm\<lparr>pf_bannerUrl := Some v\<rparr>) ui in
      if url = [] then (ui0, st)
      else let (u', st') = applyUrl (pp_user (pu_page ui)) v st in
           (pu_show now BannerUpdated MsgSuccess
              (pu_set_user u' (pu_form_update (\<lambda>fm. fm\<lparr>pf_banner := (if isVideoUrl url then VideoBg url else GifBg url)\<rparr>) ui0)),
            st'))"

text \<open>The remove button, lines 399--405.\<close>

definition pu_remove :: "int \<Rightarrow> profile_ui \<times> storage \<Rightarrow> profile_ui \<times> storage" where
  "pu_remove now s =
     (let (ui, st) = s; (u', st') = removeBanner (pp_user (pu_page ui)) st in
      (pu_show now BannerReset MsgInfo
         (pu_set_user u' (pu_form_update (\<lambda>fm. fm\<lparr>pf_banner := NoBg, pf_bannerUrl := Some []\<rparr>) ui)), st'))"

text \<open>The form's submit, lines 411--452: on success the header shows the trimmed nickname.\<close>

definition pu_submit :: "int \<Rightarrow> profile_ui \<times> storage \<Rightarrow> profile_ui \<times> storage" where
  "pu_submit now s =
     (let (ui, st) = s; fm = pp_form (pu_page ui);
          (u', st', r) = profileSubmit (pp_user (pu_page ui)) (pf_nickname fm) (pf_login fm) (pf_bio fm) st in
      case r of
        Some e \<Rightarrow> (pu_show now (ProfileFailed e) MsgError ui, st)
      | None \<Rightarrow>
          (let p = pu_page (pu_set_user u' ui) in
           (pu_show now ProfileSaved MsgSuccess
              (ui\<lparr>pu_page := p\<lparr>pp_header := (pp_header p)\<lparr>hd_name := js_trim (pf_nickname fm)\<rparr>\<rparr>\<rparr>), st')))"

text \<open>The dropdown toggle, the status row and the two \<open>document\<close> listeners (lines
  190--194, 215--232), as on the settings page.\<close>

definition pu_click :: "settings_click \<Rightarrow> profile_ui \<Rightarrow> profile_ui" where
  "pu_click c ui =
     (case c of
        ToggleClick \<Rightarrow> ui\<lparr>pu_dropdownOpen := \<not> pu_dropdownOpen ui\<rparr>
      | StatusRowClick \<Rightarrow> ui
      | SearchBoxClick \<Rightarrow> ui\<lparr>pu_dropdownOpen := False\<rparr>
      | _ \<Rightarrow> ui\<lparr>pu_dropdownOpen := False, pu_search := None\<rparr>)"

fun profile_step :: "profile_ui \<times> storage \<Rightarrow> profile_event \<Rightarrow> profile_ui \<times> storage" where
  "profile_step (ui, st) e =
     (if pu_left ui \<noteq> None then (ui, st) else
      case e of
        BioInput b \<Rightarrow> (pu_form_update (\<lambda>fm. fm\<lparr>pf_bio := b, pf_bioCounter := updateBioCounter b\<rparr>) ui, st)
      | NicknameInput n \<Rightarrow> (pu_form_update (\<lambda>fm. fm\<lparr>pf_nickname := n\<rparr>) ui, st)
      | LoginInput l \<Rightarrow> (pu_form_update (\<lambda>fm. fm\<lparr>pf_login := l\<rparr>) ui, st)
      | AvatarPick f now \<Rightarrow> pu_avatar f now (ui, st)
      | BannerPick f now \<Rightarrow> pu_banner f now (ui, st)
      | UrlApply v now \<Rightarrow> pu_url v now (ui, st)
      | RemoveBannerBtn now \<Rightarrow> pu_remove now (ui, st)
      | ProfileFormSubmit now \<Rightarrow> pu_submit now (ui, st)
      | ProfileSearch q \<Rightarrow> (ui\<lparr>pu_search := settings_search (pp_user (pu_page ui)) q st (pu_search ui)\<rparr>, st)
      | ProfileClick c \<Rightarrow> (pu_click c ui, st)
      | ProfileStatus b \<Rightarrow> (ui\<lparr>pu_page := (pu_page ui)\<lparr>pp_online := b\<rparr>\<rparr>, updateStatus b st)
      | ProfileDropdownLogout c \<Rightarrow>
          ((if c then ui\<lparr>pu_left := Some ''index.html''\<rparr> else ui)\<lparr>pu_dropdownOpen := False, pu_search := None\<rparr>, logout c st)
      | ProfileSidebarLogout c \<Rightarrow> (if c then ui\<lparr>pu_left := Some ''index.html''\<rparr> else ui, logout c st)
      | ProfileWait now \<Rightarrow> (ui\<lparr>pu_msg := message_wait now (pu_msg ui)\<rparr>, st))"

definition profile_run :: "profile_ui \<times> storage \<Rightarrow> profile_event list \<Rightarrow> profile_ui \<times> storage" where
  "profile_run s es = fold (\<lambda>e s. profile_step s e) es s"

text \<open>The banner preview shown live agrees with the one \<open>loadProfile\<close> would show for the
  user as stored, except that a video file is played live even when \<open>isVideoUrl\<close> would
  not recognise its data URL on a reload.\<close>

definition banner_shown_ok :: "banner_background \<Rightarrow> user \<Rightarrow> bool" where
  "banner_shown_ok b u \<longleftrightarrow>
     b = profile_preview u \<or> (case b of VideoBg d \<Rightarrow> bannerVideo u = Some d \<and> d \<noteq> [] | _ \<Rightarrow> False)"

definition preview_ok :: "profile_page \<Rightarrow> storage \<Rightarrow> bool" where
  "preview_ok p st \<longleftrightarrow>
     current_user_blob st = Some (pp_user p) \<and>
     pf_avatarPreview (pp_form p) = truthy_str (avatar (pp_user p)) \<and>
     banner_shown_ok (pf_banner (pp_form p)) (pp_user p)"

definition profile_ui_ok :: "profile_ui \<Rightarrow> storage \<Rightarrow> bool" where
  "profile_ui_ok ui st \<longleftrightarrow> (pu_left ui = None \<longrightarrow> preview_ok (pu_page ui) st)"

text \<open>A file read gives a data URL, never the empty string.\<close>

definition upload_read :: "profile_event \<Rightarrow> bool" where
  "upload_read e =
     (case e of
        AvatarPick (Some f) _ \<Rightarrow> f_data f \<noteq> []
      | BannerPick (Some f) _ \<Rightarrow> f_data f \<noteq> []
      | _ \<Rightarrow> True)"


section \<open>Properties\<close>

lemma preview_ok_msg [simp]: "preview_ok (pu_page (pu_show now m ty ui)) st = preview_ok (pu_page ui) st"
  by (simp add: pu_show_def)

lemma profile_preview_info [simp]:
  "profile_preview (u\<lparr>avatar := a\<rparr>) = profile_preview u"
  "profile_preview (u\<lparr>nickname := n, login := l, bio := b\<rparr>) = profile_preview u"
  by (simp_all add: profile_preview_def split: option.split)

lemma banner_shown_ok_info [simp]:
  "banner_shown_ok b (u\<lparr>avatar := a\<rparr>) = banner_shown_ok b u"
  "banner_shown_ok b (u\<lparr>nickname := n, login := l, bio := bi\<rparr>) = banner_shown_ok b u"
  by (cases b; simp add: banner_shown_ok_def)+

lemma preview_ok_saved:
  assumes "preview_ok p st"
    and "truthy_str (avatar u') = pf_avatarPreview fm" and "banner_shown_ok (pf_banner fm) u'"
  shows "preview_ok (p\<lparr>pp_form := fm, pp_user := u'\<rparr>) (updateCurrentUser u' st)"
  using assms by (simp add: preview_ok_def)

lemma pu_avatar_ok:
  assumes "preview_ok (pu_page ui) st" and "case up of Some f \<Rightarrow> f_data f \<noteq> [] | None \<Rightarrow> True"
  shows "preview_ok (pu_page (fst (pu_avatar up now (ui, st)))) (snd (pu_avatar up now (ui, st)))"
proof (cases up)
  case (Some f)
  let ?u = "pp_user (pu_page ui)"
  show ?thesis
  proof (cases "f_size f > 2 * 1024 * 1024")
    case False
    show ?thesis using assms Some False
      by (simp add: pu_avatar_def avatarChange_def saveProfile_def pu_show_def pu_set_user_def Let_def
                    pu_form_update_def preview_ok_def truthy_str_def)
  qed (use assms Some in \<open>simp add: pu_avatar_def avatarChange_def\<close>)
qed (use assms in \<open>simp add: pu_avatar_def avatarChange_def\<close>)

lemma pu_banner_ok:
  assumes "preview_ok (pu_page ui) st" and "case up of Some f \<Rightarrow> f_data f \<noteq> [] | None \<Rightarrow> True"
  shows "preview_ok (pu_page (fst (pu_banner up now (ui, st)))) (snd (pu_banner up now (ui, st)))"
proof (cases up)
  case (Some f)
  show ?thesis
  proof (cases "f_size f > 10 * 1024 * 1024")
    case False
    then show ?thesis using assms Some
      by (simp add: pu_banner_def bannerChange_def saveProfile_def pu_show_def pu_set_user_def Let_def
                    pu_form_update_def preview_ok_def banner_shown_ok_def profile_preview_def)
  qed (use assms Some in \<open>simp add: pu_banner_def bannerChange_def Let_def pu_show_def\<close>)
qed (use assms in \<open>simp add: pu_banner_def bannerChange_def\<close>)

lemma pu_url_ok:
  assumes "preview_ok (pu_page ui) st"
  shows "preview_ok (pu_page (fst (pu_url v now (ui, st)))) (snd (pu_url v now (ui, st)))"
proof (cases "js_trim v = []")
  case True
  then show ?thesis using assms by (simp add: pu_url_def Let_def pu_form_update_def preview_ok_def)
next
  case False
  then show ?thesis using assms
    by (simp add: pu_url_def applyUrl_def saveProfile_def pu_show_def pu_set_user_def Let_def
                  pu_form_update_def preview_ok_def banner_shown_ok_def profile_preview_def)
qed

lemma pu_remove_ok:
  assumes "preview_ok (pu_page ui) st"
  shows "preview_ok (pu_page (fst (pu_remove now (ui, st)))) (snd (pu_remove now (ui, st)))"
  using assms
  by (simp add: pu_remove_def removeBanner_def saveProfile_def pu_show_def pu_set_user_def Let_def
                pu_form_update_def preview_ok_def banner_shown_ok_def profile_preview_def)

lemma profileSubmit_cases:
  "profileSubmit u n l b st = (u', st', r) \<Longrightarrow>
   (r \<noteq> None \<and> u' = u \<and> st' = st) \<or>
   (r = None \<and> (\<exists>n' l' b'. u' = u\<lparr>nickname := n', login := l', bio := Some b'\<rparr> \<and> st' = updateCurrentUser u' st))"
  by (auto simp: profileSubmit_def saveProfile_def Let_def split: if_splits)

lemma pu_submit_ok:
  assumes "preview_ok (pu_page ui) st"
  shows "preview_ok (pu_page (fst (pu_submit now (ui, st)))) (snd (pu_submit now (ui, st)))"
proof -
  let ?fm = "pp_form (pu_page ui)"
  obtain u' st' r where sub: "profileSubmit (pp_user (pu_page ui)) (pf_nickname ?fm) (pf_login ?fm) (pf_bio ?fm) st = (u', st', r)"
    by (cases "profileSubmit (pp_user (pu_page ui)) (pf_nickname ?fm) (pf_login ?fm) (pf_bio ?fm) st") auto
  from profileSubmit_cases [OF sub] show ?thesis
  proof
    assume "r \<noteq> None \<and> u' = pp_user (pu_page ui) \<and> st' = st"
    then show ?thesis using assms sub by (auto simp: pu_submit_def Let_def pu_show_def)
  next
    assume "r = None \<and> (\<exists>n' l' b'. u' = pp_user (pu_page ui)\<lparr>nickname := n', login := l', bio := Some b'\<rparr> \<and>
                                   st' = updateCurrentUser u' st)"
    then obtain n' l' b' where r: "r = None" and u': "u' = pp_user (pu_page ui)\<lparr>nickname := n', login := l', bio := Some b'\<rparr>"
      and st': "st' = updateCurrentUser u' st" by blast
    show ?thesis using assms sub r u' st'
      by (simp add: pu_submit_def Let_def pu_show_def pu_set_user_def preview_ok_def)
  qed
qed

lemma profile_step_ok:
  assumes "profile_ui_ok ui st" and "upload_read e"
  shows "profile_ui_ok (fst (profile_step (ui, st) e)) (snd (profile_step (ui, st) e))"
proof (cases "pu_left ui = None")
  case True
  then have p: "preview_ok (pu_page ui) st" using assms(1) by (simp add: profile_ui_ok_def)
  show ?thesis
  proof (cases e)
    case (AvatarPick f now)
    then show ?thesis using True p assms(2) pu_avatar_ok [OF p, of f now]
      by (simp add: profile_ui_ok_def pu_avatar_def Let_def split_def upload_read_def split: option.splits)
  next
    case (BannerPick f now)
    then show ?thesis using True p assms(2) pu_banner_ok [OF p, of f now]
      by (simp add: profile_ui_ok_def pu_banner_def Let_def split_def upload_read_def split: option.splits)
  next
    case (UrlApply v now)
    then show ?thesis using True p pu_url_ok [OF p, of v now]
      by (simp add: profile_ui_ok_def pu_url_def Let_def split_def)
  next
    case (RemoveBannerBtn now)
    then show ?thesis using True p pu_remove_ok [OF p, of now]
      by (simp add: profile_ui_ok_def pu_remove_def Let_def split_def)
  next
    case (ProfileFormSubmit now)
    then show ?thesis using True p pu_submit_ok [OF p, of now]
      by (simp add: profile_ui_ok_def pu_submit_def Let_def split_def)
  qed (use True p in \<open>simp_all add: profile_ui_ok_def preview_ok_def pu_form_update_def pu_click_def
         updateStatus_def logout_def split: settings_click.split\<close>)
qed (use assms in \<open>simp add: profile_ui_ok_def\<close>)

lemma profile_ui_init_ok:
  assumes "profile_ui_init ex st = Some (ui, st1)"
  shows "profile_ui_ok ui st1"
proof -
  obtain p where p: "profile_init st = Some (p, st1)" and ui: "pu_page ui = p" "pu_left ui = None"
    using assms by (auto simp: profile_ui_init_def split: option.splits)
  have "profile_checkAuth st = Some (pp_user p)" "pp_form p = snd (loadProfile (pp_user p))"
    "st1 = snd (dropdown_status st)"
    using profile_init_Some [OF p] by simp_all
  then show ?thesis using ui
    by (simp add: profile_ui_ok_def preview_ok_def profile_checkAuth_def loadProfile_def banner_shown_ok_def
                  dropdown_status_def updateStatus_def Let_def split: if_splits)
qed

text \<open>The previews of the profile page follow what it stores: from the page as loaded,
  after any events (a file read giving a non-empty data URL), while the page is open the
  stored current user is the page's copy, the avatar preview is its avatar, and the banner
  preview is the one a reload would show, or the video just chosen as a file.\<close>

theorem profile_previews_follow_store:
  assumes "profile_ui_init ex st = Some (ui, st1)" and "list_all upload_read es"
  shows "profile_ui_ok (fst (profile_run (ui, st1) es)) (snd (profile_run (ui, st1) es))"
proof -
  have "profile_ui_ok (fst s) (snd s) \<Longrightarrow> list_all upload_read es \<Longrightarrow>
        profile_ui_ok (fst (fold (\<lambda>e s. profile_step s e) es s)) (snd (fold (\<lambda>e s. profile_step s e) es s))" for s
  proof (induction es arbitrary: s)
    case (Cons e es)
    obtain ui st where "s = (ui, st)" by fastforce
    with Cons profile_step_ok [of ui st e] show ?case by simp
  qed simp
  then show ?thesis using profile_ui_init_ok [OF assms(1)] assms(2) by (simp add: profile_run_def)
qed

text \<open>A saved nickname reaches the header but not the dropdown: after a successful submit
  the header shows the new nickname and the dropdown still shows the one of the load.\<close>

theorem nickname_dropdown_stale:
  assumes "pu_left ui = None"
    and "profileSubmit (pp_user (pu_page ui)) (pf_nickname (pp_form (pu_page ui))) (pf_login (pp_form (pu_page ui)))
           (pf_bio (pp_form (pu_page ui))) st = (u', st', None)"
  shows "hd_name (pp_header (pu_page (fst (profile_step (ui, st) (ProfileFormSubmit now))))) = nickname u' \<and>
         pp_dropdownName (pu_page (fst (profile_step (ui, st) (ProfileFormSubmit now)))) = pp_dropdownName (pu_page ui) \<and>
         current_user_blob (snd (profile_step (ui, st) (ProfileFormSubmit now))) = Some u'"
proof -
  have "nickname u' = js_trim (pf_nickname (pp_form (pu_page ui))) \<and> st' = updateCurrentUser u' st"
    using assms(2) by (auto simp: profileSubmit_def saveProfile_def Let_def split: if_splits)
  then show ?thesis using assms by (simp add: pu_submit_def Let_def pu_show_def pu_set_user_def)
qed

lemma init_social:
  "profile_ui_init True social_store =
     Some (fst (the (profile_ui_init True social_store)), snd (the (profile_ui_init True social_store)))"
  by (simp add: profile_ui_init_def profile_init_def profile_checkAuth_def social_store_def Let_def split_def)

theorem profile_previews_follow_store_witness:
  "profile_ui_ok (fst (profile_run (the (profile_ui_init True social_store)) [RemoveBannerBtn 0, UrlApply ''x.mp4'' 1]))
                 (snd (profile_run (the (profile_ui_init True social_store)) [RemoveBannerBtn 0, UrlApply ''x.mp4'' 1]))"
  using profile_previews_follow_store [OF init_social, of "[RemoveBannerBtn 0, UrlApply ''x.mp4'' 1]"]
  by (simp add: upload_read_def)

theorem nickname_dropdown_stale_witness:
  "let s1 = profile_step (the (profile_ui_init True social_store)) (NicknameInput ''dora'');
       s2 = profile_step s1 (ProfileFormSubmit 0)
   in hd_name (pp_header (pu_page (fst s2))) = ''dora'' \<and> pp_dropdownName (pu_page (fst s2)) = ''cara''"
proof -
  obtain ui st where s1: "profile_step (the (profile_ui_init True social_store)) (NicknameInput ''dora'') = (ui, st)"
    by fastforce
  have facts: "pu_left ui = None" "pp_user (pu_page ui) = cara" "pf_nickname (pp_form (pu_page ui)) = ''dora''"
     "pf_login (pp_form (pu_page ui)) = []" "pf_bio (pp_form (pu_page ui)) = []" "pp_dropdownName (pu_page ui) = ''cara''"
     "st = snd (dropdown_status social_store)"
    using s1 init_social
    by (auto simp: profile_ui_init_def profile_init_def profile_checkAuth_def social_store_def Let_def split_def
                   loadProfile_def pu_form_update_def opt_str_or_def str_or_def cara_def demo_person_def split: option.splits)
  have sub: "profileSubmit cara ''dora'' [] [] st = (cara\<lparr>nickname := ''dora'', login := None, bio := Some []\<rparr>,
               updateCurrentUser (cara\<lparr>nickname := ''dora'', login := None, bio := Some []\<rparr>) st, None)"
    by (simp add: profileSubmit_def saveProfile_def Let_def js_trim_def is_js_space_def js_lower_def)
  show ?thesis using nickname_dropdown_stale [of ui st, OF facts(1)] sub facts s1
    by (simp add: cara_def demo_person_def)
qed
end
