(* ===== verification/Editor_DOM.thy ===== *)
theory Editor_DOM
  imports Editor
begin

text \<open>
  The inline styles the banner editor (\<^verbatim>\<open>src/src/banner-editor.ts\<close>) leaves on the four
  core elements of the canvas. \<open>applyLayout\<close> (lines 168--183) writes each layout
  element's display, position and z-index onto its node, and its text style only when the
  layout has one; \<open>changeTextStyle\<close> and \<open>changeTextFontSize\<close> (lines 593--633) restyle
  the selected text node; a pointer move (lines 249--250) moves the dragged node. Every other
  handler leaves the core nodes alone. The nodes are a map from \<open>data-element-id\<close> to their
  styles, starting from the page markup; \<open>dom_run\<close> runs \<open>editor_step\<close> and these writes
  side by side.
\<close>

section \<open>The core nodes\<close>

text \<open>A core node's inline style: shown or \<open>display: none\<close>, \<open>left\<close> and \<open>top\<close> in percent,
  \<open>z-index\<close>, and the CSS of its text node (\<open>None\<close>: as in the markup).\<close>

record core_dom =
  cd_shown :: bool
  cd_left :: rat
  cd_top :: rat
  cd_z :: rat
  cd_text :: "text_css option"

type_synonym core_doms = "string \<Rightarrow> core_dom option"

text \<open>\<open>positionElement\<close>, lines 185--189.\<close>

definition positionElement :: "banner_position \<Rightarrow> rat \<Rightarrow> core_dom \<Rightarrow> core_dom" where
  "positionElement p z d = d\<lparr>cd_left := pos_x p, cd_top := pos_y p, cd_z := z\<rparr>"

definition is_text_type :: "banner_element_type \<Rightarrow> bool" where
  "is_text_type t \<longleftrightarrow> t = Username \<or> t = Subtitle"

text \<open>The body of \<open>applyLayout\<close>'s loop for one element found on the canvas.\<close>

definition apply_el :: "banner_element \<Rightarrow> core_dom \<Rightarrow> core_dom" where
  "apply_el e d =
     (let d1 = positionElement (el_position e) (el_zIndex e) (d\<lparr>cd_shown := el_visible e\<rparr>) in
      case el_textStyle e of
        Some st \<Rightarrow> if is_text_type (el_type e) then d1\<lparr>cd_text := Some (applyTextStyleToElement st)\<rparr> else d1
      | None \<Rightarrow> d1)"

definition apply_el_at :: "banner_element \<Rightarrow> core_doms \<Rightarrow> core_doms" where
  "apply_el_at e nd = (case nd (el_id e) of None \<Rightarrow> nd | Some d \<Rightarrow> nd(el_id e \<mapsto> apply_el e d))"

text \<open>\<open>applyLayout\<close>, lines 168--183: an element with no node on the canvas is skipped.\<close>

definition applyLayout :: "banner_layout \<Rightarrow> core_doms \<Rightarrow> core_doms" where
  "applyLayout l nd = fold apply_el_at (elements l) nd"

text \<open>A change of a node's style, when the node exists.\<close>

definition restyle_node :: "string \<Rightarrow> (core_dom \<Rightarrow> core_dom) \<Rightarrow> core_doms \<Rightarrow> core_doms" where
  "restyle_node k h nd = (case nd k of None \<Rightarrow> nd | Some d \<Rightarrow> nd(k \<mapsto> h d))"

text \<open>The end of \<open>changeTextStyle\<close> and \<open>changeTextFontSize\<close>: the selected element's
  new text style on its node.\<close>

definition text_to_node :: "string \<Rightarrow> banner_layout \<Rightarrow> core_doms \<Rightarrow> core_doms" where
  "text_to_node sel l nd =
     (case find_core l sel of
        Some e \<Rightarrow> (case el_textStyle e of
                     Some st \<Rightarrow> restyle_node sel (\<lambda>d. d\<lparr>cd_text := Some (applyTextStyleToElement st)\<rparr>) nd
                   | None \<Rightarrow> nd)
      | None \<Rightarrow> nd)"

text \<open>The text events write only when their handler passes its guards (a text element
  selected, found in the layout).\<close>

definition text_event_node :: "editor \<Rightarrow> editor \<Rightarrow> core_doms \<Rightarrow> core_doms" where
  "text_event_node s s' nd =
     (case selectedElementId s of
        Some sel \<Rightarrow> if is_text_element sel \<and> find_core (layout s) sel \<noteq> None then text_to_node sel (layout s') nd else nd
      | None \<Rightarrow> nd)"

text \<open>The writes of one event on the core nodes, from the editor before (\<open>s\<close>) and after
  (\<open>s'\<close>) it: a cancelled session and a confirmed reset re-apply the layout, the text
  events restyle the selected text node, a pointer move during a drag moves the node.\<close>

fun dom_step :: "editor \<Rightarrow> editor_event \<Rightarrow> editor \<Rightarrow> core_doms \<Rightarrow> core_doms" where
  "dom_step s EditToggle s' nd = (if isEditMode s then applyLayout (layout s') nd else nd)"
| "dom_step s ToolbarCancel s' nd = applyLayout (layout s') nd"
| "dom_step s (ToolbarReset c) s' nd = (if c then applyLayout (layout s') nd else nd)"
| "dom_step s (TextColorInput v) s' nd = text_event_node s s' nd"
| "dom_step s (FontFamilyChange v) s' nd = text_event_node s s' nd"
| "dom_step s FontUp s' nd = text_event_node s s' nd"
| "dom_step s FontDown s' nd = text_event_node s s' nd"
| "dom_step s (PointerMove ptr rect) s' nd =
     (let d = dragState s in
      if \<not> active d then nd
      else case (drag_element d, drag_elementId d) of
        (Some el, Some eid) \<Rightarrow>
          (let p = drag_position d ptr rect in restyle_node eid (\<lambda>n. n\<lparr>cd_left := pos_x p, cd_top := pos_y p\<rparr>) nd)
      | _ \<Rightarrow> nd)"
| "dom_step s e s' nd = nd"

text \<open>The page from \<open>init\<close> (line 57 applies the layout to the markup's nodes \<open>dom0\<close>).\<close>

fun dom_run :: "editor \<Rightarrow> core_doms \<Rightarrow> editor_event list \<Rightarrow> (editor \<times> core_doms) option" where
  "dom_run s nd [] = Some (s, nd)"
| "dom_run s nd (e # es) =
     (case editor_step s e of None \<Rightarrow> None | Some s' \<Rightarrow> dom_run s' (dom_step s e s' nd) es)"

definition dom_init :: "user \<Rightarrow> storage \<Rightarrow> core_doms \<Rightarrow> editor \<times> core_doms" where
  "dom_init u st dom0 = (init_editor u st, applyLayout (layout (init_editor u st)) dom0)"

text \<open>A node shows its element: display, position and z-index, and the text style when the
  element is a text element with one.\<close>

definition el_shown_ok :: "banner_element \<Rightarrow> core_dom \<Rightarrow> bool" where
  "el_shown_ok e d \<longleftrightarrow>
     cd_shown d = el_visible e \<and> cd_left d = pos_x (el_position e) \<and> cd_top d = pos_y (el_position e) \<and>
     cd_z d = el_zIndex e \<and>
     (case el_textStyle e of
        Some st \<Rightarrow> \<not> is_text_type (el_type e) \<or> cd_text d = Some (applyTextStyleToElement st)
      | None \<Rightarrow> True)"

definition dom_agrees :: "banner_layout \<Rightarrow> core_doms \<Rightarrow> bool" where
  "dom_agrees l nd \<longleftrightarrow> list_all (\<lambda>e. case nd (el_id e) of None \<Rightarrow> True | Some d \<Rightarrow> el_shown_ok e d) (elements l)"

text \<open>Fixtures: markup nodes for the four core elements, with no inline style, and a user
  whose stored layout is the default one without text styles (\<open>textStyle\<close> is optional
  in \<^verbatim>\<open>types.ts\<close>).\<close>

definition core_markup :: core_doms where
  "core_markup k = (if k \<in> set CORE_ELEMENT_IDS
                    then Some \<lparr>cd_shown = True, cd_left = 0, cd_top = 0, cd_z = 0, cd_text = None\<rparr> else None)"

definition plain_user :: user where
  "plain_user = demo_user\<lparr>bannerLayout := Some (DEFAULT_BANNER_LAYOUT\<lparr>elements :=
     map (\<lambda>e. e\<lparr>el_textStyle := None\<rparr>) (elements DEFAULT_BANNER_LAYOUT)\<rparr>)\<rparr>"

definition recolour_cancel :: "editor_event list" where
  "recolour_cancel = [EditToggle, CanvasPointerDown (Some ''username'') (0, 0), TextColorInput ''#ff0000'', ToolbarCancel]"


section \<open>Properties\<close>

lemma fold_apply_other:
  "k \<notin> el_id ` set es \<Longrightarrow> fold apply_el_at es nd k = nd k"
  by (induction es arbitrary: nd) (auto simp: apply_el_at_def split: option.split)

lemma fold_apply_at:
  assumes "distinct (map el_id es)" and "e \<in> set es"
  shows "fold apply_el_at es nd (el_id e) = map_option (apply_el e) (nd (el_id e))"
  using assms
proof (induction es arbitrary: nd)
  case (Cons x es)
  show ?case
  proof (cases "x = e")
    case True
    then have "el_id e \<notin> el_id ` set es" using Cons.prems(1) by auto
    then have "fold apply_el_at (x # es) nd (el_id e) = apply_el_at e nd (el_id e)"
      using True fold_apply_other [of "el_id e" es] by simp
    moreover have "apply_el_at e nd (el_id e) = map_option (apply_el e) (nd (el_id e))"
      by (simp add: apply_el_at_def split: option.split)
    ultimately show ?thesis by (simp only:)
  next
    case False
    then have "el_id x \<noteq> el_id e" using Cons.prems by (auto simp: image_iff)
    then have "apply_el_at x nd (el_id e) = nd (el_id e)" by (simp add: apply_el_at_def split: option.split)
    with Cons False show ?thesis by simp
  qed
qed simp

lemma apply_el_ok: "el_shown_ok e (apply_el e d)"
  by (simp add: el_shown_ok_def apply_el_def positionElement_def Let_def split: option.split)

lemma applyLayout_agrees:
  "distinct (map el_id (elements l)) \<Longrightarrow> dom_agrees l (applyLayout l nd)"
  by (auto simp: dom_agrees_def list_all_iff applyLayout_def fold_apply_at apply_el_ok split: option.split)

lemma set_update_first_distinct:
  assumes "distinct (map key xs)" and "y \<in> set (update_first (\<lambda>x. key x = k) f xs)"
  shows "(y \<in> set xs \<and> key y \<noteq> k) \<or> (\<exists>x \<in> set xs. key x = k \<and> y = f x)"
  using assms by (induction xs) (fastforce split: if_splits)+

lemma restyle_node_at: "restyle_node k h nd k' = (if k' = k then map_option h (nd k) else nd k')"
  by (simp add: restyle_node_def split: option.split)

lemma agrees_restyle_other:
  "k \<notin> el_id ` set (elements l) \<Longrightarrow> dom_agrees l (restyle_node k h nd) = dom_agrees l nd"
  unfolding dom_agrees_def list_all_iff by (auto simp: restyle_node_at)

lemma agrees_update:
  assumes "distinct (map el_id (elements l))" and "dom_agrees l nd"
    and "\<And>e d. e \<in> set (elements l) \<Longrightarrow> el_id e = k \<Longrightarrow> el_shown_ok e d \<Longrightarrow> el_shown_ok (g e) (h d)"
    and "\<And>e. el_id (g e) = el_id e"
  shows "dom_agrees (l\<lparr>elements := update_first (\<lambda>e. el_id e = k) g (elements l)\<rparr>) (restyle_node k h nd)"
  unfolding dom_agrees_def list_all_iff
proof (intro ballI)
  fix y assume y: "y \<in> set (elements (l\<lparr>elements := update_first (\<lambda>e. el_id e = k) g (elements l)\<rparr>))"
  have old: "case nd (el_id e) of None \<Rightarrow> True | Some d \<Rightarrow> el_shown_ok e d" if "e \<in> set (elements l)" for e
    using assms(2) that by (simp add: dom_agrees_def list_all_iff)
  have y': "y \<in> set (update_first (\<lambda>e. el_id e = k) g (elements l))" using y by simp
  consider "y \<in> set (elements l)" "el_id y \<noteq> k" | e where "e \<in> set (elements l)" "el_id e = k" "y = g e"
    using set_update_first_distinct [OF assms(1) y'] by blast
  then show "case restyle_node k h nd (el_id y) of None \<Rightarrow> True | Some d \<Rightarrow> el_shown_ok y d"
  proof cases
    case 1
    then show ?thesis using old [OF 1(1)] by (simp add: restyle_node_at)
  next
    case 2
    then show ?thesis using old [OF 2(1)] assms(3) [OF 2(1,2)] assms(4)
      by (auto simp: restyle_node_at split: option.split)
  qed
qed

lemma find_distinct:
  "distinct (map key xs) \<Longrightarrow> x \<in> set xs \<Longrightarrow> find (\<lambda>y. key y = key x) xs = Some x"
  by (induction xs) (auto simp: image_iff)

lemma text_change_agrees:
  fixes F :: "banner_element \<Rightarrow> text_style"
  assumes "distinct (map el_id (elements l))" and "dom_agrees l nd" and "find_core l sel = Some e0"
  defines "l' \<equiv> l\<lparr>elements := update_first (\<lambda>e. el_id e = sel) (\<lambda>e. e\<lparr>el_textStyle := Some (F e)\<rparr>) (elements l)\<rparr>"
  shows "dom_agrees l' (text_to_node sel l' nd)"
proof -
  have e0: "e0 \<in> set (elements l)" "el_id e0 = sel"
    using assms(3) unfolding find_core_def by (auto dest: find_Some_mem simp: find_Some_iff)
  have "find_core l' sel = Some (e0\<lparr>el_textStyle := Some (F e0)\<rparr>)"
    using assms(3) e0(2) unfolding l'_def find_core_def by (simp add: find_update_first)
  then have t: "text_to_node sel l' nd = restyle_node sel (\<lambda>d. d\<lparr>cd_text := Some (applyTextStyleToElement (F e0))\<rparr>) nd"
    by (simp add: text_to_node_def)
  have eq: "e = e0" if "e \<in> set (elements l)" "el_id e = sel" for e
    using find_distinct [OF assms(1) that(1)] that(2) assms(3) by (simp add: find_core_def)
  have "dom_agrees l' (restyle_node sel (\<lambda>d. d\<lparr>cd_text := Some (applyTextStyleToElement (F e0))\<rparr>) nd)"
    unfolding l'_def
    by (intro agrees_update [OF assms(1,2)]) (auto simp: el_shown_ok_def dest: eq split: option.splits)
  then show ?thesis using t by simp
qed

lemma drag_agrees:
  assumes "distinct (map el_id (elements l))" and "dom_agrees l nd"
  shows "dom_agrees (fst (setElementPosition eid p (l, ws)))
           (restyle_node eid (\<lambda>n. n\<lparr>cd_left := pos_x p, cd_top := pos_y p\<rparr>) nd)"
proof (cases "find_core l eid")
  case None
  then have "eid \<notin> el_id ` set (elements l)" by (auto simp: find_core_def find_None_iff)
  then show ?thesis using None assms(2) by (simp add: setElementPosition_def agrees_restyle_other)
next
  case (Some e0)
  then show ?thesis using assms
    by (simp add: setElementPosition_def) (intro agrees_update, auto simp: el_shown_ok_def split: option.splits)
qed

lemma layouts_wf_distinct: "layouts_wf s \<Longrightarrow> distinct (map el_id (elements (layout s)))"
  by (simp add: layouts_wf_def layout_wf_def)

lemma text_event_agrees:
  assumes "layouts_wf s" and "dom_agrees (layout s) nd"
    and "s' = changeTextStyle u s \<or> s' = changeTextFontSize delta s"
  shows "dom_agrees (layout s') (text_event_node s s' nd)"
proof (cases "selectedElementId s")
  case (Some sel)
  show ?thesis
  proof (cases "is_text_element sel \<and> find_core (layout s) sel \<noteq> None")
    case True
    then obtain e0 where e0: "find_core (layout s) sel = Some e0" by blast
    from assms(3) show ?thesis
    proof
      assume "s' = changeTextStyle u s"
      then show ?thesis using Some True text_change_agrees [OF layouts_wf_distinct [OF assms(1)] assms(2) e0]
        by (simp add: text_event_node_def changeTextStyle_def restyle_element_def)
    next
      assume "s' = changeTextFontSize delta s"
      then show ?thesis using Some True text_change_agrees [OF layouts_wf_distinct [OF assms(1)] assms(2) e0]
        by (simp add: text_event_node_def changeTextFontSize_def resize_font_element_def)
    qed
  next
    case False
    then have "s' = s" using assms(3) Some by (auto simp: changeTextStyle_def changeTextFontSize_def)
    then show ?thesis using False Some assms(2) by (auto simp: text_event_node_def)
  qed
next
  case None
  then have "s' = s" using assms(3) by (auto simp: changeTextStyle_def changeTextFontSize_def)
  then show ?thesis using None assms(2) by (simp add: text_event_node_def)
qed

lemma dom_step_agrees:
  assumes "layouts_wf s" and "editor_step s e = Some s'" and "dom_agrees (layout s) nd"
  shows "dom_agrees (layout s') (dom_step s e s' nd)"
proof -
  have d': "distinct (map el_id (elements (layout s')))"
    using step_layouts_wf [OF assms(1,2)] by (rule layouts_wf_distinct)
  show ?thesis
  proof (cases e)
    case EditToggle
    then show ?thesis using assms d' by (auto simp: toggleEditMode_def enterEditMode_def applyLayout_agrees)
  next
    case ToolbarCancel
    then show ?thesis using d' by (simp add: applyLayout_agrees)
  next
    case (ToolbarReset c)
    then show ?thesis using assms d' by (auto simp: applyLayout_agrees resetLayout_def)
  next
    case (TextColorInput v)
    then show ?thesis using assms text_event_agrees [of s nd s' "SetColor v"] by simp
  next
    case (FontFamilyChange v)
    then show ?thesis using assms text_event_agrees [of s nd s' "font_family_update v"] by simp
  next
    case FontUp
    then show ?thesis using assms text_event_agrees [of s nd s' _ 2] by simp
  next
    case FontDown
    then show ?thesis using assms text_event_agrees [of s nd s' _ "-2"] by simp
  next
    case (PointerMove ptr rect)
    then show ?thesis using assms drag_agrees [OF layouts_wf_distinct [OF assms(1)] assms(3)]
      by (auto simp: onPointerMove_def Let_def split: option.splits)
  next
    case ToolbarSave
    then show ?thesis using assms by (auto simp: exitEditMode_def saveLayout_def Let_def handler_defs)
  qed (use assms in \<open>auto simp: handler_defs Let_def split: if_splits option.splits\<close>)
qed

text \<open>The core nodes follow the layout: from \<open>init\<close> on a user whose stored layout has
  distinct element ids, after any events, each layout element's node is shown or hidden as
  the element, at its position and z-index, and carries the element's text style when it is
  a text element with one.\<close>

theorem core_nodes_follow_layout:
  assumes "stored_layout_ok u"
    and "dom_run (init_editor u st) (applyLayout (layout (init_editor u st)) dom0) es = Some (s, nd)"
  shows "dom_agrees (layout s) nd"
proof -
  have "layouts_wf s0 \<Longrightarrow> dom_agrees (layout s0) nd0 \<Longrightarrow> dom_run s0 nd0 es = Some (s, nd) \<Longrightarrow>
        dom_agrees (layout s) nd" for s0 nd0
  proof (induction es arbitrary: s0 nd0)
    case (Cons e es)
    then obtain s1 where s1: "editor_step s0 e = Some s1" by (auto split: option.splits)
    show ?case
      using Cons.IH [OF step_layouts_wf [OF Cons.prems(1) s1] dom_step_agrees [OF Cons.prems(1) s1 Cons.prems(2)]]
        Cons.prems(3) s1 by simp
  qed simp
  moreover have "layouts_wf (init_editor u st)" using assms(1) by (rule init_layouts_wf)
  ultimately show ?thesis
    using assms(2) applyLayout_agrees [OF layouts_wf_distinct] by blast
qed

lemma recolour_cancel_runs:
  "dom_run (init_editor plain_user demo_store) (applyLayout (layout (init_editor plain_user demo_store)) core_markup) recolour_cancel
   = Some (fst (the (dom_run (init_editor plain_user demo_store) (applyLayout (layout (init_editor plain_user demo_store)) core_markup) recolour_cancel)),
           snd (the (dom_run (init_editor plain_user demo_store) (applyLayout (layout (init_editor plain_user demo_store)) core_markup) recolour_cancel)))"
  by (simp add: recolour_cancel_def editor_eval plain_user_def)
theorem core_nodes_follow_layout_witness:
  "dom_agrees (layout (fst (the (dom_run (init_editor plain_user demo_store)
                   (applyLayout (layout (init_editor plain_user demo_store)) core_markup) recolour_cancel))))
              (snd (the (dom_run (init_editor plain_user demo_store)
                   (applyLayout (layout (init_editor plain_user demo_store)) core_markup) recolour_cancel)))"
proof -
  have "stored_layout_ok plain_user"
    by (simp add: stored_layout_ok_def plain_user_def DEFAULT_BANNER_LAYOUT_def)
  from core_nodes_follow_layout [OF this recolour_cancel_runs] show ?thesis .
qed

text \<open>\<open>applyLayout\<close> writes a text style only where the layout has one, so Cancel does
  not take back a colour given in the session to an element that had no text style: the
  restored layout has none for the username, its node keeps the red, and the same layout
  applied to the page on a reload leaves the markup's style.\<close>

theorem cancel_keeps_text_colour:
  "let r = the (dom_run (init_editor plain_user demo_store) (applyLayout (layout (init_editor plain_user demo_store)) core_markup) recolour_cancel) in
   el_textStyle (the (find_core (layout (fst r)) ''username'')) = None \<and>
   cd_text (the (snd r ''username'')) = Some (applyTextStyleToElement (no_style\<lparr>color := Some ''#ff0000''\<rparr>)) \<and>
   cd_text (the (applyLayout (layout (fst r)) core_markup ''username'')) = None"
  by (simp add: recolour_cancel_def editor_eval plain_user_def applyLayout_def apply_el_at_def apply_el_def
       core_markup_def text_event_node_def text_to_node_def restyle_node_def restyle_element_def
       positionElement_def is_text_type_def no_style_def)
end
