(* ===== verification/Spec2Isabelle.thy ===== *)
theory Spec2Isabelle
  imports Editor Auth Social Profile Settings Landing Dashboard Mock_Data Profile_View Friends_Page Profile_Page Landing_Visuals Dashboard_UI Verify_Page Auth_Pages Settings_UI Profile_UI Editor_DOM
begin

text \<open>
  \<^bold>\<open>A verification model of the MESA gaming platform front end.\<close>

  \<^bold>\<open>The program.\<close> The repository is a browser front end written in TypeScript
  (\<^verbatim>\<open>src/src/\<close>) with no server: every page reads and writes JSON blobs in the
  browser's \<open>localStorage\<close> (the user list \<open>mesaDatabase\<close>, the logged-in user
  \<open>mesaCurrentUser\<close>, the flag \<open>mesaLoggedIn\<close>, the settings \<open>mesaSettings\<close>) and
  \<open>sessionStorage\<close> (the
  verification code and the pending login), see \<open>StorageKeys\<close> in \<^verbatim>\<open>types.ts\<close>. The
  parts are: authentication (\<^verbatim>\<open>auth.service.ts\<close>, called by \<^verbatim>\<open>login.ts\<close> and
  \<^verbatim>\<open>register.ts\<close>) and the code-verification page (\<^verbatim>\<open>verify.ts\<close>); the dashboard
  (\<^verbatim>\<open>dashboard.ts\<close>) with its notifications and the banner editor
  (\<^verbatim>\<open>banner-editor.ts\<close>); the profile pages (\<^verbatim>\<open>profile.ts\<close>,
  \<^verbatim>\<open>user-profile-view.ts\<close>); the friends page (\<^verbatim>\<open>friends.ts\<close>); the settings
  page (\<^verbatim>\<open>settings.ts\<close>); the landing page (\<^verbatim>\<open>main.ts\<close>). They interact only
  through the storage: login copies a user's database entry into the current-user blob,
  which the other pages read when they load; their handlers write the page's copy of the
  user back to the blob and over the database entry.

  \<^bold>\<open>The library.\<close>
  \<^item> \<open>Prelude\<close>: the JavaScript idioms of the sources (\<open>x || d\<close>, the clamp
    \<open>Math.max(lo, Math.min(hi, x))\<close>, \<open>Math.round\<close>, \<open>arr.find\<close> followed by a
    mutation, \<open>startsWith\<close>, \<open>replace\<close>, \<open>trim\<close>, \<open>toLowerCase\<close>,
    \<open>toString\<close>) as HOL functions, with the list lemmas the components share and the
    collection \<open>js_simps\<close>.
  \<^item> \<open>Banner_Types\<close>: the banner data of \<^verbatim>\<open>types.ts\<close> as records and datatypes,
    \<open>DEFAULT_BANNER_LAYOUT\<close>, \<open>STICKERS\<close>, \<open>BANNER_FONTS\<close>, layout well-formedness.
  \<^item> \<open>Geometry\<close>: \<open>clampPosition\<close>, the drag arithmetic of \<open>onPointerMove\<close>
    (\<open>drag_position\<close>), \<open>getElementPosition\<close>, \<open>setElementPosition\<close>.
  \<^item> \<open>Widgets\<close>: the widgets of the three add handlers, the resize and stretch step
    (\<open>stepped_factor\<close>), \<open>createWidgetContent\<close>, \<open>applyWidgetTransform\<close>,
    \<open>renderWidgetOnCanvas\<close>.
  \<^item> \<open>Text_Style\<close>: the style merge of \<open>changeTextStyle\<close>, the step of
    \<open>changeTextFontSize\<close>, \<open>applyTextStyleToElement\<close>, \<open>updateTextStyleDisplay\<close>.
  \<^item> \<open>Store\<close>: the user records of \<^verbatim>\<open>types.ts\<close>, the storage as a record with one
    field per key, \<open>updateCurrentUser\<close> of \<^verbatim>\<open>user-profile-view.ts\<close>, the lookup
    lemmas on the user list, and the repository \<open>repo_get\<close> (the \<open>get(userId)\<close> of the
    specification's storage interface) that \<open>updateCurrentUser\<close> refines.
  \<^item> \<open>Editor\<close>: class \<open>BannerEditor\<close> as the record \<open>editor\<close> (its fields, plus the
    widget nodes it appends to the canvas, the popover shown, the three inspector controls
    and the texts of its scale and stretch read-outs, the alerts shown and the storage) with one function per method; \<open>editor_step\<close> is
    the event wiring of \<open>init\<close>, \<open>editor_run\<close> a sequence of events,
    \<open>reachable_editor\<close> the states reachable from \<open>init\<close>; \<open>layouts_wf\<close> the
    well-formedness of its layouts.
  \<^item> \<open>Auth\<close>: the database accessors, \<open>createUser\<close>, the email and password
    validation, the verification codes, registration, login, the Steam login,
    \<open>checkAuth\<close>, the dashboard's \<open>logout\<close>, and the submit and resend listeners of
    the verification page.
  \<^item> \<open>Social\<close>: the friends page (search, the lists, \<open>removeFriend\<close>,
    \<open>unsubscribe\<close>), the friend and subscribe buttons of the profile view, and the
    dashboard's notification actions, \<open>markAllRead\<close> and win rate.
  \<^item> \<open>Profile\<close>: the profile page (\<^verbatim>\<open>profile.ts\<close>: \<open>saveProfile\<close>, the avatar and
    banner inputs, the banner URL, removing the banner, the profile form, the banner
    preview and its \<open>isVideoUrl\<close>) and the banner of the profile view
    (\<^verbatim>\<open>user-profile-view.ts\<close>: the profile shown, \<open>renderBanner\<close>,
    \<open>createBannerElement\<close>, \<open>applyTextStyle\<close>, \<open>createWidgetElement\<close>); it imports
    \<open>Editor\<close> to relate the view to what the editor saves and \<open>Social\<close> for the
    counts of the stats element.
  \<^item> \<open>Settings\<close>: the settings page (\<^verbatim>\<open>settings.ts\<close>): the stored settings object,
    the online-status toggle every page's dropdown runs, \<open>loadSettings\<close>,
    \<open>saveSettings\<close>, the form, both \<open>applyTheme\<close> functions, \<open>init\<close>, the save and
    theme listeners, and deleting the account; it imports \<open>Auth\<close> to log in after a
    deletion.
  \<^item> \<open>Landing\<close>: the tournament filter of \<^verbatim>\<open>main.ts\<close> with its \<open>setTimeout\<close>
    callbacks as explicit timers and a clock, the event loop \<open>run_due\<close> (a
    \<open>function\<close> with a termination proof by the number of pending timers), and the
    active navigation link.
  \<^item> \<open>Dashboard\<close>: the load of \<^verbatim>\<open>dashboard.ts\<close> (\<open>checkAuth\<close>, \<open>loadUserData\<close>,
    \<open>generateMockStats\<close>, the theme, the status dropdown, the unread badge and the
    editor it constructs) as \<open>initDashboard\<close>, and its click handlers (banner avatar,
    game cards, play options).
  \<^item> \<open>Mock_Data\<close>: the generated data of the profile view
    (\<^verbatim>\<open>user-profile-view.ts\<close>: \<open>loadGameStats\<close>, \<open>generateMockMatchHistory\<close>
    and the ELO cells of the match table), with each \<open>Math.random()\<close> draw an argument.
  \<^item> \<open>Profile_View\<close>: the load of \<^verbatim>\<open>user-profile-view.ts\<close> (\<open>init\<close>:
    \<open>checkAuth\<close>, \<open>loadHeader\<close>, the status dropdown, the unread badge, the profile
    shown, its banner, statistics and biography, the action bar, the match history) as
    \<open>initProfileView\<close>, and the sidebar's logout; it relates the action bar's clicks
    (in \<open>Social\<close>) to what the page shows when opened again.
  \<^item> \<open>Friends_Page\<close>: the load of \<^verbatim>\<open>friends.ts\<close> (\<open>checkAuth\<close>, \<open>loadHeader\<close>,
    the four list loaders, \<open>renderFriendCard\<close>, \<open>getLevelBadgeClass\<close>) as \<open>friends_init\<close>,
    and \<open>friends_step\<close> for the tabs, the card buttons with the reloads that follow their
    writes, and the dropdown's logout; \<open>friends_reach\<close> the pages reachable from a load.
  \<^item> \<open>Profile_Page\<close>: the load of \<^verbatim>\<open>profile.ts\<close> (\<open>checkAuth\<close>, \<open>loadProfile\<close>
    with the form's fields, the biography counter and the previews, the dropdown) as
    \<open>profile_init\<close>, and the theorem \<open>resubmit_keeps_profile\<close>: submitting the form as
    loaded stores the same nickname, login and biography.
  \<^item> \<open>Landing_Visuals\<close>: the rest of the landing page's \<open>init\<close>: the scroll-in
    animation (its observer's callback as an event on the cards of \<open>Landing\<close>) and the live
    indicator (a \<open>setInterval\<close> whose ticks are counted from the clock), with the
    closed form of the live badge's opacity after any events (\<open>live_badge_at\<close>).
  \<^item> \<open>Dashboard_UI\<close>: the dashboard's header menus and sidebar as a state machine
    over clicks (\<open>dash_step\<close>, with the bubbling of a click to the \<open>document\<close>
    listeners and \<open>stopPropagation\<close> made explicit), and \<open>formatTimeAgo\<close>.
  \<^item> \<open>Messages\<close>: the message box of the forms (\<open>showMessage\<close> of
    \<^verbatim>\<open>auth.service.ts\<close> and its copy in the verification, profile and settings pages)
    with its 5000 ms \<open>setTimeout\<close> as explicit due times, and \<open>MessageType\<close>.
  \<^item> \<open>Verify_Page\<close>: the verification page (\<^verbatim>\<open>verify.ts\<close>: \<open>init\<close>, the listeners
    of the six code inputs in the order they are added, the submit and resend listeners with
    their messages and the clearing of the inputs) as \<open>verify_step\<close> over the storage
    handlers of \<open>Auth\<close>.
  \<^item> \<open>Auth_Pages\<close>: the login and registration pages (\<^verbatim>\<open>login.ts\<close>,
    \<^verbatim>\<open>register.ts\<close>, the \<open>checkAuth()\<close> run when \<^verbatim>\<open>auth.service.ts\<close> is loaded):
    the form and Steam listeners with their messages and their redirect timers, as
    \<open>auth_page_step\<close> over the handlers of \<open>Auth\<close>.
  \<^item> \<open>Settings_UI\<close>: the rest of the settings page (the header, its copy of the search
    box, the profile dropdown with its toggle, status and logout, the save message, the
    sidebar logout, the account deletion) as \<open>settings_step\<close> around the form and theme of
    \<open>Settings\<close>.
  \<^item> \<open>Editor_DOM\<close>: the inline styles the editor leaves on the four core nodes of
    the canvas (\<open>applyLayout\<close>, \<open>positionElement\<close>, the text-style writes and the drag's
    writes) as \<open>dom_step\<close>, run beside \<open>editor_step\<close> by \<open>dom_run\<close>.
  \<^item> \<open>Profile_UI\<close>: the listeners of the profile page (biography counter, avatar and
    banner inputs with their live previews, banner URL, remove button, the form's submit
    with the header update, the messages, the search, the dropdown and the logouts) as
    \<open>profile_step\<close> around the handlers of \<open>Profile\<close> and the page of \<open>Profile_Page\<close>.
  \<^item> This theory: the property that spans the editor and authentication.

  \<^bold>\<open>What is proved.\<close> Editor: Cancel restores the layout and widgets of the moment
  the edit session began, whatever happened in between (C1); a drag puts the element at a
  clamped position computed from the pointer-down snapshot, without drift (C2); scale and
  stretch factors stay tenths in [0.3, 3] under every event (C3); the six-widget cap (C4); Save followed by a reload
  rebuilds the same model (C5) and writes the same record to both storage blobs (C6);
  delete on a widget (C7); whenever the resize controls are visible, the read-outs show the
  factors of the selected sticker or GIF (C8); the font-size scenario of the
  specification (C9); the dashboard reopened after Save rebuilds the saved banner (C12).
  Authentication: a new user can log in through the code page (C16); the code page logs a
  user in only with the stored, unexpired code (C17); a login is pending only for the
  right password (C18); \<open>validateEmail\<close> accepts exactly the language of its regex (C19);
  emails stay unique up to case (C20); the code sent has six digits (C21). Social: accepting
  a request makes a symmetric friendship (C22), the friends page removes it on both sides
  (C23), subscribing adds one subscriber (C25) and a second click undoes it (C26),
  a friend request and a subscription made on a profile view are shown when the view is
  opened again (C27), search results are bounded (C28). Across pages: the saved banner survives logout and login (C30). The
  editor keeps its layouts well formed (distinct element ids, truthy version) under every
  run from a well-formed stored layout (C31); \<open>updateCurrentUser\<close> refines the \<open>save\<close>
  of a map-valued repository (C32). Profile: what the editor saves is exactly what another
  user's profile view shows (C33); the profile form keeps logins owned by one user (C35);
  a rejected upload or form writes nothing (C36). Settings: saved settings come back
  unchanged when the page is reopened (C37); the settings page and the other pages agree
  on the saved theme (C40). Landing page: the event loop of the filter's timers
  terminates, leaving exactly the timers not yet due (C10); a filter click settles on the
  chosen filter after 300 ms (C11).
  Findings proved as theorems: two widgets added in one clock tick leave an orphan node
  after a delete (C13); a drag outlives the edit session (C14); Cancel before the first
  edit session throws (C15); the profile view's unfriend writes a stale database entry
  back (C24); a QuickTime banner is previewed as a picture on the profile page and played
  as a video on the profile view (C34); the first visit to the settings page never uses
  the defaults and sets the theme \<open>undefined\<close> (C38); deleting the account keeps the user
  in the database, able to log in (C39); a stale 300 ms timer of the tournament filter hides
  a card after a later click on All (C29). Not among the claims: on the friends page the
  counts shown agree with the page copy of the user after any events
  (\<open>friends_counts_ok\<close>), a removed friend's card disappears (\<open>remove_drops_card\<close>),
  and its dropdown's logout keeps \<open>sessionStorage\<close>, unlike every other logout
  (\<open>friends_logout_keeps_session\<close>); on the dashboard the two header dropdowns can be
  open at once (\<open>both_menus_open\<close>), opening the notifications clears the badge
  (\<open>notif_open_clears_badge\<close>), and \<open>formatTimeAgo\<close> names the whole minutes, hours or
  days elapsed (\<open>formatTimeAgo_bounds\<close>); the landing page's live badge has a closed
  form in the clock (\<open>live_badge_at\<close>); resubmitting the profile form as loaded keeps
  the profile (\<open>resubmit_keeps_profile\<close>); a form message shown less than 5000 ms
  after another is hidden by the other's timer (\<open>message_hidden_early\<close>); the
  verification page keeps six digit-only inputs (\<open>verify_page_inv\<close>), moves the focus on a
  typed non-digit that its filter then removes (\<open>nondigit_advances_focus\<close>), and signs
  in when the stored code is typed digit by digit and submitted
  (\<open>typed_code_signs_in\<close>); the login page shows one message per branch of its
  listener (\<open>login_page_submit\<close>) and keeps the success message shown until it leaves
  for the verification page (\<open>login_leaves_for_verify\<close>), and a second submit of a
  registration form that succeeded shows that the email is taken
  (\<open>register_double_submit\<close>); the settings page's search is the friends page's
  (\<open>settings_search_copy\<close>), and under every event its results stay bounded and its
  status dot shows the stored status (\<open>settings_page_ok\<close>); the profile page's live
  previews follow the stored user, up to a video file whose data URL a reload would show
  as a picture (\<open>profile_previews_follow_store\<close>), and a saved nickname reaches the
  header but not the dropdown (\<open>nickname_dropdown_stale\<close>); the editor's core nodes
  show the layout after any events (\<open>core_nodes_follow_layout\<close>), except a text style
  that Cancel takes from an element which had none: its node keeps it
  (\<open>cancel_keeps_text_colour\<close>).

  \<^bold>\<open>Modelling choices.\<close> JavaScript numbers are \<^typ>\<open>rat\<close> or \<^typ>\<open>int\<close>: the
  editor's arithmetic (percentages, factors, font sizes) is exact and \<open>Math.round\<close> is
  \<^const>\<open>round\<close>; the model has no NaN or infinity, so a drag over a canvas of width or
  height 0 (where the code divides by 0) yields a finite clamped position in the model.
  Strings are lists of characters, one character per UTF-16 code unit of ASCII text;
  \<open>toLowerCase\<close> and \<open>\s\<close> are modelled on ASCII, which is what the validated fields
  hold. Storage keeps parsed values (\<open>JSON.parse(JSON.stringify(v)) = v\<close> for the plain
  data stored), so the deep copies of the editor are identities, and a write of a key
  replaces its whole value. Each page's copy of the current user is an explicit argument
  and result of its handlers, so the stale copies the code writes back are visible. The
  DOM is modelled where the editor creates or removes it (widget nodes, popover,
  inspector controls, the read-out texts, \<^const>\<open>None\<close> until a handler first
  writes them, as the page's markup is not in the repository); the styles written on the
  four core nodes are modelled apart, in \<open>Editor_DOM\<close>, as a map from element id to
  style beside the editor state. What the browser supplies (typed
  text, clock readings, \<open>Math.random()\<close> draws, confirmation answers, pointer
  coordinates, canvas size, a chosen file as its size, type and data URL) is an argument;
  a handler that throws yields \<open>None\<close>. The settings object may lack keys (the status
  toggle stores one with \<open>onlineStatus\<close> only), so its fields are options; a select
  given a value it has no option for reads as the empty string. The \<open>await\<close> of a file
  read is not interleaved with other events; the landing page's timers are: a click and
  the passing of time are separate events, and a wait runs the due timers in the
  browser's order (due time, then creation). No
  loop of the program is unbounded: every function is structurally recursive or
  non-recursive, except \<open>run_due\<close>, whose recursion removes one pending timer per step;
  no fuel is needed. The redirects of the login and registration pages are timers too;
  the page is left at the first one due, after which it handles nothing. The live indicator's \<open>setInterval\<close> never ends; its ticks up to a
  clock reading are counted (\<open>live_ticks\<close>) instead of being queued, which is exact
  because its callback touches only the live badges.

  \<^bold>\<open>Not modelled.\<close> Rendering (HTML strings, cards, badges, alerts; the message boxes
  only as the record of \<open>Messages\<close>), navigation, the parsing of ISO dates (\<open>formatTimeAgo\<close> takes milliseconds), the
  chat, tournament and match buttons of the dashboard (alerts and confirmations), and the landing page's smooth
  scrolling and tournament buttons (an alert, a console message): they change no stored
  state. The logout buttons of the
  profile and settings pages and of their dropdowns are the code of the dashboard's
  \<open>logout\<close> (the friends page's is not: \<open>friends_dropdownLogout\<close>, and the profile
  view's sidebar is \<open>sidebarLogout\<close>); the search boxes of the dashboard, profile,
  settings and profile-view pages are the code of the friends page's
  \<open>search_users\<close>; the status toggles of the other pages are the code of
  \<open>updateStatus\<close>. The build configuration (\<^verbatim>\<open>vite.config.ts\<close>) is not program
  behaviour.
\<close>

section \<open>Across the pages\<close>

text \<open>The session used by the example: the demo user enters edit mode and adds a sticker;
  after Save and logout the user logs in again with the draw 1/2 (code \<open>550000\<close>).\<close>

definition saved_session :: editor where
  "saved_session = the (editor_run (init_editor demo_user demo_store) [EditToggle, StickerPick ''fire'' 5])"

definition relogin_store :: storage where
  "relogin_store = fst (handleLogin ''player@mesa.gg'' ''secret123'' (1/2) 0
                      (logout True (store (the (editor_step saved_session ToolbarSave)))))"

text \<open>
  C30. The banner survives a logout and a new login: after Save in any reachable editor
  state, a logout, a login of the same user and a successful code verification leave a
  current user from which the dashboard's editor rebuilds the saved layout, widgets and
  widget nodes.
\<close>

theorem banner_survives_relogin:
  assumes "reachable_editor s" and "editor_step s ToolbarSave = Some s'"
    and "db_blob (store s) = Some db" and "find_user (users db) (u_id (ed_user s)) \<noteq> None"
    and "handleLogin e pw r t (logout True (store s')) = (st2, None)"
    and "pending st2 = Some ld" and "p_userId ld = u_id (ed_user s)"
    and "verify_submit ld ins now st2 = (st3, None)"
  shows "\<exists>u. current_user_blob st3 = Some u \<and> layout (init_editor u st3) = layout s \<and>
           widgets (init_editor u st3) = widgets s \<and>
           nodes (init_editor u st3) = map renderWidgetOnCanvas (widgets s)"
proof -
  let ?u = "(ed_user s)\<lparr>bannerLayout := Some (layout s), profileWidgets := Some (widgets s)\<rparr>"
  have s': "store s' = updateCurrentUser ?u (store s)"
    using save_result [OF assms(2)] by simp
  have "find_user (users db) (u_id ?u) \<noteq> None" using assms(4) by simp
  from updateCurrentUser_db_sync [OF assms(3) this]
  obtain db' where db': "db_blob (store s') = Some db'" "find_user (users db') (u_id (ed_user s)) = Some ?u"
    using s' by auto
  have "db_blob st2 = Some db'"
    using handleLogin_db [of e pw r t "logout True (store s')"] assms(5) db'(1)
    by (simp add: initDatabase_def)
  then have "current_user_blob st3 = Some ?u"
    using assms(7,8) db'(2) by (auto simp: verify_submit_def Let_def split: if_splits option.splits)
  moreover have "version (layout s) \<noteq> 0"
    using reachable_version_ok [OF assms(1)] by (simp add: version_ok_def)
  ultimately show ?thesis
    by (simp add: init_editor_def loadLayout_def renderAllWidgets_def Let_def)
qed

theorem banner_survives_relogin_witness:
  "\<exists>u. current_user_blob (fst (verify_submit \<lparr>p_userId = ''user_1'', p_email = ''player@mesa.gg''\<rparr> [''550000''] 1000
          relogin_store)) = Some u \<and>
       widgets (init_editor u demo_store) = [new_widget Sticker ''fire'' 5]"
proof -
  let ?ld = "\<lparr>p_userId = ''user_1'', p_email = ''player@mesa.gg''\<rparr>"
  have run: "editor_run (init_editor demo_user demo_store) [EditToggle, StickerPick ''fire'' 5] = Some saved_session"
    unfolding saved_session_def by (simp add: editor_eval Let_def)
  have h1: "reachable_editor saved_session"
    by (rule reachable_run [OF reachable_editor.init run])
  have h2: "editor_step saved_session ToolbarSave = Some (the (editor_step saved_session ToolbarSave))"
    by (simp add: exitEditMode_def Let_def)
  have w: "widgets saved_session = [new_widget Sticker ''fire'' 5]" and
    h3: "db_blob (store saved_session) = Some \<lparr>users = [demo_user], sessions = []\<rparr>" and
    uid: "u_id (ed_user saved_session) = ''user_1''"
    unfolding saved_session_def by (simp_all add: editor_eval Let_def)
  have h4: "find_user (users \<lparr>users = [demo_user], sessions = []\<rparr>) (u_id (ed_user saved_session)) \<noteq> None"
    using uid by (simp add: find_user_def demo_user_def)
  have h5: "handleLogin ''player@mesa.gg'' ''secret123'' (1/2) 0 (logout True (store (the (editor_step saved_session ToolbarSave)))) =
      (relogin_store, None)"
    unfolding relogin_store_def saved_session_def
    by (simp add: editor_eval auth_eval logout_def Let_def nat_str.simps)
  have h6: "pending relogin_store = Some ?ld"
    unfolding relogin_store_def saved_session_def
    by (simp add: editor_eval auth_eval logout_def Let_def nat_str.simps)
  have h8: "verify_submit ?ld [''550000''] 1000 relogin_store =
      (fst (verify_submit ?ld [''550000''] 1000 relogin_store), None)"
    unfolding relogin_store_def saved_session_def
    by (simp add: editor_eval auth_eval logout_def Let_def nat_str.simps)
  from banner_survives_relogin [OF h1 h2 h3 h4 h5 h6 _ h8] uid w show ?thesis
    by (auto simp: init_editor_def Let_def)
qed

end
